(* ===== verification/Go_Prelude.thy ===== *)
theory Go_Prelude
  imports Main
begin

text \<open>
  The prelude of the development: the parts of the Go language that every component of
  stcontrol uses, and the generic lemmas about them.

  \<^item> \<open>result\<close>: a Go call that returns \<open>(T, error)\<close>. An error is \<open>Inl\<close> of its text.
  \<^item> \<open>i64\<close>: two's complement wrap-around of a 64-bit signed integer; applied where the
    source adds to or multiplies a stored \<open>int64\<close>.
  \<^item> \<open>gotime\<close>: a \<open>time.Time\<close> as nanoseconds since the zero time (January 1 of year 1),
    so that \<open>IsZero\<close> is the test for \<open>0\<close>; \<open>duration\<close>: a \<open>time.Duration\<close> in nanoseconds.
    \<open>Time.Sub\<close> saturates at the ends of the 64-bit range, as the library documents.
  \<^item> \<open>gomap\<close>: a Go \<open>map\<close> as an association list with distinct keys (\<open>gm_wf\<close>), so that
    \<open>len\<close> is computable. Go iterates over a map in an unspecified order: loops over a map
    are modelled on the entries as a list, and the properties hold for any such list.
\<close>

named_theorems go_defs \<open>definitions that component proofs unfold\<close>
named_theorems go_split \<open>case splits on results, options and pairs\<close>

lemmas [go_split] = if_splits option.splits sum.splits prod.splits

section \<open>Results\<close>

type_synonym 'a result = "string + 'a"

fun is_ok :: "'e + 'a \<Rightarrow> bool" where
  "is_ok (Inl e) = False"
| "is_ok (Inr x) = True"

lemma is_ok_iff: "is_ok r \<longleftrightarrow> (\<exists>x. r = Inr x)"
  by (cases r) auto

section \<open>64-bit integers\<close>

abbreviation MaxInt64 :: int where "MaxInt64 \<equiv> 9223372036854775807"
abbreviation MinInt64 :: int where "MinInt64 \<equiv> -9223372036854775808"

definition i64 :: "int \<Rightarrow> int" where
  "i64 n = (n + 9223372036854775808) mod 18446744073709551616 - 9223372036854775808"

definition in_i64 :: "int \<Rightarrow> bool" where
  "in_i64 n \<longleftrightarrow> MinInt64 \<le> n \<and> n \<le> MaxInt64"

lemma in_i64_i64 [simp, intro]: "in_i64 (i64 n)"
proof -
  have "0 \<le> (n + 9223372036854775808) mod 18446744073709551616"
    and "(n + 9223372036854775808) mod 18446744073709551616 < 18446744073709551616"
    by (simp_all add: pos_mod_sign pos_mod_bound)
  then show ?thesis by (simp add: in_i64_def i64_def)
qed

lemma i64_id [simp]: "in_i64 n \<Longrightarrow> i64 n = n"
  by (simp add: in_i64_def i64_def mod_pos_pos_trivial)

lemma i64_succ: "in_i64 n \<Longrightarrow> n < MaxInt64 \<Longrightarrow> i64 (n + 1) = n + 1"
  by (rule i64_id) (simp add: in_i64_def)

lemma i64_succ_wraps: "i64 (MaxInt64 + 1) = MinInt64"
  by (simp add: i64_def)

text \<open>Integer division of Go truncates towards zero.\<close>

definition go_div :: "int \<Rightarrow> int \<Rightarrow> int" where
  "go_div n d = (if n \<ge> 0 \<longleftrightarrow> d \<ge> 0 then \<bar>n\<bar> div \<bar>d\<bar> else - (\<bar>n\<bar> div \<bar>d\<bar>))"

section \<open>Time\<close>

type_synonym gotime = int
type_synonym duration = int

abbreviation time_zero :: gotime where "time_zero \<equiv> 0"

definition second :: duration where "second = 1000000000"
definition minute :: duration where "minute = 60 * second"
definition hour :: duration where "hour = 60 * minute"

definition unix_origin :: gotime where "unix_origin = 62135596800000000000"

definition time_sub :: "gotime \<Rightarrow> gotime \<Rightarrow> duration" where
  "time_sub t u = max MinInt64 (min MaxInt64 (t - u))"

definition unix_milli :: "gotime \<Rightarrow> int" where
  "unix_milli t = (t - unix_origin) div 1000000"

lemma time_sub_self [simp]: "time_sub t t = 0"
  by (simp add: time_sub_def)

lemma time_sub_mono: "t \<le> t' \<Longrightarrow> time_sub t u \<le> time_sub t' u"
  by (auto simp: time_sub_def)

lemma time_sub_ge: "d \<le> MaxInt64 \<Longrightarrow> MinInt64 < d \<Longrightarrow> d \<le> time_sub t u \<longleftrightarrow> u + d \<le> t"
  by (auto simp: time_sub_def)

lemma time_sub_gt: "d < MaxInt64 \<Longrightarrow> MinInt64 \<le> d \<Longrightarrow> d < time_sub t u \<longleftrightarrow> u + d < t"
  by (auto simp: time_sub_def)

section \<open>Maps\<close>

type_synonym ('k, 'v) gomap = "('k \<times> 'v) list"

definition gm_put :: "'k \<Rightarrow> 'v \<Rightarrow> ('k, 'v) gomap \<Rightarrow> ('k, 'v) gomap" where
  "gm_put k v m = (k, v) # filter (\<lambda>p. fst p \<noteq> k) m"

definition gm_del :: "'k \<Rightarrow> ('k, 'v) gomap \<Rightarrow> ('k, 'v) gomap" where
  "gm_del k m = filter (\<lambda>p. fst p \<noteq> k) m"

definition gm_wf :: "('k, 'v) gomap \<Rightarrow> bool" where
  "gm_wf m \<longleftrightarrow> distinct (map fst m)"

lemma gm_wf_Nil [simp]: "gm_wf []"
  by (simp add: gm_wf_def)

lemma map_of_filter_key: "map_of (filter (\<lambda>p. fst p \<noteq> k) m) = (map_of m)(k := None)"
  by (induction m) (auto simp: fun_eq_iff)

lemma map_of_gm_put [simp]: "map_of (gm_put k v m) = (map_of m)(k \<mapsto> v)"
  by (simp add: gm_put_def map_of_filter_key)

lemma map_of_gm_del [simp]: "map_of (gm_del k m) = (map_of m)(k := None)"
  by (simp add: gm_del_def map_of_filter_key)

lemma gm_wf_filter [simp]: "gm_wf m \<Longrightarrow> gm_wf (filter P m)"
  by (simp add: gm_wf_def distinct_map_filter)

lemma gm_wf_put [simp]: "gm_wf m \<Longrightarrow> gm_wf (gm_put k v m)"
  by (auto simp: gm_wf_def gm_put_def distinct_map_filter)

lemma gm_wf_del [simp]: "gm_wf m \<Longrightarrow> gm_wf (gm_del k m)"
  by (simp add: gm_del_def)

lemma map_of_filter_snd:
  assumes "gm_wf m"
  shows "map_of (filter (\<lambda>p. P (fst p) (snd p)) m) k =
    (case map_of m k of None \<Rightarrow> None | Some v \<Rightarrow> if P k v then Some v else None)"
  using assms
proof (induction m)
  case Nil
  then show ?case by simp
next
  case (Cons p m)
  obtain a b where p: "p = (a, b)" by (cases p)
  from Cons.prems p have a: "a \<notin> fst ` set m" and wf: "gm_wf m"
    by (auto simp: gm_wf_def)
  have none: "map_of m a = None"
    using a by (simp add: map_of_eq_None_iff)
  show ?case
    using Cons.IH [OF wf] p none by (cases "k = a") auto
qed

lemma length_gm_put:
  "gm_wf m \<Longrightarrow> length (gm_put k v m) = (if k \<in> fst ` set m then length m else Suc (length m))"
proof (induction m)
  case Nil
  then show ?case by (simp add: gm_put_def)
next
  case (Cons p m)
  have wf: "gm_wf m" and p: "fst p \<notin> fst ` set m"
    using Cons.prems by (auto simp: gm_wf_def)
  show ?case
  proof (cases "fst p = k")
    case True
    with p have "filter (\<lambda>q. fst q \<noteq> k) m = m"
      by (intro filter_True ballI) (metis imageI)
    with True show ?thesis by (simp add: gm_put_def)
  next
    case False
    with Cons.IH [OF wf] show ?thesis by (auto simp: gm_put_def)
  qed
qed

lemma gm_wf_map_of: "gm_wf m \<Longrightarrow> (k, v) \<in> set m \<longleftrightarrow> map_of m k = Some v"
  by (simp add: gm_wf_def)

section \<open>Lists\<close>

lemma dropWhile_hd_id: "(s \<noteq> [] \<Longrightarrow> \<not> P (hd s)) \<Longrightarrow> dropWhile P s = s"
  by (cases s) auto

lemma dropWhile_last_id: "(s \<noteq> [] \<Longrightarrow> \<not> P (last s)) \<Longrightarrow> dropWhile P (rev s) = rev s"
  by (rule dropWhile_hd_id) (simp add: hd_rev)

lemma successively_dropWhile: "successively P s \<Longrightarrow> successively P (dropWhile Q s)"
  by (metis successively_append_iff takeWhile_dropWhile_id)

end
