(* ===== verification/Go_Text.thy ===== *)
theory Go_Text
  imports Go_Prelude
begin

text \<open>
  Text of the system: the string functions of the Go library that the validators use, the
  identity validators of the agent and of the store (\<open>validUUID\<close>, \<open>validHandle\<close>,
  \<open>safeInventoryString\<close> and their kin), the handle normalisation of the login page, and the
  decimal printers.

  A Go string is a list of bytes (\<open>char\<close>). Bytes below 128 are handled here in full; what
  \<open>strings.ToLower\<close> and \<open>strings.TrimSpace\<close> do with other bytes rests on the Unicode tables
  and is a parameter (the record \<open>golib\<close>), as are SHA-256 and HMAC-SHA256. Where a validator loops over
  runes it only asks whether a rune is in a set of ASCII characters or below \<open>0x20\<close>, which
  the bytes decide: every byte of a multi-byte rune, and every invalid byte, is at least 128.
\<close>

section \<open>Library functions\<close>

record golib =
  uni_lower :: "string \<Rightarrow> string"
  uni_trim :: "string \<Rightarrow> string"
  uni_trim_right :: "string \<Rightarrow> string"
  sha256 :: "string \<Rightarrow> string"
  hmac :: "string \<Rightarrow> string \<Rightarrow> string"

text \<open>
  A library for concrete runs: ASCII text only, and a digest of 32 bytes that keeps the end
  of its input. Used where a property is applied at a concrete input.
\<close>

definition sample_lib :: golib where
  "sample_lib = \<lparr>uni_lower = id, uni_trim = id, uni_trim_right = id,
     sha256 = (\<lambda>s. rev (take 32 (rev s @ replicate 32 (CHR 0x00)))), hmac = (\<lambda>k s. k @ s)\<rparr>"

definition is_ascii :: "char \<Rightarrow> bool" where
  "is_ascii c \<longleftrightarrow> of_char c < (128 :: nat)"

definition ascii_lower :: "char \<Rightarrow> char" where
  "ascii_lower c = (if 65 \<le> (of_char c :: nat) \<and> of_char c \<le> (90 :: nat)
     then char_of ((of_char c :: nat) + 32) else c)"

definition go_ToLower :: "golib \<Rightarrow> string \<Rightarrow> string" where
  "go_ToLower lib s = (if list_all is_ascii s then map ascii_lower s else uni_lower lib s)"

definition ascii_space :: "char \<Rightarrow> bool" where
  "ascii_space c \<longleftrightarrow> (9 \<le> (of_char c :: nat) \<and> of_char c \<le> (13 :: nat)) \<or> of_char c = (32 :: nat)"

definition go_TrimSpace :: "golib \<Rightarrow> string \<Rightarrow> string" where
  "go_TrimSpace lib s =
     (let l = dropWhile ascii_space s in
      case l of
        [] \<Rightarrow> []
      | c # _ \<Rightarrow>
          if \<not> is_ascii c then uni_trim lib l
          else (let r = rev (dropWhile ascii_space (rev l)) in
                if \<not> is_ascii (last r) then uni_trim_right lib r else r))"

definition hex_digit :: "nat \<Rightarrow> char" where
  "hex_digit d = (if d < 10 then char_of (48 + d) else char_of (87 + d))"

definition hex_val :: "char \<Rightarrow> nat option" where
  "hex_val c = (let n = of_char c :: nat in
     if 48 \<le> n \<and> n \<le> 57 then Some (n - 48)
     else if 97 \<le> n \<and> n \<le> 102 then Some (n - 87)
     else if 65 \<le> n \<and> n \<le> 70 then Some (n - 55)
     else None)"

fun hex_encode :: "string \<Rightarrow> string" where
  "hex_encode [] = []"
| "hex_encode (c # cs) = hex_digit (of_char c div 16) # hex_digit (of_char c mod 16) # hex_encode cs"

fun hex_decode :: "string \<Rightarrow> string option" where
  "hex_decode [] = Some []"
| "hex_decode [c] = None"
| "hex_decode (a # b # cs) =
     (case (hex_val a, hex_val b, hex_decode cs) of
        (Some x, Some y, Some r) \<Rightarrow> Some (char_of (16 * x + y) # r)
      | _ \<Rightarrow> None)"

definition decimal_digit :: "nat \<Rightarrow> char" where
  "decimal_digit d = char_of (48 + d)"

fun dec_nat :: "nat \<Rightarrow> string" where
  "dec_nat n = (if n < 10 then [decimal_digit n] else dec_nat (n div 10) @ [decimal_digit (n mod 10)])"

declare dec_nat.simps [simp del]

definition dec_int :: "int \<Rightarrow> string" where
  "dec_int n = (if n < 0 then CHR ''-'' # dec_nat (nat (- n)) else dec_nat (nat n))"

text \<open>\<open>strconv.ParseInt(s, 10, 64)\<close>: an optional sign, then digits, within 64 bits.\<close>

definition is_digit :: "char \<Rightarrow> bool" where
  "is_digit c \<longleftrightarrow> 48 \<le> (of_char c :: nat) \<and> of_char c \<le> (57 :: nat)"

definition undec_nat :: "string \<Rightarrow> nat" where
  "undec_nat s = foldl (\<lambda>n c. 10 * n + (of_char c - 48)) 0 s"

definition ParseInt :: "string \<Rightarrow> int option" where
  "ParseInt s =
     (let neg = (s \<noteq> [] \<and> hd s = CHR ''-'');
          ds = (if s \<noteq> [] \<and> (hd s = CHR ''-'' \<or> hd s = CHR ''+'') then tl s else s);
          n = (if neg then - int (undec_nat ds) else int (undec_nat ds))
      in if ds \<noteq> [] \<and> list_all is_digit ds \<and> in_i64 n then Some n else None)"

section \<open>Validators\<close>

definition dash_at :: "string \<Rightarrow> nat \<Rightarrow> bool" where
  "dash_at s i \<longleftrightarrow> s ! i = CHR ''-''"

definition validUUID :: "string \<Rightarrow> bool" where
  "validUUID s \<longleftrightarrow>
     length s = 36 \<and> dash_at s 8 \<and> dash_at s 13 \<and> dash_at s 18 \<and> dash_at s 23 \<and>
     (case hex_decode (filter (\<lambda>c. c \<noteq> CHR ''-'') s) of
        None \<Rightarrow> False | Some b \<Rightarrow> length b = 16)"

definition validUUIDText :: "string \<Rightarrow> bool" where
  "validUUIDText s \<longleftrightarrow>
     length s = 36 \<and> dash_at s 8 \<and> dash_at s 13 \<and> dash_at s 18 \<and> dash_at s 23 \<and>
     (case hex_decode (filter (\<lambda>c. c \<noteq> CHR ''-'') s) of
        None \<Rightarrow> False | Some b \<Rightarrow> length b = 16)"

definition handle_char :: "char \<Rightarrow> bool" where
  "handle_char c \<longleftrightarrow> (97 \<le> (of_char c :: nat) \<and> of_char c \<le> (122 :: nat)) \<or>
     (48 \<le> (of_char c :: nat) \<and> of_char c \<le> (57 :: nat)) \<or> c = CHR ''-''"

definition validHandle :: "string \<Rightarrow> bool" where
  "validHandle s \<longleftrightarrow> 1 \<le> length s \<and> length s \<le> 64 \<and> s \<noteq> ''.'' \<and> s \<noteq> ''..'' \<and> list_all handle_char s"

definition isValidHandle :: "string \<Rightarrow> bool" where
  "isValidHandle s \<longleftrightarrow> 3 \<le> length s \<and> length s \<le> 32 \<and> list_all handle_char s"

definition safe_byte :: "char \<Rightarrow> bool" where
  "safe_byte c \<longleftrightarrow> 32 \<le> (of_char c :: nat) \<and> of_char c \<noteq> (127 :: nat)"

definition safeInventoryString :: "golib \<Rightarrow> string \<Rightarrow> nat \<Rightarrow> bool" where
  "safeInventoryString lib s lim \<longleftrightarrow>
     s \<noteq> [] \<and> length s \<le> lim \<and> go_TrimSpace lib s = s \<and> list_all safe_byte s"

definition validCapabilityHash :: "string \<Rightarrow> bool" where
  "validCapabilityHash s \<longleftrightarrow> (case hex_decode s of None \<Rightarrow> False | Some b \<Rightarrow> length b = 32)"

definition validOwnershipDigest :: "string \<Rightarrow> bool" where
  "validOwnershipDigest s \<longleftrightarrow> (case hex_decode s of None \<Rightarrow> False | Some b \<Rightarrow> length b = 32)"

definition validOwnershipHandle :: "golib \<Rightarrow> string \<Rightarrow> bool" where
  "validOwnershipHandle lib s \<longleftrightarrow> safeInventoryString lib s 128 \<and> go_ToLower lib s = s"

definition validSHA256Text :: "golib \<Rightarrow> string \<Rightarrow> bool" where
  "validSHA256Text lib s \<longleftrightarrow>
     length s = 64 \<and> go_ToLower lib s = s \<and>
     (case hex_decode s of None \<Rightarrow> False | Some b \<Rightarrow> length b = 32)"

section \<open>Handle normalisation\<close>

fun merge_dashes :: "string \<Rightarrow> string" where
  "merge_dashes [] = []"
| "merge_dashes (c # cs) =
     (if c = CHR ''-'' \<and> cs \<noteq> [] \<and> hd cs = CHR ''-'' then merge_dashes cs
      else c # merge_dashes cs)"

definition trim_dashes :: "string \<Rightarrow> string" where
  "trim_dashes s = rev (dropWhile (\<lambda>c. c = CHR ''-'') (rev (dropWhile (\<lambda>c. c = CHR ''-'') s)))"

text \<open>
  \<open>nonHandleChars\<close> replaces each rune outside \<open>[a-z0-9-]\<close> by one dash. The model replaces
  each byte: a multi-byte rune gives a run of dashes, which \<open>multiDash\<close> merges into the one
  dash the source has.
\<close>

definition NormalizeHandle :: "golib \<Rightarrow> string \<Rightarrow> string" where
  "NormalizeHandle lib h =
     (if h = [] then []
      else trim_dashes (merge_dashes
        (map (\<lambda>c. if handle_char c then c else CHR ''-'') (go_TrimSpace lib (go_ToLower lib h)))))"

section \<open>Hexadecimal round trip\<close>

lemma hex_val_digit: "d < 16 \<Longrightarrow> hex_val (hex_digit d) = Some d"
  by (auto simp: hex_val_def hex_digit_def Let_def)

lemma hex_decode_encode [simp]: "hex_decode (hex_encode s) = Some s"
proof (induction s)
  case Nil
  then show ?case by simp
next
  case (Cons c s)
  have "(of_char c :: nat) < 256"
    using of_char_of [of "of_char c :: nat"] by (metis char_of_char mod_less_divisor of_char_of zero_less_numeral)
  then have "of_char c div 16 < (16 :: nat)" and "of_char c mod 16 < (16 :: nat)"
    by linarith+
  then have "hex_val (hex_digit (of_char c div 16)) = Some (of_char c div 16)"
    and "hex_val (hex_digit (of_char c mod 16)) = Some (of_char c mod 16)"
    by (simp_all add: hex_val_digit)
  with Cons.IH show ?case by simp
qed

lemma length_hex_encode [simp]: "length (hex_encode s) = 2 * length s"
  by (induction s) auto

lemma hex_val_newline [simp]: "hex_val (CHR 0x0A) = None"
  by (simp add: hex_val_def)

lemma hex_decode_chars: "hex_decode s = Some b \<Longrightarrow> c \<in> set s \<Longrightarrow> hex_val c \<noteq> None"
  by (induction s arbitrary: b rule: hex_decode.induct) (auto split: option.splits prod.splits)

section \<open>Decimal round trip\<close>

lemma undec_dec_nat: "undec_nat (dec_nat n) = n"
proof (induction n rule: dec_nat.induct)
  case (1 n)
  show ?case
  proof (cases "n < 10")
    case True
    then show ?thesis
      by (subst dec_nat.simps) (simp add: undec_nat_def decimal_digit_def)
  next
    case False
    with 1 have IH: "undec_nat (dec_nat (n div 10)) = n div 10" by simp
    have "undec_nat (dec_nat n) = 10 * undec_nat (dec_nat (n div 10)) + n mod 10"
      using False by (subst dec_nat.simps) (simp add: undec_nat_def decimal_digit_def)
    then show ?thesis using IH by simp
  qed
qed

lemma dec_nat_chars: "c \<in> set (dec_nat n) \<Longrightarrow> 48 \<le> (of_char c :: nat) \<and> of_char c \<le> (57 :: nat)"
proof (induction n rule: dec_nat.induct)
  case (1 n)
  show ?case
  proof (cases "n < 10")
    case True
    with "1.prems" show ?thesis
      by (subst (asm) dec_nat.simps) (auto simp: decimal_digit_def)
  next
    case False
    with 1 show ?thesis
      by (subst (asm) (2) dec_nat.simps) (auto simp: decimal_digit_def)
  qed
qed

lemma dec_nat_inj: "dec_nat m = dec_nat n \<longleftrightarrow> m = n"
  by (metis undec_dec_nat)

lemma dec_nat_nonempty [simp]: "dec_nat n \<noteq> []"
  by (subst dec_nat.simps) simp

lemma dash_not_digit: "CHR ''-'' \<notin> set (dec_nat n)"
  using dec_nat_chars by fastforce

lemma dec_int_inj [simp]: "dec_int m = dec_int n \<longleftrightarrow> m = n"
proof -
  have "CHR ''-'' # dec_nat a \<noteq> dec_nat b" for a b
    using dash_not_digit [of b] by (metis list.set_intros(1))
  then show ?thesis
    by (auto simp: dec_int_def dec_nat_inj split: if_splits) (metis dec_nat_inj)
qed

lemma newline_not_dec_int: "CHR 0x0A \<notin> set (dec_int n)"
  by (auto simp: dec_int_def dest: dec_nat_chars)

lemma ParseInt_chars: "ParseInt s = Some n \<Longrightarrow> CHR 0x0A \<notin> set s"
  by (cases s) (auto simp: ParseInt_def Let_def list_all_iff is_digit_def split: if_splits)

lemma ParseInt_dec_int: "in_i64 n \<Longrightarrow> ParseInt (dec_int n) = Some n"
proof -
  have digits: "list_all is_digit (dec_nat m)" for m
    by (auto simp: list_all_iff is_digit_def dest: dec_nat_chars)
  have sign: "hd (dec_nat m) \<noteq> CHR ''-'' \<and> hd (dec_nat m) \<noteq> CHR ''+''" for m
    using dec_nat_chars [of "hd (dec_nat m)" m] by auto
  assume "in_i64 n"
  then show ?thesis
    using sign by (auto simp: ParseInt_def dec_int_def Let_def digits undec_dec_nat)
qed

section \<open>Properties of the normalised handle\<close>

definition not_both_dashes :: "char \<Rightarrow> char \<Rightarrow> bool" where
  "not_both_dashes a b \<longleftrightarrow> \<not> (a = CHR ''-'' \<and> b = CHR ''-'')"

definition normal_handle :: "string \<Rightarrow> bool" where
  "normal_handle s \<longleftrightarrow> list_all handle_char s \<and>
     (s \<noteq> [] \<longrightarrow> hd s \<noteq> CHR ''-'' \<and> last s \<noteq> CHR ''-'') \<and> successively not_both_dashes s"

lemma set_merge_dashes: "set (merge_dashes s) \<subseteq> set s"
  by (induction s) auto

lemma hd_merge_dashes: "s \<noteq> [] \<Longrightarrow> merge_dashes s \<noteq> [] \<and> hd (merge_dashes s) = hd s"
  by (induction s) auto

lemma merge_dashes_successively: "successively not_both_dashes (merge_dashes s)"
proof (induction s)
  case Nil
  then show ?case by simp
next
  case (Cons c s)
  then show ?case
    using hd_merge_dashes [of s] by (cases s) (auto simp: successively_Cons not_both_dashes_def)
qed

lemma merge_dashes_id: "successively not_both_dashes s \<Longrightarrow> merge_dashes s = s"
  by (induction s) (auto simp: successively_Cons not_both_dashes_def)

lemma successively_trim_dashes:
  assumes "successively not_both_dashes s"
  shows "successively not_both_dashes (trim_dashes s)"
proof -
  have flip: "successively not_both_dashes (rev t) \<longleftrightarrow> successively not_both_dashes t" for t
  proof -
    have "(\<lambda>x y. not_both_dashes y x) = not_both_dashes"
      by (auto simp: fun_eq_iff not_both_dashes_def)
    then show ?thesis by (metis successively_rev)
  qed
  show ?thesis
    using assms by (simp add: trim_dashes_def flip successively_dropWhile)
qed

lemma set_trim_dashes: "set (trim_dashes s) \<subseteq> set s"
  unfolding trim_dashes_def by (metis set_dropWhileD set_rev subsetI)

lemma trim_dashes_ends:
  assumes "trim_dashes s \<noteq> []"
  shows "hd (trim_dashes s) \<noteq> CHR ''-'' \<and> last (trim_dashes s) \<noteq> CHR ''-''"
proof -
  let ?D = "dropWhile (\<lambda>c. c = CHR ''-'')"
  have nonempty: "?D (rev (?D s)) \<noteq> []"
    using assms by (simp add: trim_dashes_def)
  then have "hd (?D (rev (?D s))) \<noteq> CHR ''-''"
    by (metis (mono_tags, lifting) hd_dropWhile)
  then have last: "last (trim_dashes s) \<noteq> CHR ''-''"
    by (simp add: trim_dashes_def last_rev)
  obtain zs where "rev (?D s) = zs @ ?D (rev (?D s))"
    by (metis takeWhile_dropWhile_id)
  then have split: "?D s = trim_dashes s @ rev zs"
    unfolding trim_dashes_def by (metis rev_append rev_rev_ident)
  then have "hd (trim_dashes s) = hd (?D s)" and "?D s \<noteq> []"
    using assms by (simp_all add: hd_append)
  then have "hd (trim_dashes s) \<noteq> CHR ''-''"
    by (metis (mono_tags, lifting) hd_dropWhile)
  with last show ?thesis by simp
qed

lemma handle_char_dash [simp]: "handle_char (CHR ''-'')"
  by (simp add: handle_char_def)

lemma normal_handle_NormalizeHandle: "normal_handle (NormalizeHandle lib h)"
proof (cases "h = []")
  case True
  then show ?thesis by (simp add: NormalizeHandle_def normal_handle_def)
next
  case False
  let ?m = "map (\<lambda>c. if handle_char c then c else CHR ''-'') (go_TrimSpace lib (go_ToLower lib h))"
  have eq: "NormalizeHandle lib h = trim_dashes (merge_dashes ?m)"
    using False by (simp add: NormalizeHandle_def)
  have "list_all handle_char (trim_dashes (merge_dashes ?m))"
    using set_trim_dashes [of "merge_dashes ?m"] set_merge_dashes [of ?m]
    by (fastforce simp: list_all_iff)
  then show ?thesis
    unfolding normal_handle_def eq
    using trim_dashes_ends successively_trim_dashes [OF merge_dashes_successively] by blast
qed

lemma handle_char_ascii: "handle_char c \<Longrightarrow> is_ascii c \<and> ascii_lower c = c \<and> \<not> ascii_space c"
  by (auto simp: handle_char_def is_ascii_def ascii_lower_def ascii_space_def)

lemma handle_go_ToLower: "list_all handle_char s \<Longrightarrow> go_ToLower lib s = s"
  by (simp add: go_ToLower_def list_all_iff handle_char_ascii map_idI)

lemma handle_go_TrimSpace:
  assumes "list_all handle_char s"
  shows "go_TrimSpace lib s = s"
proof (cases s)
  case Nil
  then show ?thesis by (simp add: go_TrimSpace_def)
next
  case (Cons c cs)
  with assms have c: "is_ascii c" "\<not> ascii_space c"
    by (auto simp: handle_char_ascii)
  have "handle_char (last s)"
    using assms Cons by (metis last_in_set list_all_iff list.distinct(1))
  then have l: "is_ascii (last s)" "\<not> ascii_space (last s)"
    by (auto simp: handle_char_ascii)
  then have "dropWhile ascii_space (rev s) = rev s"
    by (simp add: dropWhile_last_id)
  then show ?thesis
    using Cons c l by (simp add: go_TrimSpace_def Let_def)
qed

lemma trim_dashes_id:
  "(s \<noteq> [] \<Longrightarrow> hd s \<noteq> CHR ''-'' \<and> last s \<noteq> CHR ''-'') \<Longrightarrow> trim_dashes s = s"
  by (simp add: trim_dashes_def dropWhile_hd_id dropWhile_last_id)

lemma NormalizeHandle_normal: "normal_handle s \<Longrightarrow> NormalizeHandle lib s = s"
proof (cases "s = []")
  case True
  then show ?thesis by (simp add: NormalizeHandle_def)
next
  case False
  assume n: "normal_handle s"
  have "map (\<lambda>c. if handle_char c then c else CHR ''-'') s = s"
    using n by (simp add: normal_handle_def list_all_iff map_idI)
  then show ?thesis
    using n False
    by (simp add: NormalizeHandle_def normal_handle_def handle_go_ToLower handle_go_TrimSpace
        merge_dashes_id trim_dashes_id)
qed

lemma NormalizeHandle_canonical:
  "normal_handle (NormalizeHandle lib h) \<and>
   NormalizeHandle lib (NormalizeHandle lib h) = NormalizeHandle lib h"
  using normal_handle_NormalizeHandle NormalizeHandle_normal by blast

end
