(* ===== verification/Interfaces.thy ===== *)
theory Interfaces
  imports Go_Prelude
begin

text \<open>
  The contracts that several components share, as locales. Each is interpreted on the
  definitions of the components that promise it.

  \<^item> \<open>generation_fence\<close>: a register that only admits numbers that are not below the highest
    one admitted before (\<open>acceptGeneration\<close> of the agent).
  \<^item> \<open>replay_guard\<close>: a store of one-time nonces with an expiry
    (\<open>consumeWitnessNonce\<close>, \<open>consumeAdapterNonce\<close>, \<open>ConsumeAgentNonce\<close>).
\<close>

locale generation_fence =
  fixes accept :: "'f \<Rightarrow> int \<Rightarrow> 's \<Rightarrow> 's \<times> bool"
    and level :: "'s \<Rightarrow> int"
  assumes admitted: "accept f g s = (t, True) \<Longrightarrow> level s \<le> g \<and> level t = g"
    and refused: "accept f g s = (t, False) \<Longrightarrow> level t = level s"
begin

fun run :: "('f \<times> int) list \<Rightarrow> 's \<Rightarrow> 's \<times> int list" where
  "run [] s = (s, [])"
| "run ((f, g) # rest) s =
     (let (t, ok) = accept f g s; (u, gs) = run rest t in (u, if ok then g # gs else gs))"

lemma run_above: "run ops s = (t, gs) \<Longrightarrow> \<forall>g \<in> set gs. level s \<le> g"
proof (induction ops s arbitrary: t gs rule: run.induct)
  case (1 s)
  then show ?case by simp
next
  case (2 f g rest s)
  obtain s1 ok where a: "accept f g s = (s1, ok)" by (cases "accept f g s")
  obtain u hs where r: "run rest s1 = (u, hs)" by (cases "run rest s1")
  have gs: "gs = (if ok then g # hs else hs)" using "2.prems" a r by simp
  have above: "\<forall>h \<in> set hs. level s1 \<le> h" using "2.IH" a r by auto
  show ?case
    using a gs above admitted [of f g s s1] refused [of f g s s1] by (cases ok) fastforce+
qed

lemma admitted_sorted: "run ops s = (t, gs) \<Longrightarrow> sorted gs"
proof (induction ops s arbitrary: t gs rule: run.induct)
  case (1 s)
  then show ?case by simp
next
  case (2 f g rest s)
  obtain s1 ok where a: "accept f g s = (s1, ok)" by (cases "accept f g s")
  obtain u hs where r: "run rest s1 = (u, hs)" by (cases "run rest s1")
  have gs: "gs = (if ok then g # hs else hs)" using "2.prems" a r by simp
  have "sorted hs" using "2.IH" a r by auto
  moreover have "ok \<Longrightarrow> \<forall>h \<in> set hs. g \<le> h"
    using run_above [OF r] admitted [of f g s s1] a by auto
  ultimately show ?case using gs by auto
qed

lemma level_mono: "run ops s = (t, gs) \<Longrightarrow> level s \<le> level t"
proof (induction ops s arbitrary: t gs rule: run.induct)
  case (1 s)
  then show ?case by simp
next
  case (2 f g rest s)
  obtain s1 ok where a: "accept f g s = (s1, ok)" by (cases "accept f g s")
  obtain u hs where r: "run rest s1 = (u, hs)" by (cases "run rest s1")
  have "u = t" using "2.prems" a r by simp
  then have "level s1 \<le> level t" using "2.IH" a r by auto
  moreover have "level s \<le> level s1"
    using a admitted [of f g s s1] refused [of f g s s1] by (cases ok) auto
  ultimately show ?case by simp
qed

end

locale replay_guard =
  fixes consume :: "'r \<Rightarrow> gotime \<Rightarrow> 's \<Rightarrow> 's \<times> bool"
    and key :: "'r \<Rightarrow> 'k"
    and until :: "'r \<Rightarrow> gotime \<Rightarrow> gotime"
    and live :: "'s \<Rightarrow> 'k \<Rightarrow> gotime option"
    and inv :: "'s \<Rightarrow> bool"
  assumes consume_inv: "inv s \<Longrightarrow> consume r now s = (t, b) \<Longrightarrow> inv t"
    and consumed: "inv s \<Longrightarrow> consume r now s = (t, True) \<Longrightarrow> live t (key r) = Some (until r now)"
    and fresh: "inv s \<Longrightarrow> consume r now s = (t, True) \<Longrightarrow> live s (key r) = Some e \<Longrightarrow> e \<le> now"
    and retained: "inv s \<Longrightarrow> consume r now s = (t, b) \<Longrightarrow> live s k = Some e \<Longrightarrow> now < e \<Longrightarrow>
      live t k = Some e"
begin

fun run :: "('r \<times> gotime) list \<Rightarrow> 's \<Rightarrow> 's" where
  "run [] s = s"
| "run ((r, now) # rest) s = run rest (fst (consume r now s))"

lemma run_inv: "inv s \<Longrightarrow> inv (run ops s)"
proof (induction ops s rule: run.induct)
  case (2 r now rest s)
  then show ?case
    using consume_inv [OF "2.prems" prod.collapse [symmetric]] by simp
qed simp

lemma retained_run:
  "inv s \<Longrightarrow> live s k = Some e \<Longrightarrow> \<forall>(r, now) \<in> set ops. now < e \<Longrightarrow> live (run ops s) k = Some e"
proof (induction ops s rule: run.induct)
  case (2 r now rest s)
  have "live (fst (consume r now s)) k = Some e" and "inv (fst (consume r now s))"
    using retained [OF "2.prems"(1) prod.collapse [symmetric] "2.prems"(2)] "2.prems"(3)
      consume_inv [OF "2.prems"(1) prod.collapse [symmetric]] by auto
  then show ?case
    using "2.IH" "2.prems"(3) by simp
qed simp

text \<open>A nonce admitted once is refused until its window has passed.\<close>

lemma replay_refused:
  assumes "inv s" and "consume r now s = (t, True)"
    and "\<forall>(r', n) \<in> set ops. n < until r now" and "later < until r now" and "key r' = key r"
  shows "\<not> snd (consume r' later (run ops t))"
proof
  assume ok: "snd (consume r' later (run ops t))"
  have "inv t" using assms by (blast intro: consume_inv)
  then have inv: "inv (run ops t)" by (rule run_inv)
  have "live (run ops t) (key r') = Some (until r now)"
    using retained_run [OF \<open>inv t\<close> consumed [OF assms(1,2)] assms(3)] assms(5) by simp
  moreover have "consume r' later (run ops t) = (fst (consume r' later (run ops t)), True)"
    using ok by (simp add: prod_eq_iff)
  ultimately have "until r now \<le> later"
    using fresh [OF inv] by blast
  with assms(4) show False by simp
qed

end

end
