(* ===== verification/Agent_State.thy ===== *)
theory Agent_State
  imports Go_Text Interfaces
begin

text \<open>
  The durable state of an agent (\<open>agent/runtime_state.go\<close>): its records, the atomic write
  of \<open>runtime-state.json\<close>, and the operations on controller generations, credentials, the
  command result cache and the cancelled backups.

  Every operation of the source that holds \<open>stateMu\<close> from its start to its end is one
  function from \<open>agent\<close> to \<open>agent\<close>. The operation that saves takes a \<open>save_fault\<close>, which
  says at which system call of \<open>saveRuntimeStateLocked\<close> the disk failed, if it did; the
  wall clock it reads is the argument \<open>now\<close>. As in the source, a failed save leaves the
  memory changed and the file as it was, unless the operation itself undoes the change.
\<close>

section \<open>Records\<close>

record claim =
  cl_ClaimID :: string
  cl_Handle :: string
  cl_OwnerNodeID :: int
  cl_ControllerGeneration :: int
  cl_ActivityEpoch :: int
  cl_TakeoverSequence :: int
  cl_Kind :: string
  cl_ParentClaimID :: string
  cl_OperationID :: string
  cl_ObservedAt :: int

record takeover_op =
  to_OperationID :: string
  to_ParentClaimID :: string
  to_Claim :: claim
  to_Succeeded :: bool
  to_Audited :: bool
  to_UpdatedAt :: int

record control_mode =
  cm_Mode :: string
  cm_AdapterMode :: string
  cm_AdapterControllerGeneration :: int
  cm_ModeGeneration :: int
  cm_ControllerGeneration :: int
  cm_ReasonCode :: string
  cm_HeartbeatFails :: int
  cm_HealthProbeFails :: int
  cm_PeerWitnessFails :: int
  cm_OutageStartedAt :: gotime
  cm_ConfirmedOutageStartedAt :: gotime
  cm_LastControllerSuccessAt :: gotime
  cm_IndependentSince :: gotime
  cm_ChangedAt :: gotime
  cm_ActiveIndependentSessions :: int
  cm_PendingUserSyncs :: int

record cached_result =
  cr_Succeeded :: bool
  cr_Result :: string
  cr_ControllerGeneration :: int
  cr_CompletedAt :: gotime

record snapshot_receipt =
  sr_OK :: bool
  sr_SnapshotID :: string
  sr_ManifestSHA256 :: string
  sr_ArchiveSHA256 :: string
  sr_FileCount :: int
  sr_TotalBytes :: int
  sr_RelayPending :: bool

record pending_transfer =
  pt_WorkflowID :: string
  pt_SnapshotID :: string
  pt_GlobalUserID :: int
  pt_TargetNodeID :: int
  pt_Handle :: string
  pt_DestinationKind :: string
  pt_SourceNodeID :: int
  pt_ActivityEpoch :: int
  pt_CapabilityHash :: string
  pt_ExpiresAt :: gotime
  pt_RelayTaskID :: string
  pt_RelayPrivateKey :: string
  pt_RelayPublicKey :: string
  pt_State :: string
  pt_UpdatedAt :: gotime
  pt_Receipt :: "snapshot_receipt option"

record pending_backup =
  pb_OperationID :: string
  pb_BackupKind :: string
  pb_CapabilityHash :: string
  pb_ExpiresAt :: gotime
  pb_ExpectedSHA256 :: string
  pb_State :: string
  pb_UpdatedAt :: gotime

record credential =
  cs_CurrentPSK :: string
  cs_CurrentVersion :: int
  cs_CurrentGeneration :: int
  cs_PendingPSK :: string
  cs_PendingVersion :: int
  cs_PendingGeneration :: int
  cs_PendingExpiresAt :: gotime

record lease_confirmation =
  lc_Handle :: string
  lc_SessionID :: string
  lc_ActivityEpoch :: int
  lc_ControllerGeneration :: int
  lc_LeaseExpiresAt :: int

record lease_state =
  ls_ControllerGeneration :: int
  ls_ConfirmedAt :: int
  ls_Leases :: "lease_confirmation list"
  ls_AdapterConfirmedAt :: int

record sync_user =
  su_Handle :: string
  su_Marker :: string
  su_ChangedAt :: int
  su_Reason :: string

record runtime_state =
  rs_WorkerID :: string
  rs_HighestGeneration :: int
  rs_Completed :: "(string, cached_result) gomap"
  rs_Transfers :: "(string, pending_transfer) gomap"
  rs_ControlMode :: control_mode
  rs_Credential :: credential
  rs_PendingIndependentUsers :: "sync_user list"
  rs_ActivityOwnership :: "(string, claim) gomap"
  rs_OwnershipTakeovers :: "(string, takeover_op) gomap"
  rs_ActivityLeases :: lease_state
  rs_CancelledBackups :: "(int, gotime) gomap"
  rs_ControllerBackups :: "(string, pending_backup) gomap"
  rs_AppliedQuotaVersion :: int
  rs_RuntimeDiskQuotaBytes :: int

record disaster_policy =
  dp_UnreachableAfterSec :: int
  dp_IndependentAfterSec :: int
  dp_MinFailedHeartbeats :: int
  dp_PeerWitnessURLs :: "string list"
  dp_PeerWitnessSecretEnv :: string

record agent_cfg =
  cfg_Role :: string
  cfg_NodeID :: int
  cfg_AgentPSK :: string
  cfg_CredentialVersion :: int
  cfg_ControllerGeneration :: int
  cfg_ConfigPath :: string
  cfg_BackupDir :: string
  cfg_DiskQuotaBytes :: int
  cfg_Disaster :: disaster_policy

section \<open>The state file\<close>

text \<open>
  The directory of the agent: the named file and the temporary file next to it. The
  temporary file passes through an empty and a partly written content; the named file only
  changes by \<open>os.Rename\<close>, which POSIX makes atomic.
\<close>

datatype 'a temp_file = Absent | Created | Partial | Complete 'a

record 'a state_file =
  sf_named :: "'a option"
  sf_temp :: "'a temp_file"

datatype save_fault =
    NoFault | MkdirFault | MarshalFault | CreateTempFault | ChmodFault | WriteFault
  | SyncFault | CloseFault | RenameFault

fun save_trace :: "save_fault \<Rightarrow> 'a \<Rightarrow> 'a state_file \<Rightarrow> 'a state_file list" where
  "save_trace MkdirFault d f = [f]"
| "save_trace MarshalFault d f = [f]"
| "save_trace CreateTempFault d f = [f]"
| "save_trace ChmodFault d f = [f, f\<lparr>sf_temp := Created\<rparr>, f\<lparr>sf_temp := Absent\<rparr>]"
| "save_trace WriteFault d f =
     [f, f\<lparr>sf_temp := Created\<rparr>, f\<lparr>sf_temp := Partial\<rparr>, f\<lparr>sf_temp := Absent\<rparr>]"
| "save_trace NoFault d f =
     [f, f\<lparr>sf_temp := Created\<rparr>, f\<lparr>sf_temp := Partial\<rparr>, f\<lparr>sf_temp := Complete d\<rparr>,
      f\<lparr>sf_named := Some d, sf_temp := Absent\<rparr>]"
| "save_trace _ d f =
     [f, f\<lparr>sf_temp := Created\<rparr>, f\<lparr>sf_temp := Partial\<rparr>, f\<lparr>sf_temp := Complete d\<rparr>,
      f\<lparr>sf_temp := Absent\<rparr>]"

abbreviation saveError :: string where "saveError \<equiv> ''save runtime state''"

record agent =
  ag_Cfg :: agent_cfg
  ag_state :: runtime_state
  ag_file :: "runtime_state state_file"
  ag_runningCommands :: "string list"
  ag_adapterNonces :: "(string, gotime) gomap"
  ag_witnessNonces :: "(string, gotime) gomap"
  ag_peerWitnessSecret :: string

text \<open>The Go zero values: the state of an agent that has not loaded or saved anything.\<close>

definition zero_control_mode :: control_mode where
  "zero_control_mode = \<lparr>cm_Mode = [], cm_AdapterMode = [], cm_AdapterControllerGeneration = 0,
     cm_ModeGeneration = 0, cm_ControllerGeneration = 0, cm_ReasonCode = [], cm_HeartbeatFails = 0,
     cm_HealthProbeFails = 0, cm_PeerWitnessFails = 0, cm_OutageStartedAt = time_zero,
     cm_ConfirmedOutageStartedAt = time_zero, cm_LastControllerSuccessAt = time_zero,
     cm_IndependentSince = time_zero, cm_ChangedAt = time_zero, cm_ActiveIndependentSessions = 0,
     cm_PendingUserSyncs = 0\<rparr>"

definition zero_credential :: credential where
  "zero_credential = \<lparr>cs_CurrentPSK = [], cs_CurrentVersion = 0, cs_CurrentGeneration = 0,
     cs_PendingPSK = [], cs_PendingVersion = 0, cs_PendingGeneration = 0, cs_PendingExpiresAt = time_zero\<rparr>"

definition zero_lease_state :: lease_state where
  "zero_lease_state = \<lparr>ls_ControllerGeneration = 0, ls_ConfirmedAt = 0, ls_Leases = [], ls_AdapterConfirmedAt = 0\<rparr>"

definition zero_runtime_state :: runtime_state where
  "zero_runtime_state = \<lparr>rs_WorkerID = [], rs_HighestGeneration = 0, rs_Completed = [], rs_Transfers = [],
     rs_ControlMode = zero_control_mode, rs_Credential = zero_credential, rs_PendingIndependentUsers = [],
     rs_ActivityOwnership = [], rs_OwnershipTakeovers = [], rs_ActivityLeases = zero_lease_state,
     rs_CancelledBackups = [], rs_ControllerBackups = [], rs_AppliedQuotaVersion = 0,
     rs_RuntimeDiskQuotaBytes = 0\<rparr>"

definition new_agent :: "agent_cfg \<Rightarrow> agent" where
  "new_agent cfg = \<lparr>ag_Cfg = cfg, ag_state = zero_runtime_state,
     ag_file = \<lparr>sf_named = None, sf_temp = Absent\<rparr>, ag_runningCommands = [], ag_adapterNonces = [],
     ag_witnessNonces = [], ag_peerWitnessSecret = []\<rparr>"

definition sample_cfg :: agent_cfg where
  "sample_cfg = \<lparr>cfg_Role = ''compute'', cfg_NodeID = 1, cfg_AgentPSK = ''psk'', cfg_CredentialVersion = 1,
     cfg_ControllerGeneration = 1, cfg_ConfigPath = [], cfg_BackupDir = ''/backup'', cfg_DiskQuotaBytes = 0,
     cfg_Disaster = \<lparr>dp_UnreachableAfterSec = 45, dp_IndependentAfterSec = 900,
       dp_MinFailedHeartbeats = 4, dp_PeerWitnessURLs = [], dp_PeerWitnessSecretEnv = []\<rparr>\<rparr>"

definition saveRuntimeStateLocked :: "save_fault \<Rightarrow> agent \<Rightarrow> agent \<times> unit result" where
  "saveRuntimeStateLocked flt a =
     (a\<lparr>ag_file := last (save_trace flt (ag_state a) (ag_file a))\<rparr>,
      if flt = NoFault then Inr () else Inl saveError)"

definition set_state :: "(runtime_state \<Rightarrow> runtime_state) \<Rightarrow> agent \<Rightarrow> agent" where
  "set_state f a = a\<lparr>ag_state := f (ag_state a)\<rparr>"

definition update_save :: "save_fault \<Rightarrow> (runtime_state \<Rightarrow> runtime_state) \<Rightarrow> agent \<Rightarrow> agent \<times> unit result" where
  "update_save flt f a = saveRuntimeStateLocked flt (set_state f a)"

definition synced :: "agent \<Rightarrow> bool" where
  "synced a \<longleftrightarrow> sf_named (ag_file a) = Some (ag_state a)"

section \<open>Generations and credentials\<close>

definition acceptGeneration :: "save_fault \<Rightarrow> int \<Rightarrow> agent \<Rightarrow> agent \<times> bool" where
  "acceptGeneration flt generation a =
     (let highest = rs_HighestGeneration (ag_state a) in
      if generation < highest then (a, False)
      else if generation > highest then
        (case update_save flt (\<lambda>s. s\<lparr>rs_HighestGeneration := generation\<rparr>) a of
           (b, Inr _) \<Rightarrow> (b, True)
         | (b, Inl _) \<Rightarrow> (set_state (\<lambda>s. s\<lparr>rs_HighestGeneration := highest\<rparr>) b, False))
      else (a, True))"

definition commandIdentity :: "agent \<Rightarrow> string \<times> int" where
  "commandIdentity a = (rs_WorkerID (ag_state a), rs_HighestGeneration (ag_state a))"

definition controllerCredential :: "agent \<Rightarrow> string \<times> int" where
  "controllerCredential a =
     (let c = rs_Credential (ag_state a) in
      if cs_CurrentPSK c = [] then
        (cfg_AgentPSK (ag_Cfg a),
         if cfg_CredentialVersion (ag_Cfg a) \<le> 0 then 1 else cfg_CredentialVersion (ag_Cfg a))
      else (cs_CurrentPSK c, cs_CurrentVersion c))"

definition raise_generation :: "int \<Rightarrow> runtime_state \<Rightarrow> runtime_state" where
  "raise_generation g s =
     (if g > rs_HighestGeneration s then s\<lparr>rs_HighestGeneration := g\<rparr> else s)"

definition persistInitialControllerCredential ::
    "save_fault \<Rightarrow> string \<Rightarrow> int \<Rightarrow> int \<Rightarrow> agent \<Rightarrow> agent \<times> unit result" where
  "persistInitialControllerCredential flt psk version generation a =
     (if psk = [] \<or> version \<le> 0 \<or> generation \<le> 0
      then (a, Inl ''invalid initial controller credential'')
      else update_save flt (\<lambda>s. raise_generation generation (s\<lparr>rs_Credential :=
        \<lparr>cs_CurrentPSK = psk, cs_CurrentVersion = version, cs_CurrentGeneration = generation,
         cs_PendingPSK = [], cs_PendingVersion = 0, cs_PendingGeneration = 0,
         cs_PendingExpiresAt = time_zero\<rparr>\<rparr>)) a)"

definition persistPendingControllerCredential ::
    "save_fault \<Rightarrow> gotime \<Rightarrow> string \<Rightarrow> int \<Rightarrow> int \<Rightarrow> gotime \<Rightarrow> agent \<Rightarrow> agent \<times> unit result" where
  "persistPendingControllerCredential flt now psk version generation expiresAt a =
     (let c = rs_Credential (ag_state a) in
      if psk = [] \<or> version \<le> 0 \<or> generation \<le> 0 \<or> \<not> expiresAt > now
      then (a, Inl ''invalid pending controller credential'')
      else if version \<le> cs_CurrentVersion c
      then (a, Inl ''controller credential version rollback'')
      else if cs_PendingPSK c \<noteq> [] \<and> (cs_PendingVersion c \<noteq> version \<or> cs_PendingPSK c \<noteq> psk)
      then (a, Inl ''conflicting pending controller credential'')
      else update_save flt (\<lambda>s. s\<lparr>rs_Credential := c\<lparr>cs_PendingPSK := psk,
        cs_PendingVersion := version, cs_PendingGeneration := generation,
        cs_PendingExpiresAt := expiresAt\<rparr>\<rparr>) a)"

text \<open>
  \<open>cfg_saved\<close> says whether \<open>config.Save\<close> wrote \<open>agent.yaml\<close>. The configuration in memory
  is already changed when that write fails.
\<close>

definition activatePendingControllerCredential ::
    "save_fault \<Rightarrow> bool \<Rightarrow> int \<Rightarrow> int \<Rightarrow> agent \<Rightarrow> agent \<times> unit result" where
  "activatePendingControllerCredential flt cfg_saved version generation a =
     (let c = rs_Credential (ag_state a) in
      if cs_PendingPSK c = [] \<or> cs_PendingVersion c \<noteq> version \<or> cs_PendingGeneration c \<noteq> generation
      then if cs_CurrentVersion c = version \<and> cs_CurrentGeneration c = generation
           then (a, Inr ())
           else (a, Inl ''pending controller credential mismatch'')
      else
        let b = a\<lparr>ag_Cfg := (ag_Cfg a)\<lparr>cfg_AgentPSK := cs_PendingPSK c,
                  cfg_CredentialVersion := cs_PendingVersion c,
                  cfg_ControllerGeneration := cs_PendingGeneration c\<rparr>\<rparr> in
        if cfg_ConfigPath (ag_Cfg a) \<noteq> [] \<and> \<not> cfg_saved
        then (b, Inl ''persist rotated controller credential'')
        else update_save flt (\<lambda>s. raise_generation generation (s\<lparr>rs_Credential :=
          \<lparr>cs_CurrentPSK = cs_PendingPSK c, cs_CurrentVersion = cs_PendingVersion c,
           cs_CurrentGeneration = cs_PendingGeneration c, cs_PendingPSK = [],
           cs_PendingVersion = 0, cs_PendingGeneration = 0, cs_PendingExpiresAt = time_zero\<rparr>\<rparr>)) b)"

definition clearPendingControllerCredential ::
    "save_fault \<Rightarrow> int \<Rightarrow> agent \<Rightarrow> agent \<times> unit result" where
  "clearPendingControllerCredential flt version a =
     (if cs_PendingVersion (rs_Credential (ag_state a)) \<noteq> version then (a, Inr ())
      else update_save flt (\<lambda>s. s\<lparr>rs_Credential := (rs_Credential s)\<lparr>cs_PendingPSK := [],
        cs_PendingVersion := 0, cs_PendingGeneration := 0, cs_PendingExpiresAt := time_zero\<rparr>\<rparr>) a)"

section \<open>Command results\<close>

definition cachedResult :: "string \<Rightarrow> agent \<Rightarrow> cached_result option" where
  "cachedResult commandID a = map_of (rs_Completed (ag_state a)) commandID"

definition maxCompleted :: nat where "maxCompleted = 1000"

fun gm_del_all :: "'k list \<Rightarrow> ('k, 'v) gomap \<Rightarrow> ('k, 'v) gomap" where
  "gm_del_all [] m = m"
| "gm_del_all (k # ks) m = gm_del_all ks (gm_del k m)"

definition evict_completed :: "(string, cached_result) gomap \<Rightarrow> (string, cached_result) gomap" where
  "evict_completed m =
     (if length m > maxCompleted then
        let entries = sort_key snd (map (\<lambda>(i, r). (i, cr_CompletedAt r)) m)
        in gm_del_all (map fst (take (length entries - maxCompleted) entries)) m
      else m)"

definition rememberResult ::
    "save_fault \<Rightarrow> string \<Rightarrow> cached_result \<Rightarrow> agent \<Rightarrow> agent \<times> unit result" where
  "rememberResult flt commandID r a =
     update_save flt (\<lambda>s. s\<lparr>rs_Completed := evict_completed (gm_put commandID r (rs_Completed s))\<rparr>) a"

section \<open>Cancelled backups and quota policy\<close>

definition backupCancellationRetention :: duration where
  "backupCancellationRetention = 24 * hour"

definition backupCancelled :: "int \<Rightarrow> agent \<Rightarrow> bool" where
  "backupCancelled jobID a \<longleftrightarrow> map_of (rs_CancelledBackups (ag_state a)) jobID \<noteq> None"

definition persistBackupCancellation ::
    "save_fault \<Rightarrow> int \<Rightarrow> gotime \<Rightarrow> agent \<Rightarrow> agent \<times> unit result" where
  "persistBackupCancellation flt jobID now a =
     (if jobID \<le> 0 \<or> now = time_zero then (a, Inl ''invalid backup cancellation'')
      else update_save flt (\<lambda>s. s\<lparr>rs_CancelledBackups :=
        filter (\<lambda>p. \<not> snd p < now - backupCancellationRetention)
          (if map_of (rs_CancelledBackups s) jobID = None
           then gm_put jobID now (rs_CancelledBackups s) else rs_CancelledBackups s)\<rparr>) a)"

definition applyControllerQuotaPolicy ::
    "save_fault \<Rightarrow> int \<Rightarrow> int \<Rightarrow> agent \<Rightarrow> agent \<times> unit result" where
  "applyControllerQuotaPolicy flt version quota a =
     (if version \<le> 0 \<or> quota < 0 then (a, Inr ())
      else if version \<le> rs_AppliedQuotaVersion (ag_state a) then (a, Inr ())
      else update_save flt (\<lambda>s. s\<lparr>rs_RuntimeDiskQuotaBytes := quota,
        rs_AppliedQuotaVersion := version\<rparr>) a)"

section \<open>The file is always an old or a new state\<close>

lemma save_trace_nonempty [simp]: "save_trace flt d f \<noteq> []"
  by (cases flt) auto

lemma save_trace_named: "g \<in> set (save_trace flt d f) \<Longrightarrow> sf_named g = sf_named f \<or> sf_named g = Some d"
  by (cases flt) auto

lemma save_trace_final:
  "sf_named (last (save_trace flt d f)) = (if flt = NoFault then Some d else sf_named f)"
  by (cases flt) auto

lemma save_trace_temp:
  "sf_temp f = Absent \<Longrightarrow> sf_temp (last (save_trace flt d f)) = Absent"
  by (cases flt) auto

lemma save_state [simp]:
  "ag_state (fst (saveRuntimeStateLocked flt a)) = ag_state a"
  "ag_Cfg (fst (saveRuntimeStateLocked flt a)) = ag_Cfg a"
  by (simp_all add: saveRuntimeStateLocked_def)

lemma set_state_sel [simp]:
  "ag_state (set_state f a) = f (ag_state a)"
  "ag_Cfg (set_state f a) = ag_Cfg a"
  "ag_file (set_state f a) = ag_file a"
  "ag_witnessNonces (set_state f a) = ag_witnessNonces a"
  "ag_adapterNonces (set_state f a) = ag_adapterNonces a"
  "ag_peerWitnessSecret (set_state f a) = ag_peerWitnessSecret a"
  by (simp_all add: set_state_def)

lemma update_save_sel [simp]:
  "ag_state (fst (update_save flt f a)) = f (ag_state a)"
  "ag_Cfg (fst (update_save flt f a)) = ag_Cfg a"
  "ag_witnessNonces (fst (update_save flt f a)) = ag_witnessNonces a"
  "ag_adapterNonces (fst (update_save flt f a)) = ag_adapterNonces a"
  "ag_peerWitnessSecret (fst (update_save flt f a)) = ag_peerWitnessSecret a"
  "snd (update_save flt f a) = (if flt = NoFault then Inr () else Inl saveError)"
  by (simp_all add: update_save_def saveRuntimeStateLocked_def)

lemma update_save_file [simp]:
  "sf_named (ag_file (fst (update_save flt f a))) =
     (if flt = NoFault then Some (f (ag_state a)) else sf_named (ag_file a))"
  by (simp add: update_save_def saveRuntimeStateLocked_def save_trace_final)

lemma update_save_pair:
  "update_save flt f a = (b, r) \<Longrightarrow>
     ag_state b = f (ag_state a) \<and> ag_Cfg b = ag_Cfg a \<and>
     (is_ok r \<longleftrightarrow> flt = NoFault) \<and>
     sf_named (ag_file b) = (if flt = NoFault then Some (f (ag_state a)) else sf_named (ag_file a))"
  using update_save_sel [of flt f a] update_save_file [of flt f a] by auto

lemma update_save_result:
  "update_save flt f a = (b, r) \<Longrightarrow> ag_state b = f (ag_state a) \<and> ag_Cfg b = ag_Cfg a \<and>
     r = (if flt = NoFault then Inr () else Inl saveError)"
  using update_save_sel [of flt f a] by auto

section \<open>The generation fence\<close>

lemma acceptGeneration_cases:
  "acceptGeneration flt g a = (b, ok) \<Longrightarrow>
     (ok \<longrightarrow> rs_HighestGeneration (ag_state a) \<le> g \<and> ag_state b = (ag_state a)\<lparr>rs_HighestGeneration := g\<rparr>) \<and>
     (\<not> ok \<longrightarrow> ag_state b = ag_state a \<and> sf_named (ag_file b) = sf_named (ag_file a)) \<and>
     (synced a \<longrightarrow> synced b) \<and> ag_Cfg b = ag_Cfg a"
  using update_save_pair [of flt "\<lambda>s. s\<lparr>rs_HighestGeneration := g\<rparr>" a]
  by (auto simp: acceptGeneration_def Let_def synced_def split: if_splits prod.splits sum.splits)

lemma acceptGeneration_ok:
  "snd (acceptGeneration NoFault g a) \<longleftrightarrow> rs_HighestGeneration (ag_state a) \<le> g"
  by (auto simp: acceptGeneration_def Let_def update_save_def saveRuntimeStateLocked_def)

interpretation agent_fence: generation_fence acceptGeneration "\<lambda>a. rs_HighestGeneration (ag_state a)"
proof unfold_locales
  fix f g s t
  show "acceptGeneration f g s = (t, True) \<Longrightarrow>
      rs_HighestGeneration (ag_state s) \<le> g \<and> rs_HighestGeneration (ag_state t) = g"
    using acceptGeneration_cases [of f g s t True] by simp
  show "acceptGeneration f g s = (t, False) \<Longrightarrow>
      rs_HighestGeneration (ag_state t) = rs_HighestGeneration (ag_state s)"
    by (auto dest: acceptGeneration_cases)
qed

section \<open>Credentials\<close>

definition credential_ok :: "credential \<Rightarrow> bool" where
  "credential_ok c \<longleftrightarrow>
     (cs_CurrentPSK c \<noteq> [] \<longrightarrow> 0 < cs_CurrentVersion c) \<and>
     (cs_PendingPSK c \<noteq> [] \<longrightarrow>
        cs_CurrentVersion c < cs_PendingVersion c \<and> 0 < cs_PendingGeneration c \<and>
        cs_PendingExpiresAt c \<noteq> time_zero)"

abbreviation agent_credential :: "agent \<Rightarrow> credential" where
  "agent_credential a \<equiv> rs_Credential (ag_state a)"

lemma raise_generation_sel [simp]:
  "rs_Credential (raise_generation g s) = rs_Credential s"
  "rs_HighestGeneration (raise_generation g s) = max g (rs_HighestGeneration s)"
  "rs_Transfers (raise_generation g s) = rs_Transfers s"
  "rs_ActivityOwnership (raise_generation g s) = rs_ActivityOwnership s"
  "rs_ControlMode (raise_generation g s) = rs_ControlMode s"
  by (auto simp: raise_generation_def)

lemma persistInitial_credential_ok:
  "credential_ok (agent_credential a) \<Longrightarrow>
   credential_ok (agent_credential (fst (persistInitialControllerCredential flt psk v g a)))"
  by (simp add: persistInitialControllerCredential_def credential_ok_def)

lemma persistPending_credential_ok:
  "credential_ok (agent_credential a) \<Longrightarrow> time_zero \<le> now \<Longrightarrow>
   credential_ok (agent_credential (fst (persistPendingControllerCredential flt now psk v g e a)))"
  by (simp add: persistPendingControllerCredential_def credential_ok_def Let_def)

lemma activatePending_credential_ok:
  "credential_ok (agent_credential a) \<Longrightarrow> 0 \<le> cs_CurrentVersion (agent_credential a) \<Longrightarrow>
   credential_ok (agent_credential (fst (activatePendingControllerCredential flt cs v g a)))"
  by (auto simp: activatePendingControllerCredential_def credential_ok_def Let_def)

lemma clearPending_credential_ok:
  "credential_ok (agent_credential a) \<Longrightarrow>
   credential_ok (agent_credential (fst (clearPendingControllerCredential flt v a)))"
  by (auto simp: clearPendingControllerCredential_def credential_ok_def)

lemma activatePending_result:
  assumes "credential_ok (agent_credential a)"
    and "activatePendingControllerCredential flt cs v g a = (b, Inr ())"
  shows "cs_CurrentVersion (agent_credential b) = v \<and> cs_CurrentGeneration (agent_credential b) = g \<and>
     cs_CurrentVersion (agent_credential a) \<le> v"
  using assms update_save_sel(1)
  by (auto simp: activatePendingControllerCredential_def credential_ok_def Let_def
      split: if_splits dest!: update_save_pair)

section \<open>Eviction of command results\<close>

lemma gm_del_all_filter: "gm_del_all ks m = filter (\<lambda>p. fst p \<notin> set ks) m"
  by (induction ks m rule: gm_del_all.induct) (auto simp: gm_del_def intro: filter_cong)

lemma gm_wf_del_all [simp]: "gm_wf m \<Longrightarrow> gm_wf (gm_del_all ks m)"
  by (simp add: gm_del_all_filter)

lemma length_filter_keys:
  assumes "gm_wf m" and "distinct ks" and "set ks \<subseteq> fst ` set m"
  shows "length (filter (\<lambda>p. fst p \<notin> set ks) m) = length m - length ks"
proof -
  have "length (filter (\<lambda>p. fst p \<in> set ks) m) = card (fst ` set (filter (\<lambda>p. fst p \<in> set ks) m))"
  proof -
    have "distinct (map fst (filter (\<lambda>p. fst p \<in> set ks) m))"
      using assms(1) by (simp add: gm_wf_def distinct_map_filter)
    then show ?thesis by (metis distinct_card length_map list.set_map)
  qed
  also have "fst ` set (filter (\<lambda>p. fst p \<in> set ks) m) = set ks"
    using assms(3) by auto
  finally have "length (filter (\<lambda>p. fst p \<in> set ks) m) = length ks"
    using assms(2) by (simp add: distinct_card)
  then show ?thesis
    using sum_length_filter_compl [of "\<lambda>p. fst p \<in> set ks" m] by linarith
qed

definition completion_order :: "(string, cached_result) gomap \<Rightarrow> (string \<times> gotime) list" where
  "completion_order m = sort_key snd (map (\<lambda>(i, r). (i, cr_CompletedAt r)) m)"

lemma completion_order_keys:
  "set (map fst (completion_order m)) = fst ` set m" "length (completion_order m) = length m"
proof -
  have "fst \<circ> (\<lambda>(i, r). (i, cr_CompletedAt r)) = fst"
    by auto
  then show "set (map fst (completion_order m)) = fst ` set m"
    by (simp add: completion_order_def image_image case_prod_unfold)
qed (simp add: completion_order_def)

lemma completion_order_distinct:
  assumes "gm_wf m" shows "distinct (map fst (completion_order m))"
proof -
  have "card (set (map fst (completion_order m))) = length (map fst (completion_order m))"
    using assms completion_order_keys [of m]
    by (metis distinct_card gm_wf_def length_map list.set_map)
  then show ?thesis by (rule card_distinct)
qed

lemma evict_completed_alt:
  "evict_completed m =
     (if length m > maxCompleted
      then gm_del_all (map fst (take (length m - maxCompleted) (completion_order m))) m else m)"
  by (simp add: evict_completed_def completion_order_def Let_def)

lemma length_evict_completed:
  assumes "gm_wf m" shows "length (evict_completed m) = min maxCompleted (length m)"
proof (cases "length m > maxCompleted")
  case True
  let ?ks = "map fst (take (length m - maxCompleted) (completion_order m))"
  have "distinct ?ks"
    using completion_order_distinct [OF assms] by (metis distinct_take take_map)
  moreover have "set ?ks \<subseteq> fst ` set m"
    using completion_order_keys(1) [of m] set_take_subset by (metis image_mono list.set_map)
  moreover have "length ?ks = length m - maxCompleted"
    by (simp add: completion_order_keys)
  ultimately have "length (filter (\<lambda>p. fst p \<notin> set ?ks) m) = maxCompleted"
    using True length_filter_keys [OF assms, of ?ks] by linarith
  then show ?thesis
    using True by (simp add: evict_completed_alt gm_del_all_filter)
qed (simp add: evict_completed_alt)

lemma evict_completed_oldest:
  assumes wf: "gm_wf m" and old: "map_of m i = Some r" "map_of (evict_completed m) i = None"
    and kept: "map_of (evict_completed m) j = Some q"
  shows "cr_CompletedAt r \<le> cr_CompletedAt q"
proof -
  let ?n = "length m - maxCompleted"
  let ?o = "completion_order m"
  have big: "length m > maxCompleted"
    using old by (auto simp: evict_completed_alt split: if_splits)
  have ev: "evict_completed m = filter (\<lambda>p. fst p \<notin> set (map fst (take ?n ?o))) m"
    using big by (simp add: evict_completed_alt gm_del_all_filter)
  have j: "map_of m j = Some q" "j \<notin> set (map fst (take ?n ?o))"
    using kept map_of_filter_snd [OF wf, of "\<lambda>k v. k \<notin> set (map fst (take ?n ?o))" j]
    by (auto simp: ev split: option.splits if_splits)
  have i: "i \<in> set (map fst (take ?n ?o))"
    using old map_of_filter_snd [OF wf, of "\<lambda>k v. k \<notin> set (map fst (take ?n ?o))" i]
    by (auto simp: ev split: option.splits if_splits)
  then obtain t where t: "(i, t) \<in> set (take ?n ?o)" by auto
  have "(i, t) \<in> set ?o" using t by (rule in_set_takeD)
  then have "t = cr_CompletedAt r"
    using old(1) wf by (auto simp: completion_order_def gm_wf_map_of)
  have "(j, cr_CompletedAt q) \<in> set ?o"
    using j(1) by (force simp: completion_order_def dest: map_of_SomeD)
  then have "(j, cr_CompletedAt q) \<in> set (drop ?n ?o)"
    using j(2) by (metis Un_iff append_take_drop_id fst_conv image_eqI list.set_map set_append)
  moreover have "sorted (map snd (take ?n ?o) @ map snd (drop ?n ?o))"
    by (metis append_take_drop_id completion_order_def map_append sorted_sort_key)
  ultimately have "t \<le> cr_CompletedAt q"
    using t by (force simp: sorted_append)
  with \<open>t = cr_CompletedAt r\<close> show ?thesis by simp
qed

section \<open>Properties\<close>

text \<open>
  C1. Writing the state file is atomic. Whatever system call fails, and at whatever point of
  the write the process dies, the named file holds either the content it had or the complete
  new state; the write reports success exactly when the new state is in place; and no
  temporary file is left behind.
\<close>

theorem saveRuntimeState_atomic:
  assumes "sf_temp (ag_file a) = Absent"
  shows "list_all (\<lambda>f. sf_named f = sf_named (ag_file a) \<or> sf_named f = Some (ag_state a))
           (save_trace flt (ag_state a) (ag_file a)) \<and>
         sf_temp (ag_file (fst (saveRuntimeStateLocked flt a))) = Absent \<and>
         sf_named (ag_file (fst (saveRuntimeStateLocked flt a))) =
           (if is_ok (snd (saveRuntimeStateLocked flt a)) then Some (ag_state a) else sf_named (ag_file a))"
  using assms
  by (auto simp: saveRuntimeStateLocked_def save_trace_final save_trace_temp list_all_iff
      dest: save_trace_named)

theorem saveRuntimeState_atomic_witness:
  "sf_temp (ag_file (new_agent sample_cfg)) = Absent \<and>
   sf_named (ag_file (fst (saveRuntimeStateLocked NoFault (new_agent sample_cfg)))) = Some zero_runtime_state"
  using saveRuntimeState_atomic [of "new_agent sample_cfg" NoFault]
  by (simp add: new_agent_def saveRuntimeStateLocked_def)

text \<open>
  C2. The controller generations an agent admits never go down, in any sequence of requests
  and whichever of its saves fail; what it admits is at least what it had admitted before the
  sequence, and the level it remembers only grows.
\<close>

theorem accepted_generations_monotone:
  assumes "agent_fence.run ops a = (b, gs)"
  shows "sorted gs \<and> (\<forall>g \<in> set gs. rs_HighestGeneration (ag_state a) \<le> g) \<and>
         rs_HighestGeneration (ag_state a) \<le> rs_HighestGeneration (ag_state b)"
  using agent_fence.admitted_sorted [OF assms] agent_fence.run_above [OF assms]
    agent_fence.level_mono [OF assms] by simp

theorem accepted_generations_monotone_witness:
  "snd (agent_fence.run [(NoFault, 3), (WriteFault, 5), (NoFault, 2), (NoFault, 4)] (new_agent sample_cfg)) = [3, 4] \<and>
   sorted (snd (agent_fence.run [(NoFault, 3), (WriteFault, 5), (NoFault, 2), (NoFault, 4)] (new_agent sample_cfg)))"
  using accepted_generations_monotone
    [of "[(NoFault, 3), (WriteFault, 5), (NoFault, 2), (NoFault, 4)]" "new_agent sample_cfg",
     OF prod.collapse [symmetric]]
  by (simp add: acceptGeneration_def update_save_def saveRuntimeStateLocked_def set_state_def
      new_agent_def zero_runtime_state_def)

text \<open>
  C3. The result cache holds at most 1000 entries after a result is remembered, forgets
  nothing while there is room, changes no entry it keeps, and forgets the oldest: an entry
  that is dropped completed no later than any entry that is kept.
\<close>

theorem rememberResult_bounded_oldest_first:
  assumes wf: "gm_wf (rs_Completed (ag_state a))"
    and run: "rememberResult flt i r a = (b, res)"
  shows "gm_wf (rs_Completed (ag_state b)) \<and> length (rs_Completed (ag_state b)) \<le> maxCompleted \<and>
    (length (rs_Completed (ag_state a)) < maxCompleted \<longrightarrow>
       cachedResult j b = (if j = i then Some r else cachedResult j a)) \<and>
    (\<forall>q. cachedResult j b = Some q \<longrightarrow>
       (if j = i then q = r else cachedResult j a = Some q) \<and>
       (\<forall>k old. cachedResult k a = Some old \<longrightarrow> k \<noteq> i \<longrightarrow> cachedResult k b = None \<longrightarrow>
          cr_CompletedAt old \<le> cr_CompletedAt q))"
proof -
  let ?m = "gm_put i r (rs_Completed (ag_state a))"
  have wfm: "gm_wf ?m" using wf by simp
  have b: "rs_Completed (ag_state b) = evict_completed ?m"
    using run update_save_pair by (fastforce simp: rememberResult_def)
  have wfb: "gm_wf (evict_completed ?m)"
    using wfm by (simp add: evict_completed_alt)
  have sub: "map_of (evict_completed ?m) j = Some q \<Longrightarrow> map_of ?m j = Some q" for q
    using gm_wf_map_of [OF wfb, of j q] gm_wf_map_of [OF wfm, of j q]
    by (auto simp: evict_completed_alt gm_del_all_filter split: if_splits)
  have short: "length (rs_Completed (ag_state a)) < maxCompleted \<Longrightarrow> evict_completed ?m = ?m"
    using length_gm_put [OF wf, of i r] by (simp add: evict_completed_alt split: if_splits)
  have old: "cr_CompletedAt old \<le> cr_CompletedAt q"
    if "map_of (evict_completed ?m) j = Some q" "map_of (rs_Completed (ag_state a)) k = Some old"
      "k \<noteq> i" "map_of (evict_completed ?m) k = None" for q k old
    using evict_completed_oldest [OF wfm, of k old j q] that by simp
  have len: "length (evict_completed ?m) \<le> maxCompleted"
    using length_evict_completed [OF wfm] by simp
  show ?thesis
    unfolding cachedResult_def b
  proof (intro conjI impI allI)
    assume "length (rs_Completed (ag_state a)) < maxCompleted"
    then show "map_of (evict_completed ?m) j =
        (if j = i then Some r else map_of (rs_Completed (ag_state a)) j)"
      using short by simp
  next
    fix q assume "map_of (evict_completed ?m) j = Some q"
    then show "if j = i then q = r else map_of (rs_Completed (ag_state a)) j = Some q"
      using sub by fastforce
  next
    fix q k old'
    assume "map_of (evict_completed ?m) j = Some q" "map_of (rs_Completed (ag_state a)) k = Some old'"
      "k \<noteq> i" "map_of (evict_completed ?m) k = None"
    then show "cr_CompletedAt old' \<le> cr_CompletedAt q" by (rule old)
  qed (use wfb len in blast)+
qed

theorem rememberResult_bounded_oldest_first_witness:
  "cachedResult ''c1'' (fst (rememberResult NoFault ''c1''
       \<lparr>cr_Succeeded = True, cr_Result = ''{}'', cr_ControllerGeneration = 1, cr_CompletedAt = 7\<rparr>
       (new_agent sample_cfg))) =
     Some \<lparr>cr_Succeeded = True, cr_Result = ''{}'', cr_ControllerGeneration = 1, cr_CompletedAt = 7\<rparr>"
  using rememberResult_bounded_oldest_first [of "new_agent sample_cfg" NoFault "''c1''"
     "\<lparr>cr_Succeeded = True, cr_Result = ''{}'', cr_ControllerGeneration = 1, cr_CompletedAt = 7\<rparr>" _ _ "''c1''",
     OF _ prod.collapse [symmetric]]
  by (simp add: new_agent_def zero_runtime_state_def maxCompleted_def)

text \<open>
  C4. Credential rotation. A state that satisfies the checks made at start-up keeps them
  through every credential operation, whichever saves fail; and when the agent reports that a
  pending credential is active, its version and generation are the ones asked for and the
  version is not below the one in use before.
\<close>

theorem credential_rotation:
  assumes "credential_ok (agent_credential a)" and "0 \<le> cs_CurrentVersion (agent_credential a)"
    and "time_zero \<le> now"
  shows "credential_ok (agent_credential (fst (persistInitialControllerCredential flt psk v g a))) \<and>
    credential_ok (agent_credential (fst (persistPendingControllerCredential flt now psk v g e a))) \<and>
    credential_ok (agent_credential (fst (activatePendingControllerCredential flt saved v g a))) \<and>
    credential_ok (agent_credential (fst (clearPendingControllerCredential flt v a))) \<and>
    (snd (activatePendingControllerCredential flt saved v g a) = Inr () \<longrightarrow>
       cs_CurrentVersion (agent_credential (fst (activatePendingControllerCredential flt saved v g a))) = v \<and>
       cs_CurrentGeneration (agent_credential (fst (activatePendingControllerCredential flt saved v g a))) = g \<and>
       cs_CurrentVersion (agent_credential a) \<le> v)"
proof (intro conjI impI)
  assume "snd (activatePendingControllerCredential flt saved v g a) = Inr ()"
  then have "activatePendingControllerCredential flt saved v g a =
      (fst (activatePendingControllerCredential flt saved v g a), Inr ())"
    by (simp add: prod_eq_iff)
  note r = activatePending_result [OF assms(1) this]
  show "cs_CurrentVersion (agent_credential (fst (activatePendingControllerCredential flt saved v g a))) = v"
    "cs_CurrentGeneration (agent_credential (fst (activatePendingControllerCredential flt saved v g a))) = g"
    "cs_CurrentVersion (agent_credential a) \<le> v"
    using r by blast+
qed (use assms in \<open>blast intro: persistInitial_credential_ok persistPending_credential_ok
      activatePending_credential_ok clearPending_credential_ok\<close>)+

theorem credential_rotation_witness:
  "cs_CurrentVersion (agent_credential (fst (activatePendingControllerCredential NoFault True 2 1
     (fst (persistPendingControllerCredential NoFault 5 ''k2'' 2 1 9 (new_agent sample_cfg)))))) = 2"
  using credential_rotation [of "fst (persistPendingControllerCredential NoFault 5 ''k2'' 2 1 9 (new_agent sample_cfg))"
      5 NoFault "''k''" 2 1 9 True]
  by (simp add: persistPendingControllerCredential_def activatePendingControllerCredential_def
      credential_ok_def new_agent_def zero_runtime_state_def zero_credential_def sample_cfg_def)

end
