(* ===== verification/Protocol.thy ===== *)
theory Protocol
  imports Agent_State
begin

text \<open>
  Request authentication (\<open>protocol/protocol.go\<close>, \<open>agent/peer_witness.go\<close>,
  \<open>agent/adapter_proxy.go\<close>, \<open>store/nonces.go\<close>, \<open>controller/middleware.go\<close>): the signed
  string of a request, its verification within the clock skew, and the three nonce stores
  that refuse a request seen before. The HMAC is the parameter \<open>hmac\<close> of the library.
\<close>

section \<open>Signed requests\<close>

record http_request =
  hr_Method :: string
  hr_Path :: string
  hr_AgentID :: string
  hr_Timestamp :: string
  hr_Nonce :: string
  hr_Signature :: string

definition MaxClockSkew :: duration where "MaxClockSkew = 60 * second"

definition bodyHash :: "golib \<Rightarrow> string \<Rightarrow> string" where
  "bodyHash lib body = hex_encode (sha256 lib body)"

abbreviation newline :: string where "newline \<equiv> [CHR 0x0A]"

definition canonicalString :: "golib \<Rightarrow> string \<Rightarrow> string \<Rightarrow> string \<Rightarrow> string \<Rightarrow> string \<Rightarrow> string" where
  "canonicalString lib meth path timestamp nonce body =
     meth @ newline @ path @ newline @ timestamp @ newline @ nonce @ newline @ bodyHash lib body"

definition Sign :: "golib \<Rightarrow> string \<Rightarrow> string \<Rightarrow> string \<Rightarrow> string \<Rightarrow> string \<Rightarrow> string \<Rightarrow> string" where
  "Sign lib psk meth path timestamp nonce body =
     hex_encode (hmac lib psk (canonicalString lib meth path timestamp nonce body))"

definition time_unix :: "int \<Rightarrow> gotime" where
  "time_unix sec = i64 (sec + 62135596800) * second"

text \<open>\<open>nonce\<close> is what \<open>randomNonce\<close> drew: the hex form of 16 random bytes.\<close>

definition SignRequest ::
    "golib \<Rightarrow> gotime \<Rightarrow> string \<Rightarrow> http_request \<Rightarrow> int \<Rightarrow> string \<Rightarrow> string \<Rightarrow> http_request" where
  "SignRequest lib now random req agentID psk body =
     (let ts = dec_int ((now - unix_origin) div second); nonce = hex_encode random in
      req\<lparr>hr_AgentID := dec_int agentID, hr_Timestamp := ts, hr_Nonce := nonce,
          hr_Signature := Sign lib psk (hr_Method req) (hr_Path req) ts nonce body\<rparr>)"

definition VerifyRequest :: "golib \<Rightarrow> gotime \<Rightarrow> http_request \<Rightarrow> string \<Rightarrow> string \<Rightarrow> unit result" where
  "VerifyRequest lib now r psk body =
     (if hr_Timestamp r = [] \<or> hr_Nonce r = [] \<or> hr_Signature r = []
      then Inl ''missing signature headers''
      else
        (case hex_decode (hr_Nonce r) of
           None \<Rightarrow> Inl ''invalid nonce''
         | Some nonceBytes \<Rightarrow>
             if length nonceBytes \<noteq> 16 then Inl ''invalid nonce''
             else
               (case ParseInt (hr_Timestamp r) of
                  None \<Rightarrow> Inl ''invalid timestamp''
                | Some ts \<Rightarrow>
                    let d = time_sub now (time_unix ts) in
                    if d > MaxClockSkew \<or> d < - MaxClockSkew then Inl ''timestamp out of range''
                    else if Sign lib psk (hr_Method r) (hr_Path r) (hr_Timestamp r) (hr_Nonce r) body
                            \<noteq> hr_Signature r
                    then Inl ''signature mismatch''
                    else Inr ())))"

section \<open>Nonce stores\<close>

definition maxNonces :: nat where "maxNonces = 4096"

definition consume_nonce :: "string \<Rightarrow> gotime \<Rightarrow> (string, gotime) gomap \<Rightarrow> (string, gotime) gomap \<times> bool" where
  "consume_nonce nonce now m =
     (let kept = filter (\<lambda>p. snd p > now) m in
      if map_of kept nonce \<noteq> None \<or> length kept \<ge> maxNonces then (kept, False)
      else (gm_put nonce (now + 2 * MaxClockSkew) kept, True))"

definition consumeWitnessNonce :: "string \<Rightarrow> gotime \<Rightarrow> agent \<Rightarrow> agent \<times> bool" where
  "consumeWitnessNonce nonce now a =
     (let (m, ok) = consume_nonce nonce now (ag_witnessNonces a) in (a\<lparr>ag_witnessNonces := m\<rparr>, ok))"

definition consumeAdapterNonce :: "string \<Rightarrow> gotime \<Rightarrow> agent \<Rightarrow> agent \<times> bool" where
  "consumeAdapterNonce nonce now a =
     (let (m, ok) = consume_nonce nonce now (ag_adapterNonces a) in (a\<lparr>ag_adapterNonces := m\<rparr>, ok))"

text \<open>
  The table \<open>agent_request_nonces\<close>, keyed by node and nonce digest. The statement deletes
  the expired rows and inserts the new one on the same snapshot: PostgreSQL lets neither part
  see the other, so a row that is about to be deleted still conflicts.
\<close>

type_synonym nonce_table = "(int \<times> string, gotime) gomap"

record nonce_request =
  nr_NodeID :: int
  nr_Nonce :: string
  nr_SignedAt :: gotime
  nr_ExpiresAt :: gotime

definition ConsumeAgentNonce ::
    "golib \<Rightarrow> nonce_request \<Rightarrow> gotime \<Rightarrow> nonce_table \<Rightarrow> nonce_table \<times> bool result" where
  "ConsumeAgentNonce lib r now m =
     (if nr_NodeID r \<le> 0 \<or> nr_Nonce r = [] \<or> nr_SignedAt r = time_zero \<or> \<not> nr_ExpiresAt r > nr_SignedAt r
      then (m, Inl ''invalid agent nonce input'')
      else
        let k = (nr_NodeID r, sha256 lib (nr_Nonce r)); kept = filter (\<lambda>p. snd p > now) m in
        if map_of m k \<noteq> None then (kept, Inr False)
        else (gm_put k (nr_ExpiresAt r) kept, Inr True))"

section \<open>Agent authentication at the controller\<close>

record agent_credential_row =
  cw_PSK :: "string option"
  cw_CredentialVersion :: int
  cw_ControllerGeneration :: int
  cw_Pending :: bool

text \<open>
  \<open>agentAuthMiddleware\<close> for a known node. \<open>cw_PSK\<close> is the decrypted key of a credential row,
  \<open>None\<close> when it does not decrypt. The result is the credential the request goes on with.
\<close>

definition agentAuthMiddleware ::
    "golib \<Rightarrow> gotime \<Rightarrow> int \<Rightarrow> agent_credential_row list \<Rightarrow> int \<Rightarrow> http_request \<Rightarrow> string \<Rightarrow>
     nonce_table \<Rightarrow> nonce_table \<times> agent_credential_row result" where
  "agentAuthMiddleware lib now nodeID credentials activeGeneration r body m =
     (case find (\<lambda>c. case cw_PSK c of None \<Rightarrow> False
                      | Some psk \<Rightarrow> is_ok (VerifyRequest lib now r psk body)) credentials of
        None \<Rightarrow> (m, Inl ''signature rejected'')
      | Some c \<Rightarrow>
          if cw_Pending c \<and> hr_Path r \<noteq> ''/api/agent/credentials/confirm''
          then (m, Inl ''signature rejected'')
          else if cw_ControllerGeneration c \<noteq> activeGeneration \<and>
             (cw_Pending c \<or> cw_ControllerGeneration c > activeGeneration \<or> hr_Path r \<noteq> ''/api/agent/heartbeat'')
          then (m, Inl ''credential generation expired'')
          else
            (case ParseInt (hr_Timestamp r) of
               None \<Rightarrow> (m, Inl ''signature rejected'')
             | Some ts \<Rightarrow>
                 (case ConsumeAgentNonce lib \<lparr>nr_NodeID = nodeID, nr_Nonce = hr_Nonce r,
                     nr_SignedAt = time_unix ts, nr_ExpiresAt = time_unix ts + 2 * MaxClockSkew\<rparr> now m of
                    (m', Inl e) \<Rightarrow> (m', Inl e)
                  | (m', Inr False) \<Rightarrow> (m', Inl ''request signature already used'')
                  | (m', Inr True) \<Rightarrow> (m', Inr c))))"

section \<open>The nonce stores refuse replays\<close>

lemma consume_nonce_cases:
  assumes "gm_wf m" and "consume_nonce k now m = (m', ok)"
  shows "gm_wf m' \<and> length m' \<le> max (length m) maxNonces \<and>
    (ok \<longrightarrow> map_of m' k = Some (now + 2 * MaxClockSkew) \<and> (\<forall>e. map_of m k = Some e \<longrightarrow> e \<le> now)) \<and>
    (\<forall>j e. map_of m j = Some e \<longrightarrow> now < e \<longrightarrow> map_of m' j = Some e)"
proof -
  let ?kept = "filter (\<lambda>p. snd p > now) m"
  have kept: "map_of ?kept j = (case map_of m j of None \<Rightarrow> None | Some e \<Rightarrow> if now < e then Some e else None)" for j
    using map_of_filter_snd [OF assms(1), of "\<lambda>k e. now < e" j] by simp
  have put: "length (gm_put k v ?kept) \<le> Suc (length ?kept)" for v
    using length_filter_le [of "\<lambda>p. fst p \<noteq> k" ?kept] by (simp add: gm_put_def)
  have len: "length ?kept \<le> length m" by simp
  have "length m' \<le> max (length m) maxNonces"
    using assms(2) put [of "now + 2 * MaxClockSkew"] len
    by (auto simp del: length_filter_le simp: consume_nonce_def Let_def split: if_splits)
  then show ?thesis
    using assms(2) gm_wf_filter [OF assms(1), of "\<lambda>p. snd p > now"]
    by (auto simp: consume_nonce_def Let_def kept split: if_splits option.splits)
qed

interpretation witness_guard: replay_guard consumeWitnessNonce "\<lambda>n. n" "\<lambda>_ now. now + 2 * MaxClockSkew"
  "\<lambda>a. map_of (ag_witnessNonces a)" "\<lambda>a. gm_wf (ag_witnessNonces a)"
  by unfold_locales
    (auto simp: consumeWitnessNonce_def split: prod.splits dest: consume_nonce_cases)

interpretation adapter_guard: replay_guard consumeAdapterNonce "\<lambda>n. n" "\<lambda>_ now. now + 2 * MaxClockSkew"
  "\<lambda>a. map_of (ag_adapterNonces a)" "\<lambda>a. gm_wf (ag_adapterNonces a)"
  by unfold_locales
    (auto simp: consumeAdapterNonce_def split: prod.splits dest: consume_nonce_cases)

definition store_consume :: "golib \<Rightarrow> nonce_request \<Rightarrow> gotime \<Rightarrow> nonce_table \<Rightarrow> nonce_table \<times> bool" where
  "store_consume lib r now m = (let (m', res) = ConsumeAgentNonce lib r now m in (m', res = Inr True))"

lemma store_consume_cases:
  assumes "gm_wf m" and "store_consume lib r now m = (m', ok)"
  shows "gm_wf m' \<and>
    (ok \<longrightarrow> map_of m' (nr_NodeID r, sha256 lib (nr_Nonce r)) = Some (nr_ExpiresAt r) \<and>
            map_of m (nr_NodeID r, sha256 lib (nr_Nonce r)) = None) \<and>
    (\<forall>j e. map_of m j = Some e \<longrightarrow> now < e \<longrightarrow> map_of m' j = Some e)"
proof -
  have kept: "map_of (filter (\<lambda>p. snd p > now) m) j =
      (case map_of m j of None \<Rightarrow> None | Some e \<Rightarrow> if now < e then Some e else None)" for j
    using map_of_filter_snd [OF assms(1), of "\<lambda>k e. now < e" j] by simp
  show ?thesis
    using assms(2) gm_wf_filter [OF assms(1), of "\<lambda>p. snd p > now"] assms(1)
    by (auto simp: store_consume_def ConsumeAgentNonce_def Let_def kept split: if_splits option.splits)
qed

interpretation store_guard: replay_guard "store_consume lib"
  "\<lambda>r. (nr_NodeID r, sha256 lib (nr_Nonce r))" "\<lambda>r _. nr_ExpiresAt r" map_of gm_wf for lib
  by unfold_locales (auto dest: store_consume_cases)

section \<open>The signed string\<close>

lemma append_newline_eq:
  assumes "CHR 0x0A \<notin> set a" and "CHR 0x0A \<notin> set b"
  shows "x @ newline @ a = y @ newline @ b \<longleftrightarrow> x = y \<and> a = b"
proof -
  have "takeWhile (\<lambda>c. c \<noteq> CHR 0x0A) (rev (z @ newline @ d)) = rev d" if "CHR 0x0A \<notin> set d" for z d
    using that by (simp, subst takeWhile_append2) auto
  then show ?thesis using assms by (metis append_same_eq rev_rev_ident)
qed

lemma newline_append_eq:
  assumes "CHR 0x0A \<notin> set a" and "CHR 0x0A \<notin> set b"
  shows "a @ newline @ x = b @ newline @ y \<longleftrightarrow> a = b \<and> x = y"
proof -
  have "takeWhile (\<lambda>c. c \<noteq> CHR 0x0A) (d @ newline @ z) = d" if "CHR 0x0A \<notin> set d" for z d
    using that by (subst takeWhile_append2) auto
  then show ?thesis using assms by (metis append_same_eq same_append_eq)
qed

lemma newline_not_hex: "hex_decode s = Some b \<Longrightarrow> CHR 0x0A \<notin> set s"
  using hex_decode_chars hex_val_newline by blast

lemma newline_not_hex_encode [simp]: "CHR 0x0A \<notin> set (hex_encode s)"
  using newline_not_hex hex_decode_encode by blast

lemma canonicalString_inj:
  assumes "canonicalString lib m p ts n body = canonicalString lib m' p' ts' n' body'"
    and "CHR 0x0A \<notin> set m \<union> set m' \<union> set ts \<union> set ts' \<union> set n \<union> set n'"
  shows "m = m' \<and> p = p' \<and> ts = ts' \<and> n = n' \<and> bodyHash lib body = bodyHash lib body'"
proof -
  have split: "canonicalString lib m p ts n b =
      (((m @ newline @ p) @ newline @ ts) @ newline @ n) @ newline @ bodyHash lib b" for m p ts n b
    by (simp add: canonicalString_def)
  have h: "CHR 0x0A \<notin> set (bodyHash lib b)" for b
    by (simp add: bodyHash_def)
  have nl: "CHR 0x0A \<notin> set m" "CHR 0x0A \<notin> set m'" "CHR 0x0A \<notin> set ts" "CHR 0x0A \<notin> set ts'"
    "CHR 0x0A \<notin> set n" "CHR 0x0A \<notin> set n'"
    using assms(2) by auto
  have 1: "((m @ newline @ p) @ newline @ ts) @ newline @ n = ((m' @ newline @ p') @ newline @ ts') @ newline @ n' \<and>
      bodyHash lib body = bodyHash lib body'"
    using assms(1) unfolding split append_newline_eq [OF h h] .
  then have 2: "((m @ newline @ p) @ newline @ ts = (m' @ newline @ p') @ newline @ ts') \<and> n = n'"
    unfolding append_newline_eq [OF nl(5,6)] by simp
  then have 3: "m @ newline @ p = m' @ newline @ p' \<and> ts = ts'"
    unfolding append_newline_eq [OF nl(3,4)] by simp
  then have "m = m' \<and> p = p'"
    unfolding newline_append_eq [OF nl(1,2)] by simp
  with 1 2 3 show ?thesis by simp
qed

lemma hex_encode_inj: "hex_encode a = hex_encode b \<longleftrightarrow> a = b"
  by (metis hex_decode_encode option.inject)

lemma VerifyRequest_ok:
  "VerifyRequest lib now r psk body = Inr () \<longleftrightarrow>
     hr_Signature r \<noteq> [] \<and>
     (\<exists>nb ts. hex_decode (hr_Nonce r) = Some nb \<and> length nb = 16 \<and> ParseInt (hr_Timestamp r) = Some ts \<and>
       time_sub now (time_unix ts) \<le> MaxClockSkew \<and> - MaxClockSkew \<le> time_sub now (time_unix ts) \<and>
       hr_Signature r = Sign lib psk (hr_Method r) (hr_Path r) (hr_Timestamp r) (hr_Nonce r) body)"
proof -
  have "ParseInt [] = None" by (simp add: ParseInt_def)
  then show ?thesis
    by (auto simp: VerifyRequest_def Let_def split: option.splits if_splits)
qed

lemma skew_window:
  "time_sub now t \<le> MaxClockSkew \<Longrightarrow> - MaxClockSkew \<le> time_sub now t \<Longrightarrow>
   t - MaxClockSkew \<le> now \<and> now \<le> t + MaxClockSkew"
  by (auto simp: time_sub_def MaxClockSkew_def second_def max_def min_def split: if_splits)

section \<open>Properties\<close>

definition sample_request :: http_request where
  "sample_request = \<lparr>hr_Method = ''POST'', hr_Path = ''/api/agent/heartbeat'', hr_AgentID = [],
     hr_Timestamp = [], hr_Nonce = [], hr_Signature = []\<rparr>"

definition sample_now :: gotime where "sample_now = unix_origin + 5 * second"

definition sample_signed :: http_request where
  "sample_signed = SignRequest sample_lib sample_now ''0123456789abcdef'' sample_request 7 ''psk'' ''body''"

lemma SignRequest_verifies:
  assumes "length random = 16" and "in_i64 (now div second)" and "in_i64 ((now - unix_origin) div second)"
    and "\<bar>now' - now\<bar> \<le> 59 * second" and "\<And>x. hmac lib psk x \<noteq> []"
  shows "VerifyRequest lib now' (SignRequest lib now random req agentID psk body) psk body = Inr ()"
proof -
  let ?ts = "(now - unix_origin) div second"
  have u: "time_unix ?ts = now div second * second"
  proof -
    have "unix_origin = 62135596800 * second" by (simp add: unix_origin_def second_def)
    then have "?ts + 62135596800 = now div second"
      using div_diff [of second unix_origin now]
      by (simp add: second_def)
    then show ?thesis using assms(2) by (simp add: time_unix_def)
  qed
  have "now - now div second * second = now mod second"
    by (simp add: minus_div_mult_eq_mod)
  moreover have "0 \<le> now mod second" "now mod second < second"
    by (simp_all add: second_def)
  ultimately have "\<bar>now' - time_unix ?ts\<bar> \<le> MaxClockSkew"
    using assms(4) u by (simp add: MaxClockSkew_def)
  then have d: "time_sub now' (time_unix ?ts) \<le> MaxClockSkew" "- MaxClockSkew \<le> time_sub now' (time_unix ?ts)"
    by (auto simp: time_sub_def MaxClockSkew_def second_def)
  have "hex_encode (hmac lib psk x) \<noteq> []" for x
    using assms(5) by (metis hex_decode.simps(1) hex_decode_encode option.inject)
  then show ?thesis
    using d assms(1) ParseInt_dec_int [OF assms(3)]
    by (simp add: VerifyRequest_ok SignRequest_def Let_def Sign_def)
qed

lemma sample_ts: "ParseInt (hr_Timestamp sample_signed) = Some 5"
proof -
  have "hr_Timestamp sample_signed = dec_int 5"
    by (simp add: sample_signed_def SignRequest_def Let_def sample_now_def unix_origin_def second_def)
  then show ?thesis by (simp add: ParseInt_dec_int in_i64_def)
qed

lemma sample_verifies:
  "\<bar>d\<bar> \<le> 59 * second \<Longrightarrow> VerifyRequest sample_lib (sample_now + d) sample_signed ''psk'' ''body'' = Inr ()"
  unfolding sample_signed_def
proof (rule SignRequest_verifies)
  show "hmac sample_lib ''psk'' x \<noteq> []" for x by (simp add: sample_lib_def)
qed (simp_all add: sample_now_def second_def in_i64_def unix_origin_def)

text \<open>
  C9. A request signed with a key verifies under that key, for every body, path and 16-byte
  nonce, as long as the verifier's clock is at most 59 seconds away from the signer's.
\<close>

theorem SignRequest_VerifyRequest:
  assumes "length random = 16" and "in_i64 (now div second)" and "in_i64 ((now - unix_origin) div second)"
    and "\<bar>now' - now\<bar> \<le> 59 * second" and "\<And>x. hmac lib psk x \<noteq> []"
  shows "VerifyRequest lib now' (SignRequest lib now random req agentID psk body) psk body = Inr ()"
  using assms by (rule SignRequest_verifies)

theorem SignRequest_VerifyRequest_witness:
  "VerifyRequest sample_lib (sample_now + 5 * second) sample_signed ''psk'' ''body'' = Inr ()"
  unfolding sample_signed_def
proof (rule SignRequest_VerifyRequest)
  show "\<bar>sample_now + 5 * second - sample_now\<bar> \<le> 59 * second"
    by (simp add: second_def)
  show "hmac sample_lib ''psk'' x \<noteq> []" for x
    by (simp add: sample_lib_def)
qed (simp_all add: sample_now_def second_def in_i64_def unix_origin_def)



text \<open>
  C11. A peer witness request is answered once. After a request has been verified and its nonce
  recorded, the same request is refused at every later time at which it would still verify,
  whatever other requests come between; the one exception is a request from a clock that was
  fast by exactly the whole skew.
\<close>

theorem witness_request_not_replayed:
  assumes "gm_wf (ag_witnessNonces a)"
    and "VerifyRequest lib now r psk body = Inr ()" and "VerifyRequest lib later r psk body = Inr ()"
    and "ParseInt (hr_Timestamp r) = Some ts" and "time_unix ts - MaxClockSkew < now"
    and "consumeWitnessNonce (hr_Nonce r) now a = (b, True)" and "\<forall>(n, t) \<in> set ops. t \<le> later"
  shows "\<not> snd (consumeWitnessNonce (hr_Nonce r) later (witness_guard.run ops b))"
proof -
  have "later \<le> time_unix ts + MaxClockSkew"
    using assms(3,4) skew_window by (auto simp: VerifyRequest_ok)
  then have "later < now + 2 * MaxClockSkew" using assms(5) by linarith
  then show ?thesis
    using assms(7) by (intro witness_guard.replay_refused [OF assms(1,6)]) force+
qed

theorem witness_request_not_replayed_witness:
  "\<not> snd (consumeWitnessNonce (hr_Nonce sample_signed) (sample_now + 30 * second)
     (witness_guard.run [(''other'', sample_now + second)]
       (fst (consumeWitnessNonce (hr_Nonce sample_signed) sample_now (new_agent sample_cfg)))))"
proof -
  have wf: "gm_wf (ag_witnessNonces (new_agent sample_cfg))" by (simp add: new_agent_def)
  have v: "VerifyRequest sample_lib sample_now sample_signed ''psk'' ''body'' = Inr ()"
    "VerifyRequest sample_lib (sample_now + 30 * second) sample_signed ''psk'' ''body'' = Inr ()"
    "ParseInt (hr_Timestamp sample_signed) = Some 5"
    using sample_verifies [of 0] sample_verifies [of "30 * second"] sample_ts by (simp_all add: second_def)
  have c: "snd (consumeWitnessNonce (hr_Nonce sample_signed) sample_now (new_agent sample_cfg))"
    by (simp add: consumeWitnessNonce_def consume_nonce_def new_agent_def maxNonces_def)
  show ?thesis
    using c by (intro witness_request_not_replayed [OF wf v])
      (simp_all add: prod_eq_iff second_def MaxClockSkew_def sample_now_def unix_origin_def time_unix_def i64_def)
qed

text \<open>
  C12. The controller accepts a signed agent request once: after it was let through, the same
  request is refused while it still verifies, with any other nonces recorded in between and
  whichever credentials the node has then. What is let through used a credential of the active
  generation, or an older one on the heartbeat route only, and a pending credential on the
  confirmation route only.
\<close>

theorem agent_request_once:
  assumes wf: "gm_wf m"
    and run: "agentAuthMiddleware lib now node creds gen r body m = (m', Inr c)"
    and times: "\<forall>(q, t) \<in> set ops. t \<le> later" and order: "now \<le> later"
  shows "c \<in> set creds \<and> cw_ControllerGeneration c \<le> gen \<and>
    (cw_ControllerGeneration c \<noteq> gen \<longrightarrow> hr_Path r = ''/api/agent/heartbeat'') \<and>
    (cw_Pending c \<longrightarrow> hr_Path r = ''/api/agent/credentials/confirm'') \<and>
    \<not> is_ok (snd (agentAuthMiddleware lib later node creds' gen' r body (store_guard.run lib ops m')))"
proof -
  let ?V = "\<lambda>now c. case cw_PSK c of None \<Rightarrow> False | Some psk \<Rightarrow> is_ok (VerifyRequest lib now r psk body)"
  have find: "find (?V now) creds = Some c"
    using run by (auto simp: agentAuthMiddleware_def split: option.splits if_splits prod.splits sum.splits bool.splits)
  have guards: "cw_ControllerGeneration c \<le> gen"
      "cw_ControllerGeneration c \<noteq> gen \<longrightarrow> hr_Path r = ''/api/agent/heartbeat''"
      "cw_Pending c \<longrightarrow> hr_Path r = ''/api/agent/credentials/confirm''"
    using run find by (auto simp: agentAuthMiddleware_def split: option.splits if_splits prod.splits sum.splits bool.splits)
  obtain psk where "is_ok (VerifyRequest lib now r psk body)"
    using find by (auto simp: find_Some_iff split: option.splits)
  then obtain ts where ts: "ParseInt (hr_Timestamp r) = Some ts"
    by (auto simp: is_ok_iff VerifyRequest_ok)
  define q where "q = \<lparr>nr_NodeID = node, nr_Nonce = hr_Nonce r, nr_SignedAt = time_unix ts,
    nr_ExpiresAt = time_unix ts + 2 * MaxClockSkew\<rparr>"
  have consumed: "store_consume lib q now m = (m', True)"
    using run find ts
    by (auto simp: agentAuthMiddleware_def store_consume_def q_def split: if_splits prod.splits sum.splits bool.splits)
  have "\<not> is_ok (snd (agentAuthMiddleware lib later node creds' gen' r body (store_guard.run lib ops m')))"
  proof
    assume ok: "is_ok (snd (agentAuthMiddleware lib later node creds' gen' r body (store_guard.run lib ops m')))"
    then obtain psk' where "is_ok (VerifyRequest lib later r psk' body)"
      by (auto simp: agentAuthMiddleware_def find_Some_iff split: option.splits)
    then have "later \<le> time_unix ts + MaxClockSkew"
      using ts skew_window by (auto simp: is_ok_iff VerifyRequest_ok)
    then have l: "later < nr_ExpiresAt q"
      by (simp add: q_def MaxClockSkew_def second_def)
    have "\<not> snd (store_consume lib q later (store_guard.run lib ops m'))"
      using times l by (intro store_guard.replay_refused [OF wf consumed]) force+
    with ok ts show False
      by (auto simp: agentAuthMiddleware_def store_consume_def q_def
          split: option.splits if_splits prod.splits sum.splits bool.splits)
  qed
  then show ?thesis using guards find by (auto simp: find_Some_iff)
qed

theorem agent_request_once_witness:
  "is_ok (snd (agentAuthMiddleware sample_lib sample_now 7
      [\<lparr>cw_PSK = Some ''psk'', cw_CredentialVersion = 1, cw_ControllerGeneration = 3, cw_Pending = False\<rparr>]
      3 sample_signed ''body'' [])) \<and>
   \<not> is_ok (snd (agentAuthMiddleware sample_lib (sample_now + second) 7
      [\<lparr>cw_PSK = Some ''psk'', cw_CredentialVersion = 1, cw_ControllerGeneration = 3, cw_Pending = False\<rparr>]
      3 sample_signed ''body''
      (fst (agentAuthMiddleware sample_lib sample_now 7
        [\<lparr>cw_PSK = Some ''psk'', cw_CredentialVersion = 1, cw_ControllerGeneration = 3, cw_Pending = False\<rparr>]
        3 sample_signed ''body'' []))))"
proof -
  let ?cs = "[\<lparr>cw_PSK = Some ''psk'', cw_CredentialVersion = 1, cw_ControllerGeneration = 3, cw_Pending = False\<rparr>]"
  let ?x = "agentAuthMiddleware sample_lib sample_now 7 ?cs 3 sample_signed ''body'' []"
  have "hr_Nonce sample_signed \<noteq> []"
    by (simp add: sample_signed_def SignRequest_def Let_def)
  then have ok: "snd ?x = Inr (hd ?cs)"
    using sample_verifies [of 0]
    by (simp add: agentAuthMiddleware_def ConsumeAgentNonce_def sample_ts Let_def time_unix_def i64_def
        MaxClockSkew_def second_def)
  then have x: "?x = (fst ?x, Inr (hd ?cs))" by (simp add: prod_eq_iff)
  show ?thesis
    using ok agent_request_once [OF gm_wf_Nil x, of "[]" "sample_now + second" ?cs 3]
    by (simp add: second_def)
qed

end
