(* ===== verification/Agent_Transfers.thy ===== *)
theory Agent_Transfers
  imports Agent_State
begin

text \<open>
  One-use transfer capabilities (\<open>agent/runtime_state.go\<close>, \<open>agent/snapshot.go\<close>) and the
  controller backup intents built the same way (\<open>agent/controller_backup.go\<close>).

  A transfer is \<open>prepared\<close> by a command, \<open>consumed\<close> by the first upload that shows the token
  behind its hash, and then \<open>published\<close> or \<open>failed\<close>. \<open>ReceiveSnapshot\<close> composes these steps;
  what the file system and the archive do is its argument \<open>receive_io\<close>.
\<close>

definition transfer_state_valid :: "string \<Rightarrow> bool" where
  "transfer_state_valid s \<longleftrightarrow> s = ''prepared'' \<or> s = ''consumed'' \<or> s = ''failed'' \<or> s = ''published''"

definition destination_kind_valid :: "string \<Rightarrow> bool" where
  "destination_kind_valid k \<longleftrightarrow>
     k = ''archive'' \<or> k = ''hot_standby'' \<or> k = ''restore'' \<or> k = ''conflict_input''"

definition validatePendingTransferState :: "pending_transfer \<Rightarrow> int \<Rightarrow> unit result" where
  "validatePendingTransferState t nodeID =
     (if \<not> validUUID (pt_WorkflowID t) \<or> \<not> validUUID (pt_SnapshotID t) \<or> pt_GlobalUserID t \<le> 0 \<or>
         pt_TargetNodeID t \<le> 0 \<or> (nodeID > 0 \<and> pt_TargetNodeID t \<noteq> nodeID) \<or>
         \<not> validHandle (pt_Handle t) \<or> \<not> destination_kind_valid (pt_DestinationKind t) \<or>
         pt_SourceNodeID t \<le> 0 \<or> pt_ActivityEpoch t \<le> 0 \<or>
         \<not> validCapabilityHash (pt_CapabilityHash t) \<or> pt_ExpiresAt t = time_zero \<or>
         pt_UpdatedAt t = time_zero \<or> \<not> transfer_state_valid (pt_State t) \<or>
         (pt_State t = ''published'' \<and> pt_Receipt t = None) \<or>
         (pt_State t \<noteq> ''published'' \<and> pt_Receipt t \<noteq> None)
      then Inl ''invalid snapshot transfer state''
      else if pt_RelayTaskID t \<noteq> [] \<and> (\<not> validUUID (pt_RelayTaskID t) \<or>
         pt_RelayPrivateKey t = [] \<or> pt_RelayPublicKey t = [])
      then Inl ''invalid relay transfer state''
      else Inr ())"

definition sameTransferScope :: "pending_transfer \<Rightarrow> pending_transfer \<Rightarrow> bool" where
  "sameTransferScope l r \<longleftrightarrow>
     pt_WorkflowID l = pt_WorkflowID r \<and> pt_SnapshotID l = pt_SnapshotID r \<and>
     pt_GlobalUserID l = pt_GlobalUserID r \<and> pt_TargetNodeID l = pt_TargetNodeID r \<and>
     pt_Handle l = pt_Handle r \<and> pt_DestinationKind l = pt_DestinationKind r \<and>
     pt_SourceNodeID l = pt_SourceNodeID r \<and> pt_ActivityEpoch l = pt_ActivityEpoch r"

abbreviation find_transfer :: "string \<Rightarrow> agent \<Rightarrow> pending_transfer option" where
  "find_transfer i a \<equiv> map_of (rs_Transfers (ag_state a)) i"

definition put_transfer :: "save_fault \<Rightarrow> string \<Rightarrow> pending_transfer \<Rightarrow> agent \<Rightarrow> agent \<times> unit result" where
  "put_transfer flt i t a = update_save flt (\<lambda>s. s\<lparr>rs_Transfers := gm_put i t (rs_Transfers s)\<rparr>) a"

section \<open>Preparing\<close>

abbreviation transferExists :: string where
  "transferExists \<equiv> ''snapshot transfer identity already exists''"

definition same_capability :: "pending_transfer \<Rightarrow> pending_transfer \<Rightarrow> bool" where
  "same_capability e t \<longleftrightarrow> pt_WorkflowID e = pt_WorkflowID t \<and> pt_CapabilityHash e = pt_CapabilityHash t"

definition replaceable :: "gotime \<Rightarrow> pending_transfer \<Rightarrow> pending_transfer \<Rightarrow> bool" where
  "replaceable now e t =
     (let same = same_capability e t;
          exactRetry = sameTransferScope e t \<and>
            ((pt_State e = ''failed'' \<and> (\<not> same \<or>
                (pt_RelayTaskID t \<noteq> [] \<and> pt_RelayTaskID e \<noteq> pt_RelayTaskID t))) \<or>
             (pt_State e = ''prepared'' \<and> (\<not> same \<or> pt_RelayTaskID t \<noteq> [])));
          expiredRestore = sameTransferScope e t \<and> pt_DestinationKind e = ''restore'' \<and>
            pt_DestinationKind t = ''restore'' \<and> pt_State e = ''consumed'' \<and> \<not> pt_ExpiresAt e > now;
          preparedRestore = sameTransferScope e t \<and> pt_DestinationKind e = ''restore'' \<and>
            pt_DestinationKind t = ''restore'' \<and> pt_State e = ''prepared'' \<and> \<not> same;
          expiredPrepared = sameTransferScope e t \<and> pt_State e = ''prepared'' \<and> \<not> pt_ExpiresAt e > now
      in exactRetry \<or> expiredPrepared \<or> expiredRestore \<or> preparedRestore)"

datatype prepare_check = AlreadyPrepared | Refused | Proceed

definition prepare_check :: "gotime \<Rightarrow> pending_transfer option \<Rightarrow> pending_transfer \<Rightarrow> prepare_check" where
  "prepare_check now existing t =
     (case existing of
        None \<Rightarrow> Proceed
      | Some e \<Rightarrow>
          if same_capability e t \<and> pt_State e = ''prepared'' \<and> sameTransferScope e t \<and>
             pt_RelayTaskID e = pt_RelayTaskID t \<and> pt_RelayPrivateKey e = pt_RelayPrivateKey t \<and>
             pt_RelayPublicKey e = pt_RelayPublicKey t
          then AlreadyPrepared
          else if same_capability e t \<and> pt_State e = ''prepared'' \<and>
             (pt_RelayTaskID t = [] \<or> \<not> sameTransferScope e t)
          then Refused
          else if \<not> replaceable now e t then Refused
          else Proceed)"

definition prepareTransferLocked ::
    "save_fault \<Rightarrow> gotime \<Rightarrow> pending_transfer \<Rightarrow> agent \<Rightarrow> agent \<times> unit result" where
  "prepareTransferLocked flt now t a =
     (case prepare_check now (find_transfer (pt_SnapshotID t) a) t of
        AlreadyPrepared \<Rightarrow> (a, Inr ())
      | Refused \<Rightarrow> (a, Inl transferExists)
      | Proceed \<Rightarrow> put_transfer flt (pt_SnapshotID t) (t\<lparr>pt_State := ''prepared'', pt_UpdatedAt := now\<rparr>) a)"

text \<open>\<open>keys\<close> is what \<open>GenerateRelayKeyPair\<close> returned: private and public key, or an error.\<close>

definition prepareRelayTransfer ::
    "save_fault \<Rightarrow> gotime \<Rightarrow> (string \<times> string) result \<Rightarrow> pending_transfer \<Rightarrow> string \<Rightarrow> agent \<Rightarrow>
     agent \<times> string result" where
  "prepareRelayTransfer flt now keys t taskID a =
     (if \<not> validUUID taskID then (a, Inl ''invalid relay task identity'')
      else
        let fresh = (case keys of
              Inl e \<Rightarrow> (a, Inl e)
            | Inr (priv, pub) \<Rightarrow>
                (case prepareTransferLocked flt now
                   (t\<lparr>pt_RelayTaskID := taskID, pt_RelayPrivateKey := priv, pt_RelayPublicKey := pub\<rparr>) a of
                   (b, Inl e) \<Rightarrow> (b, Inl e)
                 | (b, Inr _) \<Rightarrow> (b, Inr pub)))
        in case find_transfer (pt_SnapshotID t) a of
             None \<Rightarrow> fresh
           | Some e \<Rightarrow>
               if same_capability e t \<and> pt_State e = ''prepared'' \<and> pt_RelayTaskID e = taskID \<and>
                  pt_RelayPrivateKey e \<noteq> [] \<and> pt_RelayPublicKey e \<noteq> []
               then (a, Inr (pt_RelayPublicKey e)) else fresh)"

section \<open>Consuming, failing, publishing\<close>

definition relayTransfer ::
    "save_fault \<Rightarrow> gotime \<Rightarrow> string \<Rightarrow> string \<Rightarrow> string \<Rightarrow> agent \<Rightarrow> agent \<times> pending_transfer result" where
  "relayTransfer flt now snapshotID workflowID taskID a =
     (case find_transfer snapshotID a of
        None \<Rightarrow> (a, Inl ''relay transfer state unavailable'')
      | Some t \<Rightarrow>
          if pt_WorkflowID t \<noteq> workflowID \<or> pt_RelayTaskID t \<noteq> taskID \<or> pt_RelayPrivateKey t = []
          then (a, Inl ''relay transfer state unavailable'')
          else if pt_State t = ''consumed'' then
            (case put_transfer flt snapshotID (t\<lparr>pt_State := ''failed'', pt_UpdatedAt := now\<rparr>) a of
               (b, Inl e) \<Rightarrow> (b, Inl e)
             | (b, Inr _) \<Rightarrow> (b, Inl ''interrupted relay transfer requires retry''))
          else if pt_State t \<noteq> ''prepared'' then (a, Inl ''relay transfer state unavailable'')
          else (a, Inr t))"

definition capability_matches :: "golib \<Rightarrow> string \<Rightarrow> string \<Rightarrow> bool option" where
  "capability_matches lib hash token =
     (case hex_decode hash of
        None \<Rightarrow> None
      | Some want \<Rightarrow> if length want \<noteq> 32 then None else Some (want = sha256 lib token))"

definition consumeTransfer ::
    "golib \<Rightarrow> save_fault \<Rightarrow> string \<Rightarrow> string \<Rightarrow> string \<Rightarrow> gotime \<Rightarrow> agent \<Rightarrow> agent \<times> pending_transfer result" where
  "consumeTransfer lib flt snapshotID workflowID token now a =
     (case find_transfer snapshotID a of
        None \<Rightarrow> (a, Inl ''transfer capability unavailable'')
      | Some t \<Rightarrow>
          if pt_WorkflowID t \<noteq> workflowID \<or> pt_State t \<noteq> ''prepared'' \<or> \<not> pt_ExpiresAt t > now
          then (a, Inl ''transfer capability unavailable'')
          else
            (case capability_matches lib (pt_CapabilityHash t) token of
               None \<Rightarrow> (a, Inl ''invalid transfer capability state'')
             | Some False \<Rightarrow> (a, Inl ''transfer capability rejected'')
             | Some True \<Rightarrow>
                 let t' = t\<lparr>pt_State := ''consumed'', pt_UpdatedAt := now\<rparr> in
                 (case put_transfer flt snapshotID t' a of
                    (b, Inl e) \<Rightarrow> (b, Inl e)
                  | (b, Inr _) \<Rightarrow> (b, Inr t'))))"

definition finishTransfer ::
    "save_fault \<Rightarrow> gotime \<Rightarrow> string \<Rightarrow> string \<Rightarrow> agent \<Rightarrow> agent \<times> unit result" where
  "finishTransfer flt now snapshotID st a =
     (case find_transfer snapshotID a of
        None \<Rightarrow> (a, Inl ''transfer state not found'')
      | Some t \<Rightarrow> put_transfer flt snapshotID (t\<lparr>pt_State := st, pt_UpdatedAt := now\<rparr>) a)"

definition failTransferIfIncomplete :: "save_fault \<Rightarrow> gotime \<Rightarrow> string \<Rightarrow> agent \<Rightarrow> agent" where
  "failTransferIfIncomplete flt now snapshotID a =
     (case find_transfer snapshotID a of
        None \<Rightarrow> a
      | Some t \<Rightarrow>
          if pt_State t \<noteq> ''prepared'' \<and> pt_State t \<noteq> ''consumed'' then a
          else fst (put_transfer flt snapshotID (t\<lparr>pt_State := ''failed'', pt_UpdatedAt := now\<rparr>) a))"

definition publishTransfer ::
    "save_fault \<Rightarrow> gotime \<Rightarrow> string \<Rightarrow> snapshot_receipt \<Rightarrow> agent \<Rightarrow> agent \<times> unit result" where
  "publishTransfer flt now snapshotID receipt a =
     (case find_transfer snapshotID a of
        None \<Rightarrow> (a, Inl ''transfer state not consumable'')
      | Some t \<Rightarrow>
          if pt_State t \<noteq> ''consumed'' then (a, Inl ''transfer state not consumable'')
          else put_transfer flt snapshotID
            (t\<lparr>pt_State := ''published'', pt_Receipt := Some receipt, pt_UpdatedAt := now\<rparr>) a)"

definition snapshotReceipt :: "string \<Rightarrow> string \<Rightarrow> agent \<Rightarrow> snapshot_receipt option" where
  "snapshotReceipt workflowID snapshotID a =
     (case find_transfer snapshotID a of
        None \<Rightarrow> None
      | Some t \<Rightarrow> if pt_WorkflowID t \<noteq> workflowID \<or> pt_State t \<noteq> ''published'' then None
                  else pt_Receipt t)"

section \<open>Receiving a snapshot\<close>

text \<open>
  What the environment of one \<open>ReceiveSnapshot\<close> does: the operating system, the task
  directory, the archive file, the progress reports, and \<open>extractVerifyAndPublish\<close> before
  (\<open>ri_extracted\<close>) and after (\<open>ri_published\<close>) it calls back for the publication fence.
\<close>

record receive_io =
  ri_linux :: bool
  ri_paths_ok :: bool
  ri_reset_ok :: bool
  ri_open_ok :: bool
  ri_copy_ok :: bool
  ri_sync_ok :: bool
  ri_close_ok :: bool
  ri_verifying_ok :: bool
  ri_extracted :: bool
  ri_publishing_ok :: bool
  ri_published :: "snapshot_receipt result"

abbreviation NodeModeManaged :: string where "NodeModeManaged \<equiv> ''managed''"
abbreviation NodeModeControllerUnreachable :: string where
  "NodeModeControllerUnreachable \<equiv> ''controller-unreachable''"
abbreviation NodeModeIndependent :: string where "NodeModeIndependent \<equiv> ''independent''"
abbreviation NodeModeIndependentDraining :: string where
  "NodeModeIndependentDraining \<equiv> ''independent-draining''"

definition maxSnapshotBytes :: int where "maxSnapshotBytes = 100 * 2 ^ 30"

definition publication_fence :: "receive_io \<Rightarrow> pending_transfer \<Rightarrow> agent \<Rightarrow> bool" where
  "publication_fence io t a \<longleftrightarrow>
     pt_DestinationKind t = ''conflict_input'' \<or>
     (ri_publishing_ok io \<and> cm_Mode (rs_ControlMode (ag_state a)) = NodeModeManaged)"

definition extract_and_publish :: "receive_io \<Rightarrow> pending_transfer \<Rightarrow> agent \<Rightarrow> snapshot_receipt result" where
  "extract_and_publish io t a =
     (if \<not> ri_extracted io then Inl ''snapshot archive rejected''
      else if \<not> publication_fence io t a then Inl ''snapshot publish fencing failed''
      else ri_published io)"

definition upload_accepted :: "golib \<Rightarrow> receive_io \<Rightarrow> string \<Rightarrow> string \<Rightarrow> unit result" where
  "upload_accepted lib io expectedHash body =
     (if \<not> ri_copy_ok io \<or> \<not> ri_sync_ok io \<or> \<not> ri_close_ok io \<or> int (length body) \<le> 0 \<or>
         int (length body) > maxSnapshotBytes
      then Inl ''snapshot upload failed''
      else (case capability_matches lib expectedHash body of
              Some True \<Rightarrow> Inr ()
            | _ \<Rightarrow> Inl ''snapshot archive digest mismatch''))"

definition ReceiveSnapshot ::
    "golib \<Rightarrow> receive_io \<Rightarrow> save_fault \<Rightarrow> save_fault \<Rightarrow> gotime \<Rightarrow>
     string \<Rightarrow> string \<Rightarrow> string \<Rightarrow> string \<Rightarrow> string \<Rightarrow> agent \<Rightarrow> agent \<times> snapshot_receipt result" where
  "ReceiveSnapshot lib io flt1 flt2 now workflowID snapshotID token expectedHash body a =
     (if \<not> ri_linux io then (a, Inl ''snapshot publication is enabled only on Linux'')
      else
        (case consumeTransfer lib flt1 snapshotID workflowID token now a of
           (b, Inl e) \<Rightarrow> (b, Inl e)
         | (b, Inr t) \<Rightarrow>
             let fail = (\<lambda>e. (fst (finishTransfer flt2 now snapshotID ''failed'' b), Inl e)) in
             if \<not> validUUID (pt_WorkflowID t) \<or> \<not> validUUID (pt_SnapshotID t) \<or>
                \<not> validHandle (pt_Handle t) \<or> \<not> destination_kind_valid (pt_DestinationKind t) \<or>
                \<not> ri_paths_ok io
             then fail ''invalid transfer state''
             else if \<not> ri_reset_ok io then fail ''reset task directory''
             else if \<not> ri_open_ok io then (b, Inl ''open archive'')
             else
               (case upload_accepted lib io expectedHash body of
                  Inl e \<Rightarrow> fail e
                | Inr _ \<Rightarrow>
                    if pt_DestinationKind t \<noteq> ''conflict_input'' \<and> \<not> ri_verifying_ok io
                    then fail ''report progress''
                    else
                      (case extract_and_publish io t b of
                         Inl e \<Rightarrow> fail e
                       | Inr receipt \<Rightarrow>
                           (case publishTransfer flt2 now snapshotID receipt b of
                              (c, Inl e) \<Rightarrow> (c, Inl e)
                            | (c, Inr _) \<Rightarrow> (c, Inr receipt))))))"

section \<open>Controller backups\<close>

record backup_request =
  br_OperationID :: string
  br_BackupKind :: string
  br_ControllerGeneration :: int
  br_CapabilityHash :: string
  br_ExpiresAt :: gotime
  br_ExpectedSHA256 :: string

record backup_receipt =
  bk_OK :: bool
  bk_OperationID :: string
  bk_ArchiveSHA256 :: string
  bk_TotalBytes :: int
  bk_PublishedPath :: string

abbreviation find_backup :: "string \<Rightarrow> agent \<Rightarrow> pending_backup option" where
  "find_backup i a \<equiv> map_of (rs_ControllerBackups (ag_state a)) i"

definition put_backup :: "save_fault \<Rightarrow> string \<Rightarrow> pending_backup \<Rightarrow> agent \<Rightarrow> agent \<times> unit result" where
  "put_backup flt i b a =
     update_save flt (\<lambda>s. s\<lparr>rs_ControllerBackups := gm_put i b (rs_ControllerBackups s)\<rparr>) a"

definition prepareControllerBackup ::
    "save_fault \<Rightarrow> gotime \<Rightarrow> backup_request \<Rightarrow> agent \<Rightarrow> agent \<times> unit result" where
  "prepareControllerBackup flt now r a =
     (let arm = put_backup flt (br_OperationID r)
            \<lparr>pb_OperationID = br_OperationID r, pb_BackupKind = br_BackupKind r,
             pb_CapabilityHash = br_CapabilityHash r, pb_ExpiresAt = br_ExpiresAt r,
             pb_ExpectedSHA256 = br_ExpectedSHA256 r, pb_State = ''prepared'', pb_UpdatedAt = now\<rparr> a in
      case find_backup (br_OperationID r) a of
        None \<Rightarrow> arm
      | Some e \<Rightarrow>
          if pb_ExpiresAt e = br_ExpiresAt r \<and> pb_CapabilityHash e = br_CapabilityHash r \<and>
             pb_BackupKind e = br_BackupKind r \<and> pb_ExpectedSHA256 e = br_ExpectedSHA256 r \<and>
             (pb_State e = ''prepared'' \<or> pb_State e = ''published'')
          then (a, Inr ())
          else if pb_State e = ''prepared'' \<and> pb_ExpiresAt e > now
          then (a, Inl ''controller backup intent already exists'')
          else arm)"

definition consumeControllerBackup ::
    "golib \<Rightarrow> save_fault \<Rightarrow> string \<Rightarrow> string \<Rightarrow> gotime \<Rightarrow> agent \<Rightarrow> agent \<times> pending_backup result" where
  "consumeControllerBackup lib flt operationID token now a =
     (case find_backup operationID a of
        None \<Rightarrow> (a, Inl ''controller backup capability unavailable'')
      | Some b \<Rightarrow>
          if pb_State b \<noteq> ''prepared'' \<or> \<not> pb_ExpiresAt b > now
          then (a, Inl ''controller backup capability unavailable'')
          else
            (case capability_matches lib (pb_CapabilityHash b) token of
               None \<Rightarrow> (a, Inl ''invalid controller backup capability state'')
             | Some False \<Rightarrow> (a, Inl ''controller backup capability rejected'')
             | Some True \<Rightarrow>
                 let b' = b\<lparr>pb_State := ''consumed'', pb_UpdatedAt := now\<rparr> in
                 (case put_backup flt operationID b' a of
                    (c, Inl e) \<Rightarrow> (c, Inl e)
                  | (c, Inr _) \<Rightarrow> (c, Inr b'))))"

definition finishControllerBackup ::
    "save_fault \<Rightarrow> gotime \<Rightarrow> string \<Rightarrow> string \<Rightarrow> agent \<Rightarrow> agent \<times> unit result" where
  "finishControllerBackup flt now operationID st a =
     (case find_backup operationID a of
        None \<Rightarrow> (a, Inl ''controller backup intent not found'')
      | Some b \<Rightarrow> put_backup flt operationID (b\<lparr>pb_State := st, pb_UpdatedAt := now\<rparr>) a)"

definition ReceiveControllerBackup ::
    "golib \<Rightarrow> receive_io \<Rightarrow> save_fault \<Rightarrow> save_fault \<Rightarrow> gotime \<Rightarrow>
     string \<Rightarrow> string \<Rightarrow> string \<Rightarrow> string \<Rightarrow> agent \<Rightarrow> agent \<times> backup_receipt result" where
  "ReceiveControllerBackup lib io flt1 flt2 now operationID token expectedSHA256 body a =
     (if \<not> validUUID operationID \<or> \<not> validCapabilityHash expectedSHA256 \<or> cfg_BackupDir (ag_Cfg a) = []
      then (a, Inl ''invalid controller backup receive request'')
      else
        (case consumeControllerBackup lib flt1 operationID token now a of
           (b, Inl e) \<Rightarrow> (b, Inl e)
         | (b, Inr intent) \<Rightarrow>
             let fail = (\<lambda>e. (fst (finishControllerBackup flt2 now operationID ''failed'' b), Inl e));
                 digest = hex_encode (sha256 lib body) in
             if \<not> ri_paths_ok io then fail ''create controller backup target''
             else if \<not> ri_open_ok io then fail ''open archive''
             else if \<not> ri_copy_ok io \<or> \<not> ri_sync_ok io \<or> \<not> ri_close_ok io \<or>
                int (length body) \<le> 0 \<or> int (length body) > maxSnapshotBytes
             then fail ''controller backup upload failed''
             else if capability_matches lib expectedSHA256 body \<noteq> Some True
             then fail ''controller backup digest mismatch''
             else if pb_ExpectedSHA256 intent \<noteq> [] \<and> pb_ExpectedSHA256 intent \<noteq> digest
             then fail ''controller backup expected digest mismatch''
             else
               (case finishControllerBackup flt2 now operationID ''published'' b of
                  (c, Inl e) \<Rightarrow> (c, Inl e)
                | (c, Inr _) \<Rightarrow>
                    (c, Inr \<lparr>bk_OK = True, bk_OperationID = operationID, bk_ArchiveSHA256 = digest,
                        bk_TotalBytes = int (length body),
                        bk_PublishedPath = ''controller-backups/'' @ operationID @ ''/controller_backup.tar.zst''\<rparr>))))"

section \<open>Atomic steps on transfers\<close>

lemma find_put_transfer [simp]:
  "find_transfer j (fst (put_transfer flt i t a)) = (if j = i then Some t else find_transfer j a)"
  by (simp add: put_transfer_def)

lemma put_transfer_snd [simp]:
  "snd (put_transfer flt i t a) = (if flt = NoFault then Inr () else Inl saveError)"
  by (simp add: put_transfer_def)

lemma put_transfer_pair:
  "put_transfer flt i t a = (b, r) \<Longrightarrow>
     find_transfer j b = (if j = i then Some t else find_transfer j a) \<and> (is_ok r \<longleftrightarrow> flt = NoFault)"
  using find_put_transfer [of flt i t a j] put_transfer_snd [of flt i t a] by auto

text \<open>
  The critical sections that change transfers, as one step relation. \<open>use_step\<close> is every
  section but the arming of a capability; \<open>transfer_step\<close> adds the arming.
\<close>

inductive use_step :: "golib \<Rightarrow> agent \<Rightarrow> agent \<Rightarrow> bool" for lib where
  relay: "use_step lib a (fst (relayTransfer flt now i w k a))"
| consume: "use_step lib a (fst (consumeTransfer lib flt i w tok now a))"
| fail: "use_step lib a (fst (finishTransfer flt now i ''failed'' a))"
| incomplete: "use_step lib a (failTransferIfIncomplete flt now i a)"
| publish: "use_step lib a (fst (publishTransfer flt now i rc a))"

definition unarmed :: "string \<Rightarrow> agent \<Rightarrow> bool" where
  "unarmed i a \<longleftrightarrow> (\<exists>t. find_transfer i a = Some t \<and> pt_State t \<noteq> ''prepared'')"

lemma relay_find:
  "find_transfer j (fst (relayTransfer flt now i w k a)) = find_transfer j a \<or>
   (j = i \<and> (\<exists>t. find_transfer i a = Some t \<and> pt_State t = ''consumed'' \<and>
      find_transfer j (fst (relayTransfer flt now i w k a)) =
        Some (t\<lparr>pt_State := ''failed'', pt_UpdatedAt := now\<rparr>)))"
  by (auto simp: relayTransfer_def split: option.splits if_splits prod.splits sum.splits
      dest!: put_transfer_pair)

lemma consume_find:
  "find_transfer j (fst (consumeTransfer lib flt i w tok now a)) = find_transfer j a \<or>
   (j = i \<and> (\<exists>t. find_transfer i a = Some t \<and> pt_State t = ''prepared'' \<and>
      find_transfer j (fst (consumeTransfer lib flt i w tok now a)) =
        Some (t\<lparr>pt_State := ''consumed'', pt_UpdatedAt := now\<rparr>)))"
  by (auto simp: consumeTransfer_def Let_def split: option.splits bool.splits if_splits prod.splits sum.splits
      dest!: put_transfer_pair)

lemma finish_find:
  "find_transfer j (fst (finishTransfer flt now i st a)) =
     (if j = i then map_option (\<lambda>t. t\<lparr>pt_State := st, pt_UpdatedAt := now\<rparr>) (find_transfer i a)
      else find_transfer j a)"
  by (auto simp: finishTransfer_def split: option.splits)

lemma incomplete_find:
  "find_transfer j (failTransferIfIncomplete flt now i a) = find_transfer j a \<or>
   (j = i \<and> (\<exists>t. find_transfer i a = Some t \<and> pt_State t \<in> {''prepared'', ''consumed''} \<and>
      find_transfer j (failTransferIfIncomplete flt now i a) =
        Some (t\<lparr>pt_State := ''failed'', pt_UpdatedAt := now\<rparr>)))"
  by (auto simp: failTransferIfIncomplete_def split: option.splits if_splits)

lemma publish_find:
  "find_transfer j (fst (publishTransfer flt now i rc a)) = find_transfer j a \<or>
   (j = i \<and> (\<exists>t. find_transfer i a = Some t \<and> pt_State t = ''consumed'' \<and>
      find_transfer j (fst (publishTransfer flt now i rc a)) =
        Some (t\<lparr>pt_State := ''published'', pt_Receipt := Some rc, pt_UpdatedAt := now\<rparr>)))"
  by (auto simp: publishTransfer_def split: option.splits if_splits)

lemma use_step_unarmed:
  assumes "use_step lib a b" and "unarmed i a"
  shows "unarmed i b"
  using assms
proof (cases rule: use_step.cases)
  case (relay flt now j w k)
  then show ?thesis using assms(2) relay_find [of flt now j w k a i] by (auto simp: unarmed_def)
next
  case (consume flt j w tok now)
  then show ?thesis using assms(2) consume_find [of lib flt j w tok now a i] by (auto simp: unarmed_def)
next
  case (fail flt now j)
  then show ?thesis using assms(2) by (auto simp: unarmed_def finish_find)
next
  case (incomplete flt now j)
  then show ?thesis using assms(2) incomplete_find [of flt now j a i] by (auto simp: unarmed_def)
next
  case (publish flt now j rc)
  then show ?thesis using assms(2) publish_find [of flt now j rc a i] by (auto simp: unarmed_def)
qed

lemma use_steps_unarmed: "(use_step lib)\<^sup>*\<^sup>* a b \<Longrightarrow> unarmed i a \<Longrightarrow> unarmed i b"
  by (induction rule: rtranclp_induct) (auto intro: use_step_unarmed)

lemma consume_ok:
  "consumeTransfer lib flt i w tok now a = (b, Inr t') \<longleftrightarrow>
     (\<exists>t. find_transfer i a = Some t \<and> pt_WorkflowID t = w \<and> pt_State t = ''prepared'' \<and>
       now < pt_ExpiresAt t \<and> capability_matches lib (pt_CapabilityHash t) tok = Some True \<and>
       flt = NoFault \<and> t' = t\<lparr>pt_State := ''consumed'', pt_UpdatedAt := now\<rparr> \<and>
       b = fst (put_transfer NoFault i t' a))"
  by (auto simp: consumeTransfer_def Let_def put_transfer_def update_save_def saveRuntimeStateLocked_def
      split: option.splits bool.splits if_splits prod.splits sum.splits)

lemma unarmed_not_consumable:
  "unarmed i a \<Longrightarrow> \<not> is_ok (snd (consumeTransfer lib flt i w tok now a))"
  by (auto simp: is_ok_iff unarmed_def consumeTransfer_def split: option.splits)

lemma consumed_unarmed: "consumeTransfer lib flt i w tok now a = (b, r) \<Longrightarrow> is_ok r \<Longrightarrow> unarmed i b"
  by (auto simp: is_ok_iff consume_ok unarmed_def)

section \<open>Well-formed transfers\<close>

definition transfers_ok :: "int \<Rightarrow> (string, pending_transfer) gomap \<Rightarrow> bool" where
  "transfers_ok nodeID m \<longleftrightarrow>
     (\<forall>(i, t) \<in> set m. i = pt_SnapshotID t \<and> is_ok (validatePendingTransferState t nodeID))"

lemma transfers_ok_put:
  "transfers_ok n m \<Longrightarrow> i = pt_SnapshotID t \<Longrightarrow> is_ok (validatePendingTransferState t n) \<Longrightarrow>
   transfers_ok n (gm_put i t m)"
  by (auto simp: transfers_ok_def gm_put_def)

lemma transfers_ok_find:
  "transfers_ok n m \<Longrightarrow> map_of m i = Some t \<Longrightarrow>
   i = pt_SnapshotID t \<and> is_ok (validatePendingTransferState t n)"
  by (auto simp: transfers_ok_def dest!: map_of_SomeD)

lemma validate_transition:
  "is_ok (validatePendingTransferState t n) \<Longrightarrow> pt_State t \<noteq> ''published'' \<Longrightarrow>
   st \<in> {''prepared'', ''consumed'', ''failed''} \<Longrightarrow> now \<noteq> time_zero \<Longrightarrow>
   is_ok (validatePendingTransferState (t\<lparr>pt_State := st, pt_UpdatedAt := now\<rparr>) n)"
  by (auto simp: validatePendingTransferState_def transfer_state_valid_def split: if_splits)

lemma validate_published:
  "is_ok (validatePendingTransferState t n) \<Longrightarrow> now \<noteq> time_zero \<Longrightarrow>
   is_ok (validatePendingTransferState
     (t\<lparr>pt_State := ''published'', pt_Receipt := Some rc, pt_UpdatedAt := now\<rparr>) n)"
  by (auto simp: validatePendingTransferState_def transfer_state_valid_def split: if_splits)

abbreviation agent_transfers_ok :: "agent \<Rightarrow> bool" where
  "agent_transfers_ok a \<equiv> transfers_ok (cfg_NodeID (ag_Cfg a)) (rs_Transfers (ag_state a))"

lemma put_transfer_ok:
  "agent_transfers_ok a \<Longrightarrow> i = pt_SnapshotID t \<Longrightarrow>
   is_ok (validatePendingTransferState t (cfg_NodeID (ag_Cfg a))) \<Longrightarrow>
   agent_transfers_ok (fst (put_transfer flt i t a))"
  by (simp add: put_transfer_def transfers_ok_put)

lemma put_transition_ok:
  "agent_transfers_ok a \<Longrightarrow> find_transfer i a = Some t \<Longrightarrow> pt_State t \<noteq> ''published'' \<Longrightarrow>
   st \<in> {''prepared'', ''consumed'', ''failed''} \<Longrightarrow> now \<noteq> time_zero \<Longrightarrow>
   agent_transfers_ok (fst (put_transfer flt i (t\<lparr>pt_State := st, pt_UpdatedAt := now\<rparr>) a))"
  using transfers_ok_find [of "cfg_NodeID (ag_Cfg a)" "rs_Transfers (ag_state a)" i t]
  by (intro put_transfer_ok) (auto intro: validate_transition)

lemma put_transition_ok':
  "put_transfer flt i (t\<lparr>pt_State := st, pt_UpdatedAt := now\<rparr>) a = (b, r) \<Longrightarrow>
   agent_transfers_ok a \<Longrightarrow> find_transfer i a = Some t \<Longrightarrow> pt_State t \<noteq> ''published'' \<Longrightarrow>
   st \<in> {''prepared'', ''consumed'', ''failed''} \<Longrightarrow> now \<noteq> time_zero \<Longrightarrow> agent_transfers_ok b"
  using put_transition_ok [of a i t st now flt] by simp

lemma relay_transfers_ok:
  "agent_transfers_ok a \<Longrightarrow> now \<noteq> time_zero \<Longrightarrow> agent_transfers_ok (fst (relayTransfer flt now i w k a))"
  by (auto simp: relayTransfer_def split: option.splits if_splits prod.splits sum.splits
      dest!: put_transition_ok')

lemma consume_transfers_ok:
  "agent_transfers_ok a \<Longrightarrow> now \<noteq> time_zero \<Longrightarrow>
   agent_transfers_ok (fst (consumeTransfer lib flt i w tok now a))"
  by (auto simp: consumeTransfer_def Let_def
      split: option.splits bool.splits if_splits prod.splits sum.splits dest!: put_transition_ok')

lemma incomplete_transfers_ok:
  "agent_transfers_ok a \<Longrightarrow> now \<noteq> time_zero \<Longrightarrow>
   agent_transfers_ok (failTransferIfIncomplete flt now i a)"
  by (auto simp: failTransferIfIncomplete_def split: option.splits intro!: put_transition_ok)

lemma publish_transfers_ok:
  assumes "agent_transfers_ok a" and "now \<noteq> time_zero"
  shows "agent_transfers_ok (fst (publishTransfer flt now i rc a))"
  using assms transfers_ok_find [of "cfg_NodeID (ag_Cfg a)" "rs_Transfers (ag_state a)" i]
  by (auto simp: publishTransfer_def split: option.splits intro!: put_transfer_ok validate_published)

lemma prepare_transfers_ok:
  assumes "agent_transfers_ok a"
    and "is_ok (validatePendingTransferState (t\<lparr>pt_State := ''prepared'', pt_UpdatedAt := now\<rparr>)
           (cfg_NodeID (ag_Cfg a)))"
  shows "agent_transfers_ok (fst (prepareTransferLocked flt now t a))"
  using assms by (auto simp: prepareTransferLocked_def split: prepare_check.splits intro!: put_transfer_ok)

section \<open>Outcome of receiving a snapshot\<close>

lemma publish_ok:
  "publishTransfer flt now i rc a = (b, Inr ()) \<longleftrightarrow>
     (\<exists>t. find_transfer i a = Some t \<and> pt_State t = ''consumed'' \<and> flt = NoFault \<and>
       b = fst (put_transfer NoFault i
         (t\<lparr>pt_State := ''published'', pt_Receipt := Some rc, pt_UpdatedAt := now\<rparr>) a))"
  by (auto simp: publishTransfer_def put_transfer_def update_save_def saveRuntimeStateLocked_def
      split: option.splits if_splits)

lemma capability_matches_True:
  "capability_matches lib h tok = Some True \<longleftrightarrow> hex_decode h = Some (sha256 lib tok) \<and> length (sha256 lib tok) = 32"
  by (auto simp: capability_matches_def split: option.splits)

lemma put_transfer_state [simp]:
  "ag_state (fst (put_transfer flt i t a)) = (ag_state a)\<lparr>rs_Transfers := gm_put i t (rs_Transfers (ag_state a))\<rparr>"
  by (simp add: put_transfer_def)

lemma finish_unarmed: "unarmed i a \<Longrightarrow> unarmed i (fst (finishTransfer flt now i ''failed'' a))"
  by (auto simp: unarmed_def finish_find)

lemma consume_error:
  "consumeTransfer lib flt i w tok now a = (b, Inl e) \<Longrightarrow> find_transfer i b = find_transfer i a \<or> unarmed i b"
  using consume_find [of lib flt i w tok now a i] by (auto simp: unarmed_def)

lemma publish_error:
  "publishTransfer flt now i rc a = (b, Inl e) \<Longrightarrow> unarmed i a \<Longrightarrow> unarmed i b"
  using publish_find [of flt now i rc a i] by (auto simp: unarmed_def)

lemma ReceiveSnapshot_error:
  assumes "ReceiveSnapshot lib io f1 f2 now w i tok h body a = (b, Inl e)"
  shows "find_transfer i b = find_transfer i a \<or> unarmed i b"
proof (cases "consumeTransfer lib f1 i w tok now a")
  case (Pair c r)
  show ?thesis
  proof (cases r)
    case (Inl e')
    then show ?thesis
      using assms Pair consume_error [of lib f1 i w tok now a c e']
      by (auto simp: ReceiveSnapshot_def split: if_splits)
  next
    case (Inr t)
    then have c: "unarmed i c" using Pair consumed_unarmed by fastforce
    show ?thesis
      using assms Pair Inr c finish_unarmed [OF c, of f2 now] publish_error [OF _ c]
      by (auto simp: ReceiveSnapshot_def Let_def split: if_splits sum.splits prod.splits)
  qed
qed

lemma ReceiveSnapshot_ok:
  assumes "ReceiveSnapshot lib io f1 f2 now w i tok h body a = (b, Inr rc)"
  shows "\<exists>t. find_transfer i a = Some t \<and> pt_State t = ''prepared'' \<and> pt_WorkflowID t = w \<and>
      now < pt_ExpiresAt t \<and> hex_decode (pt_CapabilityHash t) = Some (sha256 lib tok) \<and>
      hex_decode h = Some (sha256 lib body) \<and> ri_extracted io \<and> ri_published io = Inr rc \<and>
      (pt_DestinationKind t = ''conflict_input'' \<or>
       cm_Mode (rs_ControlMode (ag_state a)) = NodeModeManaged) \<and>
      snapshotReceipt w i b = Some rc"
proof -
  obtain c r where C: "consumeTransfer lib f1 i w tok now a = (c, r)" by (cases "consumeTransfer lib f1 i w tok now a")
  obtain t where r: "r = Inr t"
    using assms C by (cases r) (auto simp: ReceiveSnapshot_def split: if_splits)
  obtain t0 where t0: "find_transfer i a = Some t0" "pt_WorkflowID t0 = w" "pt_State t0 = ''prepared''"
      "now < pt_ExpiresAt t0" "capability_matches lib (pt_CapabilityHash t0) tok = Some True"
      "t = t0\<lparr>pt_State := ''consumed'', pt_UpdatedAt := now\<rparr>" "c = fst (put_transfer NoFault i t a)"
    using C r by (auto simp: consume_ok)
  have up: "upload_accepted lib io h body = Inr ()" "extract_and_publish io t c = Inr rc"
      "publishTransfer f2 now i rc c = (b, Inr ())"
    using assms C r
    by (auto simp: ReceiveSnapshot_def Let_def split: if_splits sum.splits prod.splits)
  have "hex_decode h = Some (sha256 lib body)"
    using up(1) capability_matches_True [of lib h body]
    by (auto simp: upload_accepted_def split: if_splits option.splits bool.splits)
  moreover have "ri_extracted io" "publication_fence io t c" "ri_published io = Inr rc"
    using up(2) by (auto simp: extract_and_publish_def split: if_splits)
  moreover have "snapshotReceipt w i b = Some rc"
    using up(3) t0 by (auto simp: publish_ok snapshotReceipt_def)
  ultimately show ?thesis
    using t0 by (auto simp: publication_fence_def capability_matches_True)
qed

section \<open>Properties\<close>

definition sample_uuid :: string where
  "sample_uuid = ''00000000-0000-0000-0000-000000000001''"

definition sample_transfer :: "string \<Rightarrow> string \<Rightarrow> pending_transfer" where
  "sample_transfer kind token = \<lparr>pt_WorkflowID = sample_uuid, pt_SnapshotID = sample_uuid, pt_GlobalUserID = 7,
     pt_TargetNodeID = 1, pt_Handle = ''alice'', pt_DestinationKind = kind, pt_SourceNodeID = 2,
     pt_ActivityEpoch = 3, pt_CapabilityHash = hex_encode (sha256 sample_lib token), pt_ExpiresAt = 100,
     pt_RelayTaskID = [], pt_RelayPrivateKey = [], pt_RelayPublicKey = [], pt_State = [],
     pt_UpdatedAt = time_zero, pt_Receipt = None\<rparr>"

definition armed_agent :: "string \<Rightarrow> agent" where
  "armed_agent kind = fst (prepareTransferLocked NoFault 10 (sample_transfer kind ''token'') (new_agent sample_cfg))"

definition sample_io :: receive_io where
  "sample_io = \<lparr>ri_linux = True, ri_paths_ok = True, ri_reset_ok = True, ri_open_ok = True, ri_copy_ok = True,
     ri_sync_ok = True, ri_close_ok = True, ri_verifying_ok = True, ri_extracted = True, ri_publishing_ok = True,
     ri_published = Inr \<lparr>sr_OK = True, sr_SnapshotID = sample_uuid, sr_ManifestSHA256 = [], sr_ArchiveSHA256 = [],
       sr_FileCount = 1, sr_TotalBytes = 4, sr_RelayPending = False\<rparr>\<rparr>"

text \<open>
  C5. A transfer capability is good for one upload. Once an upload has consumed it, no upload
  for that snapshot succeeds, whatever token it shows, after any number of other critical
  sections on transfers other than the arming of a new capability.
\<close>

theorem transfer_capability_single_use:
  assumes "consumeTransfer lib flt i w tok now a = (b, r)" and "is_ok r" and "(use_step lib)\<^sup>*\<^sup>* b c"
  shows "\<not> is_ok (snd (consumeTransfer lib flt' i w' tok' now' c))"
  using unarmed_not_consumable use_steps_unarmed [OF assms(3)] consumed_unarmed [OF assms(1,2)] by blast

theorem transfer_capability_single_use_witness:
  "is_ok (snd (consumeTransfer sample_lib NoFault sample_uuid sample_uuid ''token'' 20 (armed_agent ''archive''))) \<and>
   \<not> is_ok (snd (consumeTransfer sample_lib NoFault sample_uuid sample_uuid ''token'' 21
     (fst (finishTransfer NoFault 21 sample_uuid ''failed''
       (fst (consumeTransfer sample_lib NoFault sample_uuid sample_uuid ''token'' 20 (armed_agent ''archive'')))))))"
proof -
  have ok: "is_ok (snd (consumeTransfer sample_lib NoFault sample_uuid sample_uuid ''token'' 20 (armed_agent ''archive'')))"
    by code_simp
  show ?thesis
    using ok transfer_capability_single_use [OF prod.collapse [symmetric] ok
        r_into_rtranclp [of "use_step sample_lib", OF use_step.fail [of sample_lib _ NoFault 21 sample_uuid]]]
    by blast
qed

text \<open>
  Receiving a snapshot. Success means that the capability was armed for this workflow and
  not expired, that the token hashes to it, that the body hashes to the digest announced, that
  the archive was verified and published, that the node was managed (or the upload is an input
  of a conflict resolution), and that the receipt can be read back. An error leaves the
  transfer as it was or no longer armed.
\<close>

lemma ReceiveSnapshot_outcome:
  "(case ReceiveSnapshot lib io f1 f2 now w i tok h body a of
      (b, Inr rc) \<Rightarrow>
        (\<exists>t. find_transfer i a = Some t \<and> pt_State t = ''prepared'' \<and> pt_WorkflowID t = w \<and>
          now < pt_ExpiresAt t \<and> hex_decode (pt_CapabilityHash t) = Some (sha256 lib tok) \<and>
          hex_decode h = Some (sha256 lib body) \<and> ri_extracted io \<and> ri_published io = Inr rc \<and>
          (pt_DestinationKind t = ''conflict_input'' \<or>
           cm_Mode (rs_ControlMode (ag_state a)) = NodeModeManaged) \<and>
          snapshotReceipt w i b = Some rc)
    | (b, Inl e) \<Rightarrow> find_transfer i b = find_transfer i a \<or> unarmed i b)"
  using ReceiveSnapshot_error ReceiveSnapshot_ok by (fastforce split: prod.splits sum.splits)



text \<open>
  C7. A receiver that cannot create its archive file leaves the capability consumed: unlike on
  its other error paths, the transfer is not marked failed, and no new capability for the
  snapshot can be armed (except for restores), however long one waits.
\<close>

theorem receive_open_failure_wedges:
  assumes "consumeTransfer lib NoFault i w tok now a = (b, Inr t)"
    and "ri_linux io" "ri_paths_ok io" "ri_reset_ok io" "\<not> ri_open_ok io"
    and "validUUID (pt_WorkflowID t)" "validUUID (pt_SnapshotID t)" "validHandle (pt_Handle t)"
      "destination_kind_valid (pt_DestinationKind t)" "pt_DestinationKind t \<noteq> ''restore''"
    and "pt_SnapshotID t' = i"
  shows "ReceiveSnapshot lib io NoFault NoFault now w i tok h body a = (b, Inl ''open archive'') \<and>
    prepareTransferLocked flt later t' b = (b, Inl transferExists)"
proof -
  have "find_transfer i b = Some t" "pt_State t = ''consumed''"
    using assms(1) by (auto simp: consume_ok)
  then have "prepareTransferLocked flt later t' b = (b, Inl transferExists)"
    using assms(10,11)
    by (auto simp: prepareTransferLocked_def prepare_check_def replaceable_def Let_def)
  then show ?thesis
    using assms(1-9) by (simp add: ReceiveSnapshot_def Let_def)
qed

theorem receive_open_failure_wedges_witness:
  "snd (prepareTransferLocked NoFault 1000 (sample_transfer ''archive'' ''fresh'')
     (fst (ReceiveSnapshot sample_lib (sample_io\<lparr>ri_open_ok := False\<rparr>) NoFault NoFault 20 sample_uuid sample_uuid
        ''token'' [] ''data'' (armed_agent ''archive'')))) = Inl transferExists"
proof -
  let ?c = "consumeTransfer sample_lib NoFault sample_uuid sample_uuid ''token'' 20 (armed_agent ''archive'')"
  let ?t = "(sample_transfer ''archive'' ''token'')\<lparr>pt_State := ''consumed'', pt_UpdatedAt := 20\<rparr>"
  have "snd ?c = Inr ?t" by code_simp
  then have c: "?c = (fst ?c, Inr ?t)" by (simp add: prod_eq_iff)
  have v: "validUUID sample_uuid" "validHandle ''alice''" "destination_kind_valid ''archive''"
    by code_simp+
  show ?thesis
    using receive_open_failure_wedges [OF c, of "sample_io\<lparr>ri_open_ok := False\<rparr>"
        "sample_transfer ''archive'' ''fresh''" "[]" "''data''" NoFault 1000] v
    by (simp add: sample_io_def sample_transfer_def)
qed

text \<open>
  C8. \<open>finishTransfer\<close> does not look at the state it overwrites. When a restore capability
  expires while its upload is still running, a fresh one may be armed, consumed and published;
  the first receiver, on failing, then marks the published transfer as failed. The state it
  saves is one that the checks at start-up refuse.
\<close>

theorem stale_receiver_corrupts_transfer:
  assumes "consumeTransfer lib NoFault i w tok now a = (b, Inr t)" and "pt_DestinationKind t = ''restore''"
    and "pt_ExpiresAt t \<le> later" and "sameTransferScope t t2" and "pt_SnapshotID t2 = i"
    and "capability_matches lib (pt_CapabilityHash t2) tok2 = Some True" and "now2 < pt_ExpiresAt t2"
  shows "let c = fst (prepareTransferLocked NoFault later t2 b);
             d = fst (consumeTransfer lib NoFault i w tok2 now2 c);
             e = fst (publishTransfer NoFault now2 i rc d);
             f = fst (finishTransfer NoFault now3 i ''failed'' e)
         in snapshotReceipt w i e = Some rc \<and> \<not> transfers_ok n (rs_Transfers (ag_state f)) \<and> synced f"
proof -
  have b: "find_transfer i b = Some t" "pt_State t = ''consumed''" "pt_WorkflowID t = w"
    using assms(1) by (auto simp: consume_ok)
  define t3 where "t3 = t2\<lparr>pt_State := ''prepared'', pt_UpdatedAt := later\<rparr>"
  define t4 where "t4 = t3\<lparr>pt_State := ''consumed'', pt_UpdatedAt := now2\<rparr>"
  define t5 where "t5 = t4\<lparr>pt_State := ''published'', pt_Receipt := Some rc, pt_UpdatedAt := now2\<rparr>"
  define c where "c = fst (prepareTransferLocked NoFault later t2 b)"
  define d where "d = fst (consumeTransfer lib NoFault i w tok2 now2 c)"
  define e where "e = fst (publishTransfer NoFault now2 i rc d)"
  define f where "f = fst (finishTransfer NoFault now3 i ''failed'' e)"
  have w: "pt_WorkflowID t2 = w" "pt_DestinationKind t2 = ''restore''"
    using assms(2,4) b by (auto simp: sameTransferScope_def)
  have c: "c = fst (put_transfer NoFault i t3 b)"
    using b assms w
    by (simp add: c_def prepareTransferLocked_def prepare_check_def replaceable_def Let_def t3_def)
  have "consumeTransfer lib NoFault i w tok2 now2 c = (fst (put_transfer NoFault i t4 c), Inr t4)"
    using assms(6,7) w by (simp add: consume_ok c t3_def t4_def)
  then have d: "find_transfer i d = Some t4" by (simp add: d_def)
  have "publishTransfer NoFault now2 i rc d = (fst (put_transfer NoFault i t5 d), Inr ())"
    using d by (simp add: publish_ok t4_def t5_def)
  then have e: "find_transfer i e = Some t5" by (simp add: e_def)
  let ?t6 = "t5\<lparr>pt_State := ''failed'', pt_UpdatedAt := now3\<rparr>"
  have f: "f = fst (put_transfer NoFault i ?t6 e)"
    by (simp add: f_def finishTransfer_def e)
  have "\<not> is_ok (validatePendingTransferState ?t6 n)"
    by (simp add: validatePendingTransferState_def t5_def)
  moreover have "find_transfer i f = Some ?t6" by (simp add: f)
  ultimately have "\<not> transfers_ok n (rs_Transfers (ag_state f))"
    using transfers_ok_find by blast
  moreover have "synced f" by (simp add: f synced_def put_transfer_def)
  moreover have "snapshotReceipt w i e = Some rc"
    using w by (simp add: snapshotReceipt_def e t5_def t4_def t3_def)
  ultimately show ?thesis
    by (simp add: Let_def c_def [symmetric] d_def [symmetric] e_def [symmetric] f_def [symmetric])
qed

theorem stale_receiver_corrupts_transfer_witness:
  "\<exists>f. synced f \<and> \<not> transfers_ok 1 (rs_Transfers (ag_state f))"
proof -
  let ?c = "consumeTransfer sample_lib NoFault sample_uuid sample_uuid ''token'' 20 (armed_agent ''restore'')"
  let ?t = "(sample_transfer ''restore'' ''token'')\<lparr>pt_State := ''consumed'', pt_UpdatedAt := 20\<rparr>"
  let ?t2 = "(sample_transfer ''restore'' ''fresh'')\<lparr>pt_ExpiresAt := 300\<rparr>"
  have "snd ?c = Inr ?t" by code_simp
  then have c: "?c = (fst ?c, Inr ?t)" by (simp add: prod_eq_iff)
  have m: "capability_matches sample_lib (pt_CapabilityHash ?t2) ''fresh'' = Some True" by code_simp
  show ?thesis
    using stale_receiver_corrupts_transfer [OF c _ _ _ _ m, of 150 160 _ _ 1]
    by (auto simp: sample_transfer_def sameTransferScope_def Let_def)
qed

end
