(* ===== verification/Agent_Ownership.thy ===== *)
theory Agent_Ownership
  imports Protocol Agent_Transfers
begin

text \<open>
  Activity ownership (\<open>agent/activity_ownership.go\<close>): which node last worked for a user,
  kept as a ranked claim on every agent, read from and written to a majority of peers when the
  controller is lost.

  A claim is ranked by controller generation, activity epoch and takeover sequence. Two
  different claims of one rank are a conflict that is never resolved silently. What the peers
  answer is the list of \<open>peer_event\<close>s, in the order in which the answers arrive; \<open>CtxDone\<close>
  is the expiry of the probe's deadline.
\<close>

section \<open>Claims\<close>

definition claim_canonical :: "claim \<Rightarrow> string" where
  "claim_canonical c =
     ''stcontrol-activity-owner:v1'' @ newline @ cl_Handle c @ newline @ dec_int (cl_OwnerNodeID c) @ newline @
     dec_int (cl_ControllerGeneration c) @ newline @ dec_int (cl_ActivityEpoch c) @ newline @
     dec_int (cl_TakeoverSequence c) @ newline @ cl_Kind c @ newline @ cl_ParentClaimID c @ newline @
     cl_OperationID c"

definition activityOwnershipClaimID :: "golib \<Rightarrow> claim \<Rightarrow> string" where
  "activityOwnershipClaimID lib c = hex_encode (sha256 lib (claim_canonical c))"

abbreviation controller_grant :: string where "controller_grant \<equiv> ''controller_grant''"
abbreviation user_confirmed_takeover :: string where "user_confirmed_takeover \<equiv> ''user_confirmed_takeover''"

definition validateActivityOwnershipClaim :: "golib \<Rightarrow> claim \<Rightarrow> unit result" where
  "validateActivityOwnershipClaim lib c =
     (if \<not> safeInventoryString lib (cl_Handle c) 128 \<or> go_ToLower lib (cl_Handle c) \<noteq> cl_Handle c \<or>
         cl_OwnerNodeID c \<le> 0 \<or> cl_ControllerGeneration c \<le> 0 \<or> cl_ActivityEpoch c \<le> 0 \<or>
         cl_TakeoverSequence c < 0 \<or> cl_ObservedAt c \<le> 0 \<or>
         cl_ClaimID c \<noteq> activityOwnershipClaimID lib c
      then Inl ''invalid activity ownership claim''
      else if cl_Kind c = controller_grant then
        if cl_TakeoverSequence c \<noteq> 0 \<or> cl_ParentClaimID c \<noteq> [] \<or> cl_OperationID c \<noteq> []
        then Inl ''invalid controller ownership grant'' else Inr ()
      else if cl_Kind c = user_confirmed_takeover then
        if cl_TakeoverSequence c \<le> 0 \<or> \<not> validOwnershipDigest (cl_ParentClaimID c) \<or>
           \<not> validUUID (cl_OperationID c)
        then Inl ''invalid user-confirmed ownership takeover'' else Inr ()
      else Inl ''invalid activity ownership kind'')"

definition makeActivityOwnershipClaim ::
    "golib \<Rightarrow> string \<Rightarrow> int \<Rightarrow> int \<Rightarrow> int \<Rightarrow> int \<Rightarrow> string \<Rightarrow> string \<Rightarrow> string \<Rightarrow> gotime \<Rightarrow> claim result" where
  "makeActivityOwnershipClaim lib handle owner generation epoch sequence kind parent operation now =
     (let c0 = \<lparr>cl_ClaimID = [], cl_Handle = handle, cl_OwnerNodeID = owner,
            cl_ControllerGeneration = generation, cl_ActivityEpoch = epoch, cl_TakeoverSequence = sequence,
            cl_Kind = kind, cl_ParentClaimID = parent, cl_OperationID = operation,
            cl_ObservedAt = unix_milli now\<rparr>;
          c = c0\<lparr>cl_ClaimID := activityOwnershipClaimID lib c0\<rparr>
      in case validateActivityOwnershipClaim lib c of Inl e \<Rightarrow> Inl e | Inr _ \<Rightarrow> Inr c)"

fun compare_pairs :: "(int \<times> int) list \<Rightarrow> int" where
  "compare_pairs [] = 0"
| "compare_pairs ((l, r) # rest) = (if l < r then -1 else if l > r then 1 else compare_pairs rest)"

definition compareActivityOwnership :: "claim \<Rightarrow> claim \<Rightarrow> int" where
  "compareActivityOwnership l r =
     (let d = compare_pairs
            [(cl_ControllerGeneration l, cl_ControllerGeneration r),
             (cl_ActivityEpoch l, cl_ActivityEpoch r),
             (cl_TakeoverSequence l, cl_TakeoverSequence r)]
      in if d \<noteq> 0 then d
         else if cl_ClaimID l = cl_ClaimID r then 0 else 2)"

section \<open>The local register\<close>

definition currentActivityOwnership :: "string \<Rightarrow> agent \<Rightarrow> claim option" where
  "currentActivityOwnership handle a = map_of (rs_ActivityOwnership (ag_state a)) handle"

definition put_claim :: "claim \<Rightarrow> runtime_state \<Rightarrow> runtime_state" where
  "put_claim c s = s\<lparr>rs_ActivityOwnership := gm_put (cl_Handle c) c (rs_ActivityOwnership s)\<rparr>"

datatype claim_check = Held | Rejected | Admit

definition claim_check :: "claim \<Rightarrow> bool \<Rightarrow> claim option \<Rightarrow> claim_check" where
  "claim_check c requireParent current =
     (case current of
        None \<Rightarrow> if requireParent then Rejected else Admit
      | Some cur \<Rightarrow>
          if cl_ClaimID cur = cl_ClaimID c then Held
          else if requireParent \<and> cl_ClaimID cur \<noteq> cl_ParentClaimID c then Rejected
          else let comparison = compareActivityOwnership c cur in
               if comparison \<le> 0 \<or> comparison = 2 then Rejected else Admit)"

text \<open>The source returns the decision together with the error of the save: both are kept.\<close>

definition applyActivityOwnershipClaim ::
    "golib \<Rightarrow> save_fault \<Rightarrow> claim \<Rightarrow> bool \<Rightarrow> agent \<Rightarrow> agent \<times> bool \<times> unit result" where
  "applyActivityOwnershipClaim lib flt c requireParent a =
     (case validateActivityOwnershipClaim lib c of
        Inl e \<Rightarrow> (a, False, Inl e)
      | Inr _ \<Rightarrow>
          (case claim_check c requireParent (currentActivityOwnership (cl_Handle c) a) of
             Held \<Rightarrow> (a, True, Inr ())
           | Rejected \<Rightarrow> (a, False, Inr ())
           | Admit \<Rightarrow> let (b, r) = update_save flt (put_claim c) a in (b, True, r)))"

section \<open>Peers\<close>

record peer_request =
  pq_ControllerFingerprint :: string
  pq_Handle :: string
  pq_Claim :: "claim option"

record peer_response =
  pr_OK :: bool
  pr_WitnessNodeID :: int
  pr_Found :: bool
  pr_Claim :: "claim option"
  pr_AdapterAvailable :: bool
  pr_Accepted :: bool
  pr_ObservedAt :: int

definition minimumPeerWitnessSecretBytes :: nat where "minimumPeerWitnessSecretBytes = 32"
definition maxOwnershipRequestBytes :: int where "maxOwnershipRequestBytes = 8 * 1024"
definition maxOwnershipTakeovers :: nat where "maxOwnershipTakeovers = 1000"

text \<open>
  \<open>authenticatePeerOwnershipRequest\<close>: \<open>decoded\<close> is the request the JSON decoder read from
  the body (\<open>None\<close> when it is malformed or has trailing data), \<open>fingerprint\<close> the result of
  \<open>controllerFingerprint\<close>. The error is the code of the HTTP answer.
\<close>

definition authenticatePeerOwnershipRequest ::
    "golib \<Rightarrow> gotime \<Rightarrow> http_request \<Rightarrow> string \<Rightarrow> string \<Rightarrow> int \<Rightarrow> string \<Rightarrow> peer_request option \<Rightarrow>
     string result \<Rightarrow> agent \<Rightarrow> agent \<times> (peer_request \<times> int) result" where
  "authenticatePeerOwnershipRequest lib now r rawQuery contentType contentLength body decoded fingerprint a =
     (if length (ag_peerWitnessSecret a) < minimumPeerWitnessSecretBytes \<or> rawQuery \<noteq> [] \<or>
         contentType \<noteq> ''application/json'' \<or> contentLength \<le> 0 \<or> contentLength > maxOwnershipRequestBytes
      then (a, Inl ''invalid_ownership_request'')
      else
        (case ParseInt (hr_AgentID r) of
           None \<Rightarrow> (a, Inl ''ownership_authentication_failed'')
         | Some requester \<Rightarrow>
             if requester \<le> 0 \<or> requester = cfg_NodeID (ag_Cfg a) \<or>
                \<not> is_ok (VerifyRequest lib now r (ag_peerWitnessSecret a) body)
             then (a, Inl ''ownership_authentication_failed'')
             else
               let (b, fresh) = consumeWitnessNonce (hr_Nonce r) now a in
               if \<not> fresh then (b, Inl ''ownership_authentication_failed'')
               else
                 (case (decoded, fingerprint) of
                    (Some q, Inr fp) \<Rightarrow>
                      if pq_ControllerFingerprint q = fp then (b, Inr (q, requester))
                      else (b, Inl ''invalid_ownership_request'')
                  | _ \<Rightarrow> (b, Inl ''invalid_ownership_request''))))"

definition handlePeerOwnershipQuery ::
    "golib \<Rightarrow> gotime \<Rightarrow> bool \<Rightarrow> peer_request \<Rightarrow> agent \<Rightarrow> peer_response result" where
  "handlePeerOwnershipQuery lib now adapterAvailable q a =
     (if pq_Claim q \<noteq> None \<or> \<not> validOwnershipHandle lib (pq_Handle q)
      then Inl ''invalid_ownership_query''
      else
        let found = currentActivityOwnership (pq_Handle q) a in
        Inr \<lparr>pr_OK = True, pr_WitnessNodeID = cfg_NodeID (ag_Cfg a), pr_Found = (found \<noteq> None),
             pr_Claim = found, pr_AdapterAvailable = adapterAvailable, pr_Accepted = False,
             pr_ObservedAt = unix_milli now\<rparr>)"

definition handlePeerOwnershipObserve ::
    "golib \<Rightarrow> gotime \<Rightarrow> save_fault \<Rightarrow> peer_request \<Rightarrow> agent \<Rightarrow> agent \<times> peer_response result" where
  "handlePeerOwnershipObserve lib now flt q a =
     (case pq_Claim q of
        None \<Rightarrow> (a, Inl ''invalid_ownership_observation'')
      | Some c \<Rightarrow>
          if pq_Handle q \<noteq> [] \<or> cl_Handle c = [] \<or> \<not> is_ok (validateActivityOwnershipClaim lib c)
          then (a, Inl ''invalid_ownership_observation'')
          else
            (case applyActivityOwnershipClaim lib flt c (cl_Kind c = user_confirmed_takeover) a of
               (b, _, Inl e) \<Rightarrow> (b, Inl ''ownership_persistence_failed'')
             | (b, accepted, Inr _) \<Rightarrow>
                 let current = currentActivityOwnership (cl_Handle c) b in
                 (b, Inr \<lparr>pr_OK = True, pr_WitnessNodeID = cfg_NodeID (ag_Cfg a), pr_Found = (current \<noteq> None),
                      pr_Claim = current, pr_AdapterAvailable = False, pr_Accepted = accepted,
                      pr_ObservedAt = unix_milli now\<rparr>)))"

text \<open>
  \<open>callOwnershipPeer\<close> on an answer of status 200 within the size limit: \<open>headerTime\<close> and
  \<open>signature\<close> are its headers, \<open>body\<close> its bytes and \<open>decoded\<close> what the decoder read.
\<close>

definition absDuration :: "duration \<Rightarrow> duration" where
  "absDuration d = (if d < 0 then i64 (- d) else d)"

definition time_unix_milli :: "int \<Rightarrow> gotime" where
  "time_unix_milli ms = unix_origin + ms * 1000000"

definition callOwnershipPeer ::
    "golib \<Rightarrow> gotime \<Rightarrow> string \<Rightarrow> string \<Rightarrow> string \<Rightarrow> string \<Rightarrow> string \<Rightarrow> peer_response option \<Rightarrow>
     agent \<Rightarrow> peer_response option" where
  "callOwnershipPeer lib now route nonce headerTime signature body decoded a =
     (case ParseInt headerTime of
        None \<Rightarrow> None
      | Some parsed \<Rightarrow>
          if absDuration (time_sub now (time_unix parsed)) > MaxClockSkew \<or>
             Sign lib (ag_peerWitnessSecret a) ''RESPONSE'' route headerTime nonce body \<noteq> signature
          then None
          else
            (case decoded of
               None \<Rightarrow> None
             | Some r \<Rightarrow>
                 if \<not> pr_OK r \<or> pr_WitnessNodeID r \<le> 0 \<or> pr_WitnessNodeID r = cfg_NodeID (ag_Cfg a) \<or>
                    go_div (pr_ObservedAt r) 1000 \<noteq> parsed \<or>
                    absDuration (time_sub now (time_unix_milli (pr_ObservedAt r))) > MaxClockSkew \<or>
                    (pr_Found r \<and> (case pr_Claim r of None \<Rightarrow> True
                        | Some c \<Rightarrow> \<not> is_ok (validateActivityOwnershipClaim lib c))) \<or>
                    (\<not> pr_Found r \<and> pr_Claim r \<noteq> None)
                 then None else Some r))"

section \<open>The ownership quorum\<close>

record resolve_response =
  rr_OK :: bool
  rr_Decision :: string
  rr_ClaimID :: string
  rr_ReasonCode :: string

definition ownership_unavailable :: "string \<Rightarrow> resolve_response" where
  "ownership_unavailable reason =
     \<lparr>rr_OK = False, rr_Decision = ''unavailable'', rr_ClaimID = [], rr_ReasonCode = reason\<rparr>"

datatype 'r peer_event = CtxDone | Invalid | Valid 'r

fun collect_claims ::
    "nat \<Rightarrow> peer_response peer_event list \<Rightarrow> (int, claim) gomap \<Rightarrow> (int, bool) gomap \<Rightarrow>
     ((int, claim) gomap \<times> (int, bool) gomap) option" where
  "collect_claims 0 evs claims avail = Some (claims, avail)"
| "collect_claims (Suc n) [] claims avail = None"
| "collect_claims (Suc n) (CtxDone # evs) claims avail = None"
| "collect_claims (Suc n) (Invalid # evs) claims avail = collect_claims n evs claims avail"
| "collect_claims (Suc n) (Valid r # evs) claims avail =
     collect_claims n evs
       (case pr_Claim r of
          Some c \<Rightarrow> if pr_Found r then gm_put (pr_WitnessNodeID r) c claims else claims
        | None \<Rightarrow> claims)
       (gm_put (pr_WitnessNodeID r) (pr_AdapterAvailable r) avail)"

fun scan_maximal :: "claim list \<Rightarrow> claim option \<Rightarrow> bool \<Rightarrow> claim option \<times> bool" where
  "scan_maximal [] best conflict = (best, conflict)"
| "scan_maximal (c # cs) None conflict = scan_maximal cs (Some c) conflict"
| "scan_maximal (c # cs) (Some m) conflict =
     (let comparison = compareActivityOwnership c m in
      if comparison = 1 then scan_maximal cs (Some c) False
      else if comparison = 2 then scan_maximal cs (Some m) True
      else scan_maximal cs (Some m) conflict)"

abbreviation peer_urls :: "agent \<Rightarrow> string list" where
  "peer_urls a \<equiv> dp_PeerWitnessURLs (cfg_Disaster (ag_Cfg a))"

abbreviation self_id :: "agent \<Rightarrow> int" where "self_id a \<equiv> cfg_NodeID (ag_Cfg a)"

definition required_nodes :: "nat \<Rightarrow> nat" where
  "required_nodes urls = (urls + 1) div 2 + 1"

definition decide_ownership ::
    "golib \<Rightarrow> save_fault \<Rightarrow> (int, claim) gomap \<Rightarrow> (int, bool) gomap \<Rightarrow> agent \<Rightarrow> agent \<times> resolve_response" where
  "decide_ownership lib flt claims avail a =
     (case scan_maximal (map snd claims) None False of
        (None, _) \<Rightarrow> (a, ownership_unavailable ''ownership_fact_conflict'')
      | (Some m, True) \<Rightarrow> (a, ownership_unavailable ''ownership_fact_conflict'')
      | (Some m, False) \<Rightarrow>
          (case applyActivityOwnershipClaim lib flt m False a of
             (b, False, _) \<Rightarrow> (b, ownership_unavailable ''ownership_fact_conflict'')
           | (b, True, _) \<Rightarrow>
               let matching = remdups (self_id a # map fst (filter (\<lambda>p. cl_ClaimID (snd p) = cl_ClaimID m) claims)) in
               if length matching < required_nodes (length (peer_urls a))
               then (b, ownership_unavailable ''ownership_quorum_unavailable'')
               else if cl_OwnerNodeID m = self_id a
               then (b, \<lparr>rr_OK = True, rr_Decision = ''automatic'', rr_ClaimID = cl_ClaimID m,
                         rr_ReasonCode = ''last_active_owner''\<rparr>)
               else if map_of avail (cl_OwnerNodeID m) = Some True
               then (b, \<lparr>rr_OK = True, rr_Decision = ''owner_available'', rr_ClaimID = cl_ClaimID m,
                         rr_ReasonCode = ''last_active_owner_available''\<rparr>)
               else (b, \<lparr>rr_OK = True, rr_Decision = ''takeover_required'', rr_ClaimID = cl_ClaimID m,
                         rr_ReasonCode = ''last_active_owner_unavailable''\<rparr>)))"

definition queryOwnershipQuorum ::
    "golib \<Rightarrow> save_fault \<Rightarrow> unit result \<Rightarrow> peer_response peer_event list \<Rightarrow> string \<Rightarrow> agent \<Rightarrow>
     agent \<times> resolve_response" where
  "queryOwnershipQuorum lib flt fingerprint evs handle a =
     (if \<not> validOwnershipHandle lib handle \<or> peer_urls a = [] \<or>
         length (ag_peerWitnessSecret a) < minimumPeerWitnessSecretBytes \<or> \<not> is_ok fingerprint
      then (a, ownership_unavailable ''ownership_quorum_unavailable'')
      else
        let (claims, avail) = (case currentActivityOwnership handle a of
              None \<Rightarrow> ([], []) | Some c \<Rightarrow> ([(self_id a, c)], [(self_id a, True)]))
        in case collect_claims (length (peer_urls a)) evs claims avail of
             None \<Rightarrow> (a, ownership_unavailable ''ownership_quorum_unavailable'')
           | Some (claims', avail') \<Rightarrow> decide_ownership lib flt claims' avail' a)"

text \<open>The number of nodes known to hold the claim, and whether the probe ran into its deadline.\<close>

fun collect_acks :: "claim \<Rightarrow> nat \<Rightarrow> peer_response peer_event list \<Rightarrow> int list \<Rightarrow> int list \<times> bool" where
  "collect_acks c 0 evs nodes = (nodes, True)"
| "collect_acks c (Suc n) [] nodes = (nodes, False)"
| "collect_acks c (Suc n) (CtxDone # evs) nodes = (nodes, False)"
| "collect_acks c (Suc n) (Invalid # evs) nodes = collect_acks c n evs nodes"
| "collect_acks c (Suc n) (Valid r # evs) nodes =
     collect_acks c n evs
       (if pr_Found r \<and> (case pr_Claim r of None \<Rightarrow> False | Some d \<Rightarrow> cl_ClaimID d = cl_ClaimID c) \<and> pr_Accepted r
        then List.insert (pr_WitnessNodeID r) nodes else nodes)"

definition broadcastOwnershipClaim ::
    "unit result \<Rightarrow> peer_response peer_event list \<Rightarrow> claim \<Rightarrow> agent \<Rightarrow> nat \<times> unit result" where
  "broadcastOwnershipClaim fingerprint evs c a =
     (if peer_urls a = [] \<or> length (ag_peerWitnessSecret a) < minimumPeerWitnessSecretBytes then (1, Inr ())
      else
        (case fingerprint of
           Inl e \<Rightarrow> (1, Inl e)
         | Inr _ \<Rightarrow>
             let (nodes, complete) = collect_acks c (length (peer_urls a)) evs [self_id a] in
             (length nodes, if complete then Inr () else Inl ''context deadline exceeded'')))"

definition recordControllerOwnershipGrant ::
    "golib \<Rightarrow> save_fault \<Rightarrow> gotime \<Rightarrow> string \<Rightarrow> int \<Rightarrow> int \<Rightarrow> agent \<Rightarrow> agent \<times> unit result" where
  "recordControllerOwnershipGrant lib flt now handle generation epoch a =
     (case makeActivityOwnershipClaim lib (go_ToLower lib handle) (self_id a) generation epoch 0
             controller_grant [] [] now of
        Inl e \<Rightarrow> (a, Inl e)
      | Inr c \<Rightarrow>
          (case applyActivityOwnershipClaim lib flt c False a of
             (b, _, Inl e) \<Rightarrow> (b, Inl e)
           | (b, _, Inr _) \<Rightarrow> (b, Inr ())))"

section \<open>User confirmed takeover\<close>

record takeover_request =
  tq_Handle :: string
  tq_ParentClaimID :: string
  tq_OperationID :: string

abbreviation find_takeover :: "string \<Rightarrow> agent \<Rightarrow> takeover_op option" where
  "find_takeover i a \<equiv> map_of (rs_OwnershipTakeovers (ag_state a)) i"

definition put_takeover :: "save_fault \<Rightarrow> string \<Rightarrow> takeover_op \<Rightarrow> agent \<Rightarrow> agent \<times> unit result" where
  "put_takeover flt i op a =
     update_save flt (\<lambda>s. s\<lparr>rs_OwnershipTakeovers := gm_put i op (rs_OwnershipTakeovers s)\<rparr>) a"

text \<open>
  One run of the takeover: the fault of each of its five saves, the answers of its two rounds,
  whether the audit line was written, and the time.
\<close>

record takeover_env =
  te_now :: gotime
  te_fingerprint :: "unit result"
  te_query :: "peer_response peer_event list"
  te_broadcast :: "peer_response peer_event list"
  te_audit :: "unit result"
  te_fault_query :: save_fault
  te_fault_claim :: save_fault
  te_fault_journal :: save_fault
  te_fault_commit :: save_fault
  te_fault_audit :: save_fault

definition ensureOwnershipTakeoverAudit :: "takeover_env \<Rightarrow> takeover_op \<Rightarrow> agent \<Rightarrow> agent \<times> unit result" where
  "ensureOwnershipTakeoverAudit env op a =
     (if to_Audited op then (a, Inr ())
      else
        (case te_audit env of
           Inl e \<Rightarrow> (a, Inl ''persist activity takeover audit'')
         | Inr _ \<Rightarrow>
             (case find_takeover (to_OperationID op) a of
                None \<Rightarrow> (a, Inl ''activity takeover audit state changed'')
              | Some cur \<Rightarrow>
                  if cl_ClaimID (to_Claim cur) \<noteq> cl_ClaimID (to_Claim op) \<or> \<not> to_Succeeded cur
                  then (a, Inl ''activity takeover audit state changed'')
                  else put_takeover (te_fault_audit env) (to_OperationID op)
                    (cur\<lparr>to_Audited := True, to_UpdatedAt := unix_milli (te_now env)\<rparr>) a)))"

definition begin_takeover ::
    "golib \<Rightarrow> takeover_env \<Rightarrow> takeover_request \<Rightarrow> agent \<Rightarrow> agent \<times> takeover_op result" where
  "begin_takeover lib env q a =
     (let (b, decision) = queryOwnershipQuorum lib (te_fault_query env) (te_fingerprint env) (te_query env) (tq_Handle q) a in
      if \<not> rr_OK decision \<or> rr_Decision decision \<noteq> ''takeover_required'' \<or> rr_ClaimID decision \<noteq> tq_ParentClaimID q
      then (b, Inl ''ownership takeover precondition changed'')
      else
        (case currentActivityOwnership (tq_Handle q) b of
           None \<Rightarrow> (b, Inl ''ownership takeover parent unavailable'')
         | Some parent \<Rightarrow>
             if cl_ClaimID parent \<noteq> tq_ParentClaimID q then (b, Inl ''ownership takeover parent unavailable'')
             else
               (case makeActivityOwnershipClaim lib (tq_Handle q) (self_id b) (cl_ControllerGeneration parent)
                       (cl_ActivityEpoch parent) (i64 (cl_TakeoverSequence parent + 1)) user_confirmed_takeover
                       (cl_ClaimID parent) (tq_OperationID q) (te_now env) of
                  Inl e \<Rightarrow> (b, Inl e)
                | Inr c \<Rightarrow>
                    (case applyActivityOwnershipClaim lib (te_fault_claim env) c True b of
                       (d, True, Inr _) \<Rightarrow>
                         let op = \<lparr>to_OperationID = tq_OperationID q, to_ParentClaimID = cl_ClaimID parent,
                                   to_Claim = c, to_Succeeded = False, to_Audited = False,
                                   to_UpdatedAt = unix_milli (te_now env)\<rparr> in
                         if length (rs_OwnershipTakeovers (ag_state d)) \<ge> maxOwnershipTakeovers
                         then (d, Inl ''ownership takeover journal full'')
                         else (case put_takeover (te_fault_journal env) (tq_OperationID q) op d of
                                 (e, Inl err) \<Rightarrow> (e, Inl err)
                               | (e, Inr _) \<Rightarrow> (e, Inr op))
                     | (d, _, _) \<Rightarrow> (d, Inl ''ownership takeover local CAS failed'')))))"

definition takeover_committed :: "takeover_op \<Rightarrow> resolve_response" where
  "takeover_committed op = \<lparr>rr_OK = True, rr_Decision = ''takeover_committed'',
     rr_ClaimID = cl_ClaimID (to_Claim op), rr_ReasonCode = ''user_confirmed_last_owner_failure''\<rparr>"

definition audit_and_answer :: "takeover_env \<Rightarrow> takeover_op \<Rightarrow> agent \<Rightarrow> agent \<times> resolve_response result" where
  "audit_and_answer env op a =
     (case ensureOwnershipTakeoverAudit env op a of
        (b, Inl e) \<Rightarrow> (b, Inl e)
      | (b, Inr _) \<Rightarrow> (b, Inr (takeover_committed op)))"

definition zero_takeover_op :: takeover_op where
  "zero_takeover_op = \<lparr>to_OperationID = [], to_ParentClaimID = [],
     to_Claim = \<lparr>cl_ClaimID = [], cl_Handle = [], cl_OwnerNodeID = 0, cl_ControllerGeneration = 0,
       cl_ActivityEpoch = 0, cl_TakeoverSequence = 0, cl_Kind = [], cl_ParentClaimID = [],
       cl_OperationID = [], cl_ObservedAt = 0\<rparr>,
     to_Succeeded = False, to_Audited = False, to_UpdatedAt = 0\<rparr>"

definition commit_takeover ::
    "takeover_env \<Rightarrow> takeover_request \<Rightarrow> takeover_op \<Rightarrow> agent \<Rightarrow> agent \<times> resolve_response result" where
  "commit_takeover env q op a =
     (if to_Succeeded op then audit_and_answer env op a
      else
        let (acknowledged, _) = broadcastOwnershipClaim (te_fingerprint env) (te_broadcast env) (to_Claim op) a in
        if acknowledged < required_nodes (length (peer_urls a))
        then (a, Inl ''ownership takeover quorum unavailable'')
        else
          let cur = (case find_takeover (tq_OperationID q) a of None \<Rightarrow> zero_takeover_op | Some o1 \<Rightarrow> o1);
              cur' = cur\<lparr>to_Succeeded := True, to_UpdatedAt := unix_milli (te_now env)\<rparr> in
          (case put_takeover (te_fault_commit env) (tq_OperationID q) cur' a of
             (b, Inl e) \<Rightarrow> (b, Inl e)
           | (b, Inr _) \<Rightarrow> audit_and_answer env cur' b))"

definition performUserConfirmedTakeover ::
    "golib \<Rightarrow> takeover_env \<Rightarrow> takeover_request \<Rightarrow> agent \<Rightarrow> agent \<times> resolve_response result" where
  "performUserConfirmedTakeover lib env q a =
     (case find_takeover (tq_OperationID q) a of
        Some op \<Rightarrow>
          if cl_Handle (to_Claim op) \<noteq> tq_Handle q \<or> to_ParentClaimID op \<noteq> tq_ParentClaimID q
          then (a, Inl ''ownership takeover operation conflict'')
          else commit_takeover env q op a
      | None \<Rightarrow>
          (case begin_takeover lib env q a of
             (b, Inl e) \<Rightarrow> (b, Inl e)
           | (b, Inr op) \<Rightarrow> commit_takeover env q op b))"

definition handleAdapterOwnershipTakeover ::
    "golib \<Rightarrow> takeover_env \<Rightarrow> takeover_request \<Rightarrow> agent \<Rightarrow> agent \<times> resolve_response result" where
  "handleAdapterOwnershipTakeover lib env q a =
     (if \<not> validOwnershipHandle lib (tq_Handle q) \<or> \<not> validOwnershipDigest (tq_ParentClaimID q) \<or>
         \<not> validUUID (tq_OperationID q)
      then (a, Inl ''invalid_adapter_ownership_request'')
      else if cm_Mode (rs_ControlMode (ag_state a)) \<noteq> NodeModeIndependent
      then (a, Inl ''independent_mode_required'')
      else
        (case performUserConfirmedTakeover lib env q a of
           (b, Inl e) \<Rightarrow> (b, Inl ''ownership_takeover_not_committed'')
         | (b, Inr r) \<Rightarrow> (b, Inr r)))"

definition handleAdapterOwnershipResolve ::
    "golib \<Rightarrow> save_fault \<Rightarrow> unit result \<Rightarrow> peer_response peer_event list \<Rightarrow> string \<Rightarrow> agent \<Rightarrow>
     agent \<times> resolve_response result" where
  "handleAdapterOwnershipResolve lib flt fingerprint evs handle a =
     (if \<not> validOwnershipHandle lib handle then (a, Inl ''invalid_adapter_ownership_request'')
      else if cm_Mode (rs_ControlMode (ag_state a)) \<noteq> NodeModeIndependent
      then (a, Inr (ownership_unavailable ''independent_mode_required''))
      else let (b, r) = queryOwnershipQuorum lib flt fingerprint evs handle a in (b, Inr r))"

end
