(* ===== verification/Ownership_Quorum.thy ===== *)
theory Ownership_Quorum
  imports Agent_Ownership "HOL-Library.Product_Lexorder"
begin

text \<open>
  What activity ownership guarantees: the register of one agent only moves to higher ranks;
  the scan over the answers of the peers does not depend on their order; a claim id stands for
  one set of facts; two majorities of a cluster never hold different owners of one rank; and a
  takeover that is reported as committed has such a majority behind it.
\<close>

section \<open>Ranks\<close>

definition rank :: "claim \<Rightarrow> int \<times> int \<times> int" where
  "rank c = (cl_ControllerGeneration c, cl_ActivityEpoch c, cl_TakeoverSequence c)"

lemma compareActivityOwnership_rank:
  "compareActivityOwnership l r =
     (if rank l < rank r then -1 else if rank r < rank l then 1
      else if cl_ClaimID l = cl_ClaimID r then 0 else 2)"
  by (auto simp: compareActivityOwnership_def rank_def Let_def less_prod_def)

lemma compare_values:
  "rank r < rank l \<Longrightarrow> compareActivityOwnership l r = 1"
  "rank l < rank r \<Longrightarrow> compareActivityOwnership l r = -1"
  "rank l = rank r \<Longrightarrow> cl_ClaimID l = cl_ClaimID r \<Longrightarrow> compareActivityOwnership l r = 0"
  "rank l = rank r \<Longrightarrow> cl_ClaimID l \<noteq> cl_ClaimID r \<Longrightarrow> compareActivityOwnership l r = 2"
  using less_not_sym [of "rank r" "rank l"] by (simp_all add: compareActivityOwnership_rank)

lemma claim_check_Admit:
  "claim_check c rp cur = Admit \<longleftrightarrow>
     (case cur of None \<Rightarrow> \<not> rp
      | Some d \<Rightarrow> cl_ClaimID d \<noteq> cl_ClaimID c \<and> rank d < rank c \<and> (rp \<longrightarrow> cl_ClaimID d = cl_ParentClaimID c))"
  by (auto simp: claim_check_def compareActivityOwnership_rank Let_def split: option.splits)

lemma claim_check_Held:
  "claim_check c rp cur = Held \<longleftrightarrow> (\<exists>d. cur = Some d \<and> cl_ClaimID d = cl_ClaimID c)"
  by (auto simp: claim_check_def Let_def split: option.splits)

lemma current_put_claim:
  "map_of (rs_ActivityOwnership (put_claim c s)) h =
     (if h = cl_Handle c then Some c else map_of (rs_ActivityOwnership s) h)"
  by (simp add: put_claim_def)

lemma apply_cases:
  assumes "applyActivityOwnershipClaim lib flt c rp a = (b, ok, r)"
  shows "(ok \<and> is_ok (validateActivityOwnershipClaim lib c) \<and> b = a \<and> r = Inr () \<and>
           (\<exists>d. currentActivityOwnership (cl_Handle c) a = Some d \<and> cl_ClaimID d = cl_ClaimID c)) \<or>
         (\<not> ok \<and> b = a) \<or>
         (ok \<and> is_ok (validateActivityOwnershipClaim lib c) \<and> (b, r) = update_save flt (put_claim c) a \<and>
           (case currentActivityOwnership (cl_Handle c) a of None \<Rightarrow> \<not> rp
            | Some d \<Rightarrow> rank d < rank c \<and> (rp \<longrightarrow> cl_ClaimID d = cl_ParentClaimID c)))"
  using assms
  by (auto simp: applyActivityOwnershipClaim_def claim_check_Held claim_check_Admit is_ok_iff
      split: sum.splits claim_check.splits prod.splits option.splits)

lemma apply_current:
  assumes "applyActivityOwnershipClaim lib flt c rp a = (b, ok, r)"
  shows "currentActivityOwnership h b =
     (if ok \<and> h = cl_Handle c \<and> (\<forall>d. currentActivityOwnership h a = Some d \<longrightarrow> cl_ClaimID d \<noteq> cl_ClaimID c)
      then Some c else currentActivityOwnership h a)"
proof -
  consider (held) "b = a" "ok" "\<exists>d. currentActivityOwnership (cl_Handle c) a = Some d \<and> cl_ClaimID d = cl_ClaimID c"
    | (refused) "\<not> ok" "b = a"
    | (admitted) "ok" "(b, r) = update_save flt (put_claim c) a"
        "\<forall>d. currentActivityOwnership (cl_Handle c) a = Some d \<longrightarrow> cl_ClaimID d \<noteq> cl_ClaimID c"
    using assms
    by (auto simp: applyActivityOwnershipClaim_def claim_check_Held claim_check_Admit
        split: sum.splits claim_check.splits prod.splits option.splits)
  then show ?thesis
  proof cases
    case admitted
    then have "ag_state b = put_claim c (ag_state a)"
      using update_save_sel(1) [of flt "put_claim c" a] by (metis fst_conv)
    with admitted show ?thesis by (auto simp: currentActivityOwnership_def current_put_claim)
  qed auto
qed

text \<open>The register of a handle only moves to claims of a higher rank.\<close>

lemma apply_rank_mono:
  assumes "applyActivityOwnershipClaim lib flt c rp a = (b, ok, r)"
    and "currentActivityOwnership h a = Some d"
  shows "\<exists>d'. currentActivityOwnership h b = Some d' \<and> (d' = d \<or> rank d < rank d')"
  using apply_cases [OF assms(1)] apply_current [OF assms(1), of h] assms(2)
  by (auto split: option.splits)

lemma apply_accepted:
  assumes "applyActivityOwnershipClaim lib flt c rp a = (b, True, r)"
  shows "\<exists>d. currentActivityOwnership (cl_Handle c) b = Some d \<and> cl_ClaimID d = cl_ClaimID c"
  using apply_current [OF assms, of "cl_Handle c"] by (auto split: if_splits)

section \<open>The maximal claim\<close>

definition topmost :: "claim set \<Rightarrow> claim \<Rightarrow> bool \<Rightarrow> bool" where
  "topmost S m conflict \<longleftrightarrow> m \<in> S \<and> (\<forall>c \<in> S. rank c \<le> rank m) \<and>
     (conflict \<longleftrightarrow> (\<exists>c \<in> S. rank c = rank m \<and> cl_ClaimID c \<noteq> cl_ClaimID m))"

lemma topmost_above:
  assumes "topmost S m conf" and "rank m < rank c"
  shows "topmost (insert c S) c False"
proof -
  have "rank d < rank c" if "d \<in> S" for d
    using assms that by (meson le_less_trans topmost_def)
  then show ?thesis by (auto simp: topmost_def less_le)
qed

lemma topmost_below:
  assumes "topmost S m conf" and "rank c < rank m \<or> rank c = rank m \<and> cl_ClaimID c = cl_ClaimID m"
  shows "topmost (insert c S) m conf"
proof -
  have "rank c \<le> rank m" "\<not> (rank c = rank m \<and> cl_ClaimID c \<noteq> cl_ClaimID m)"
    using assms(2) by (auto simp: less_le)
  then show ?thesis using assms(1) unfolding topmost_def by blast
qed

lemma topmost_clash:
  assumes "topmost S m conf" and "rank c = rank m" and "cl_ClaimID c \<noteq> cl_ClaimID m"
  shows "topmost (insert c S) m True"
  using assms unfolding topmost_def by (metis insert_iff order_refl)

lemma scan_maximal_from:
  "topmost S m conf \<Longrightarrow> scan_maximal cs (Some m) conf = (best, conf') \<Longrightarrow>
   \<exists>m'. best = Some m' \<and> topmost (S \<union> set cs) m' conf'"
proof (induction cs arbitrary: S m conf)
  case Nil
  then show ?case by auto
next
  case (Cons c cs)
  consider (up) "rank m < rank c"
    | (down) "rank c < rank m \<or> rank c = rank m \<and> cl_ClaimID c = cl_ClaimID m"
    | (clash) "rank c = rank m" "cl_ClaimID c \<noteq> cl_ClaimID m"
    using less_linear [of "rank m" "rank c"] by metis
  then show ?case
  proof cases
    case up
    then have "scan_maximal cs (Some c) False = (best, conf')"
      using Cons.prems(2) by (simp add: compare_values)
    from Cons.IH [OF topmost_above [OF Cons.prems(1) up] this] show ?thesis by simp
  next
    case down
    then have "scan_maximal cs (Some m) conf = (best, conf')"
      using Cons.prems(2) compare_values(2,3) [of c m] by auto
    from Cons.IH [OF topmost_below [OF Cons.prems(1) down] this] show ?thesis by simp
  next
    case clash
    then have "scan_maximal cs (Some m) True = (best, conf')"
      using Cons.prems(2) by (simp add: compare_values)
    from Cons.IH [OF topmost_clash [OF Cons.prems(1) clash] this] show ?thesis by simp
  qed
qed

lemma scan_maximal_spec:
  assumes "scan_maximal cs None False = (best, conf)"
  shows "if cs = [] then best = None \<and> \<not> conf else \<exists>m. best = Some m \<and> topmost (set cs) m conf"
proof (cases cs)
  case Nil
  then show ?thesis using assms by simp
next
  case (Cons c rest)
  have "topmost {c} c False" by (simp add: topmost_def)
  moreover have "scan_maximal rest (Some c) False = (best, conf)" using assms Cons by simp
  ultimately show ?thesis using scan_maximal_from [of "{c}" c False rest best conf] Cons by simp
qed

section \<open>Claim identities\<close>

lemma safe_no_newline: "safeInventoryString lib h n \<Longrightarrow> CHR 0x0A \<notin> set h"
  by (auto simp: safeInventoryString_def list_all_iff safe_byte_def)

lemma uuid_no_newline: "validUUID u \<Longrightarrow> CHR 0x0A \<notin> set u"
  using newline_not_hex [of "filter (\<lambda>c. c \<noteq> CHR ''-'') u"]
  by (auto simp: validUUID_def split: option.splits)

lemma digest_no_newline: "validOwnershipDigest d \<Longrightarrow> CHR 0x0A \<notin> set d"
  using newline_not_hex [of d] by (auto simp: validOwnershipDigest_def split: option.splits)

lemma valid_claim:
  assumes "is_ok (validateActivityOwnershipClaim lib c)"
  shows "cl_ClaimID c = activityOwnershipClaimID lib c"
    and "CHR 0x0A \<notin> set (cl_Handle c)" and "CHR 0x0A \<notin> set (cl_Kind c)"
    and "CHR 0x0A \<notin> set (cl_ParentClaimID c)" and "CHR 0x0A \<notin> set (cl_OperationID c)"
  using assms
  by (auto simp: validateActivityOwnershipClaim_def split: if_splits
      dest: safe_no_newline uuid_no_newline digest_no_newline)

definition same_facts :: "claim \<Rightarrow> claim \<Rightarrow> bool" where
  "same_facts c d \<longleftrightarrow> cl_Handle c = cl_Handle d \<and> cl_OwnerNodeID c = cl_OwnerNodeID d \<and> rank c = rank d \<and>
     cl_Kind c = cl_Kind d \<and> cl_ParentClaimID c = cl_ParentClaimID d \<and> cl_OperationID c = cl_OperationID d"

lemma claim_canonical_inj:
  assumes "is_ok (validateActivityOwnershipClaim lib c)" and "is_ok (validateActivityOwnershipClaim lib d)"
    and "claim_canonical c = claim_canonical d"
  shows "same_facts c d"
proof -
  note n = valid_claim(2-5) [OF assms(1)] valid_claim(2-5) [OF assms(2)] newline_not_dec_int
  have "cl_Handle c @ newline @ dec_int (cl_OwnerNodeID c) @ newline @
     dec_int (cl_ControllerGeneration c) @ newline @ dec_int (cl_ActivityEpoch c) @ newline @
     dec_int (cl_TakeoverSequence c) @ newline @ cl_Kind c @ newline @ cl_ParentClaimID c @ newline @ cl_OperationID c =
    cl_Handle d @ newline @ dec_int (cl_OwnerNodeID d) @ newline @
     dec_int (cl_ControllerGeneration d) @ newline @ dec_int (cl_ActivityEpoch d) @ newline @
     dec_int (cl_TakeoverSequence d) @ newline @ cl_Kind d @ newline @ cl_ParentClaimID d @ newline @ cl_OperationID d"
    using assms(3) unfolding claim_canonical_def same_append_eq .
  then have "cl_Handle c = cl_Handle d \<and> dec_int (cl_OwnerNodeID c) = dec_int (cl_OwnerNodeID d) \<and>
      dec_int (cl_ControllerGeneration c) = dec_int (cl_ControllerGeneration d) \<and>
      dec_int (cl_ActivityEpoch c) = dec_int (cl_ActivityEpoch d) \<and>
      dec_int (cl_TakeoverSequence c) = dec_int (cl_TakeoverSequence d) \<and> cl_Kind c = cl_Kind d \<and>
      cl_ParentClaimID c = cl_ParentClaimID d \<and> cl_OperationID c = cl_OperationID d"
    by (simp only: newline_append_eq n not_False_eq_True)
  then show ?thesis by (simp add: same_facts_def rank_def)
qed

text \<open>
  A set of claims without a digest collision: SHA-256 separates their canonical texts.
\<close>

definition collision_free :: "golib \<Rightarrow> claim set \<Rightarrow> bool" where
  "collision_free lib C \<longleftrightarrow> inj_on (sha256 lib) (claim_canonical ` C)"

lemma same_id_same_facts:
  assumes "collision_free lib C" and "c \<in> C" and "d \<in> C"
    and "is_ok (validateActivityOwnershipClaim lib c)" and "is_ok (validateActivityOwnershipClaim lib d)"
    and "cl_ClaimID c = cl_ClaimID d"
  shows "same_facts c d"
proof (rule claim_canonical_inj [OF assms(4,5)])
  have "sha256 lib (claim_canonical c) = sha256 lib (claim_canonical d)"
    using assms(6) valid_claim(1) [OF assms(4)] valid_claim(1) [OF assms(5)]
    by (simp add: activityOwnershipClaimID_def hex_encode_inj)
  then show "claim_canonical c = claim_canonical d"
    using assms(1-3) by (auto simp: collision_free_def dest: inj_onD)
qed

section \<open>Votes of a cluster\<close>

text \<open>
  The agents of a cluster, by node id, and the votes they have cast: \<open>(n, c)\<close> when agent \<open>n\<close>
  answered that it holds the claim \<open>c\<close>. An agent applies a claim from a peer, a grant or its
  own takeover; it restarts with what its file has; or it does anything else that leaves its
  register of claims, in memory and in the file, alone. No save fails.
\<close>

definition file_ownership :: "agent \<Rightarrow> (string, claim) gomap option" where
  "file_ownership a = map_option rs_ActivityOwnership (sf_named (ag_file a))"

inductive voting :: "golib \<Rightarrow> claim set \<Rightarrow> (int \<Rightarrow> agent) \<Rightarrow> (int \<Rightarrow> agent) \<Rightarrow> (int \<times> claim) set \<Rightarrow> bool"
  for lib C A0 where
  start: "voting lib C A0 A0 {}"
| vote: "voting lib C A0 A V \<Longrightarrow> c \<in> C \<Longrightarrow>
    applyActivityOwnershipClaim lib NoFault c rp (A n) = (b, ok, r) \<Longrightarrow>
    voting lib C A0 (A(n := b)) (if ok then insert (n, c) V else V)"
| restart: "voting lib C A0 A V \<Longrightarrow> file_ownership (A n) = Some m \<Longrightarrow> rs_ActivityOwnership (ag_state b) = m \<Longrightarrow>
    file_ownership b = Some m \<Longrightarrow> voting lib C A0 (A(n := b)) V"
| other: "voting lib C A0 A V \<Longrightarrow> rs_ActivityOwnership (ag_state b) = rs_ActivityOwnership (ag_state (A n)) \<Longrightarrow>
    file_ownership b = file_ownership (A n) \<Longrightarrow> voting lib C A0 (A(n := b)) V"

definition ownership_ok :: "golib \<Rightarrow> claim set \<Rightarrow> agent \<Rightarrow> bool" where
  "ownership_ok lib C a \<longleftrightarrow> file_ownership a = Some (rs_ActivityOwnership (ag_state a)) \<and>
     (\<forall>h d. currentActivityOwnership h a = Some d \<longrightarrow> d \<in> C \<and> is_ok (validateActivityOwnershipClaim lib d))"

lemma apply_ownership_ok:
  assumes "applyActivityOwnershipClaim lib NoFault c rp a = (b, ok, r)" and "ownership_ok lib C a" and "c \<in> C"
  shows "ownership_ok lib C b"
proof -
  have kept: "file_ownership b = Some (rs_ActivityOwnership (ag_state b))"
  proof (cases "b = a")
    case False
    then have "update_save NoFault (put_claim c) a = (b, r)"
      using apply_cases [OF assms(1)] by simp
    from update_save_pair [OF this] show ?thesis by (simp add: file_ownership_def)
  qed (use assms(2) in \<open>simp add: ownership_ok_def\<close>)
  have "is_ok (validateActivityOwnershipClaim lib c)" if ok
    using apply_cases [OF assms(1)] that by auto
  then show ?thesis
    using kept assms(2,3) apply_current [OF assms(1)] by (auto simp: ownership_ok_def split: if_splits)
qed

definition vote_kept :: "agent \<Rightarrow> claim \<Rightarrow> bool" where
  "vote_kept a c \<longleftrightarrow> (\<exists>d. currentActivityOwnership (cl_Handle c) a = Some d \<and>
     (rank c < rank d \<or> (rank c = rank d \<and> cl_ClaimID c = cl_ClaimID d)))"

lemma apply_vote_kept:
  assumes "applyActivityOwnershipClaim lib flt c rp a = (b, ok, r)" and "vote_kept a v"
  shows "vote_kept b v"
proof -
  obtain d where d: "currentActivityOwnership (cl_Handle v) a = Some d"
      "rank v < rank d \<or> (rank v = rank d \<and> cl_ClaimID v = cl_ClaimID d)"
    using assms(2) by (auto simp: vote_kept_def)
  from apply_rank_mono [OF assms(1) d(1)] obtain d' where
    d': "currentActivityOwnership (cl_Handle v) b = Some d'" "d' = d \<or> rank d < rank d'" by auto
  have "rank v < rank d' \<or> (rank v = rank d' \<and> cl_ClaimID v = cl_ClaimID d')"
    using d(2) d'(2) by (metis less_trans)
  with d'(1) show ?thesis by (auto simp: vote_kept_def)
qed

definition voting_inv :: "golib \<Rightarrow> claim set \<Rightarrow> (int \<Rightarrow> agent) \<Rightarrow> (int \<times> claim) set \<Rightarrow> bool" where
  "voting_inv lib C A V \<longleftrightarrow> (\<forall>n. ownership_ok lib C (A n)) \<and>
    (\<forall>n c. (n, c) \<in> V \<longrightarrow> c \<in> C \<and> is_ok (validateActivityOwnershipClaim lib c) \<and> vote_kept (A n) c) \<and>
    (\<forall>n c d. (n, c) \<in> V \<longrightarrow> (n, d) \<in> V \<longrightarrow> cl_Handle c = cl_Handle d \<longrightarrow> rank c = rank d \<longrightarrow>
       cl_ClaimID c = cl_ClaimID d)"

lemma voting_inv_update:
  assumes "voting_inv lib C A V" and "ownership_ok lib C b" and "\<And>v. (n, v) \<in> V \<Longrightarrow> vote_kept b v"
  shows "voting_inv lib C (A(n := b)) V"
  unfolding voting_inv_def
proof (intro conjI allI impI)
  fix m show "ownership_ok lib C ((A(n := b)) m)"
    using assms(1,2) by (simp add: voting_inv_def)
next
  fix m c assume "(m, c) \<in> V"
  then show "c \<in> C" "is_ok (validateActivityOwnershipClaim lib c)" "vote_kept ((A(n := b)) m) c"
    using assms(1,3) by (auto simp: voting_inv_def)
next
  fix m c d assume "(m, c) \<in> V" "(m, d) \<in> V" "cl_Handle c = cl_Handle d" "rank c = rank d"
  then show "cl_ClaimID c = cl_ClaimID d" using assms(1) unfolding voting_inv_def by blast
qed

lemma voting_inv_insert:
  assumes "voting_inv lib C A V" and "c \<in> C" and "is_ok (validateActivityOwnershipClaim lib c)"
    and "vote_kept (A n) c"
    and "\<And>v. (n, v) \<in> V \<Longrightarrow> cl_Handle v = cl_Handle c \<Longrightarrow> rank v = rank c \<Longrightarrow> cl_ClaimID v = cl_ClaimID c"
  shows "voting_inv lib C A (insert (n, c) V)"
  unfolding voting_inv_def
proof (intro conjI allI impI)
  fix m d e
  assume "(m, d) \<in> insert (n, c) V" "(m, e) \<in> insert (n, c) V" "cl_Handle d = cl_Handle e" "rank d = rank e"
  then consider "m = n" "d = c" "e = c" | "m = n" "d = c" "(n, e) \<in> V" | "m = n" "e = c" "(n, d) \<in> V"
    | "(m, d) \<in> V" "(m, e) \<in> V"
    by auto
  then show "cl_ClaimID d = cl_ClaimID e"
  proof cases
    case 4
    then show ?thesis
      using assms(1) \<open>cl_Handle d = cl_Handle e\<close> \<open>rank d = rank e\<close> unfolding voting_inv_def by blast
  qed (use assms(5) \<open>cl_Handle d = cl_Handle e\<close> \<open>rank d = rank e\<close> in simp_all)
next
  fix m show "ownership_ok lib C (A m)" using assms(1) by (simp add: voting_inv_def)
next
  fix m d assume "(m, d) \<in> insert (n, c) V"
  then show "d \<in> C" "is_ok (validateActivityOwnershipClaim lib d)" "vote_kept (A m) d"
    using assms(1-4) unfolding voting_inv_def by blast+
qed

lemma vote_voting_inv:
  assumes "collision_free lib C" and inv: "voting_inv lib C A V" and "c \<in> C"
    and ap: "applyActivityOwnershipClaim lib NoFault c rp (A n) = (b, ok, r)"
  shows "voting_inv lib C (A(n := b)) (if ok then insert (n, c) V else V)"
proof -
  have "ownership_ok lib C (A n)" using inv by (simp add: voting_inv_def)
  then have okb: "ownership_ok lib C b" using apply_ownership_ok [OF ap _ assms(3)] by simp
  have kept: "vote_kept b v" if "(n, v) \<in> V" for v
    using apply_vote_kept [OF ap] inv that by (auto simp: voting_inv_def)
  note upd = voting_inv_update [OF inv okb kept]
  show ?thesis
  proof (cases ok)
    case True
    have valid: "is_ok (validateActivityOwnershipClaim lib c)"
      using apply_cases [OF ap] True by auto
    obtain e where e: "currentActivityOwnership (cl_Handle c) b = Some e" "cl_ClaimID e = cl_ClaimID c"
      using apply_accepted [of lib NoFault c rp "A n" b r] ap True by auto
    have "e \<in> C" "is_ok (validateActivityOwnershipClaim lib e)"
      using okb e(1) by (auto simp: ownership_ok_def)
    then have re: "rank e = rank c"
      using same_id_same_facts [OF assms(1) _ assms(3) _ valid e(2)] by (simp add: same_facts_def)
    have "vote_kept ((A(n := b)) n) c"
      using e re by (auto simp: vote_kept_def)
    moreover have "cl_ClaimID v = cl_ClaimID c"
      if v: "(n, v) \<in> V" "cl_Handle v = cl_Handle c" "rank v = rank c" for v
      using kept [OF v(1)] v(2,3) e re by (simp add: vote_kept_def)
    ultimately show ?thesis
      using True voting_inv_insert [OF upd assms(3) valid] by simp
  qed (simp add: upd)
qed

lemma same_register_voting_inv:
  assumes inv: "voting_inv lib C A V" and "rs_ActivityOwnership (ag_state b) = rs_ActivityOwnership (ag_state (A n))"
    and "file_ownership b = file_ownership (A n)"
  shows "voting_inv lib C (A(n := b)) V"
proof (rule voting_inv_update [OF inv])
  have cur: "currentActivityOwnership h b = currentActivityOwnership h (A n)" for h
    using assms(2) by (simp add: currentActivityOwnership_def)
  show "ownership_ok lib C b"
    using inv assms(2,3) by (simp add: voting_inv_def ownership_ok_def cur)
  show "vote_kept b v" if "(n, v) \<in> V" for v
  proof -
    have "vote_kept (A n) v" using inv that by (auto simp: voting_inv_def)
    then show ?thesis by (simp add: vote_kept_def cur)
  qed
qed

lemma voting_invariant:
  assumes "voting lib C A0 A V" and "collision_free lib C" and "\<And>n. ownership_ok lib C (A0 n)"
  shows "voting_inv lib C A V"
  using assms(1)
proof (induction rule: voting.induct)
  case start
  then show ?case using assms(3) by (simp add: voting_inv_def)
next
  case (vote A V c rp n b ok r)
  then show ?case using vote_voting_inv [OF assms(2)] by blast
next
  case (restart A V n m b)
  then have "m = rs_ActivityOwnership (ag_state (A n))"
    by (simp add: voting_inv_def ownership_ok_def)
  then show ?case using restart by (intro same_register_voting_inv) simp_all
next
  case (other A V b n)
  then show ?case by (intro same_register_voting_inv) simp_all
qed

lemma required_nodes_majority: "required_nodes urls * 2 > urls + 1"
  by (simp add: required_nodes_def)

lemma quorums_intersect:
  assumes "finite N" and "card N = urls + 1" and "Q1 \<subseteq> N" and "Q2 \<subseteq> N"
    and "required_nodes urls \<le> card Q1" and "required_nodes urls \<le> card Q2"
  shows "Q1 \<inter> Q2 \<noteq> {}"
proof
  assume "Q1 \<inter> Q2 = {}"
  moreover have "finite Q1" "finite Q2" using assms finite_subset by blast+
  ultimately have "card (Q1 \<union> Q2) = card Q1 + card Q2" by (simp add: card_Un_disjoint)
  moreover have "card (Q1 \<union> Q2) \<le> card N" using assms(1,3,4) by (intro card_mono) auto
  ultimately show False using assms required_nodes_majority [of urls] by linarith
qed

section \<open>Takeovers\<close>

definition journal_ok :: "agent \<Rightarrow> bool" where
  "journal_ok a \<longleftrightarrow> (\<forall>i op. find_takeover i a = Some op \<longrightarrow> to_OperationID op = i)"

lemma put_takeover_pair:
  "put_takeover flt i op a = (b, r) \<Longrightarrow>
     ag_state b = (ag_state a)\<lparr>rs_OwnershipTakeovers := gm_put i op (rs_OwnershipTakeovers (ag_state a))\<rparr> \<and>
     ag_Cfg b = ag_Cfg a \<and> ag_peerWitnessSecret b = ag_peerWitnessSecret a \<and> (is_ok r \<longleftrightarrow> flt = NoFault) \<and>
     (flt = NoFault \<longrightarrow> sf_named (ag_file b) = Some (ag_state b))"
  using update_save_sel(5) [of flt "\<lambda>s. s\<lparr>rs_OwnershipTakeovers := gm_put i op (rs_OwnershipTakeovers s)\<rparr>" a]
  unfolding put_takeover_def by (auto dest!: update_save_pair)

lemma apply_journal:
  assumes "applyActivityOwnershipClaim lib flt c rp a = (b, ok, r)"
  shows "rs_OwnershipTakeovers (ag_state b) = rs_OwnershipTakeovers (ag_state a) \<and> ag_Cfg b = ag_Cfg a \<and>
    ag_peerWitnessSecret b = ag_peerWitnessSecret a"
proof (cases "b = a")
  case False
  then have u: "update_save flt (put_claim c) a = (b, r)"
    using apply_cases [OF assms] by simp
  from update_save_pair [OF u] update_save_sel(5) [of flt "put_claim c" a] show ?thesis
    by (simp add: u put_claim_def)
qed simp

lemma decide_journal:
  "decide_ownership lib flt cs av a = (b, r) \<Longrightarrow>
   rs_OwnershipTakeovers (ag_state b) = rs_OwnershipTakeovers (ag_state a) \<and> ag_Cfg b = ag_Cfg a \<and>
   ag_peerWitnessSecret b = ag_peerWitnessSecret a"
  by (auto simp: decide_ownership_def Let_def split: prod.splits option.splits bool.splits if_splits
      dest!: apply_journal)

lemma query_journal:
  "queryOwnershipQuorum lib flt fp evs h a = (b, r) \<Longrightarrow>
   rs_OwnershipTakeovers (ag_state b) = rs_OwnershipTakeovers (ag_state a) \<and> ag_Cfg b = ag_Cfg a \<and>
   ag_peerWitnessSecret b = ag_peerWitnessSecret a"
  by (auto simp: queryOwnershipQuorum_def Let_def split: prod.splits option.splits if_splits
      dest!: decide_journal)

lemma begin_takeover_ok:
  assumes "begin_takeover lib env q a = (b, Inr op)"
  shows "find_takeover (tq_OperationID q) b = Some op \<and> to_OperationID op = tq_OperationID q \<and>
    to_ParentClaimID op = tq_ParentClaimID q \<and> \<not> to_Succeeded op \<and> \<not> to_Audited op \<and>
    cl_Handle (to_Claim op) = tq_Handle q \<and> cl_OwnerNodeID (to_Claim op) = self_id a \<and> ag_Cfg b = ag_Cfg a \<and>
    ag_peerWitnessSecret b = ag_peerWitnessSecret a \<and>
    (\<forall>i. i \<noteq> tq_OperationID q \<longrightarrow> find_takeover i b = find_takeover i a)"
  using assms
  by (auto simp: begin_takeover_def makeActivityOwnershipClaim_def Let_def
      split: prod.splits option.splits bool.splits if_splits sum.splits
      dest!: query_journal apply_journal put_takeover_pair)

lemma audit_ok:
  assumes "audit_and_answer env op a = (b, Inr r)" and "find_takeover (to_OperationID op) a = Some op"
    and "to_Succeeded op"
  shows "r = takeover_committed op \<and>
    (\<exists>done. find_takeover (to_OperationID op) b = Some done \<and> to_Succeeded done \<and> to_Audited done \<and>
      to_Claim done = to_Claim op)"
  using assms
  by (auto simp: audit_and_answer_def ensureOwnershipTakeoverAudit_def split: prod.splits option.splits if_splits sum.splits
      dest!: put_takeover_pair)

lemma broadcast_cong:
  "ag_Cfg a = ag_Cfg b \<Longrightarrow> ag_peerWitnessSecret a = ag_peerWitnessSecret b \<Longrightarrow>
   broadcastOwnershipClaim fp evs c a = broadcastOwnershipClaim fp evs c b"
  by (cases fp) (simp_all add: broadcastOwnershipClaim_def)

lemma commit_takeover_ok:
  assumes "commit_takeover env q op a = (b, Inr r)" and "find_takeover (tq_OperationID q) a = Some op"
    and "to_OperationID op = tq_OperationID q"
  shows "(to_Succeeded op \<or>
      required_nodes (length (peer_urls a)) \<le> fst (broadcastOwnershipClaim (te_fingerprint env) (te_broadcast env) (to_Claim op) a)) \<and>
    rr_ClaimID r = cl_ClaimID (to_Claim op) \<and> rr_Decision r = ''takeover_committed'' \<and>
    (\<exists>done. find_takeover (tq_OperationID q) b = Some done \<and> to_Succeeded done \<and> to_Audited done \<and>
      to_Claim done = to_Claim op)"
proof (cases "to_Succeeded op")
  case True
  then have "audit_and_answer env op a = (b, Inr r)" using assms(1) by (simp add: commit_takeover_def)
  from audit_ok [OF this] assms(2,3) True show ?thesis by (auto simp: takeover_committed_def)
next
  case False
  let ?op = "op\<lparr>to_Succeeded := True, to_UpdatedAt := unix_milli (te_now env)\<rparr>"
  obtain c where c: "put_takeover (te_fault_commit env) (tq_OperationID q) ?op a = (c, Inr ())"
      "audit_and_answer env ?op c = (b, Inr r)"
      "required_nodes (length (peer_urls a)) \<le>
         fst (broadcastOwnershipClaim (te_fingerprint env) (te_broadcast env) (to_Claim op) a)"
    using assms(1,2) False
    by (auto simp: commit_takeover_def Let_def split: prod.splits if_splits sum.splits)
  have "find_takeover (to_OperationID ?op) c = Some ?op"
    using put_takeover_pair [OF c(1)] assms(3) by simp
  from audit_ok [OF c(2) this] assms(3) c(3) show ?thesis by (auto simp: takeover_committed_def)
qed

section \<open>Properties\<close>

definition sample_claim :: "int \<Rightarrow> claim" where
  "sample_claim observed = (let c = \<lparr>cl_ClaimID = [], cl_Handle = ''alice'', cl_OwnerNodeID = 1,
     cl_ControllerGeneration = 2, cl_ActivityEpoch = 3, cl_TakeoverSequence = 0, cl_Kind = controller_grant,
     cl_ParentClaimID = [], cl_OperationID = [], cl_ObservedAt = observed\<rparr>
   in c\<lparr>cl_ClaimID := activityOwnershipClaimID sample_lib c\<rparr>)"

definition synced_agent :: agent where
  "synced_agent = fst (saveRuntimeStateLocked NoFault (new_agent sample_cfg))"

lemma sample_claim_valid:
  "validateActivityOwnershipClaim sample_lib (sample_claim 9) = Inr ()"
  "validateActivityOwnershipClaim sample_lib (sample_claim 8) = Inr ()"
  by code_simp+

text \<open>
  The ownership register of an agent. A claim that is accepted is held afterwards; a claim
  that is refused changes nothing; the rank held for a handle never goes down; a takeover
  replaces the claim it names as its parent and no other; claims for other handles are not
  touched.
\<close>

lemma ownership_register:
  assumes "applyActivityOwnershipClaim lib flt c rp a = (b, ok, r)"
  shows "(ok \<longrightarrow> (\<exists>d. currentActivityOwnership (cl_Handle c) b = Some d \<and> cl_ClaimID d = cl_ClaimID c)) \<and>
    (\<not> ok \<longrightarrow> b = a) \<and>
    (\<forall>h d. currentActivityOwnership h a = Some d \<longrightarrow>
       (\<exists>d'. currentActivityOwnership h b = Some d' \<and>
         (d' = d \<or> h = cl_Handle c \<and> d' = c \<and> rank d < rank c \<and> (rp \<longrightarrow> cl_ClaimID d = cl_ParentClaimID c)))) \<and>
    (\<forall>h. h \<noteq> cl_Handle c \<longrightarrow> currentActivityOwnership h b = currentActivityOwnership h a)"
proof (intro conjI impI allI)
  show "\<exists>d. currentActivityOwnership (cl_Handle c) b = Some d \<and> cl_ClaimID d = cl_ClaimID c" if ok
    using apply_accepted [of lib flt c rp a b r] assms that by simp
  show "b = a" if "\<not> ok" using apply_cases [OF assms] that by auto
  show "currentActivityOwnership h b = currentActivityOwnership h a" if "h \<noteq> cl_Handle c" for h
    using apply_current [OF assms, of h] that by simp
  show "\<exists>d'. currentActivityOwnership h b = Some d' \<and>
         (d' = d \<or> h = cl_Handle c \<and> d' = c \<and> rank d < rank c \<and> (rp \<longrightarrow> cl_ClaimID d = cl_ParentClaimID c))"
    if d: "currentActivityOwnership h a = Some d" for h d
  proof (cases "currentActivityOwnership h b = Some d")
    case False
    then have new: "ok" "h = cl_Handle c" "currentActivityOwnership h b = Some c" "cl_ClaimID d \<noteq> cl_ClaimID c" "b \<noteq> a"
      using apply_current [OF assms, of h] d by (auto split: if_splits)
    then show ?thesis using apply_cases [OF assms] d by simp
  qed auto
qed

lemma ownership_register_witness:
  "\<exists>d. currentActivityOwnership ''alice''
     (fst (applyActivityOwnershipClaim sample_lib NoFault (sample_claim 9) False synced_agent)) = Some d \<and>
     cl_ClaimID d = cl_ClaimID (sample_claim 9)"
proof -
  let ?x = "applyActivityOwnershipClaim sample_lib NoFault (sample_claim 9) False synced_agent"
  have h: "cl_Handle (sample_claim 9) = ''alice''" by (simp add: sample_claim_def Let_def)
  have "currentActivityOwnership ''alice'' synced_agent = None"
    by (simp add: currentActivityOwnership_def synced_agent_def saveRuntimeStateLocked_def new_agent_def
        zero_runtime_state_def)
  then obtain b r where x: "?x = (b, True, r)"
    by (simp add: applyActivityOwnershipClaim_def sample_claim_valid h claim_check_def update_save_def
        saveRuntimeStateLocked_def)
  with h conjunct1 [OF ownership_register [OF x]] x show ?thesis by simp
qed

text \<open>
  C13. The scan for the maximal claim does not depend on the order in which Go walks over the
  map: two lists with the same claims give the same verdict on conflicts, and winners of the
  same rank, which have the same claim id when there is no conflict. A conflict is reported
  exactly when two different claims share the highest rank.
\<close>

theorem ownership_scan_order_independent:
  assumes "set cs = set ds" and "scan_maximal cs None False = (best, conflict)"
    and "scan_maximal ds None False = (best', conflict')"
  shows "(best = None \<longleftrightarrow> cs = []) \<and> (best' = None \<longleftrightarrow> best = None) \<and> (conflict \<longleftrightarrow> conflict') \<and>
    (\<forall>m m'. best = Some m \<longrightarrow> best' = Some m' \<longrightarrow> rank m = rank m' \<and> (\<not> conflict \<longrightarrow> cl_ClaimID m = cl_ClaimID m') \<and>
      m \<in> set cs \<and> (\<forall>c \<in> set cs. rank c \<le> rank m) \<and>
      (conflict \<longleftrightarrow> (\<exists>c \<in> set cs. rank c = rank m \<and> cl_ClaimID c \<noteq> cl_ClaimID m)))"
proof (cases "cs = []")
  case True
  then show ?thesis using assms by auto
next
  case False
  then have "ds \<noteq> []" using assms(1) by auto
  with False scan_maximal_spec [OF assms(2)] scan_maximal_spec [OF assms(3)] obtain m m' where
    m: "best = Some m" "topmost (set cs) m conflict" and m': "best' = Some m'" "topmost (set cs) m' conflict'"
    using assms(1) by auto
  have r: "rank m = rank m'" using m(2) m'(2) by (meson antisym topmost_def)
  have c: "conflict \<longleftrightarrow> conflict'" using m(2) m'(2) r unfolding topmost_def by metis
  have i: "\<not> conflict \<longrightarrow> cl_ClaimID m = cl_ClaimID m'" using m(2) m'(2) r unfolding topmost_def by metis
  have t: "m \<in> set cs" "\<forall>c \<in> set cs. rank c \<le> rank m"
    "conflict \<longleftrightarrow> (\<exists>c \<in> set cs. rank c = rank m \<and> cl_ClaimID c \<noteq> cl_ClaimID m)"
    using m(2) unfolding topmost_def by blast+
  show ?thesis
  proof (intro conjI allI impI)
    fix n n' assume "best = Some n" "best' = Some n'"
    then have n: "n = m" "n' = m'" using m(1) m'(1) by simp_all
    show "rank n = rank n'" "n \<in> set cs" "\<forall>c \<in> set cs. rank c \<le> rank n"
      "conflict \<longleftrightarrow> (\<exists>c \<in> set cs. rank c = rank n \<and> cl_ClaimID c \<noteq> cl_ClaimID n)"
      using r t unfolding n by blast+
    show "cl_ClaimID n = cl_ClaimID n'" if "\<not> conflict" using i that unfolding n by blast
  qed (use False m(1) m'(1) c in simp_all)
qed

theorem ownership_scan_order_independent_witness:
  "snd (scan_maximal [sample_claim 9, sample_claim 8] None False) = snd (scan_maximal [sample_claim 8, sample_claim 9] None False)"
  using ownership_scan_order_independent [of "[sample_claim 9, sample_claim 8]" "[sample_claim 8, sample_claim 9]",
      OF _ prod.collapse [symmetric] prod.collapse [symmetric]]
  by (simp add: insert_commute)

text \<open>
  C14. Two majorities cannot hold different owners of one rank. In any run of a cluster whose
  saves succeed, with restarts, if the claims \<open>c1\<close> and \<open>c2\<close> for one handle and one rank were
  each acknowledged by as many of the \<open>urls + 1\<close> nodes as a takeover requires, then they state
  the same facts: the same owner, parent and operation.
\<close>

theorem takeover_quorum_unique:
  assumes "voting lib C A0 A V" and "collision_free lib C" and "\<And>n. ownership_ok lib C (A0 n)"
    and "finite N" and "card N = urls + 1" and "Q1 \<subseteq> N" and "Q2 \<subseteq> N"
    and "required_nodes urls \<le> card Q1" and "required_nodes urls \<le> card Q2"
    and "\<And>n. n \<in> Q1 \<Longrightarrow> (n, c1) \<in> V" and "\<And>n. n \<in> Q2 \<Longrightarrow> (n, c2) \<in> V"
    and "cl_Handle c1 = cl_Handle c2" and "rank c1 = rank c2"
  shows "same_facts c1 c2"
proof -
  have inv: "voting_inv lib C A V" using voting_invariant [OF assms(1,2,3)] .
  obtain n where n: "(n, c1) \<in> V" "(n, c2) \<in> V"
    using quorums_intersect [OF assms(4-9)] assms(10,11) by blast
  then have "cl_ClaimID c1 = cl_ClaimID c2"
    using inv assms(12,13) unfolding voting_inv_def by blast
  moreover have "c1 \<in> C" "c2 \<in> C" "is_ok (validateActivityOwnershipClaim lib c1)"
      "is_ok (validateActivityOwnershipClaim lib c2)"
    using inv n unfolding voting_inv_def by blast+
  ultimately show ?thesis using same_id_same_facts [OF assms(2)] by blast
qed

theorem takeover_quorum_unique_witness:
  "same_facts (sample_claim 9) (sample_claim 8)"
proof -
  let ?C = "{sample_claim 9, sample_claim 8}" and ?A = "\<lambda>_ :: int. synced_agent"
  have canon: "claim_canonical (sample_claim 9) = claim_canonical (sample_claim 8)"
    by (simp add: sample_claim_def claim_canonical_def Let_def)
  have free: "collision_free sample_lib ?C" by (simp add: collision_free_def canon)
  have empty: "rs_ActivityOwnership (ag_state synced_agent) = []" "file_ownership synced_agent = Some []"
    by (simp_all add: synced_agent_def saveRuntimeStateLocked_def new_agent_def zero_runtime_state_def file_ownership_def)
  have fine: "ownership_ok sample_lib ?C (?A n)" for n
    by (simp add: ownership_ok_def empty currentActivityOwnership_def)
  define b where "b = fst (applyActivityOwnershipClaim sample_lib NoFault (sample_claim 9) False synced_agent)"
  have h: "cl_Handle (sample_claim 9) = ''alice''" "cl_Handle (sample_claim 8) = ''alice''"
    "cl_ClaimID (sample_claim 9) = cl_ClaimID (sample_claim 8)" "rank (sample_claim 9) = rank (sample_claim 8)"
    by (simp_all add: sample_claim_def Let_def rank_def activityOwnershipClaimID_def claim_canonical_def)
  have b: "applyActivityOwnershipClaim sample_lib NoFault (sample_claim 9) False synced_agent = (b, True, Inr ())"
    by (simp add: b_def applyActivityOwnershipClaim_def sample_claim_valid claim_check_def empty
        currentActivityOwnership_def update_save_def saveRuntimeStateLocked_def)
  have cur: "currentActivityOwnership ''alice'' b = Some (sample_claim 9)"
    using apply_current [OF b, of "''alice''"] h empty by (simp add: currentActivityOwnership_def)
  have b': "applyActivityOwnershipClaim sample_lib NoFault (sample_claim 8) False b = (b, True, Inr ())"
    by (simp add: applyActivityOwnershipClaim_def sample_claim_valid claim_check_def cur h)
  let ?A1 = "?A(1 := b)" and ?A2 = "?A(1 := b, 2 := b)"
  have v1: "voting sample_lib ?C ?A ?A1 {(1, sample_claim 9)}"
    using voting.vote [OF voting.start [of sample_lib ?C ?A], where n = 1 and c = "sample_claim 9", OF _ b] by simp
  have v2: "voting sample_lib ?C ?A ?A2 {(2, sample_claim 9), (1, sample_claim 9)}"
    using voting.vote [OF v1, where n = 2 and c = "sample_claim 9" and rp = False and b = b and ok = True] b by simp
  have v3: "voting sample_lib ?C ?A ?A2 {(1, sample_claim 8), (2, sample_claim 9), (1, sample_claim 9)}"
    using voting.vote [OF v2, where n = 1 and c = "sample_claim 8" and rp = False and b = b and ok = True] b' by (simp add: fun_upd_twist)
  have "voting sample_lib ?C ?A ?A2
      {(2, sample_claim 8), (1, sample_claim 8), (2, sample_claim 9), (1, sample_claim 9)}"
    using voting.vote [OF v3, where n = 2 and c = "sample_claim 8" and rp = False and b = b and ok = True] b' by simp
  then show ?thesis
    by (rule takeover_quorum_unique [OF _ free fine, of _ _ "{1, 2, 3}" 2 "{1, 2}" "{1, 2}"])
      (auto simp: required_nodes_def h)
qed

text \<open>
  C15. A takeover is reported as committed only when the claim was journaled as succeeded and
  audited, for the handle and parent of the request, and, unless an earlier run had already
  succeeded, at least the required number of nodes, this one included, acknowledged it.
\<close>

theorem committed_takeover_has_quorum:
  assumes "performUserConfirmedTakeover lib env q a = (b, Inr r)" and "journal_ok a"
  shows "rr_Decision r = ''takeover_committed'' \<and>
    (\<exists>done. find_takeover (tq_OperationID q) b = Some done \<and> to_Succeeded done \<and> to_Audited done \<and>
      cl_Handle (to_Claim done) = tq_Handle q \<and> rr_ClaimID r = cl_ClaimID (to_Claim done) \<and>
      ((\<exists>op. find_takeover (tq_OperationID q) a = Some op \<and> to_Succeeded op) \<or>
       required_nodes (length (peer_urls a)) \<le>
         fst (broadcastOwnershipClaim (te_fingerprint env) (te_broadcast env) (to_Claim done) a)))"
proof (cases "find_takeover (tq_OperationID q) a")
  case None
  then obtain c op where c: "begin_takeover lib env q a = (c, Inr op)" "commit_takeover env q op c = (b, Inr r)"
    using assms(1) by (auto simp: performUserConfirmedTakeover_def split: prod.splits sum.splits)
  note beg = begin_takeover_ok [OF c(1)]
  have "broadcastOwnershipClaim fp evs d c = broadcastOwnershipClaim fp evs d a" for fp evs d
    using beg by (intro broadcast_cong) auto
  with commit_takeover_ok [OF c(2)] beg show ?thesis by auto
next
  case (Some op)
  then have "commit_takeover env q op a = (b, Inr r)" "cl_Handle (to_Claim op) = tq_Handle q"
    using assms(1) by (auto simp: performUserConfirmedTakeover_def split: if_splits)
  moreover have "to_OperationID op = tq_OperationID q"
    using assms(2) Some by (auto simp: journal_ok_def)
  ultimately show ?thesis using commit_takeover_ok [of env q op a b r] Some by auto
qed

definition sample_journal :: takeover_op where
  "sample_journal = \<lparr>to_OperationID = sample_uuid, to_ParentClaimID = ''p'', to_Claim = sample_claim 9,
     to_Succeeded = False, to_Audited = False, to_UpdatedAt = 1\<rparr>"

definition sample_peer_cfg :: agent_cfg where
  "sample_peer_cfg = sample_cfg\<lparr>cfg_Disaster := (cfg_Disaster sample_cfg)\<lparr>dp_PeerWitnessURLs := [''u1'', ''u2'']\<rparr>\<rparr>"

definition journaled_agent :: agent where
  "journaled_agent = (fst (put_takeover NoFault sample_uuid sample_journal (new_agent sample_peer_cfg)))
     \<lparr>ag_peerWitnessSecret := replicate 32 (CHR ''s'')\<rparr>"

definition sample_takeover_env :: takeover_env where
  "sample_takeover_env = \<lparr>te_now = unix_origin + 1000000000, te_fingerprint = Inr (), te_query = [],
     te_broadcast = [Valid \<lparr>pr_OK = True, pr_WitnessNodeID = 2, pr_Found = True, pr_Claim = Some (sample_claim 8),
        pr_AdapterAvailable = False, pr_Accepted = True, pr_ObservedAt = 1\<rparr>, Invalid],
     te_audit = Inr (), te_fault_query = NoFault, te_fault_claim = NoFault, te_fault_journal = NoFault,
     te_fault_commit = NoFault, te_fault_audit = NoFault\<rparr>"

definition sample_takeover_request :: takeover_request where
  "sample_takeover_request = \<lparr>tq_Handle = ''alice'', tq_ParentClaimID = ''p'', tq_OperationID = sample_uuid\<rparr>"

theorem committed_takeover_has_quorum_witness:
  "required_nodes (length (peer_urls journaled_agent)) \<le>
     fst (broadcastOwnershipClaim (Inr ()) (te_broadcast sample_takeover_env) (sample_claim 9) journaled_agent) \<and>
   (\<exists>done. find_takeover sample_uuid
      (fst (performUserConfirmedTakeover sample_lib sample_takeover_env sample_takeover_request journaled_agent)) = Some done \<and>
      to_Succeeded done \<and> to_Audited done)"
proof -
  let ?x = "performUserConfirmedTakeover sample_lib sample_takeover_env sample_takeover_request journaled_agent"
  have "is_ok (snd ?x)" by code_simp
  then obtain b r where x: "?x = (b, Inr r)" by (cases ?x) (auto simp: is_ok_iff)
  have "rs_OwnershipTakeovers (ag_state journaled_agent) = [(sample_uuid, sample_journal)]"
    by (simp add: journaled_agent_def put_takeover_def new_agent_def zero_runtime_state_def gm_put_def)
  then have "journal_ok journaled_agent"
    by (simp add: journal_ok_def sample_journal_def)
  moreover have "required_nodes (length (peer_urls journaled_agent)) \<le>
     fst (broadcastOwnershipClaim (Inr ()) (te_broadcast sample_takeover_env) (sample_claim 9) journaled_agent)"
    by code_simp
  ultimately show ?thesis
    using committed_takeover_has_quorum [OF x] x by (auto simp: sample_takeover_request_def)
qed

text \<open>
  C16. A claim can be acknowledged without being on disk. When the save of an accepted claim
  fails, the peer is told so; but the claim stays in memory, so that a repeated observation is
  acknowledged as accepted although the file still does not have it. A restart then forgets
  an acknowledged vote.
\<close>

theorem unsaved_claim_acknowledged:
  assumes "pq_Claim q = Some c" and "handlePeerOwnershipObserve lib now flt q a = (b, Inl ''ownership_persistence_failed'')"
  shows "sf_named (ag_file b) = sf_named (ag_file a) \<and>
    (\<exists>r. handlePeerOwnershipObserve lib now' NoFault q b = (b, Inr r) \<and> pr_Accepted r \<and> pr_Claim r = Some c)"
proof -
  let ?rp = "cl_Kind c = user_confirmed_takeover"
  obtain ok e where ap: "applyActivityOwnershipClaim lib flt c ?rp a = (b, ok, Inl e)"
      and g: "pq_Handle q = []" "cl_Handle c \<noteq> []" "is_ok (validateActivityOwnershipClaim lib c)"
    using assms by (auto simp: handlePeerOwnershipObserve_def Let_def split: if_splits prod.splits sum.splits)
  have "ok" using ap g(3) by (auto simp: applyActivityOwnershipClaim_def is_ok_iff
        split: claim_check.splits prod.splits)
  then have u: "update_save flt (put_claim c) a = (b, Inl e)"
    using apply_cases [OF ap] by auto
  note s = update_save_pair [OF u]
  have cur: "currentActivityOwnership (cl_Handle c) b = Some c"
    using s by (simp add: currentActivityOwnership_def current_put_claim)
  then have "applyActivityOwnershipClaim lib NoFault c ?rp b = (b, True, Inr ())"
    using g(3) by (auto simp: applyActivityOwnershipClaim_def claim_check_def is_ok_iff)
  then show ?thesis
    using s g assms(1) cur by (simp add: handlePeerOwnershipObserve_def Let_def)
qed

theorem unsaved_claim_acknowledged_witness:
  "\<exists>b r. handlePeerOwnershipObserve sample_lib 5 SyncFault \<lparr>pq_ControllerFingerprint = [], pq_Handle = [],
       pq_Claim = Some (sample_claim 9)\<rparr> synced_agent = (b, Inl ''ownership_persistence_failed'') \<and>
     handlePeerOwnershipObserve sample_lib 6 NoFault \<lparr>pq_ControllerFingerprint = [], pq_Handle = [],
       pq_Claim = Some (sample_claim 9)\<rparr> b = (b, Inr r) \<and> pr_Accepted r"
proof -
  let ?q = "\<lparr>pq_ControllerFingerprint = [], pq_Handle = [], pq_Claim = Some (sample_claim 9)\<rparr>"
  let ?x = "handlePeerOwnershipObserve sample_lib 5 SyncFault ?q synced_agent"
  have h: "cl_Handle (sample_claim 9) = ''alice''" "cl_Kind (sample_claim 9) = controller_grant"
    by (simp_all add: sample_claim_def Let_def)
  have none: "currentActivityOwnership ''alice'' synced_agent = None"
    by (simp add: currentActivityOwnership_def synced_agent_def saveRuntimeStateLocked_def new_agent_def
        zero_runtime_state_def)
  obtain b where x: "?x = (b, Inl ''ownership_persistence_failed'')"
    by (simp add: handlePeerOwnershipObserve_def applyActivityOwnershipClaim_def sample_claim_valid h
        claim_check_def none update_save_def saveRuntimeStateLocked_def)
  show ?thesis using unsaved_claim_acknowledged [OF _ x, of "sample_claim 9" 6] x by auto
qed

end
