(* ===== verification/Sql.thy ===== *)
theory Sql
  imports Go_Prelude
begin

text \<open>
  Tables and transactions. A table is a list of rows (records); the statements the store
  package uses are functions on it: \<open>UPDATE ... WHERE\<close> is \<open>sql_update\<close>, its row count is
  \<open>sql_count\<close>, a single-row \<open>SELECT\<close> is \<open>sql_find\<close>, \<open>EXISTS\<close> is \<open>sql_exists\<close> and
  \<open>DELETE\<close> is \<open>sql_delete\<close>. Where a query can match several rows the code relies on a unique
  key of the schema, stated here as \<open>keyed\<close>.

  A transaction is a function from the database to an error or a new database and a value;
  \<open>run_tx\<close> commits it or rolls it back, under the ways in which the server can fail it, and
  \<open>retry_tx\<close> is \<open>retrySerializable\<close> of \<open>store/transaction_retry.go\<close>.
\<close>

named_theorems sql \<open>rewrite rules for statements on tables\<close>

section \<open>Statements\<close>

definition sql_update :: "('r \<Rightarrow> bool) \<Rightarrow> ('r \<Rightarrow> 'r) \<Rightarrow> 'r list \<Rightarrow> 'r list" where
  "sql_update P f t = map (\<lambda>r. if P r then f r else r) t"

definition sql_count :: "('r \<Rightarrow> bool) \<Rightarrow> 'r list \<Rightarrow> nat" where
  "sql_count P t = length (filter P t)"

definition sql_find :: "('r \<Rightarrow> bool) \<Rightarrow> 'r list \<Rightarrow> 'r option" where
  "sql_find P t = find P t"

definition sql_exists :: "('r \<Rightarrow> bool) \<Rightarrow> 'r list \<Rightarrow> bool" where
  "sql_exists P t = list_ex P t"

definition sql_delete :: "('r \<Rightarrow> bool) \<Rightarrow> 'r list \<Rightarrow> 'r list" where
  "sql_delete P t = filter (\<lambda>r. \<not> P r) t"

definition keyed :: "('r \<Rightarrow> 'k) \<Rightarrow> 'r list \<Rightarrow> bool" where
  "keyed k t \<longleftrightarrow> distinct (map k t)"

text \<open>A unique index on \<open>k\<close> restricted to the rows of \<open>P\<close>.\<close>

definition unique_where :: "('r \<Rightarrow> bool) \<Rightarrow> ('r \<Rightarrow> 'k) \<Rightarrow> 'r list \<Rightarrow> bool" where
  "unique_where P k t \<longleftrightarrow> keyed k (filter P t)"

lemma sql_exists_iff [sql]: "sql_exists P t \<longleftrightarrow> (\<exists>r \<in> set t. P r)"
  by (simp add: sql_exists_def list_ex_iff)

lemma sql_find_Some: "sql_find P t = Some r \<Longrightarrow> r \<in> set t \<and> P r"
  by (auto simp: sql_find_def find_Some_iff)

lemma sql_find_None: "sql_find P t = None \<longleftrightarrow> (\<forall>r \<in> set t. \<not> P r)"
  by (auto simp: sql_find_def find_None_iff)

lemma sql_find_Cons [sql]: "sql_find P (r # t) = (if P r then Some r else sql_find P t)"
  by (simp add: sql_find_def)

lemma sql_find_Nil [sql]: "sql_find P [] = None"
  by (simp add: sql_find_def)

lemma sql_find_append: "sql_find P (t @ u) = (case sql_find P t of None \<Rightarrow> sql_find P u | Some r \<Rightarrow> Some r)"
  by (induction t) (simp_all add: sql)

lemma sql_count_pos: "0 < sql_count P t \<longleftrightarrow> (\<exists>r \<in> set t. P r)"
  by (simp add: sql_count_def filter_empty_conv)

lemma set_sql_update: "set (sql_update P f t) = (\<lambda>r. if P r then f r else r) ` set t"
  by (simp add: sql_update_def)

lemma in_sql_update:
  "r \<in> set (sql_update P f t) \<longleftrightarrow> (r \<in> set t \<and> \<not> P r) \<or> (\<exists>q \<in> set t. P q \<and> r = f q)"
  by (auto simp: sql_update_def)

lemma sql_update_none: "(\<forall>r \<in> set t. \<not> P r) \<Longrightarrow> sql_update P f t = t"
  by (induction t) (auto simp: sql_update_def)

lemma length_sql_update [simp]: "length (sql_update P f t) = length t"
  by (simp add: sql_update_def)

lemma map_sql_update: "(\<And>r. P r \<Longrightarrow> g (f r) = g r) \<Longrightarrow> map g (sql_update P f t) = map g t"
  by (simp add: sql_update_def)

lemma sql_delete_set: "r \<in> set (sql_delete P t) \<longleftrightarrow> r \<in> set t \<and> \<not> P r"
  by (auto simp: sql_delete_def)

section \<open>Unique keys\<close>

lemma keyed_Nil [simp]: "keyed k []"
  by (simp add: keyed_def)

lemma keyed_Cons: "keyed k (r # t) \<longleftrightarrow> k r \<notin> k ` set t \<and> keyed k t"
  by (simp add: keyed_def)

lemma keyed_append: "keyed k (t @ [r]) \<longleftrightarrow> k r \<notin> k ` set t \<and> keyed k t"
  by (auto simp: keyed_def)

lemma keyed_unique: "keyed k t \<Longrightarrow> r \<in> set t \<Longrightarrow> q \<in> set t \<Longrightarrow> k r = k q \<Longrightarrow> r = q"
  by (auto simp: keyed_def distinct_map inj_on_def)

lemma keyed_update: "(\<And>r. P r \<Longrightarrow> k (f r) = k r) \<Longrightarrow> keyed k (sql_update P f t) = keyed k t"
  by (simp add: keyed_def map_sql_update)

lemma keyed_filter: "keyed k t \<Longrightarrow> keyed k (filter P t)"
  by (simp add: keyed_def distinct_map_filter)

lemma keyed_delete: "keyed k t \<Longrightarrow> keyed k (sql_delete P t)"
  by (simp add: sql_delete_def keyed_filter)

lemma sql_find_keyed:
  assumes "keyed k t" and "r \<in> set t" and "P r" and "\<And>q. P q \<Longrightarrow> k q = k r"
  shows "sql_find P t = Some r"
proof (cases "sql_find P t")
  case None
  then show ?thesis using assms(2,3) by (auto simp: sql_find_None)
next
  case (Some q)
  then show ?thesis using sql_find_Some [OF Some] keyed_unique [OF assms(1,2)] assms(4) by metis
qed

lemma sql_find_update:
  assumes "\<And>r. P r \<Longrightarrow> Q (f r) = Q r"
  shows "sql_find Q (sql_update P f t) = map_option (\<lambda>r. if P r then f r else r) (sql_find Q t)"
  using assms by (induction t) (auto simp: sql sql_update_def)

lemma unique_where_unique:
  "unique_where P k t \<Longrightarrow> r \<in> set t \<Longrightarrow> q \<in> set t \<Longrightarrow> P r \<Longrightarrow> P q \<Longrightarrow> k r = k q \<Longrightarrow> r = q"
  using keyed_unique [of k "filter P t" r q] by (simp add: unique_where_def)

lemma sql_count_keyed: "keyed k t \<Longrightarrow> (\<And>r q. P r \<Longrightarrow> P q \<Longrightarrow> k r = k q) \<Longrightarrow> sql_count P t \<le> 1"
proof (induction t)
  case (Cons r t)
  have "filter P t = []" if "P r"
  proof (rule ccontr)
    assume "filter P t \<noteq> []"
    then obtain q where "q \<in> set t" "P q" by (auto simp: filter_empty_conv)
    then show False using Cons.prems(1) Cons.prems(2) [OF that] by (auto simp: keyed_Cons)
  qed
  moreover have "sql_count P t \<le> 1"
    using Cons.prems(1) by (intro Cons.IH Cons.prems(2)) (simp_all add: keyed_Cons)
  ultimately show ?case by (auto simp: sql_count_def)
qed (simp add: sql_count_def)

lemma unique_where_kept:
  "unique_where P k t \<Longrightarrow> (\<And>r. r \<in> set t \<Longrightarrow> P (f r) \<Longrightarrow> P r \<and> k (f r) = k r) \<Longrightarrow> unique_where P k (map f t)"
proof (induction t)
  case (Cons r t)
  have IH: "unique_where P k (map f t)"
    using Cons by (auto simp: unique_where_def keyed_Cons split: if_splits)
  show ?case
  proof (cases "P (f r)")
    case True
    then have r: "P r" "k (f r) = k r" using Cons.prems(2) [of r] by auto
    have "k (f r) \<notin> k ` set (filter P (map f t))"
    proof
      assume "k (f r) \<in> k ` set (filter P (map f t))"
      then obtain q where q: "q \<in> set t" "P (f q)" "k (f r) = k (f q)" by auto
      then have "P q" "k (f q) = k q" using Cons.prems(2) [of q] by auto
      then have "k r \<in> k ` set (filter P t)" using q r by (auto intro!: image_eqI [of _ k q])
      then show False using Cons.prems(1) r(1) by (simp add: unique_where_def keyed_Cons)
    qed
    then show ?thesis using IH True by (simp add: unique_where_def keyed_Cons)
  next
    case False
    then show ?thesis using IH by (simp add: unique_where_def)
  qed
qed (simp add: unique_where_def)

lemma unique_where_update:
  "unique_where P k t \<Longrightarrow> (\<And>r. r \<in> set t \<Longrightarrow> Q r \<Longrightarrow> P (f r) \<Longrightarrow> P r \<and> k (f r) = k r) \<Longrightarrow>
   unique_where P k (sql_update Q f t)"
  unfolding sql_update_def by (rule unique_where_kept) auto

lemma unique_where_insert:
  "unique_where P k t \<Longrightarrow> (P r \<Longrightarrow> \<forall>q \<in> set t. P q \<longrightarrow> k q \<noteq> k r) \<Longrightarrow> unique_where P k (t @ [r])"
  by (auto simp: unique_where_def keyed_append)

lemma unique_where_delete: "unique_where P k t \<Longrightarrow> unique_where P k (sql_delete Q t)"
  unfolding unique_where_def sql_delete_def
  using keyed_filter [of k "filter P t" "\<lambda>r. \<not> Q r"] by (simp add: conj_commute)

section \<open>Transactions\<close>

type_synonym ('d, 'a) tx = "'d \<Rightarrow> ('d \<times> 'a) result"

text \<open>
  What the database server does to a transaction: it commits (\<open>TxOk\<close>), is aborted with a
  retryable error (SQLSTATE 40001 or 40P01), is aborted with another error, or commits while
  the answer to the client is lost.
\<close>

datatype tx_fault = TxOk | TxSerialization | TxAborted | TxLost

definition serializationError :: string where "serializationError = ''serialization failure''"
definition dbError :: string where "dbError = ''database error''"

definition run_tx :: "tx_fault \<Rightarrow> ('d, 'a) tx \<Rightarrow> 'd \<Rightarrow> 'd \<times> 'a result" where
  "run_tx flt t d =
     (case flt of
        TxSerialization \<Rightarrow> (d, Inl serializationError)
      | TxAborted \<Rightarrow> (d, Inl dbError)
      | TxOk \<Rightarrow> (case t d of Inl e \<Rightarrow> (d, Inl e) | Inr (d', x) \<Rightarrow> (d', Inr x))
      | TxLost \<Rightarrow> (case t d of Inl e \<Rightarrow> (d, Inl e) | Inr (d', x) \<Rightarrow> (d', Inl dbError)))"

text \<open>A committed or lost transaction leaves its own result, anything else leaves no trace.\<close>

lemma run_tx_cases:
  assumes "run_tx flt t d = (d', r)"
  obtains "d' = d" "\<exists>e. r = Inl e"
  | x where "t d = Inr (d', x)" "r = Inr x \<or> r = Inl dbError"
  using assms by (cases flt) (auto simp: run_tx_def split: sum.splits)

lemma run_tx_ok: "run_tx flt t d = (d', Inr x) \<Longrightarrow> t d = Inr (d', x)"
  by (cases flt) (auto simp: run_tx_def split: sum.splits)

lemma run_tx_inv: "run_tx flt t d = (d', r) \<Longrightarrow> I d \<Longrightarrow> (\<And>x. t d = Inr (d', x) \<Longrightarrow> I d') \<Longrightarrow> I d'"
  by (cases flt) (auto simp: run_tx_def split: sum.splits)

text \<open>
  \<open>retrySerializable\<close>: after a retryable abort the call waits, during which other transactions
  may change the database, or its context ends.
\<close>

datatype 'd wait = Waited "'d \<Rightarrow> 'd" | Cancelled

definition serializableRetryLimit :: nat where "serializableRetryLimit = 8"

fun retry_tx :: "nat \<Rightarrow> (tx_fault \<times> 'd wait) list \<Rightarrow> ('d, 'a) tx \<Rightarrow> 'd \<Rightarrow> 'd \<times> 'a result" where
  "retry_tx 0 attempts t d = (d, Inl serializationError)"
| "retry_tx (Suc n) [] t d = run_tx TxOk t d"
| "retry_tx (Suc n) ((flt, w) # attempts) t d =
     (let (d', r) = run_tx flt t d in
      if r \<noteq> Inl serializationError then (d', r)
      else (case w of Cancelled \<Rightarrow> (d', Inl ''context cancelled'') | Waited others \<Rightarrow> retry_tx n attempts t (others d')))"

text \<open>A success is the result of one committed attempt on the database as that attempt found it.\<close>

lemma retry_tx_ok:
  "retry_tx n attempts t d = (d', Inr x) \<Longrightarrow> \<exists>d0. t d0 = Inr (d', x)"
proof (induction n attempts t d rule: retry_tx.induct)
  case (3 n flt w attempts t d)
  obtain d1 r where r: "run_tx flt t d = (d1, r)" by (cases "run_tx flt t d")
  show ?case
    using 3 r run_tx_ok [of flt t d d1] by (auto split: if_splits wait.splits)
qed (auto dest: run_tx_ok)

lemma retry_tx_inv:
  assumes "\<And>d d' x. I d \<Longrightarrow> t d = Inr (d', x) \<Longrightarrow> I d'"
    and "\<And>flt others d. (flt, Waited others) \<in> set attempts \<Longrightarrow> I d \<Longrightarrow> I (others d)"
  shows "retry_tx n attempts t d = (d', r) \<Longrightarrow> I d \<Longrightarrow> I d'"
  using assms(2)
proof (induction attempts arbitrary: n d)
  case Nil
  then show ?case
    by (cases n) (auto elim!: run_tx_cases intro: assms(1))
next
  case (Cons a attempts)
  obtain flt w where a: "a = (flt, w)" by (cases a)
  show ?case
  proof (cases n)
    case 0
    then show ?thesis using Cons.prems by simp
  next
    case (Suc m)
    obtain d1 r1 where r: "run_tx flt t d = (d1, r1)" by (cases "run_tx flt t d")
    have d1: "I d1" using r Cons.prems(2) by (auto elim!: run_tx_cases intro: assms(1))
    show ?thesis
    proof (cases "r1 = Inl serializationError")
      case False
      then show ?thesis using Cons.prems(1) d1 Suc a r by simp
    next
      case True
      show ?thesis
      proof (cases w)
        case Cancelled
        then show ?thesis using Cons.prems(1) d1 Suc a r True by simp
      next
        case (Waited others)
        then have "I (others d1)" using Cons.prems(3) [of flt others d1] a d1 by simp
        moreover have "retry_tx m attempts t (others d1) = (d', r)"
          using Cons.prems(1) Suc a r True Waited by simp
        ultimately show ?thesis
          using Cons.prems(3) by (intro Cons.IH [of m "others d1"]) (auto intro: list.set_intros(2))
      qed
    qed
  qed
qed

end
