(* ===== verification/Agent_Mode.thy ===== *)
theory Agent_Mode
  imports Agent_Ownership
begin

text \<open>
  The control mode of a node (\<open>agent/control_mode.go\<close>), the lease confirmations that ride on
  a heartbeat (\<open>agent/activity_leases.go\<close>), the peer witnesses of a controller outage
  (\<open>agent/peer_witness.go\<close>) and the credential rotation offer (\<open>agent/heartbeat.go\<close>).

  A heartbeat ends in \<open>recordControllerFailure\<close> or in \<open>recordControllerSuccess\<close>, which move
  the node between managed, controller-unreachable, independent and independent-draining. A
  call to the loopback adapter is a parameter: it takes the agent at the time of the call and
  returns the agent at the time of the answer, so that other critical sections may run between.
\<close>

section \<open>Policy\<close>

record normalized_policy =
  np_unreachableAfter :: duration
  np_independentAfter :: duration
  np_minFailures :: int

definition normalizeDisasterPolicy :: "disaster_policy \<Rightarrow> normalized_policy" where
  "normalizeDisasterPolicy p =
     (let unreachable = (if dp_UnreachableAfterSec p \<le> 0 then 45 else dp_UnreachableAfterSec p);
          independent = (if dp_IndependentAfterSec p \<le> unreachable then 15 * 60 else dp_IndependentAfterSec p);
          minFailed = (if dp_MinFailedHeartbeats p < 2 then 4 else dp_MinFailedHeartbeats p)
      in \<lparr>np_unreachableAfter = i64 (unreachable * second),
          np_independentAfter = i64 (independent * second), np_minFailures = minFailed\<rparr>)"

definition validNodeControlMode :: "string \<Rightarrow> bool" where
  "validNodeControlMode m \<longleftrightarrow>
     m = NodeModeManaged \<or> m = NodeModeControllerUnreachable \<or> m = NodeModeIndependent \<or>
     m = NodeModeIndependentDraining"

section \<open>Commands by mode\<close>

abbreviation agent_mode :: "agent \<Rightarrow> control_mode" where
  "agent_mode a \<equiv> rs_ControlMode (ag_state a)"

definition managedCommandsAllowed :: "agent \<Rightarrow> bool" where
  "managedCommandsAllowed a \<longleftrightarrow> cm_Mode (agent_mode a) = NodeModeManaged"

definition commandChannelAllowed :: "agent \<Rightarrow> bool" where
  "commandChannelAllowed a \<longleftrightarrow>
     cm_Mode (agent_mode a) = NodeModeManaged \<or> cm_Mode (agent_mode a) = NodeModeIndependentDraining"

definition independentReconciliationCommands :: "string list" where
  "independentReconciliationCommands =
     [''prepare_snapshot_receive'', ''start_snapshot'', ''start_relay_receive'', ''get_snapshot_receipt'',
      ''verify_replica_integrity'', ''verify_replica_integrity_v2'', ''complete_independent_sync'',
      ''freeze_user_data'', ''release_user_data'', ''capture_conflict_evidence'',
      ''read_conflict_evidence_page'', ''start_conflict_evidence_transfer'',
      ''prepare_conflict_resolution'', ''apply_conflict_resolution_decisions'',
      ''publish_conflict_resolution'']"

definition independentReconciliationCommand :: "string \<Rightarrow> bool" where
  "independentReconciliationCommand t \<longleftrightarrow> t \<in> set independentReconciliationCommands"

definition commandAllowed :: "string \<Rightarrow> agent \<Rightarrow> bool" where
  "commandAllowed t a \<longleftrightarrow>
     cm_Mode (agent_mode a) = NodeModeManaged \<or>
     (cm_Mode (agent_mode a) = NodeModeIndependentDraining \<and> independentReconciliationCommand t)"

section \<open>Report\<close>

record independent_takeover =
  it_OperationID :: string
  it_Handle :: string
  it_ParentClaimID :: string
  it_ClaimID :: string
  it_ControllerGeneration :: int
  it_ActivityEpoch :: int
  it_TakeoverSequence :: int
  it_ConfirmedAt :: int

record mode_report =
  mr_Mode :: string
  mr_ModeGeneration :: int
  mr_ControllerGeneration :: int
  mr_ReasonCode :: string
  mr_HeartbeatFails :: int
  mr_HealthProbeFails :: int
  mr_PeerWitnessFails :: int
  mr_OutageStartedAt :: gotime
  mr_ConfirmedOutageStartedAt :: gotime
  mr_LastControllerSuccessAt :: gotime
  mr_IndependentSince :: gotime
  mr_ActiveIndependentSessions :: int
  mr_PendingUserSyncs :: int
  mr_PendingUsers :: "sync_user list"
  mr_ConfirmedTakeovers :: "independent_takeover list"

definition report_takeover :: "takeover_op \<Rightarrow> independent_takeover" where
  "report_takeover op = \<lparr>it_OperationID = to_OperationID op, it_Handle = cl_Handle (to_Claim op),
     it_ParentClaimID = to_ParentClaimID op, it_ClaimID = cl_ClaimID (to_Claim op),
     it_ControllerGeneration = cl_ControllerGeneration (to_Claim op),
     it_ActivityEpoch = cl_ActivityEpoch (to_Claim op), it_TakeoverSequence = cl_TakeoverSequence (to_Claim op),
     it_ConfirmedAt = to_UpdatedAt op\<rparr>"

definition controlModeReport :: "agent \<Rightarrow> mode_report" where
  "controlModeReport a =
     (let s = agent_mode a in
      \<lparr>mr_Mode = cm_Mode s, mr_ModeGeneration = cm_ModeGeneration s,
       mr_ControllerGeneration = rs_HighestGeneration (ag_state a), mr_ReasonCode = cm_ReasonCode s,
       mr_HeartbeatFails = cm_HeartbeatFails s, mr_HealthProbeFails = cm_HealthProbeFails s,
       mr_PeerWitnessFails = cm_PeerWitnessFails s, mr_OutageStartedAt = cm_OutageStartedAt s,
       mr_ConfirmedOutageStartedAt = cm_ConfirmedOutageStartedAt s,
       mr_LastControllerSuccessAt = cm_LastControllerSuccessAt s,
       mr_IndependentSince = cm_IndependentSince s,
       mr_ActiveIndependentSessions = cm_ActiveIndependentSessions s,
       mr_PendingUserSyncs = cm_PendingUserSyncs s,
       mr_PendingUsers = rs_PendingIndependentUsers (ag_state a),
       mr_ConfirmedTakeovers = map report_takeover (filter (\<lambda>op. to_Succeeded op \<and> to_Audited op)
         (map snd (rs_OwnershipTakeovers (ag_state a))))\<rparr>)"

section \<open>A failed heartbeat\<close>

text \<open>
  \<open>count_failure\<close> is the first half of \<open>recordControllerFailure\<close>, up to the outage times;
  \<open>decide_failure\<close> is the mode it chooses, with the reason and the start of independence.
\<close>

definition count_failure :: "gotime \<Rightarrow> bool \<Rightarrow> bool \<Rightarrow> control_mode \<Rightarrow> control_mode" where
  "count_failure now healthProbeFailed peerQuorumConfirmed s =
     (let s1 = s\<lparr>cm_HeartbeatFails := i64 (cm_HeartbeatFails s + 1),
            cm_HealthProbeFails := (if healthProbeFailed then i64 (cm_HealthProbeFails s + 1) else 0)\<rparr>;
          s2 = (if healthProbeFailed \<and> peerQuorumConfirmed then
              s1\<lparr>cm_ConfirmedOutageStartedAt :=
                   (if cm_PeerWitnessFails s1 = 0 \<or> cm_ConfirmedOutageStartedAt s1 = time_zero then now
                    else cm_ConfirmedOutageStartedAt s1),
                 cm_PeerWitnessFails := i64 (cm_PeerWitnessFails s1 + 1)\<rparr>
            else s1\<lparr>cm_PeerWitnessFails := 0, cm_ConfirmedOutageStartedAt := time_zero\<rparr>)
      in if cm_OutageStartedAt s2 = time_zero then s2\<lparr>cm_OutageStartedAt := now\<rparr> else s2)"

definition evidence_sustained :: "normalized_policy \<Rightarrow> string \<Rightarrow> gotime \<Rightarrow> control_mode \<Rightarrow> bool" where
  "evidence_sustained p role now s \<longleftrightarrow>
     role = ''compute'' \<and> cm_ConfirmedOutageStartedAt s \<noteq> time_zero \<and>
     time_sub now (cm_ConfirmedOutageStartedAt s) \<ge> np_independentAfter p \<and>
     cm_HeartbeatFails s \<ge> np_minFailures p \<and> cm_HealthProbeFails s \<ge> np_minFailures p \<and>
     cm_PeerWitnessFails s \<ge> np_minFailures p"

definition decide_failure ::
    "normalized_policy \<Rightarrow> string \<Rightarrow> gotime \<Rightarrow> bool \<Rightarrow> bool \<Rightarrow> control_mode \<Rightarrow> string \<times> string \<times> gotime" where
  "decide_failure p role now healthProbeFailed peerQuorumConfirmed s =
     (let (m1, r1) = (if cm_Mode s = NodeModeIndependent \<and> (\<not> healthProbeFailed \<or> \<not> peerQuorumConfirmed)
            then (NodeModeIndependentDraining, ''controller_loss_evidence_disputed'')
            else (cm_Mode s, cm_ReasonCode s));
          (m2, r2) = (if m1 = NodeModeManaged \<and> time_sub now (cm_OutageStartedAt s) \<ge> np_unreachableAfter p
            then (NodeModeControllerUnreachable, ''controller_heartbeat_timeout'') else (m1, r1))
      in if m2 \<noteq> NodeModeIndependentDraining \<and> evidence_sustained p role now s
         then (NodeModeIndependent, ''sustained_peer_confirmed_controller_loss'',
               if cm_IndependentSince s = time_zero then now else cm_IndependentSince s)
         else (m2, r2, cm_IndependentSince s))"

definition failure_mode :: "normalized_policy \<Rightarrow> string \<Rightarrow> gotime \<Rightarrow> bool \<Rightarrow> bool \<Rightarrow> control_mode \<Rightarrow> control_mode" where
  "failure_mode p role now hp pq s0 =
     (let s = count_failure now hp pq s0; (mode, reason, since) = decide_failure p role now hp pq s;
          s1 = s\<lparr>cm_IndependentSince := since\<rparr>;
          s2 = (if mode \<noteq> cm_Mode s1
                then s1\<lparr>cm_Mode := mode, cm_ModeGeneration := i64 (cm_ModeGeneration s1 + 1),
                        cm_ChangedAt := now, cm_AdapterMode := []\<rparr>
                else s1)
      in s2\<lparr>cm_ReasonCode := reason\<rparr>)"

definition recordControllerFailure ::
    "save_fault \<Rightarrow> gotime \<Rightarrow> bool \<Rightarrow> bool \<Rightarrow> agent \<Rightarrow> agent \<times> unit result" where
  "recordControllerFailure flt now healthProbeFailed peerQuorumConfirmed a =
     update_save flt (\<lambda>s. s\<lparr>rs_ControlMode :=
       failure_mode (normalizeDisasterPolicy (cfg_Disaster (ag_Cfg a))) (cfg_Role (ag_Cfg a)) now
         healthProbeFailed peerQuorumConfirmed (rs_ControlMode s)\<rparr>) a"

section \<open>Lease confirmations\<close>

record rotation_offer =
  ro_CredentialVersion :: int
  ro_ControllerGeneration :: int
  ro_EncryptedPSK :: string
  ro_ExpiresAt :: gotime

record heartbeat_response =
  hb_ControllerGeneration :: int
  hb_DesiredMode :: string
  hb_ModeGeneration :: int
  hb_AcknowledgedTakeovers :: "string list"
  hb_CredentialRotation :: "rotation_offer option"
  hb_LeaseConfirmedAt :: int
  hb_LeaseConfirmations :: "lease_confirmation list"
  hb_ExpectedDiskQuotaBytes :: int
  hb_QuotaPolicyVersion :: int

definition maxActivityLeaseConfirmations :: nat where "maxActivityLeaseConfirmations = 10000"
definition maxConfirmedActivityLease :: duration where "maxConfirmedActivityLease = 24 * hour + 6 * minute"

fun validate_leases :: "golib \<Rightarrow> int \<Rightarrow> int \<Rightarrow> string list \<Rightarrow> lease_confirmation list \<Rightarrow> unit result" where
  "validate_leases lib generation confirmedAt seen [] = Inr ()"
| "validate_leases lib generation confirmedAt seen (l # ls) =
     (if \<not> validOwnershipHandle lib (lc_Handle l) \<or> \<not> validUUID (lc_SessionID l) \<or> lc_ActivityEpoch l \<le> 0 \<or>
         lc_ControllerGeneration l \<noteq> generation \<or> lc_LeaseExpiresAt l \<le> confirmedAt \<or>
         i64 (lc_LeaseExpiresAt l - confirmedAt) > maxConfirmedActivityLease div 1000000
      then Inl ''invalid confirmed lease''
      else if lc_Handle l \<in> set seen then Inl ''duplicate confirmed lease''
      else validate_leases lib generation confirmedAt (lc_Handle l # seen) ls)"

definition validateAgentActivityLeaseState :: "golib \<Rightarrow> lease_state \<Rightarrow> unit result" where
  "validateAgentActivityLeaseState lib s =
     (if ls_ConfirmedAt s = 0 then
        if ls_ControllerGeneration s \<noteq> 0 \<or> ls_AdapterConfirmedAt s \<noteq> 0 \<or> ls_Leases s \<noteq> []
        then Inl ''empty confirmation has state'' else Inr ()
      else if ls_ControllerGeneration s \<le> 0 \<or> ls_ConfirmedAt s < 0 \<or> ls_AdapterConfirmedAt s < 0 \<or>
         ls_AdapterConfirmedAt s > ls_ConfirmedAt s \<or> length (ls_Leases s) > maxActivityLeaseConfirmations
      then Inl ''invalid confirmation envelope''
      else validate_leases lib (ls_ControllerGeneration s) (ls_ConfirmedAt s) [] (ls_Leases s))"

definition recordActivityLeaseConfirmations ::
    "golib \<Rightarrow> gotime \<Rightarrow> gotime \<Rightarrow> heartbeat_response \<Rightarrow> agent \<Rightarrow> agent \<times> unit result" where
  "recordActivityLeaseConfirmations lib clock now response a =
     (if hb_LeaseConfirmedAt response = 0 then
        if hb_LeaseConfirmations response \<noteq> [] then (a, Inl ''activity lease confirmations lack observation time'')
        else (a, Inr ())
      else
        let now' = (if now = time_zero then clock else now);
            state = \<lparr>ls_ControllerGeneration = hb_ControllerGeneration response,
              ls_ConfirmedAt = hb_LeaseConfirmedAt response, ls_Leases = hb_LeaseConfirmations response,
              ls_AdapterConfirmedAt = 0\<rparr>;
            current = rs_ActivityLeases (ag_state a) in
        if hb_LeaseConfirmedAt response > unix_milli (now' + minute)
        then (a, Inl ''activity lease observation is in the future'')
        else
          (case validateAgentActivityLeaseState lib state of
             Inl e \<Rightarrow> (a, Inl e)
           | Inr _ \<Rightarrow>
               if ls_ConfirmedAt state < ls_ConfirmedAt current
               then (a, Inl ''activity lease confirmation rollback rejected'')
               else if ls_ConfirmedAt state = ls_ConfirmedAt current then
                 if ls_ControllerGeneration state \<noteq> ls_ControllerGeneration current \<or>
                    ls_Leases state \<noteq> ls_Leases current
                 then (a, Inl ''activity lease confirmation time reused'') else (a, Inr ())
               else (set_state (\<lambda>s. s\<lparr>rs_ActivityLeases := state\<rparr>) a, Inr ())))"

section \<open>A successful heartbeat\<close>

fun check_acknowledgements :: "string list \<Rightarrow> string list \<Rightarrow> unit result" where
  "check_acknowledgements seen [] = Inr ()"
| "check_acknowledgements seen (i # is) =
     (if \<not> validUUID i then Inl ''invalid takeover acknowledgements''
      else if i \<in> set seen then Inl ''duplicate takeover acknowledgement''
      else check_acknowledgements (i # seen) is)"

definition success_mode :: "gotime \<Rightarrow> heartbeat_response \<Rightarrow> string \<Rightarrow> control_mode \<Rightarrow> control_mode" where
  "success_mode now response desired s =
     (let s1 = s\<lparr>cm_LastControllerSuccessAt := now, cm_OutageStartedAt := time_zero,
            cm_ConfirmedOutageStartedAt := time_zero, cm_HeartbeatFails := 0, cm_HealthProbeFails := 0,
            cm_PeerWitnessFails := 0, cm_ControllerGeneration := hb_ControllerGeneration response\<rparr>
      in if desired \<noteq> cm_Mode s1 then
           let s2 = s1\<lparr>cm_Mode := desired, cm_ModeGeneration := hb_ModeGeneration response,
                 cm_ChangedAt := now, cm_AdapterMode := []\<rparr>
           in if desired = NodeModeManaged
              then s2\<lparr>cm_ReasonCode := ''controller_reconciled'', cm_IndependentSince := time_zero\<rparr>
              else if desired = NodeModeIndependentDraining
              then s2\<lparr>cm_ReasonCode := ''controller_recovered''\<rparr> else s2
         else s1)"

definition desired_mode :: "heartbeat_response \<Rightarrow> control_mode \<Rightarrow> string" where
  "desired_mode response s =
     (if cm_Mode s = NodeModeIndependent \<and> hb_DesiredMode response = NodeModeManaged
      then NodeModeIndependentDraining else hb_DesiredMode response)"

definition mode_refused :: "heartbeat_response \<Rightarrow> control_mode \<Rightarrow> string option" where
  "mode_refused response s =
     (if hb_ModeGeneration response < cm_ModeGeneration s
      then Some ''node mode generation rollback rejected''
      else if cm_Mode s = NodeModeIndependentDraining \<and> desired_mode response s = NodeModeManaged \<and>
         (cm_ActiveIndependentSessions s > 0 \<or> cm_PendingUserSyncs s > 0)
      then Some ''controller attempted to skip independent session draining''
      else if hb_ModeGeneration response = cm_ModeGeneration s \<and> desired_mode response s \<noteq> cm_Mode s
      then Some ''node mode generation reuse rejected''
      else None)"

definition recordControllerSuccess ::
    "golib \<Rightarrow> save_fault \<Rightarrow> save_fault \<Rightarrow> gotime \<Rightarrow> gotime \<Rightarrow> heartbeat_response \<Rightarrow> agent \<Rightarrow>
     agent \<times> unit result" where
  "recordControllerSuccess lib flt1 flt2 clock now response a =
     (if hb_ControllerGeneration response \<le> 0 then (a, Inl ''controller generation rollback rejected'')
      else
        let (b, accepted) = acceptGeneration flt1 (hb_ControllerGeneration response) a in
        if \<not> accepted then (b, Inl ''controller generation rollback rejected'')
        else if \<not> validNodeControlMode (hb_DesiredMode response) \<or> hb_ModeGeneration response \<le> 0
        then (b, Inl ''invalid controller mode response'')
        else if length (hb_AcknowledgedTakeovers response) > maxOwnershipTakeovers
        then (b, Inl ''invalid takeover acknowledgements'')
        else
          (case check_acknowledgements [] (hb_AcknowledgedTakeovers response) of
             Inl e \<Rightarrow> (b, Inl e)
           | Inr _ \<Rightarrow>
               (case mode_refused response (agent_mode b) of
                  Some e \<Rightarrow> (b, Inl e)
                | None \<Rightarrow>
                    (case recordActivityLeaseConfirmations lib clock now response b of
                       (c, Inl e) \<Rightarrow> (c, Inl ''activity lease confirmations rejected'')
                     | (c, Inr _) \<Rightarrow>
                         update_save flt2 (\<lambda>s. s\<lparr>rs_OwnershipTakeovers :=
                             filter (\<lambda>(i, op). \<not> (i \<in> set (hb_AcknowledgedTakeovers response) \<and>
                               to_Succeeded op \<and> to_Audited op)) (rs_OwnershipTakeovers s),
                           rs_ControlMode := success_mode now response
                             (desired_mode response (rs_ControlMode s)) (rs_ControlMode s)\<rparr>) c))))"

section \<open>Applying the mode and the leases at the adapter\<close>

record apply_mode_response =
  am_OK :: bool
  am_AppliedMode :: string
  am_ModeGeneration :: int
  am_ActiveIndependentSessions :: int
  am_PendingUserSyncs :: int

type_synonym 'r adapter_call = "agent \<Rightarrow> agent \<times> 'r result"

definition set_mode :: "(control_mode \<Rightarrow> control_mode) \<Rightarrow> runtime_state \<Rightarrow> runtime_state" where
  "set_mode f s = s\<lparr>rs_ControlMode := f (rs_ControlMode s)\<rparr>"

definition syncTavernControlMode ::
    "save_fault \<Rightarrow> apply_mode_response adapter_call \<Rightarrow> agent \<Rightarrow> agent \<times> unit result" where
  "syncTavernControlMode flt call a =
     (let state = agent_mode a; generation = rs_HighestGeneration (ag_state a) in
      if cm_AdapterMode state = cm_Mode state \<and> cm_AdapterControllerGeneration state \<ge> generation
      then (a, Inr ())
      else if cfg_Role (ag_Cfg a) = ''storage'' then
        update_save flt (set_mode (\<lambda>m. m\<lparr>cm_AdapterMode := cm_Mode state,
          cm_AdapterControllerGeneration := generation\<rparr>)) a
      else
        (case call a of
           (b, Inl e) \<Rightarrow> (b, Inl e)
         | (b, Inr r) \<Rightarrow>
             if \<not> am_OK r \<or> am_AppliedMode r \<noteq> cm_Mode state \<or> am_ModeGeneration r \<noteq> cm_ModeGeneration state \<or>
                am_ActiveIndependentSessions r < 0 \<or> am_PendingUserSyncs r < 0
             then (b, Inl ''node adapter returned invalid control mode state'')
             else if cm_Mode (agent_mode b) \<noteq> cm_Mode state \<or>
                cm_ModeGeneration (agent_mode b) \<noteq> cm_ModeGeneration state
             then (b, Inr ())
             else update_save flt (set_mode (\<lambda>m. m\<lparr>cm_AdapterMode := am_AppliedMode r,
               cm_AdapterControllerGeneration := generation,
               cm_ActiveIndependentSessions := am_ActiveIndependentSessions r,
               cm_PendingUserSyncs := am_PendingUserSyncs r\<rparr>)) b))"

record apply_leases_response =
  al_OK :: bool
  al_ConfirmedAt :: int
  al_AppliedLeases :: int

definition set_adapter_confirmed :: "int \<Rightarrow> runtime_state \<Rightarrow> runtime_state" where
  "set_adapter_confirmed t s = s\<lparr>rs_ActivityLeases := (rs_ActivityLeases s)\<lparr>ls_AdapterConfirmedAt := t\<rparr>\<rparr>"

definition syncTavernActivityLeases ::
    "save_fault \<Rightarrow> apply_leases_response adapter_call \<Rightarrow> agent \<Rightarrow> agent \<times> unit result" where
  "syncTavernActivityLeases flt call a =
     (let state = rs_ActivityLeases (ag_state a) in
      if ls_ConfirmedAt state = 0 \<or> ls_AdapterConfirmedAt state = ls_ConfirmedAt state then (a, Inr ())
      else if cfg_Role (ag_Cfg a) = ''storage'' then
        update_save flt (set_adapter_confirmed (ls_ConfirmedAt state)) a
      else
        (case call a of
           (b, Inl e) \<Rightarrow> (b, Inl e)
         | (b, Inr r) \<Rightarrow>
             if \<not> al_OK r \<or> al_ConfirmedAt r \<noteq> ls_ConfirmedAt state \<or> al_AppliedLeases r < 0 \<or>
                al_AppliedLeases r > int (length (ls_Leases state))
             then (b, Inl ''invalid adapter activity lease confirmation response'')
             else if ls_ConfirmedAt (rs_ActivityLeases (ag_state b)) \<noteq> ls_ConfirmedAt state then (b, Inr ())
             else update_save flt (set_adapter_confirmed (ls_ConfirmedAt state)) b))"

section \<open>Credential rotation\<close>

record confirm_response =
  cf_OK :: bool
  cf_CredentialVersion :: int
  cf_ControllerGeneration :: int

text \<open>
  \<open>answer\<close> is the controller's answer to the confirmation request: the transport error, or
  the status with the decoded body. \<open>plaintext\<close> is the result of decrypting the offer.
\<close>

definition resumeControllerCredentialRotation ::
    "save_fault \<Rightarrow> bool \<Rightarrow> gotime \<Rightarrow> (int \<times> confirm_response option) result \<Rightarrow> agent \<Rightarrow> agent \<times> unit result" where
  "resumeControllerCredentialRotation flt cfg_saved now answer a =
     (let c = agent_credential a in
      if cs_PendingPSK c = [] then (a, Inr ())
      else if \<not> cs_PendingExpiresAt c > now then clearPendingControllerCredential flt (cs_PendingVersion c) a
      else
        (case answer of
           Inl e \<Rightarrow> (a, Inl e)
         | Inr (status, body) \<Rightarrow>
             if status = 409 \<or> status = 410 then clearPendingControllerCredential flt (cs_PendingVersion c) a
             else if status \<noteq> 200 then (a, Inl ''credential confirmation returned status'')
             else
               (case body of
                  None \<Rightarrow> (a, Inl ''invalid credential confirmation response'')
                | Some r \<Rightarrow>
                    if \<not> cf_OK r \<or> cf_CredentialVersion r \<noteq> cs_PendingVersion c \<or>
                       cf_ControllerGeneration r \<noteq> cs_PendingGeneration c
                    then (a, Inl ''invalid credential confirmation response'')
                    else activatePendingControllerCredential flt cfg_saved
                      (cf_CredentialVersion r) (cf_ControllerGeneration r) a)))"

definition acceptControllerCredentialRotation ::
    "save_fault \<Rightarrow> save_fault \<Rightarrow> bool \<Rightarrow> gotime \<Rightarrow> string result \<Rightarrow> (int \<times> confirm_response option) result \<Rightarrow>
     heartbeat_response \<Rightarrow> agent \<Rightarrow> agent \<times> unit result" where
  "acceptControllerCredentialRotation flt1 flt2 cfg_saved now plaintext answer response a =
     (case hb_CredentialRotation response of
        None \<Rightarrow> (a, Inr ())
      | Some offer \<Rightarrow>
          let (_, currentVersion) = controllerCredential a in
          if ro_CredentialVersion offer \<le> currentVersion \<or>
             ro_ControllerGeneration offer \<noteq> hb_ControllerGeneration response \<or>
             ro_ControllerGeneration offer \<le> 0 \<or> \<not> ro_ExpiresAt offer > now \<or>
             ro_ExpiresAt offer > now + 25 * hour \<or> ro_EncryptedPSK offer = []
          then (a, Inl ''invalid controller credential rotation offer'')
          else
            (case plaintext of
               Inl e \<Rightarrow> (a, Inl ''decrypt controller credential rotation offer'')
             | Inr psk \<Rightarrow>
                 if length psk < 32 \<or> length psk > 128
                 then (a, Inl ''decrypt controller credential rotation offer'')
                 else
                   (case persistPendingControllerCredential flt1 now psk (ro_CredentialVersion offer)
                           (ro_ControllerGeneration offer) (ro_ExpiresAt offer) a of
                      (b, Inl e) \<Rightarrow> (b, Inl e)
                    | (b, Inr _) \<Rightarrow> resumeControllerCredentialRotation flt2 cfg_saved now answer b)))"

section \<open>Peer witnesses\<close>

definition maxPeerWitnesses :: nat where "maxPeerWitnesses = 8"

fun check_endpoints :: "(string \<Rightarrow> string result) \<Rightarrow> string list \<Rightarrow> string list \<Rightarrow> unit result" where
  "check_endpoints endpoint seen [] = Inr ()"
| "check_endpoints endpoint seen (u # us) =
     (case endpoint u of
        Inl e \<Rightarrow> Inl e
      | Inr e \<Rightarrow> if e \<in> set seen then Inl ''duplicate peer witness URL''
                 else check_endpoints endpoint (e # seen) us)"

text \<open>\<open>endpoint\<close> stands for \<open>peerWitnessEndpoint\<close>, which rests on the URL parser of the library.\<close>

definition validatePeerWitnessPolicy :: "golib \<Rightarrow> (string \<Rightarrow> string result) \<Rightarrow> disaster_policy \<Rightarrow> unit result" where
  "validatePeerWitnessPolicy lib endpoint p =
     (if length (dp_PeerWitnessURLs p) > maxPeerWitnesses then Inl ''at most 8 peer witnesses are allowed''
      else
        (case check_endpoints endpoint [] (dp_PeerWitnessURLs p) of
           Inl e \<Rightarrow> Inl e
         | Inr _ \<Rightarrow>
             if CHR 0x0D \<in> set (dp_PeerWitnessSecretEnv p) \<or> CHR 0x0A \<in> set (dp_PeerWitnessSecretEnv p) \<or>
                CHR 0x00 \<in> set (dp_PeerWitnessSecretEnv p) \<or>
                go_TrimSpace lib (dp_PeerWitnessSecretEnv p) \<noteq> dp_PeerWitnessSecretEnv p
             then Inl ''invalid peer witness secret environment variable'' else Inr ()))"

definition loadPeerWitnessSecret ::
    "golib \<Rightarrow> (string \<Rightarrow> string result) \<Rightarrow> (string \<Rightarrow> string option) \<Rightarrow> agent \<Rightarrow> agent \<times> unit result" where
  "loadPeerWitnessSecret lib endpoint lookupEnv a =
     (case validatePeerWitnessPolicy lib endpoint (cfg_Disaster (ag_Cfg a)) of
        Inl e \<Rightarrow> (a, Inl e)
      | Inr _ \<Rightarrow>
          let envName = go_TrimSpace lib (dp_PeerWitnessSecretEnv (cfg_Disaster (ag_Cfg a))) in
          if envName = [] then
            if peer_urls a \<noteq> [] then (a, Inl ''peer witness secret environment variable is required'') else (a, Inr ())
          else
            (case lookupEnv envName of
               None \<Rightarrow> if peer_urls a \<noteq> [] then (a, Inl ''peer witness secret is unavailable'') else (a, Inr ())
             | Some secret \<Rightarrow>
                 if secret = [] then
                   if peer_urls a \<noteq> [] then (a, Inl ''peer witness secret is unavailable'') else (a, Inr ())
                 else if length secret < minimumPeerWitnessSecretBytes
                 then (a, Inl ''peer witness secret must contain at least 32 bytes'')
                 else (a\<lparr>ag_peerWitnessSecret := secret\<rparr>, Inr ())))"

record witness_response =
  wr_OK :: bool
  wr_WitnessNodeID :: int
  wr_ControllerFingerprint :: string
  wr_ControllerAvailable :: bool
  wr_ObservedAt :: int

text \<open>\<open>probePeerWitness\<close> on an answer of status 200 within the size limit.\<close>

definition probePeerWitness ::
    "golib \<Rightarrow> gotime \<Rightarrow> string \<Rightarrow> string \<Rightarrow> string \<Rightarrow> string \<Rightarrow> string \<Rightarrow> witness_response option \<Rightarrow> agent \<Rightarrow>
     witness_response peer_event" where
  "probePeerWitness lib now fingerprint nonce headerTime signature body decoded a =
     (case ParseInt headerTime of
        None \<Rightarrow> Invalid
      | Some parsed \<Rightarrow>
          if absDuration (time_sub now (time_unix parsed)) > MaxClockSkew \<or>
             Sign lib (ag_peerWitnessSecret a) ''RESPONSE'' ''/agent/disaster-witness/v1'' headerTime nonce body \<noteq> signature
          then Invalid
          else
            (case decoded of
               None \<Rightarrow> Invalid
             | Some r \<Rightarrow>
                 if \<not> wr_OK r \<or> wr_WitnessNodeID r \<le> 0 \<or> wr_WitnessNodeID r = self_id a \<or>
                    wr_ControllerFingerprint r \<noteq> fingerprint \<or> go_div (wr_ObservedAt r) 1000 \<noteq> parsed \<or>
                    absDuration (time_sub now (time_unix_milli (wr_ObservedAt r))) > MaxClockSkew
                 then Invalid else Valid r))"

fun witness_rounds :: "nat \<Rightarrow> witness_response peer_event list \<Rightarrow> int list \<Rightarrow> int list option" where
  "witness_rounds 0 evs confirmed = Some confirmed"
| "witness_rounds (Suc n) [] confirmed = None"
| "witness_rounds (Suc n) (CtxDone # evs) confirmed = None"
| "witness_rounds (Suc n) (Invalid # evs) confirmed = witness_rounds n evs confirmed"
| "witness_rounds (Suc n) (Valid r # evs) confirmed =
     (if wr_ControllerAvailable r then None
      else witness_rounds n evs (List.insert (wr_WitnessNodeID r) confirmed))"

definition required_confirmations :: "nat \<Rightarrow> nat" where
  "required_confirmations urls = (urls + 1) div 2"

definition peerWitnessQuorumConfirmsLoss ::
    "golib \<Rightarrow> (string \<Rightarrow> string result) \<Rightarrow> unit result \<Rightarrow> witness_response peer_event list \<Rightarrow> agent \<Rightarrow> bool" where
  "peerWitnessQuorumConfirmsLoss lib endpoint fingerprint evs a =
     (if length (ag_peerWitnessSecret a) < minimumPeerWitnessSecretBytes \<or> peer_urls a = [] \<or>
         \<not> is_ok (validatePeerWitnessPolicy lib endpoint (cfg_Disaster (ag_Cfg a))) \<or> \<not> is_ok fingerprint
      then False
      else
        (case witness_rounds (length (peer_urls a)) evs [] of
           None \<Rightarrow> False
         | Some confirmed \<Rightarrow> length confirmed \<ge> required_confirmations (length (peer_urls a))))"

text \<open>
  \<open>handlePeerWitness\<close>: \<open>busy\<close> says that no witness slot is free, \<open>available\<close> is the outcome
  of the health probe of the controller. The error is the code of the HTTP answer.
\<close>

definition maxPeerWitnessRequestBytes :: int where "maxPeerWitnessRequestBytes = 4 * 1024"

definition handlePeerWitness ::
    "golib \<Rightarrow> gotime \<Rightarrow> http_request \<Rightarrow> string \<Rightarrow> string \<Rightarrow> int \<Rightarrow> string \<Rightarrow> string option \<Rightarrow> string result \<Rightarrow>
     bool \<Rightarrow> bool \<Rightarrow> agent \<Rightarrow> agent \<times> witness_response result" where
  "handlePeerWitness lib now r rawQuery contentType contentLength body decoded fingerprint busy available a =
     (if length (ag_peerWitnessSecret a) < minimumPeerWitnessSecretBytes then (a, Inl ''peer_witness_unavailable'')
      else if rawQuery \<noteq> [] \<or> contentType \<noteq> ''application/json'' \<or> contentLength \<le> 0 \<or>
         contentLength > maxPeerWitnessRequestBytes
      then (a, Inl ''invalid_peer_witness_request'')
      else
        (case ParseInt (hr_AgentID r) of
           None \<Rightarrow> (a, Inl ''peer_witness_authentication_failed'')
         | Some requester \<Rightarrow>
             if requester \<le> 0 \<or> requester = self_id a \<or>
                \<not> is_ok (VerifyRequest lib now r (ag_peerWitnessSecret a) body)
             then (a, Inl ''peer_witness_authentication_failed'')
             else
               let (b, fresh) = consumeWitnessNonce (hr_Nonce r) now a in
               if \<not> fresh then (b, Inl ''peer_witness_authentication_failed'')
               else
                 (case (decoded, fingerprint) of
                    (Some fp, Inr localFingerprint) \<Rightarrow>
                      if length fp \<noteq> 64 \<or> fp \<noteq> localFingerprint then (b, Inl ''invalid_peer_witness_request'')
                      else if busy then (b, Inl ''peer_witness_busy'')
                      else (b, Inr \<lparr>wr_OK = True, wr_WitnessNodeID = self_id a,
                              wr_ControllerFingerprint = localFingerprint,
                              wr_ControllerAvailable = available, wr_ObservedAt = unix_milli now\<rparr>)
                  | _ \<Rightarrow> (b, Inl ''invalid_peer_witness_request''))))"

end
