(* ===== verification/Store_Tables.thy ===== *)
theory Store_Tables
  imports Sql Agent_Mode
begin

text \<open>
  The tables of the controller database that the modelled parts of \<open>store/\<close> read and write,
  with the columns they use (\<open>store/migrations/*.sql\<close> and the Go structures that mirror
  them), and the database as one record of tables. A nullable column is an option.
\<close>

section \<open>Users, nodes and epochs\<close>

record user_row =
  gu_ID :: int
  gu_UUID :: string
  gu_LegacyUserID :: "int option"
  gu_Status :: string

record legacy_user_row =
  us_ID :: int
  us_Username :: string
  us_HomeNodeID :: "int option"
  us_Status :: string

record admin_row =
  ad_ID :: int
  ad_Username :: string
  ad_Status :: string

record account_row =
  na_UserID :: int
  na_NodeID :: int
  na_LocalHandle :: string
  na_Status :: string

record node_row =
  nd_ID :: int
  nd_Role :: string
  nd_BaseURL :: string
  nd_Status :: string
  nd_Connectivity :: string
  nd_Operational :: string
  nd_Compatibility :: string
  nd_ControllerGeneration :: int
  nd_ControlMode :: string
  nd_ModeGeneration :: int
  nd_DesiredMode :: string
  nd_DesiredGeneration :: int
  nd_ModeReason :: "string option"
  nd_ModeChangedAt :: gotime
  nd_OutageStartedAt :: "gotime option"
  nd_ConfirmedOutageStartedAt :: "gotime option"
  nd_LastSuccessAt :: "gotime option"
  nd_IndependentSince :: "gotime option"
  nd_HeartbeatFails :: int
  nd_HealthProbeFails :: int
  nd_PeerWitnessFails :: int
  nd_ActiveSessions :: int
  nd_PendingSyncs :: int
  nd_CapacityState :: string
  nd_CapacityReason :: "string option"
  nd_PressureSince :: "gotime option"
  nd_RecoverySince :: "gotime option"
  nd_CooldownUntil :: "gotime option"
  nd_CapacityChangedAt :: gotime

record epoch_row =
  ep_Generation :: int
  ep_OperationID :: string
  ep_Source :: string
  ep_State :: string
  ep_SigningKeyVersion :: int
  ep_ActivatedAt :: gotime
  ep_RevokedAt :: "gotime option"
  ep_CleanShutdownAt :: "gotime option"

section \<open>Leases, tickets and sessions\<close>

record lease_row =
  al_UserID :: int
  al_WriterNodeID :: int
  al_SessionID :: string
  al_ActivityEpoch :: int
  al_State :: string
  al_LeaseExpiresAt :: gotime
  al_LastPageHeartbeatAt :: gotime
  al_LastRequestAt :: gotime
  al_InFlightReads :: int
  al_InFlightWrites :: int
  al_ControllerGeneration :: int
  al_UpdatedAt :: gotime

record lease_op_row =
  lo_OperationID :: string
  lo_UserID :: int
  lo_RequestedNodeID :: int
  lo_RequestedSessionID :: string
  lo_Outcome :: string
  lo_ResultWriterNodeID :: int
  lo_ResultSessionID :: string
  lo_ResultActivityEpoch :: int
  lo_CreatedAt :: gotime

record ticket_row =
  ct_JTI :: string
  ct_OperationID :: string
  ct_SecretHash :: string
  ct_TicketType :: string
  ct_Issuer :: string
  ct_Audience :: string
  ct_Subject :: string
  ct_UserID :: int
  ct_TargetNodeID :: int
  ct_SessionID :: string
  ct_ActivityEpoch :: int
  ct_KeyID :: string
  ct_ControllerGeneration :: int
  ct_IssuedAt :: gotime
  ct_NotBefore :: gotime
  ct_ExpiresAt :: gotime
  ct_ConsumedAt :: "gotime option"
  ct_ConsumedByNodeID :: "int option"
  ct_RevokedAt :: "gotime option"

record session_row =
  se_ID :: string
  se_UserID :: "int option"
  se_AdminID :: "int option"
  se_TokenHash :: string
  se_CSRFHash :: string
  se_ExpiresAt :: gotime
  se_RevokedAt :: "gotime option"
  se_LastSeenAt :: gotime
  se_CreatedAt :: gotime
  se_ControllerGeneration :: int

record conflict_row =
  rf_UserID :: int
  rf_State :: string
  rf_ResolvedAt :: "gotime option"

record legacy_ticket_row =
  lk_JTI :: string
  lk_UserID :: int
  lk_NodeID :: int
  lk_ExpiresAt :: gotime
  lk_UsedAt :: "gotime option"

record register_token_row =
  rt_Token :: string
  rt_Note :: string
  rt_Used :: bool
  rt_ExpiresAt :: "gotime option"

section \<open>Commands and credentials\<close>

record command_row =
  cr_ID :: string
  cr_OperationID :: string
  cr_NodeID :: int
  cr_CommandType :: string
  cr_Payload :: string
  cr_PayloadSHA256 :: string
  cr_State :: string
  cr_ControllerGeneration :: int
  cr_LeaseOwner :: "string option"
  cr_LeaseUntil :: "gotime option"
  cr_Attempt :: int
  cr_ExpiresAt :: gotime
  cr_ResultSummary :: "string option"
  cr_ResultDigest :: "string option"
  cr_CreatedAt :: gotime
  cr_UpdatedAt :: gotime

record credential_row =
  ac_ID :: string
  ac_NodeID :: int
  ac_Version :: int
  ac_Ciphertext :: string
  ac_ControllerGeneration :: int
  ac_ExpiresAt :: "gotime option"
  ac_RevokedAt :: "gotime option"
  ac_CreatedAt :: gotime

record rotation_row =
  rr_ID :: string
  rr_OperationID :: string
  rr_NodeID :: int
  rr_Version :: int
  rr_Ciphertext :: string
  rr_ControllerGeneration :: int
  rr_State :: string
  rr_ExpiresAt :: gotime
  rr_CreatedAt :: gotime
  rr_ConfirmedAt :: "gotime option"

section \<open>Rebuilds after a promotion\<close>

record rebuild_row =
  rb_ID :: string
  rb_OperationID :: string
  rb_Generation :: int
  rb_PreviousGeneration :: int
  rb_Source :: string
  rb_State :: string
  rb_TotalNodes :: int
  rb_ReconciledNodes :: int
  rb_ErrorCode :: "string option"
  rb_StartedAt :: gotime
  rb_UpdatedAt :: gotime
  rb_CompletedAt :: "gotime option"

record rebuild_node_row =
  rn_RebuildID :: string
  rn_NodeID :: int
  rn_PreviousGeneration :: int
  rn_State :: string
  rn_AuthenticatedGeneration :: "int option"
  rn_CredentialVersion :: "int option"
  rn_LastHeartbeatAt :: "gotime option"
  rn_CredentialActivatedAt :: "gotime option"
  rn_ReconciledAt :: "gotime option"
  rn_UpdatedAt :: gotime

section \<open>Independent operation\<close>

record reconciliation_row =
  ir_ID :: string
  ir_OperationID :: string
  ir_NodeID :: int
  ir_UserID :: "int option"
  ir_LocalHandle :: string
  ir_Marker :: string
  ir_ChangedAt :: gotime
  ir_ReasonCode :: string
  ir_State :: string
  ir_WorkflowID :: "string option"
  ir_Attempt :: int
  ir_NextAttemptAt :: "gotime option"
  ir_ErrorCode :: "string option"
  ir_ControllerGeneration :: int
  ir_FirstObservedAt :: gotime
  ir_LastObservedAt :: gotime
  ir_UpdatedAt :: gotime
  ir_CompletedAt :: "gotime option"

record takeover_row =
  tk_OperationID :: string
  tk_NodeID :: int
  tk_LocalHandle :: string
  tk_ParentClaimID :: string
  tk_ClaimID :: string
  tk_ControllerGeneration :: int
  tk_ActivityEpoch :: int
  tk_TakeoverSequence :: int
  tk_ConfirmedAt :: gotime
  tk_FirstObservedAt :: gotime
  tk_LastObservedAt :: gotime

record workflow_row =
  wf_ID :: string
  wf_State :: string
  wf_ErrorCode :: "string option"
  wf_ErrorSummary :: "string option"
  wf_CleanupState :: string
  wf_UpdatedAt :: gotime
  wf_FinishedAt :: "gotime option"

record capability_row =
  sc_WorkflowID :: string
  sc_State :: string

record alert_row =
  at_DeduplicationKey :: string
  at_State :: string
  at_NodeID :: "int option"
  at_LastSeenAt :: gotime
  at_ResolvedAt :: "gotime option"
  at_OccurrenceCount :: int

record replica_copy_row =
  rc_UserID :: int
  rc_State :: string
  rc_IsAuthoritative :: bool
  rc_UpdatedAt :: gotime

record user_replica_row =
  ur_UserID :: int
  ur_State :: string

record mode_event_row =
  me_NodeID :: int
  me_ReportedMode :: string
  me_ReportedGeneration :: int
  me_DesiredMode :: string
  me_DesiredGeneration :: int
  me_ControllerGeneration :: int
  me_ReasonCode :: string
  me_ObservedAt :: gotime

record audit_row =
  au_Action :: string
  au_TargetID :: int
  au_OperationID :: "string option"
  au_ControllerGeneration :: int

section \<open>Database\<close>

record db =
  db_users :: "user_row list"
  db_legacy_users :: "legacy_user_row list"
  db_admins :: "admin_row list"
  db_accounts :: "account_row list"
  db_nodes :: "node_row list"
  db_epochs :: "epoch_row list"
  db_leases :: "lease_row list"
  db_lease_ops :: "lease_op_row list"
  db_tickets :: "ticket_row list"
  db_sessions :: "session_row list"
  db_conflicts :: "conflict_row list"
  db_legacy_tickets :: "legacy_ticket_row list"
  db_register_tokens :: "register_token_row list"
  db_commands :: "command_row list"
  db_credentials :: "credential_row list"
  db_rotations :: "rotation_row list"
  db_rebuilds :: "rebuild_row list"
  db_rebuild_nodes :: "rebuild_node_row list"
  db_reconciliations :: "reconciliation_row list"
  db_takeovers :: "takeover_row list"
  db_workflows :: "workflow_row list"
  db_capabilities :: "capability_row list"
  db_alerts :: "alert_row list"
  db_replica_copies :: "replica_copy_row list"
  db_user_replicas :: "user_replica_row list"
  db_mode_events :: "mode_event_row list"
  db_audit :: "audit_row list"

definition empty_db :: db where
  "empty_db = \<lparr>db_users = [], db_legacy_users = [], db_admins = [], db_accounts = [], db_nodes = [],
     db_epochs = [], db_leases = [], db_lease_ops = [], db_tickets = [], db_sessions = [],
     db_conflicts = [], db_legacy_tickets = [], db_register_tokens = [], db_commands = [],
     db_credentials = [], db_rotations = [], db_rebuilds = [], db_rebuild_nodes = [],
     db_reconciliations = [], db_takeovers = [], db_workflows = [], db_capabilities = [], db_alerts = [],
     db_replica_copies = [], db_user_replicas = [], db_mode_events = [], db_audit = []\<rparr>"

text \<open>The generation of the active controller epoch (\<open>WHERE state='active'\<close>).\<close>

definition active_epoch :: "db \<Rightarrow> epoch_row option" where
  "active_epoch d = sql_find (\<lambda>e. ep_State e = ''active'') (db_epochs d)"

definition active_generation :: "db \<Rightarrow> int option" where
  "active_generation d = map_option ep_Generation (active_epoch d)"

text \<open>
  Unique keys of the schema that the operations rely on. The partial unique index on
  \<open>controller_epochs\<close> allows one active and one rebuilding row.
\<close>

definition epochs_ok :: "db \<Rightarrow> bool" where
  "epochs_ok d \<longleftrightarrow> keyed ep_Generation (db_epochs d) \<and>
     unique_where (\<lambda>e. ep_State e = ''active'') (\<lambda>_. ()) (db_epochs d) \<and>
     (\<forall>e \<in> set (db_epochs d). 0 < ep_Generation e)"

definition node_by_id :: "int \<Rightarrow> db \<Rightarrow> node_row option" where
  "node_by_id i d = sql_find (\<lambda>n. nd_ID n = i) (db_nodes d)"

lemma active_epoch_Some:
  "active_epoch d = Some e \<Longrightarrow> e \<in> set (db_epochs d) \<and> ep_State e = ''active''"
  unfolding active_epoch_def by (drule sql_find_Some)

lemma active_unique:
  "epochs_ok d \<Longrightarrow> active_epoch d = Some e \<Longrightarrow> q \<in> set (db_epochs d) \<Longrightarrow> ep_State q = ''active'' \<Longrightarrow> q = e"
  unfolding epochs_ok_def using active_epoch_Some [of d e] unique_where_unique by fastforce

lemma node_by_id_Some: "node_by_id i d = Some n \<Longrightarrow> n \<in> set (db_nodes d) \<and> nd_ID n = i"
  unfolding node_by_id_def by (drule sql_find_Some)

text \<open>A sample node and epoch for concrete runs.\<close>

definition sample_node :: "int \<Rightarrow> node_row" where
  "sample_node i = \<lparr>nd_ID = i, nd_Role = ''compute'', nd_BaseURL = ''https://n'', nd_Status = ''online'',
     nd_Connectivity = ''online'', nd_Operational = ''active'', nd_Compatibility = ''compatible'',
     nd_ControllerGeneration = 1, nd_ControlMode = NodeModeManaged, nd_ModeGeneration = 1,
     nd_DesiredMode = NodeModeManaged, nd_DesiredGeneration = 1, nd_ModeReason = None, nd_ModeChangedAt = 1,
     nd_OutageStartedAt = None, nd_ConfirmedOutageStartedAt = None, nd_LastSuccessAt = None,
     nd_IndependentSince = None, nd_HeartbeatFails = 0, nd_HealthProbeFails = 0, nd_PeerWitnessFails = 0,
     nd_ActiveSessions = 0, nd_PendingSyncs = 0, nd_CapacityState = ''open'', nd_CapacityReason = None,
     nd_PressureSince = None, nd_RecoverySince = None, nd_CooldownUntil = None, nd_CapacityChangedAt = 1\<rparr>"

definition sample_epoch :: "int \<Rightarrow> string \<Rightarrow> epoch_row" where
  "sample_epoch g st = \<lparr>ep_Generation = g, ep_OperationID = ''op'', ep_Source = ''test'', ep_State = st,
     ep_SigningKeyVersion = 1, ep_ActivatedAt = 1, ep_RevokedAt = None, ep_CleanShutdownAt = None\<rparr>"

definition sample_db :: db where
  "sample_db = empty_db\<lparr>db_users := [\<lparr>gu_ID = 7, gu_UUID = ''u'', gu_LegacyUserID = Some 3, gu_Status = ''active''\<rparr>],
     db_legacy_users := [\<lparr>us_ID = 3, us_Username = ''ann'', us_HomeNodeID = Some 1, us_Status = ''active''\<rparr>],
     db_accounts := [\<lparr>na_UserID = 7, na_NodeID = 1, na_LocalHandle = ''ann'', na_Status = ''active''\<rparr>],
     db_nodes := [sample_node 1, sample_node 2], db_epochs := [sample_epoch 1 ''active'']\<rparr>"

end
