(* ===== verification/Store_Leases.thy ===== *)
theory Store_Leases
  imports Store_Tables
begin

text \<open>
  Activity leases (\<open>store/leases.go\<close>) and login handoffs (\<open>store/handoffs.go\<close>): the durable
  single-writer lease of a user, its acquisition under an idempotency key, its renewal and
  end, and the one-use ticket that carries a browser to the node that holds the lease.

  Each operation is one transaction. \<open>flt\<close> and \<open>attempts\<close> say how the server treats it, and
  \<open>clock\<close> is the wall clock that replaces a zero \<open>Now\<close>. Foreign keys and \<open>CHECK\<close>
  constraints of the tables fail the statement with \<open>dbError\<close>.
\<close>

section \<open>Lease rows\<close>

definition ErrGlobalUserNotFound :: string where "ErrGlobalUserNotFound = ''global user not found''"
definition ErrInvalidLeaseInput :: string where "ErrInvalidLeaseInput = ''invalid activity lease input''"
definition ErrLeaseOperationConflict :: string where
  "ErrLeaseOperationConflict = ''activity lease operation conflicts with the original request''"
definition ErrExistingWriterRequired :: string where
  "ErrExistingWriterRequired = ''an existing writer is required for this login handoff''"

record acquire_params =
  ap_OperationID :: string
  ap_UserID :: int
  ap_WriterNodeID :: int
  ap_SessionID :: string
  ap_ControllerGeneration :: int
  ap_TTL :: duration
  ap_ExistingWriterOnly :: bool
  ap_Now :: gotime

record acquire_result =
  ar_Lease :: lease_row
  ar_Acquired :: bool
  ar_Existing :: bool

definition zero_lease :: lease_row where
  "zero_lease = \<lparr>al_UserID = 0, al_WriterNodeID = 0, al_SessionID = [], al_ActivityEpoch = 0, al_State = [],
     al_LeaseExpiresAt = time_zero, al_LastPageHeartbeatAt = time_zero, al_LastRequestAt = time_zero,
     al_InFlightReads = 0, al_InFlightWrites = 0, al_ControllerGeneration = 0, al_UpdatedAt = time_zero\<rparr>"

definition lease_of :: "int \<Rightarrow> db \<Rightarrow> lease_row option" where
  "lease_of u d = sql_find (\<lambda>l. al_UserID l = u) (db_leases d)"

definition GetActivityLease :: "int \<Rightarrow> db \<Rightarrow> lease_row option result" where
  "GetActivityLease userID d = (if userID \<le> 0 then Inl ErrInvalidLeaseInput else Inr (lease_of userID d))"

definition validateActivityLeaseParams :: "acquire_params \<Rightarrow> unit result" where
  "validateActivityLeaseParams p =
     (if ap_OperationID p = [] \<or> ap_SessionID p = [] \<or> ap_UserID p \<le> 0 \<or> ap_WriterNodeID p \<le> 0 \<or>
         ap_ControllerGeneration p \<le> 0 \<or> ap_TTL p \<le> 0
      then Inl ErrInvalidLeaseInput else Inr ())"

definition lockGlobalUser :: "int \<Rightarrow> db \<Rightarrow> unit result" where
  "lockGlobalUser userID d =
     (if sql_exists (\<lambda>u. gu_ID u = userID) (db_users d) then Inr () else Inl ErrGlobalUserNotFound)"

definition blocking_states :: "string list" where
  "blocking_states = [''active'', ''quiescing'', ''drained'', ''independent'']"

definition leaseBlocksNewWriter :: "lease_row \<Rightarrow> gotime \<Rightarrow> bool" where
  "leaseBlocksNewWriter l now \<longleftrightarrow> al_State l \<in> set blocking_states \<and> al_LeaseExpiresAt l > now"

definition getActivityLeaseForUpdate :: "int \<Rightarrow> db \<Rightarrow> lease_row option" where
  "getActivityLeaseForUpdate userID d = lease_of userID d"

definition getLeaseOperation :: "acquire_params \<Rightarrow> db \<Rightarrow> acquire_result option result" where
  "getLeaseOperation p d =
     (case sql_find (\<lambda>q. lo_OperationID q = ap_OperationID p) (db_lease_ops d) of
        None \<Rightarrow> Inr None
      | Some q \<Rightarrow>
          if lo_UserID q \<noteq> ap_UserID p \<or> lo_RequestedNodeID q \<noteq> ap_WriterNodeID p \<or>
             lo_RequestedSessionID q \<noteq> ap_SessionID p
          then Inl ErrLeaseOperationConflict
          else Inr (Some \<lparr>ar_Lease = zero_lease\<lparr>al_WriterNodeID := lo_ResultWriterNodeID q,
                     al_SessionID := lo_ResultSessionID q, al_ActivityEpoch := lo_ResultActivityEpoch q\<rparr>,
                 ar_Acquired = (lo_Outcome q = ''acquired''),
                 ar_Existing = (lo_Outcome q = ''existing'' \<or> lo_Outcome q = ''renewed'')\<rparr>))"

definition node_exists :: "int \<Rightarrow> db \<Rightarrow> bool" where
  "node_exists i d = sql_exists (\<lambda>n. nd_ID n = i) (db_nodes d)"

definition lease_op :: "acquire_params \<Rightarrow> string \<Rightarrow> lease_row \<Rightarrow> lease_op_row" where
  "lease_op p outcome l =
     \<lparr>lo_OperationID = ap_OperationID p, lo_UserID = ap_UserID p, lo_RequestedNodeID = ap_WriterNodeID p,
      lo_RequestedSessionID = ap_SessionID p, lo_Outcome = outcome, lo_ResultWriterNodeID = al_WriterNodeID l,
      lo_ResultSessionID = al_SessionID l, lo_ResultActivityEpoch = al_ActivityEpoch l, lo_CreatedAt = ap_Now p\<rparr>"

definition recordLeaseOperation :: "acquire_params \<Rightarrow> string \<Rightarrow> lease_row \<Rightarrow> db \<Rightarrow> db result" where
  "recordLeaseOperation p outcome l d =
     (if sql_exists (\<lambda>q. lo_OperationID q = ap_OperationID p) (db_lease_ops d) \<or>
         \<not> node_exists (ap_WriterNodeID p) d \<or> \<not> node_exists (al_WriterNodeID l) d
      then Inl dbError
      else Inr (d\<lparr>db_lease_ops := db_lease_ops d @ [lease_op p outcome l]\<rparr>))"

text \<open>The \<open>CHECK\<close> constraints and the foreign key of \<open>user_activity_leases\<close>.\<close>

definition lease_check :: "lease_row \<Rightarrow> db \<Rightarrow> bool" where
  "lease_check l d \<longleftrightarrow> al_ActivityEpoch l > 0 \<and> al_InFlightReads l \<ge> 0 \<and> al_InFlightWrites l \<ge> 0 \<and>
     al_ControllerGeneration l > 0 \<and> node_exists (al_WriterNodeID l) d"

definition new_lease :: "acquire_params \<Rightarrow> int \<Rightarrow> int \<Rightarrow> lease_row" where
  "new_lease p writer epoch =
     \<lparr>al_UserID = ap_UserID p, al_WriterNodeID = writer, al_SessionID = ap_SessionID p,
      al_ActivityEpoch = epoch, al_State = ''active'', al_LeaseExpiresAt = ap_Now p + ap_TTL p,
      al_LastPageHeartbeatAt = ap_Now p, al_LastRequestAt = ap_Now p, al_InFlightReads = 0,
      al_InFlightWrites = 0, al_ControllerGeneration = ap_ControllerGeneration p, al_UpdatedAt = ap_Now p\<rparr>"

text \<open>\<open>INSERT ... ON CONFLICT (user_id) DO UPDATE\<close> of a lease row.\<close>

definition upsert_lease :: "lease_row \<Rightarrow> db \<Rightarrow> db result" where
  "upsert_lease l d =
     (if \<not> lease_check l d then Inl dbError
      else if sql_exists (\<lambda>r. al_UserID r = al_UserID l) (db_leases d)
      then Inr (d\<lparr>db_leases := sql_update (\<lambda>r. al_UserID r = al_UserID l) (\<lambda>_. l) (db_leases d)\<rparr>)
      else Inr (d\<lparr>db_leases := db_leases d @ [l]\<rparr>))"

definition renew_stale :: "acquire_params \<Rightarrow> lease_row \<Rightarrow> db \<Rightarrow> (db \<times> acquire_result \<times> bool) result" where
  "renew_stale p l d =
     (let renewed = new_lease p (al_WriterNodeID l) (i64 (al_ActivityEpoch l + 1));
          sel = (\<lambda>r. al_UserID r = ap_UserID p \<and> al_WriterNodeID r = al_WriterNodeID l \<and>
            al_ActivityEpoch r = al_ActivityEpoch l \<and> al_ControllerGeneration r = al_ControllerGeneration l \<and>
            al_State r = ''active'') in
      if \<not> lease_check renewed d \<or> sql_count sel (db_leases d) \<noteq> 1 then Inl dbError
      else
        (case recordLeaseOperation p ''renewed'' renewed
                (d\<lparr>db_leases := sql_update sel (\<lambda>_. renewed) (db_leases d)\<rparr>) of
           Inl e \<Rightarrow> Inl e
         | Inr d' \<Rightarrow> Inr (d', \<lparr>ar_Lease = renewed, ar_Acquired = False, ar_Existing = True\<rparr>, False)))"

definition acquireActivityLeaseLocked :: "acquire_params \<Rightarrow> (db, acquire_result \<times> bool) tx" where
  "acquireActivityLeaseLocked p d =
     (case getLeaseOperation p d of
        Inl e \<Rightarrow> Inl e
      | Inr (Some r) \<Rightarrow> Inr (d, r, True)
      | Inr None \<Rightarrow>
          let found = getActivityLeaseForUpdate (ap_UserID p) d;
              blocking = (case found of None \<Rightarrow> None
                | Some l \<Rightarrow> if leaseBlocksNewWriter l (ap_Now p) then Some l else None) in
          (case blocking of
             Some l \<Rightarrow>
               if al_State l = ''active'' \<and> al_ControllerGeneration l < ap_ControllerGeneration p
               then renew_stale p l d
               else
                 (case recordLeaseOperation p ''existing'' l d of
                    Inl e \<Rightarrow> Inl e
                  | Inr d' \<Rightarrow> Inr (d', \<lparr>ar_Lease = l, ar_Acquired = False, ar_Existing = True\<rparr>, False))
           | None \<Rightarrow>
               if ap_ExistingWriterOnly p then Inl ErrExistingWriterRequired
               else
                 let nextEpoch = (case found of None \<Rightarrow> 1 | Some l \<Rightarrow> i64 (al_ActivityEpoch l + 1));
                     lease = new_lease p (ap_WriterNodeID p) nextEpoch in
                 (case upsert_lease lease d of
                    Inl e \<Rightarrow> Inl e
                  | Inr d1 \<Rightarrow>
                      (case recordLeaseOperation p ''acquired'' lease d1 of
                         Inl e \<Rightarrow> Inl e
                       | Inr d' \<Rightarrow> Inr (d', \<lparr>ar_Lease = lease, ar_Acquired = True, ar_Existing = False\<rparr>, False)))))"

definition acquireActivityLeaseOnce :: "acquire_params \<Rightarrow> (db, acquire_result) tx" where
  "acquireActivityLeaseOnce p d =
     (case lockGlobalUser (ap_UserID p) d of
        Inl e \<Rightarrow> Inl e
      | Inr _ \<Rightarrow>
          (case acquireActivityLeaseLocked p d of Inl e \<Rightarrow> Inl e | Inr (d', r, _) \<Rightarrow> Inr (d', r)))"

definition AcquireActivityLease ::
    "gotime \<Rightarrow> (tx_fault \<times> db wait) list \<Rightarrow> acquire_params \<Rightarrow> db \<Rightarrow> db \<times> acquire_result result" where
  "AcquireActivityLease clock attempts p d =
     (if validateActivityLeaseParams p \<noteq> Inr () then (d, Inl ErrInvalidLeaseInput)
      else
        let p' = (if ap_Now p = time_zero then p\<lparr>ap_Now := clock\<rparr> else p) in
        retry_tx serializableRetryLimit attempts (acquireActivityLeaseOnce p') d)"

section \<open>Renewal and end\<close>

definition lease_fence :: "int \<Rightarrow> int \<Rightarrow> string \<Rightarrow> int \<Rightarrow> int \<Rightarrow> lease_row \<Rightarrow> bool" where
  "lease_fence userID writerNodeID sessionID activityEpoch controllerGeneration l \<longleftrightarrow>
     al_UserID l = userID \<and> al_WriterNodeID l = writerNodeID \<and> al_SessionID l = sessionID \<and>
     al_ActivityEpoch l = activityEpoch \<and> al_ControllerGeneration l = controllerGeneration"

definition RenewActivityLease ::
    "gotime \<Rightarrow> tx_fault \<Rightarrow> int \<Rightarrow> int \<Rightarrow> string \<Rightarrow> int \<Rightarrow> int \<Rightarrow> gotime \<Rightarrow> duration \<Rightarrow> db \<Rightarrow> db \<times> bool result" where
  "RenewActivityLease clock flt userID writerNodeID sessionID activityEpoch controllerGeneration now ttl d =
     (if userID \<le> 0 \<or> writerNodeID \<le> 0 \<or> sessionID = [] \<or> activityEpoch \<le> 0 \<or> controllerGeneration \<le> 0 \<or> ttl \<le> 0
      then (d, Inl ErrInvalidLeaseInput)
      else
        let now' = (if now = time_zero then clock else now);
            sel = (\<lambda>l. lease_fence userID writerNodeID sessionID activityEpoch controllerGeneration l \<and>
              al_State l = ''active'') in
        run_tx flt (\<lambda>d. Inr (d\<lparr>db_leases := sql_update sel (\<lambda>l. l\<lparr>al_LeaseExpiresAt := now' + ttl,
            al_LastPageHeartbeatAt := now', al_UpdatedAt := now'\<rparr>) (db_leases d)\<rparr>,
          sql_count sel (db_leases d) = 1)) d)"

record lease_telemetry =
  lt_UserID :: int
  lt_WriterNodeID :: int
  lt_SessionID :: string
  lt_ActivityEpoch :: int
  lt_ControllerGeneration :: int
  lt_LastPageHeartbeatAt :: gotime
  lt_LastRequestAt :: gotime
  lt_InFlightReads :: int
  lt_InFlightWrites :: int
  lt_Online :: bool
  lt_Now :: gotime
  lt_TTL :: duration

definition UpdateActivityLeaseTelemetry ::
    "gotime \<Rightarrow> tx_fault \<Rightarrow> lease_telemetry \<Rightarrow> db \<Rightarrow> db \<times> (gotime \<times> bool) result" where
  "UpdateActivityLeaseTelemetry clock flt p d =
     (if lt_UserID p \<le> 0 \<or> lt_WriterNodeID p \<le> 0 \<or> lt_SessionID p = [] \<or> lt_ActivityEpoch p \<le> 0 \<or>
         lt_ControllerGeneration p \<le> 0 \<or> lt_InFlightReads p < 0 \<or> lt_InFlightWrites p < 0 \<or> lt_TTL p \<le> 0
      then (d, Inl ErrInvalidLeaseInput)
      else
        let now = (if lt_Now p = time_zero then clock else lt_Now p);
            page = (if lt_LastPageHeartbeatAt p = time_zero then now - lt_TTL p else lt_LastPageHeartbeatAt p);
            req = (if lt_LastRequestAt p = time_zero then now - lt_TTL p else lt_LastRequestAt p);
            sel = (\<lambda>l. lease_fence (lt_UserID p) (lt_WriterNodeID p) (lt_SessionID p) (lt_ActivityEpoch p)
              (lt_ControllerGeneration p) l \<and> al_State l = ''active'');
            upd = (\<lambda>l. l\<lparr>al_LastPageHeartbeatAt := page, al_LastRequestAt := req,
              al_InFlightReads := lt_InFlightReads p, al_InFlightWrites := lt_InFlightWrites p,
              al_LeaseExpiresAt := (if lt_Online p then max (al_LeaseExpiresAt l) (now + lt_TTL p)
                else al_LeaseExpiresAt l), al_UpdatedAt := now\<rparr>) in
        run_tx flt (\<lambda>d. Inr (d\<lparr>db_leases := sql_update sel upd (db_leases d)\<rparr>,
          case sql_find sel (db_leases d) of
            None \<Rightarrow> (time_zero, False)
          | Some l \<Rightarrow> (al_LeaseExpiresAt (upd l), True))) d)"

definition EndActivityLease ::
    "gotime \<Rightarrow> tx_fault \<Rightarrow> int \<Rightarrow> int \<Rightarrow> string \<Rightarrow> int \<Rightarrow> int \<Rightarrow> gotime \<Rightarrow> db \<Rightarrow> db \<times> bool result" where
  "EndActivityLease clock flt userID writerNodeID sessionID activityEpoch controllerGeneration now d =
     (if userID \<le> 0 \<or> writerNodeID \<le> 0 \<or> sessionID = [] \<or> activityEpoch \<le> 0 \<or> controllerGeneration \<le> 0
      then (d, Inl ErrInvalidLeaseInput)
      else
        let now' = (if now = time_zero then clock else now);
            sel = (\<lambda>l. lease_fence userID writerNodeID sessionID activityEpoch controllerGeneration l \<and>
              al_State l \<in> set blocking_states) in
        run_tx flt (\<lambda>d. Inr (d\<lparr>db_leases := sql_update sel (\<lambda>l. l\<lparr>al_State := ''ended'',
            al_LeaseExpiresAt := now', al_UpdatedAt := now'\<rparr>) (db_leases d)\<rparr>,
          sql_count sel (db_leases d) = 1)) d)"

section \<open>Login handoffs\<close>

definition ErrInvalidLoginHandoff :: string where "ErrInvalidLoginHandoff = ''invalid login handoff input''"
definition ErrLoginHandoffUnavailable :: string where "ErrLoginHandoffUnavailable = ''login handoff unavailable''"
definition ErrNoActiveController :: string where "ErrNoActiveController = ''no active controller generation''"
definition ErrStaleControllerLease :: string where
  "ErrStaleControllerLease = ''activity lease belongs to a stale controller generation''"

record handoff_params =
  hp_OperationID :: string
  hp_JTI :: string
  hp_SecretHash :: string
  hp_UserID :: int
  hp_RequestedNodeID :: int
  hp_SessionID :: string
  hp_Issuer :: string
  hp_Subject :: string
  hp_KeyID :: string
  hp_TicketTTL :: duration
  hp_LeaseTTL :: duration
  hp_ExistingWriterOnly :: bool
  hp_Now :: gotime

record handoff =
  ho_OperationID :: string
  ho_JTI :: string
  ho_UserID :: int
  ho_TargetNodeID :: int
  ho_NodeBaseURL :: string
  ho_Subject :: string
  ho_SessionID :: string
  ho_ActivityEpoch :: int
  ho_ControllerGeneration :: int
  ho_ExpiresAt :: gotime
  ho_Acquired :: bool
  ho_Existing :: bool
  ho_Replayed :: bool

definition getLoginHandoffByOperation :: "string \<Rightarrow> int \<Rightarrow> int \<Rightarrow> gotime \<Rightarrow> db \<Rightarrow> handoff result" where
  "getLoginHandoffByOperation operationID userID requestedNodeID now d =
     (case (sql_find (\<lambda>t. ct_OperationID t = operationID \<and> ct_TicketType t = ''user_login'' \<and>
               ct_ConsumedAt t = None \<and> ct_RevokedAt t = None \<and> ct_ExpiresAt t > now) (db_tickets d),
            sql_find (\<lambda>q. lo_OperationID q = operationID \<and> lo_UserID q = userID \<and>
               lo_RequestedNodeID q = requestedNodeID) (db_lease_ops d)) of
        (Some t, Some q) \<Rightarrow>
          (case node_by_id (ct_TargetNodeID t) d of
             None \<Rightarrow> Inl ErrLoginHandoffUnavailable
           | Some n \<Rightarrow> Inr \<lparr>ho_OperationID = ct_OperationID t, ho_JTI = ct_JTI t, ho_UserID = ct_UserID t,
               ho_TargetNodeID = ct_TargetNodeID t, ho_NodeBaseURL = nd_BaseURL n, ho_Subject = ct_Subject t,
               ho_SessionID = ct_SessionID t, ho_ActivityEpoch = ct_ActivityEpoch t,
               ho_ControllerGeneration = ct_ControllerGeneration t, ho_ExpiresAt = ct_ExpiresAt t,
               ho_Acquired = (lo_Outcome q = ''acquired''),
               ho_Existing = (lo_Outcome q = ''existing'' \<or> lo_Outcome q = ''renewed''), ho_Replayed = False\<rparr>)
      | _ \<Rightarrow> Inl ErrLoginHandoffUnavailable)"

definition handoff_target :: "int \<Rightarrow> bool \<Rightarrow> int \<Rightarrow> node_row \<Rightarrow> bool" where
  "handoff_target nodeID existing generation n \<longleftrightarrow>
     nd_ID n = nodeID \<and> nd_Role n = ''compute'' \<and> nd_Status n = ''online'' \<and> nd_Connectivity n = ''online'' \<and>
     nd_ControllerGeneration n = generation \<and> nd_Compatibility n = ''compatible'' \<and>
     nd_ControlMode n = NodeModeManaged \<and> nd_DesiredMode n = NodeModeManaged \<and>
     (nd_Operational n = ''active'' \<or>
      existing \<and> (nd_Operational n = ''draining'' \<or> nd_Operational n = ''retiring''))"

definition new_ticket :: "handoff_params \<Rightarrow> int \<Rightarrow> string \<Rightarrow> int \<Rightarrow> lease_row \<Rightarrow> ticket_row" where
  "new_ticket p target baseURL generation l =
     \<lparr>ct_JTI = hp_JTI p, ct_OperationID = hp_OperationID p, ct_SecretHash = hp_SecretHash p,
      ct_TicketType = ''user_login'', ct_Issuer = hp_Issuer p, ct_Audience = baseURL, ct_Subject = hp_Subject p,
      ct_UserID = hp_UserID p, ct_TargetNodeID = target, ct_SessionID = al_SessionID l,
      ct_ActivityEpoch = al_ActivityEpoch l, ct_KeyID = hp_KeyID p, ct_ControllerGeneration = generation,
      ct_IssuedAt = hp_Now p, ct_NotBefore = hp_Now p, ct_ExpiresAt = hp_Now p + hp_TicketTTL p,
      ct_ConsumedAt = None, ct_ConsumedByNodeID = None, ct_RevokedAt = None\<rparr>"

definition createLoginHandoffOnce :: "handoff_params \<Rightarrow> (db, handoff) tx" where
  "createLoginHandoffOnce p d =
     (case lockGlobalUser (hp_UserID p) d of
        Inl e \<Rightarrow> Inl e
      | Inr _ \<Rightarrow>
          (case active_generation d of
             None \<Rightarrow> Inl ErrNoActiveController
           | Some generation \<Rightarrow>
               (case acquireActivityLeaseLocked \<lparr>ap_OperationID = hp_OperationID p, ap_UserID = hp_UserID p,
                       ap_WriterNodeID = hp_RequestedNodeID p, ap_SessionID = hp_SessionID p,
                       ap_ControllerGeneration = generation, ap_TTL = hp_LeaseTTL p,
                       ap_ExistingWriterOnly = hp_ExistingWriterOnly p, ap_Now = hp_Now p\<rparr> d of
                  Inl e \<Rightarrow> Inl e
                | Inr (d1, r, replayed) \<Rightarrow>
                    if replayed then
                      (case getLoginHandoffByOperation (hp_OperationID p) (hp_UserID p) (hp_RequestedNodeID p)
                              (hp_Now p) d1 of
                         Inl e \<Rightarrow> Inl e
                       | Inr h \<Rightarrow> Inr (d1, h\<lparr>ho_Replayed := True\<rparr>))
                    else if al_ControllerGeneration (ar_Lease r) \<noteq> generation then Inl ErrStaleControllerLease
                    else
                      let target = al_WriterNodeID (ar_Lease r) in
                      (case sql_find (handoff_target target (ar_Existing r) generation) (db_nodes d1) of
                         None \<Rightarrow> Inl ErrLoginHandoffUnavailable
                       | Some n \<Rightarrow>
                           if sql_exists (\<lambda>t. ct_JTI t = hp_JTI p \<or> ct_OperationID t = hp_OperationID p) (db_tickets d1)
                           then Inl dbError
                           else Inr (d1\<lparr>db_tickets := db_tickets d1 @
                                   [new_ticket p target (nd_BaseURL n) generation (ar_Lease r)]\<rparr>,
                             \<lparr>ho_OperationID = hp_OperationID p, ho_JTI = hp_JTI p, ho_UserID = hp_UserID p,
                              ho_TargetNodeID = target, ho_NodeBaseURL = nd_BaseURL n, ho_Subject = hp_Subject p,
                              ho_SessionID = al_SessionID (ar_Lease r),
                              ho_ActivityEpoch = al_ActivityEpoch (ar_Lease r),
                              ho_ControllerGeneration = generation, ho_ExpiresAt = hp_Now p + hp_TicketTTL p,
                              ho_Acquired = ar_Acquired r, ho_Existing = ar_Existing r, ho_Replayed = False\<rparr>)))))"

definition CreateLoginHandoff ::
    "gotime \<Rightarrow> (tx_fault \<times> db wait) list \<Rightarrow> handoff_params \<Rightarrow> db \<Rightarrow> db \<times> handoff result" where
  "CreateLoginHandoff clock attempts p d =
     (if \<not> validUUIDText (hp_OperationID p) \<or> \<not> validUUIDText (hp_JTI p) \<or>
         length (hp_SecretHash p) \<noteq> 32 \<or> hp_UserID p \<le> 0 \<or> hp_RequestedNodeID p \<le> 0 \<or>
         \<not> validUUIDText (hp_SessionID p) \<or> hp_Issuer p = [] \<or> \<not> validUUIDText (hp_Subject p) \<or>
         hp_KeyID p = [] \<or> hp_TicketTTL p \<le> 0 \<or> hp_LeaseTTL p \<le> 0
      then (d, Inl ErrInvalidLoginHandoff)
      else
        let p' = (if hp_Now p = time_zero then p\<lparr>hp_Now := clock\<rparr> else p) in
        retry_tx serializableRetryLimit attempts (createLoginHandoffOnce p') d)"

record redemption =
  lr_UserID :: int
  lr_UserUUID :: string
  lr_Handle :: string
  lr_SessionID :: string
  lr_ActivityEpoch :: int
  lr_ControllerGeneration :: int
  lr_LeaseConfirmedAt :: gotime
  lr_LeaseExpiresAt :: gotime

definition ticket_redeemable :: "string \<Rightarrow> string \<Rightarrow> int \<Rightarrow> string \<Rightarrow> string \<Rightarrow> gotime \<Rightarrow> ticket_row \<Rightarrow> bool" where
  "ticket_redeemable jti secretHash nodeID issuer keyID now t \<longleftrightarrow>
     ct_JTI t = jti \<and> ct_TargetNodeID t = nodeID \<and> ct_SecretHash t = secretHash \<and>
     ct_TicketType t = ''user_login'' \<and> ct_NotBefore t \<le> now \<and> ct_ExpiresAt t > now \<and> ct_IssuedAt t \<le> now \<and>
     ct_Issuer t = issuer \<and> ct_KeyID t = keyID \<and> ct_ConsumedAt t = None \<and> ct_RevokedAt t = None"

definition ticket_fence :: "ticket_row \<Rightarrow> lease_row \<Rightarrow> bool" where
  "ticket_fence t = lease_fence (ct_UserID t) (ct_TargetNodeID t) (ct_SessionID t) (ct_ActivityEpoch t)
     (ct_ControllerGeneration t)"

text \<open>The rows that the statement joins to a redeemable ticket: user, account and live lease.\<close>

definition redemption_context :: "ticket_row \<Rightarrow> gotime \<Rightarrow> db \<Rightarrow> (user_row \<times> account_row \<times> lease_row) option" where
  "redemption_context t now d =
     (if sql_exists (\<lambda>e. ep_State e = ''active'' \<and> ep_Generation e = ct_ControllerGeneration t) (db_epochs d) \<and>
         sql_exists (\<lambda>n. nd_ID n = ct_TargetNodeID t \<and> nd_BaseURL n = ct_Audience t) (db_nodes d)
      then
        (case (sql_find (\<lambda>u. gu_ID u = ct_UserID t \<and> gu_UUID u = ct_Subject t \<and> gu_Status u = ''active'') (db_users d),
               sql_find (\<lambda>c. na_UserID c = ct_UserID t \<and> na_NodeID c = ct_TargetNodeID t \<and>
                 na_Status c = ''active'') (db_accounts d),
               sql_find (\<lambda>l. ticket_fence t l \<and> al_State l = ''active'' \<and> al_LeaseExpiresAt l > now) (db_leases d)) of
           (Some u, Some c, Some l) \<Rightarrow> Some (u, c, l)
         | _ \<Rightarrow> None)
      else None)"

definition consume_handoff ::
    "string \<Rightarrow> string \<Rightarrow> int \<Rightarrow> string \<Rightarrow> string \<Rightarrow> gotime \<Rightarrow> duration \<Rightarrow> (db, redemption option) tx" where
  "consume_handoff jti secretHash nodeID issuer keyID now ttl d =
     (case sql_find (ticket_redeemable jti secretHash nodeID issuer keyID now) (db_tickets d) of
        None \<Rightarrow> Inr (d, None)
      | Some t \<Rightarrow>
          (case redemption_context t now d of
             None \<Rightarrow> Inr (d, None)
           | Some (u, c, l) \<Rightarrow>
               Inr (d\<lparr>db_tickets := sql_update (ticket_redeemable jti secretHash nodeID issuer keyID now)
                        (\<lambda>r. r\<lparr>ct_ConsumedAt := Some now, ct_ConsumedByNodeID := Some nodeID\<rparr>) (db_tickets d),
                      db_leases := sql_update (ticket_fence t)
                        (\<lambda>r. r\<lparr>al_LastRequestAt := now, al_LeaseExpiresAt := now + ttl, al_UpdatedAt := now\<rparr>)
                        (db_leases d)\<rparr>,
                 Some \<lparr>lr_UserID = ct_UserID t, lr_UserUUID = gu_UUID u, lr_Handle = na_LocalHandle c,
                   lr_SessionID = ct_SessionID t, lr_ActivityEpoch = ct_ActivityEpoch t,
                   lr_ControllerGeneration = ct_ControllerGeneration t, lr_LeaseConfirmedAt = now,
                   lr_LeaseExpiresAt = now + ttl\<rparr>)))"

definition ConsumeLoginHandoff ::
    "gotime \<Rightarrow> tx_fault \<Rightarrow> string \<Rightarrow> string \<Rightarrow> int \<Rightarrow> string \<Rightarrow> string \<Rightarrow> gotime \<Rightarrow> duration \<Rightarrow> db \<Rightarrow>
     db \<times> redemption option result" where
  "ConsumeLoginHandoff clock flt jti secretHash nodeID issuer keyID now ttl d =
     (if \<not> validUUIDText jti \<or> length secretHash \<noteq> 32 \<or> nodeID \<le> 0 \<or> issuer = [] \<or> keyID = [] \<or> ttl \<le> 0
      then (d, Inl ErrInvalidLoginHandoff)
      else run_tx flt (consume_handoff jti secretHash nodeID issuer keyID
             (if now = time_zero then clock else now) ttl) d)"

end
