(* ===== verification/Store_Contracts.thy ===== *)
theory Store_Contracts
  imports Main
begin

text \<open>
  Contracts of the controller database, as locales. A component of the store is a set of
  events on the database that keep an invariant (\<open>transitions\<close>); a component that redeems
  one-use secrets additionally promises that redeeming spends them and that nothing un-spends
  them (\<open>one_use\<close>). The lemmas here hold for every interpretation on the store's operations.
\<close>

locale transitions =
  fixes step :: "'e \<Rightarrow> 's \<Rightarrow> 's"
    and inv :: "'s \<Rightarrow> bool"
  assumes step_inv: "inv s \<Longrightarrow> inv (step e s)"
begin

definition run :: "'e list \<Rightarrow> 's \<Rightarrow> 's" where
  "run evs s = fold step evs s"

lemma run_Nil [simp]: "run [] s = s"
  by (simp add: run_def)

lemma run_Cons [simp]: "run (e # evs) s = run evs (step e s)"
  by (simp add: run_def)

lemma run_append: "run (evs @ fvs) s = run fvs (run evs s)"
  by (simp add: run_def)

lemma run_inv: "inv s \<Longrightarrow> inv (run evs s)"
  by (induction evs arbitrary: s) (auto intro: step_inv)

lemma run_related:
  assumes "\<And>s. R s s" and "\<And>s t u. R s t \<Longrightarrow> R t u \<Longrightarrow> R s u" and "\<And>s e. inv s \<Longrightarrow> R s (step e s)"
  shows "inv s \<Longrightarrow> R s (run evs s)"
proof (induction evs arbitrary: s)
  case (Cons e evs)
  have "R s (step e s)" using assms(3) Cons.prems by blast
  moreover have "R (step e s) (run evs (step e s))" using Cons.IH step_inv [OF Cons.prems] by blast
  ultimately show ?case using assms(2) by simp
qed (simp add: assms(1))

lemma run_stable:
  assumes "\<And>s e. inv s \<Longrightarrow> P s \<Longrightarrow> P (step e s)"
  shows "inv s \<Longrightarrow> P s \<Longrightarrow> P (run evs s)"
  by (induction evs arbitrary: s) (auto intro: assms step_inv)

text \<open>If a property holds at the start and not at the end, some event of the run ended it.\<close>

lemma run_changed:
  assumes "P s" and "\<not> P (run evs s)"
  shows "\<exists>k < length evs. P (run (take k evs) s) \<and> \<not> P (step (evs ! k) (run (take k evs) s))"
  using assms
proof (induction evs arbitrary: s)
  case (Cons e evs)
  show ?case
  proof (cases "P (step e s)")
    case True
    then obtain k where "k < length evs" "P (run (take k evs) (step e s))"
      "\<not> P (step (evs ! k) (run (take k evs) (step e s)))"
      using Cons.IH [of "step e s"] Cons.prems by auto
    then show ?thesis by (intro exI [of _ "Suc k"]) simp
  next
    case False
    then show ?thesis using Cons.prems by (intro exI [of _ 0]) simp
  qed
qed simp

end

locale one_use = transitions step inv
  for step :: "'e \<Rightarrow> 's \<Rightarrow> 's" and inv :: "'s \<Rightarrow> bool" +
  fixes redeems :: "'k \<Rightarrow> 'e \<Rightarrow> 's \<Rightarrow> bool"
    and spent :: "'k \<Rightarrow> 's \<Rightarrow> bool"
  assumes redeem_spends: "inv s \<Longrightarrow> redeems k e s \<Longrightarrow> \<not> spent k s \<and> spent k (step e s)"
    and stays_spent: "inv s \<Longrightarrow> spent k s \<Longrightarrow> spent k (step e s)"
begin

fun redemptions :: "'k \<Rightarrow> 'e list \<Rightarrow> 's \<Rightarrow> nat" where
  "redemptions k [] s = 0"
| "redemptions k (e # evs) s = (if redeems k e s then 1 else 0) + redemptions k evs (step e s)"

lemma spent_never_redeemed: "inv s \<Longrightarrow> spent k s \<Longrightarrow> redemptions k evs s = 0"
proof (induction evs arbitrary: s)
  case (Cons e evs)
  then show ?case using redeem_spends [of s k e] stays_spent [of s k e] step_inv [of s e] by auto
qed simp

lemma redeemed_once: "inv s \<Longrightarrow> redemptions k evs s \<le> 1"
proof (induction evs arbitrary: s)
  case (Cons e evs)
  then show ?case
    using redeem_spends [of s k e] step_inv [of s e] spent_never_redeemed [of "step e s" k evs] by auto
qed simp

end

end
