(* ===== verification/Lease_Safety.thy ===== *)
theory Lease_Safety
  imports Store_Leases Store_Contracts
begin

text \<open>
  What the leases and handoffs guarantee: the writer of a user changes only when the lease of
  the previous one no longer blocks, every change of holder raises the activity epoch, a
  repeated acquisition answers what the first one did, and a ticket is redeemed at most once
  and only for the lease it was issued under.
\<close>

section \<open>Lease transitions\<close>

definition same_holder :: "lease_row \<Rightarrow> lease_row \<Rightarrow> bool" where
  "same_holder l l' \<longleftrightarrow> al_WriterNodeID l' = al_WriterNodeID l \<and> al_SessionID l' = al_SessionID l \<and>
     al_ActivityEpoch l' = al_ActivityEpoch l \<and> al_ControllerGeneration l' = al_ControllerGeneration l"

definition lease_advance :: "gotime \<Rightarrow> lease_row \<Rightarrow> lease_row \<Rightarrow> bool" where
  "lease_advance now l l' \<longleftrightarrow>
     same_holder l l' \<or>
     al_ActivityEpoch l' = al_ActivityEpoch l + 1 \<and>
     (\<not> leaseBlocksNewWriter l now \<or>
      al_WriterNodeID l' = al_WriterNodeID l \<and> al_ControllerGeneration l < al_ControllerGeneration l')"

definition leases_ok :: "db \<Rightarrow> bool" where
  "leases_ok d \<longleftrightarrow> keyed al_UserID (db_leases d) \<and>
     (\<forall>l \<in> set (db_leases d). 0 < al_ActivityEpoch l \<and> in_i64 (al_ActivityEpoch l))"

definition leases_move :: "gotime \<Rightarrow> db \<Rightarrow> db \<Rightarrow> bool" where
  "leases_move now d d' \<longleftrightarrow> leases_ok d' \<and>
     (\<forall>u l. lease_of u d = Some l \<longrightarrow> (\<exists>l'. lease_of u d' = Some l' \<and> lease_advance now l l'))"

lemma same_holder_refl [simp]: "same_holder l l"
  by (simp add: same_holder_def)

lemma leases_move_same: "leases_ok d \<Longrightarrow> db_leases d' = db_leases d \<Longrightarrow> leases_move now d d'"
  by (simp add: leases_move_def leases_ok_def lease_of_def lease_advance_def)

lemma leases_move_update:
  assumes "leases_ok d" and "db_leases d' = sql_update P f (db_leases d)"
    and "\<And>l. P l \<Longrightarrow> al_UserID (f l) = al_UserID l \<and> same_holder l (f l)"
  shows "leases_move now d d'"
proof -
  have "lease_of u d' = map_option (\<lambda>l. if P l then f l else l) (lease_of u d)" for u
    unfolding lease_of_def assms(2) using assms(3) by (intro sql_find_update) simp
  moreover have "leases_ok d'"
    using assms(1,3) unfolding leases_ok_def assms(2)
    by (auto simp: keyed_update in_sql_update same_holder_def)
  ultimately show ?thesis using assms(3) by (auto simp: leases_move_def lease_advance_def)
qed

lemma lease_of_unique:
  "leases_ok d \<Longrightarrow> l \<in> set (db_leases d) \<Longrightarrow> lease_of (al_UserID l) d = Some l"
  unfolding lease_of_def leases_ok_def by (rule sql_find_keyed [where k = al_UserID]) auto

lemma lease_of_Some: "lease_of u d = Some l \<Longrightarrow> l \<in> set (db_leases d) \<and> al_UserID l = u"
  unfolding lease_of_def by (drule sql_find_Some)

section \<open>Acquisition\<close>

lemma record_op:
  "recordLeaseOperation p outcome l d = Inr d' \<Longrightarrow>
   d' = d\<lparr>db_lease_ops := db_lease_ops d @ [lease_op p outcome l]\<rparr> \<and>
   (\<forall>q \<in> set (db_lease_ops d). lo_OperationID q \<noteq> ap_OperationID p)"
  by (auto simp: recordLeaseOperation_def sql split: if_splits)

lemma new_lease_sel [simp]:
  "al_UserID (new_lease p w e) = ap_UserID p" "al_WriterNodeID (new_lease p w e) = w"
  "al_SessionID (new_lease p w e) = ap_SessionID p" "al_ActivityEpoch (new_lease p w e) = e"
  "al_State (new_lease p w e) = ''active''" "al_ControllerGeneration (new_lease p w e) = ap_ControllerGeneration p"
  "al_LeaseExpiresAt (new_lease p w e) = ap_Now p + ap_TTL p"
  by (simp_all add: new_lease_def)

text \<open>The row of one user is replaced or added; the rows of the others stay.\<close>

definition lease_put :: "lease_row \<Rightarrow> db \<Rightarrow> db \<Rightarrow> bool" where
  "lease_put l d d' \<longleftrightarrow> (leases_ok d \<and> in_i64 (al_ActivityEpoch l) \<longrightarrow> leases_ok d') \<and>
     lease_of (al_UserID l) d' = Some l \<and> (\<forall>u. u \<noteq> al_UserID l \<longrightarrow> lease_of u d' = lease_of u d)"

definition only_leases :: "db \<Rightarrow> db \<Rightarrow> bool" where
  "only_leases d d' \<longleftrightarrow> (\<exists>ls ops. d' = d\<lparr>db_leases := ls, db_lease_ops := ops\<rparr>)"

lemma only_leases_tables:
  "only_leases d d' \<Longrightarrow> db_nodes d' = db_nodes d \<and> db_tickets d' = db_tickets d \<and> db_epochs d' = db_epochs d \<and>
     db_users d' = db_users d \<and> db_accounts d' = db_accounts d"
  by (auto simp: only_leases_def)

lemma only_leases_refl: "only_leases d d"
  unfolding only_leases_def by (intro exI [of _ "db_leases d"] exI [of _ "db_lease_ops d"]) simp

lemma only_leases_set:
  assumes "only_leases d d'"
  shows "only_leases d (d'\<lparr>db_leases := ls\<rparr>)" and "only_leases d (d'\<lparr>db_lease_ops := ops\<rparr>)"
proof -
  obtain ls0 ops0 where d': "d' = d\<lparr>db_leases := ls0, db_lease_ops := ops0\<rparr>"
    using assms by (auto simp: only_leases_def)
  have "d'\<lparr>db_leases := ls\<rparr> = d\<lparr>db_leases := ls, db_lease_ops := ops0\<rparr>"
    "d'\<lparr>db_lease_ops := ops\<rparr> = d\<lparr>db_leases := ls0, db_lease_ops := ops\<rparr>"
    by (simp_all add: d')
  then show "only_leases d (d'\<lparr>db_leases := ls\<rparr>)" "only_leases d (d'\<lparr>db_lease_ops := ops\<rparr>)"
    unfolding only_leases_def by blast+
qed

lemma upsert_put:
  assumes "upsert_lease l d = Inr d'" and "leases_ok d"
  shows "lease_put l d d' \<and> 0 < al_ActivityEpoch l \<and> only_leases d d' \<and> db_lease_ops d' = db_lease_ops d"
proof -
  have chk: "0 < al_ActivityEpoch l" using assms(1) by (auto simp: upsert_lease_def lease_check_def split: if_splits)
  show ?thesis
  proof (cases "\<exists>r \<in> set (db_leases d). al_UserID r = al_UserID l")
    case True
    then obtain r where r: "lease_of (al_UserID l) d = Some r"
      using lease_of_unique [OF assms(2)] by metis
    have d': "d' = d\<lparr>db_leases := sql_update (\<lambda>r. al_UserID r = al_UserID l) (\<lambda>_. l) (db_leases d)\<rparr>"
      using assms(1) True by (auto simp: upsert_lease_def sql split: if_splits)
    have find: "lease_of u d' = map_option (\<lambda>r. if al_UserID r = al_UserID l then l else r) (lease_of u d)" for u
      unfolding d' lease_of_def by (simp, rule sql_find_update) simp
    have "leases_ok d'" if "in_i64 (al_ActivityEpoch l)"
      using assms(2) chk that keyed_update [of "\<lambda>r. al_UserID r = al_UserID l" al_UserID "\<lambda>_. l"]
      unfolding leases_ok_def d' by (auto simp: in_sql_update)
    moreover have "lease_of u d' = lease_of u d" if "u \<noteq> al_UserID l" for u
      using find [of u] that lease_of_Some [of u d] by (cases "lease_of u d") auto
    ultimately show ?thesis using find [of "al_UserID l"] r chk lease_of_Some [OF r] d' by (simp add: lease_put_def only_leases_refl only_leases_set)
  next
    case False
    then have d': "d' = d\<lparr>db_leases := db_leases d @ [l]\<rparr>"
      using assms(1) by (auto simp: upsert_lease_def sql split: if_splits)
    have "leases_ok d'" if "in_i64 (al_ActivityEpoch l)"
      using assms(2) chk that False unfolding leases_ok_def d' by (auto simp: keyed_append)
    moreover have "lease_of (al_UserID l) d = None"
      using False by (auto simp: lease_of_def sql_find_None)
    ultimately show ?thesis using chk d'
      by (auto simp: lease_put_def only_leases_refl only_leases_set lease_of_def sql_find_append sql split: option.splits)
  qed
qed

lemma put_move:
  assumes "lease_put l d d'" and "leases_ok d" and "in_i64 (al_ActivityEpoch l)"
    and "\<And>l0. lease_of (al_UserID l) d = Some l0 \<Longrightarrow> lease_advance now l0 l"
  shows "leases_move now d d'"
proof -
  have "\<exists>l'. lease_of u d' = Some l' \<and> lease_advance now l0 l'" if "lease_of u d = Some l0" for u l0
    using assms(1,4) that by (cases "u = al_UserID l") (auto simp: lease_put_def lease_advance_def)
  then show ?thesis using assms(1-3) by (simp add: leases_move_def lease_put_def)
qed

lemma i64_next: "0 < i64 (n + 1) \<Longrightarrow> in_i64 n \<Longrightarrow> 0 < n \<Longrightarrow> i64 (n + 1) = n + 1"
  using i64_succ [of n] i64_succ_wraps by (cases "n = MaxInt64") (auto simp: in_i64_def)

definition op_recorded :: "acquire_params \<Rightarrow> acquire_result \<Rightarrow> db \<Rightarrow> db \<Rightarrow> bool" where
  "op_recorded p r d d' \<longleftrightarrow> (\<forall>q \<in> set (db_lease_ops d). lo_OperationID q \<noteq> ap_OperationID p) \<and>
     (\<exists>outcome. db_lease_ops d' = db_lease_ops d @ [lease_op p outcome (ar_Lease r)] \<and>
        ar_Acquired r = (outcome = ''acquired'') \<and>
        ar_Existing r = (outcome = ''existing'' \<or> outcome = ''renewed''))"

definition acquired_ok :: "acquire_params \<Rightarrow> acquire_result \<Rightarrow> db \<Rightarrow> db \<Rightarrow> bool" where
  "acquired_ok p r d d' \<longleftrightarrow> leases_move (ap_Now p) d d' \<and> lease_of (ap_UserID p) d' = Some (ar_Lease r) \<and>
     op_recorded p r d d' \<and> only_leases d d' \<and> (0 < ap_TTL p \<longrightarrow> leaseBlocksNewWriter (ar_Lease r) (ap_Now p))"

lemma blocks_new: "0 < ap_TTL p \<Longrightarrow> leaseBlocksNewWriter (new_lease p w e) (ap_Now p)"
  by (simp add: leaseBlocksNewWriter_def blocking_states_def)

lemma renew_stale_ok:
  assumes "renew_stale p l d = Inr (d', r, rep)" and "leases_ok d" and "lease_of (ap_UserID p) d = Some l"
    and "al_State l = ''active''" and "al_ControllerGeneration l < ap_ControllerGeneration p"
  shows "\<not> rep \<and> acquired_ok p r d d'"
proof -
  define n where "n = new_lease p (al_WriterNodeID l) (i64 (al_ActivityEpoch l + 1))"
  define sel where "sel = (\<lambda>r :: lease_row. al_UserID r = ap_UserID p \<and> al_WriterNodeID r = al_WriterNodeID l \<and>
     al_ActivityEpoch r = al_ActivityEpoch l \<and> al_ControllerGeneration r = al_ControllerGeneration l \<and>
     al_State r = ''active'')"
  define d1 where "d1 = d\<lparr>db_leases := sql_update sel (\<lambda>_. n) (db_leases d)\<rparr>"
  have chk: "lease_check n d" and rec: "recordLeaseOperation p ''renewed'' n d1 = Inr d'"
    and r: "r = \<lparr>ar_Lease = n, ar_Acquired = False, ar_Existing = True\<rparr>" and rep: "\<not> rep"
    using assms(1) unfolding renew_stale_def Let_def n_def [symmetric] sel_def [symmetric] d1_def [symmetric]
    by (auto split: if_splits sum.splits)
  have l: "0 < al_ActivityEpoch l" "in_i64 (al_ActivityEpoch l)"
    using assms(2) lease_of_Some [OF assms(3)] by (auto simp: leases_ok_def)
  have pos: "0 < al_ActivityEpoch n" using chk by (simp add: lease_check_def)
  then have e: "al_ActivityEpoch n = al_ActivityEpoch l + 1" using i64_next l by (simp add: n_def)
  have in64: "in_i64 (al_ActivityEpoch n)" by (simp add: n_def)
  have find: "lease_of u d1 = map_option (\<lambda>r. if sel r then n else r) (lease_of u d)" for u
    unfolding d1_def lease_of_def by (simp, rule sql_find_update) (simp add: sel_def n_def)
  have "sel l" using lease_of_Some [OF assms(3)] assms(4) by (simp add: sel_def)
  moreover have "lease_of u d1 = lease_of u d" if "u \<noteq> ap_UserID p" for u
    using find [of u] that lease_of_Some [of u d] by (cases "lease_of u d") (auto simp: sel_def)
  moreover have "leases_ok d1"
    using assms(2) pos in64 keyed_update [of sel al_UserID "\<lambda>_. n"] unfolding leases_ok_def d1_def
    by (auto simp: in_sql_update sel_def n_def)
  ultimately have "lease_put n d d1" using find [of "ap_UserID p"] assms(3) by (simp add: lease_put_def n_def)
  then have "leases_move (ap_Now p) d d1"
    using assms(2,3,5) e in64 by (intro put_move) (auto simp: lease_advance_def n_def)
  moreover have "d' = d1\<lparr>db_lease_ops := db_lease_ops d1 @ [lease_op p ''renewed'' n]\<rparr>"
    "\<forall>q \<in> set (db_lease_ops d1). lo_OperationID q \<noteq> ap_OperationID p"
    using record_op [OF rec] by simp_all
  ultimately show ?thesis using rep r \<open>lease_put n d d1\<close>
    by (auto simp: acquired_ok_def op_recorded_def only_leases_refl only_leases_set leases_move_def leases_ok_def lease_of_def
        lease_put_def d1_def n_def blocks_new)
qed

lemma acquire_cases:
  assumes "acquireActivityLeaseLocked p d = Inr (d', r, rep)" and "leases_ok d"
  shows "if rep then d' = d \<and> getLeaseOperation p d = Inr (Some r) else acquired_ok p r d d'"
proof (cases "getLeaseOperation p d")
  case (Inl e)
  then show ?thesis using assms(1) by (simp add: acquireActivityLeaseLocked_def)
next
  case (Inr prev)
  show ?thesis
  proof (cases prev)
    case (Some r0)
    then show ?thesis using assms(1) Inr by (simp add: acquireActivityLeaseLocked_def)
  next
    case None
    define found where "found = lease_of (ap_UserID p) d"
    show ?thesis
    proof (cases "\<exists>l. found = Some l \<and> leaseBlocksNewWriter l (ap_Now p)")
      case True
      then obtain l where l: "lease_of (ap_UserID p) d = Some l" "leaseBlocksNewWriter l (ap_Now p)"
        by (auto simp: found_def)
      show ?thesis
      proof (cases "al_State l = ''active'' \<and> al_ControllerGeneration l < ap_ControllerGeneration p")
        case True
        then have "renew_stale p l d = Inr (d', r, rep)"
          using assms(1) Inr None l by (simp add: acquireActivityLeaseLocked_def getActivityLeaseForUpdate_def)
        then show ?thesis using renew_stale_ok [OF _ assms(2) l(1)] True by simp
      next
        case False
        then have rec: "recordLeaseOperation p ''existing'' l d = Inr d'" and
          r: "r = \<lparr>ar_Lease = l, ar_Acquired = False, ar_Existing = True\<rparr>" "\<not> rep"
          using assms(1) Inr None l
          by (auto simp: acquireActivityLeaseLocked_def getActivityLeaseForUpdate_def split: sum.splits)
        then show ?thesis using record_op [OF rec] l leases_move_same [OF assms(2), of d']
          by (auto simp: acquired_ok_def op_recorded_def only_leases_refl only_leases_set lease_of_def)
      qed
    next
      case False
      define n where "n = new_lease p (ap_WriterNodeID p)
        (case found of None \<Rightarrow> 1 | Some l \<Rightarrow> i64 (al_ActivityEpoch l + 1))"
      have "(case found of None \<Rightarrow> None | Some l \<Rightarrow> if leaseBlocksNewWriter l (ap_Now p) then Some l else None) = None"
        using False by (auto split: option.splits)
      then obtain d1 where up: "upsert_lease n d = Inr d1" and rec: "recordLeaseOperation p ''acquired'' n d1 = Inr d'"
        and r: "r = \<lparr>ar_Lease = n, ar_Acquired = True, ar_Existing = False\<rparr>" "\<not> rep"
        using assms(1) Inr None
        unfolding acquireActivityLeaseLocked_def getActivityLeaseForUpdate_def Let_def found_def [symmetric] n_def [symmetric]
        by (auto split: sum.splits if_splits)
      note put = upsert_put [OF up assms(2)]
      have in64: "in_i64 (al_ActivityEpoch n)" 
      proof (cases found)
        case None
        then show ?thesis by (simp add: n_def in_i64_def)
      qed (simp add: n_def)
      have adv: "lease_advance (ap_Now p) l0 n" if "lease_of (al_UserID n) d = Some l0" for l0
      proof -
        have l0: "found = Some l0" using that by (simp add: found_def n_def)
        then have "0 < al_ActivityEpoch l0" "in_i64 (al_ActivityEpoch l0)"
          using assms(2) lease_of_Some [of "ap_UserID p" d l0] by (auto simp: leases_ok_def found_def)
        then have "al_ActivityEpoch n = al_ActivityEpoch l0 + 1"
          using put l0 i64_next [of "al_ActivityEpoch l0"] by (simp add: n_def)
        then show ?thesis using False l0 by (simp add: lease_advance_def)
      qed
      have "leases_move (ap_Now p) d d1" using put assms(2) in64 adv by (intro put_move) auto
      moreover have "d' = d1\<lparr>db_lease_ops := db_lease_ops d1 @ [lease_op p ''acquired'' n]\<rparr>"
        "\<forall>q \<in> set (db_lease_ops d1). lo_OperationID q \<noteq> ap_OperationID p"
        using record_op [OF rec] by simp_all
      moreover have "al_UserID n = ap_UserID p" by (simp add: n_def)
      ultimately show ?thesis using r put
        by (auto simp: acquired_ok_def op_recorded_def only_leases_refl only_leases_set leases_move_def leases_ok_def lease_of_def
            lease_put_def n_def blocks_new)
    qed
  qed
qed

section \<open>Handoffs\<close>

definition lease_params :: "handoff_params \<Rightarrow> int \<Rightarrow> acquire_params" where
  "lease_params p generation = \<lparr>ap_OperationID = hp_OperationID p, ap_UserID = hp_UserID p,
     ap_WriterNodeID = hp_RequestedNodeID p, ap_SessionID = hp_SessionID p, ap_ControllerGeneration = generation,
     ap_TTL = hp_LeaseTTL p, ap_ExistingWriterOnly = hp_ExistingWriterOnly p, ap_Now = hp_Now p\<rparr>"

lemma lease_params_sel [simp]:
  "ap_UserID (lease_params p g) = hp_UserID p" "ap_Now (lease_params p g) = hp_Now p"
  "ap_TTL (lease_params p g) = hp_LeaseTTL p" "ap_OperationID (lease_params p g) = hp_OperationID p"
  "ap_ControllerGeneration (lease_params p g) = g"
  by (simp_all add: lease_params_def)

text \<open>A new handoff: its ticket is for the holder of the lease as the transaction leaves it.\<close>

definition handoff_issued :: "handoff_params \<Rightarrow> handoff \<Rightarrow> db \<Rightarrow> db \<Rightarrow> bool" where
  "handoff_issued p h d d' \<longleftrightarrow>
     (\<exists>g r d1 n. active_generation d = Some g \<and> acquired_ok (lease_params p g) r d d1 \<and>
        al_ControllerGeneration (ar_Lease r) = g \<and> n \<in> set (db_nodes d) \<and>
        handoff_target (al_WriterNodeID (ar_Lease r)) (ar_Existing r) g n \<and>
        (\<forall>t \<in> set (db_tickets d). ct_JTI t \<noteq> hp_JTI p \<and> ct_OperationID t \<noteq> hp_OperationID p) \<and>
        d' = d1\<lparr>db_tickets := db_tickets d @
          [new_ticket p (al_WriterNodeID (ar_Lease r)) (nd_BaseURL n) g (ar_Lease r)]\<rparr> \<and>
        ho_TargetNodeID h = al_WriterNodeID (ar_Lease r) \<and> ho_SessionID h = al_SessionID (ar_Lease r) \<and>
        ho_ActivityEpoch h = al_ActivityEpoch (ar_Lease r) \<and> ho_ControllerGeneration h = g \<and>
        ho_JTI h = hp_JTI p \<and> ho_NodeBaseURL h = nd_BaseURL n \<and> ho_ExpiresAt h = hp_Now p + hp_TicketTTL p)"

lemma handoff_cases:
  assumes "createLoginHandoffOnce p d = Inr (d', h)" and "leases_ok d"
  shows "if ho_Replayed h then d' = d else handoff_issued p h d d'"
proof -
  obtain g where g: "active_generation d = Some g"
    using assms(1) by (auto simp: createLoginHandoffOnce_def split: sum.splits option.splits)
  obtain d1 r rep where a: "acquireActivityLeaseLocked (lease_params p g) d = Inr (d1, r, rep)"
    using assms(1) g by (auto simp: createLoginHandoffOnce_def lease_params_def split: sum.splits)
  note c = acquire_cases [OF a assms(2)]
  show ?thesis
  proof (cases rep)
    case True
    then show ?thesis using assms(1) g a c
      by (auto simp: createLoginHandoffOnce_def lease_params_def split: sum.splits)
  next
    case False
    then have ok: "acquired_ok (lease_params p g) r d d1" using c by simp
    then have same: "db_nodes d1 = db_nodes d" "db_tickets d1 = db_tickets d"
      by (simp_all add: acquired_ok_def only_leases_tables)
    obtain n where n: "sql_find (handoff_target (al_WriterNodeID (ar_Lease r)) (ar_Existing r) g) (db_nodes d) = Some n"
      and gen: "al_ControllerGeneration (ar_Lease r) = g"
      and fresh: "\<not> sql_exists (\<lambda>t. ct_JTI t = hp_JTI p \<or> ct_OperationID t = hp_OperationID p) (db_tickets d)"
      using assms(1) g a False same
      by (auto simp: createLoginHandoffOnce_def lease_params_def Let_def split: sum.splits option.splits if_splits)
    have "d' = d1\<lparr>db_tickets := db_tickets d @
          [new_ticket p (al_WriterNodeID (ar_Lease r)) (nd_BaseURL n) g (ar_Lease r)]\<rparr>" and
      h: "ho_Replayed h = False" "ho_TargetNodeID h = al_WriterNodeID (ar_Lease r)"
        "ho_SessionID h = al_SessionID (ar_Lease r)" "ho_ActivityEpoch h = al_ActivityEpoch (ar_Lease r)"
        "ho_ControllerGeneration h = g" "ho_JTI h = hp_JTI p" "ho_NodeBaseURL h = nd_BaseURL n"
        "ho_ExpiresAt h = hp_Now p + hp_TicketTTL p"
      using assms(1) g a False same n gen fresh
      by (auto simp: createLoginHandoffOnce_def lease_params_def Let_def split: sum.splits)
    then show ?thesis
      using g ok gen sql_find_Some [OF n] fresh unfolding handoff_issued_def sql_exists_iff by auto
  qed
qed

section \<open>Events\<close>

datatype lease_event =
    EvAcquire gotime tx_fault acquire_params
  | EvHandoff gotime tx_fault handoff_params
  | EvRenew gotime tx_fault int int string int int gotime duration
  | EvTelemetry gotime tx_fault lease_telemetry
  | EvEnd gotime tx_fault int int string int int gotime
  | EvRedeem gotime tx_fault string string int string string gotime duration

text \<open>
  One attempt of each operation. A retried operation is a sequence of such events with the
  events of others between them.
\<close>

fun lease_step :: "lease_event \<Rightarrow> db \<Rightarrow> db" where
  "lease_step (EvAcquire clock flt p) d = fst (AcquireActivityLease clock [(flt, Cancelled)] p d)"
| "lease_step (EvHandoff clock flt p) d = fst (CreateLoginHandoff clock [(flt, Cancelled)] p d)"
| "lease_step (EvRenew clock flt u w s e g now ttl) d = fst (RenewActivityLease clock flt u w s e g now ttl d)"
| "lease_step (EvTelemetry clock flt p) d = fst (UpdateActivityLeaseTelemetry clock flt p d)"
| "lease_step (EvEnd clock flt u w s e g now) d = fst (EndActivityLease clock flt u w s e g now d)"
| "lease_step (EvRedeem clock flt jti h n iss key now ttl) d = fst (ConsumeLoginHandoff clock flt jti h n iss key now ttl d)"

definition or_clock :: "gotime \<Rightarrow> gotime \<Rightarrow> gotime" where
  "or_clock clock now = (if now = time_zero then clock else now)"

fun lease_event_now :: "lease_event \<Rightarrow> gotime" where
  "lease_event_now (EvAcquire clock flt p) = or_clock clock (ap_Now p)"
| "lease_event_now (EvHandoff clock flt p) = or_clock clock (hp_Now p)"
| "lease_event_now (EvRenew clock flt u w s e g now ttl) = or_clock clock now"
| "lease_event_now (EvTelemetry clock flt p) = or_clock clock (lt_Now p)"
| "lease_event_now (EvEnd clock flt u w s e g now) = or_clock clock now"
| "lease_event_now (EvRedeem clock flt jti h n iss key now ttl) = or_clock clock now"

lemma one_attempt:
  assumes "retry_tx serializableRetryLimit [(flt, Cancelled)] t d = (d', r)"
  obtains "d' = d" | x where "t d = Inr (d', x)"
  using assms
  by (auto simp: serializableRetryLimit_def numeral_eq_Suc split: prod.splits if_splits elim!: run_tx_cases)

definition lease_inv :: "db \<Rightarrow> bool" where
  "lease_inv d \<longleftrightarrow> leases_ok d \<and> keyed ct_JTI (db_tickets d) \<and> keyed lo_OperationID (db_lease_ops d)"

text \<open>What one event may do to the leases, the operations and the tickets.\<close>

definition same_ticket :: "ticket_row \<Rightarrow> ticket_row \<Rightarrow> bool" where
  "same_ticket t t' \<longleftrightarrow> t'\<lparr>ct_ConsumedAt := None, ct_ConsumedByNodeID := None\<rparr> =
     t\<lparr>ct_ConsumedAt := None, ct_ConsumedByNodeID := None\<rparr>"

lemma same_ticket_sel:
  assumes "same_ticket t t'"
  shows "ct_JTI t' = ct_JTI t" "ct_UserID t' = ct_UserID t" "ct_TargetNodeID t' = ct_TargetNodeID t"
    "ct_SessionID t' = ct_SessionID t" "ct_ActivityEpoch t' = ct_ActivityEpoch t"
    "ct_ControllerGeneration t' = ct_ControllerGeneration t" "ct_SecretHash t' = ct_SecretHash t"
    "ct_ExpiresAt t' = ct_ExpiresAt t"
  using arg_cong [OF assms [unfolded same_ticket_def], of ct_JTI]
    arg_cong [OF assms [unfolded same_ticket_def], of ct_UserID]
    arg_cong [OF assms [unfolded same_ticket_def], of ct_TargetNodeID]
    arg_cong [OF assms [unfolded same_ticket_def], of ct_SessionID]
    arg_cong [OF assms [unfolded same_ticket_def], of ct_ActivityEpoch]
    arg_cong [OF assms [unfolded same_ticket_def], of ct_ControllerGeneration]
    arg_cong [OF assms [unfolded same_ticket_def], of ct_SecretHash]
    arg_cong [OF assms [unfolded same_ticket_def], of ct_ExpiresAt]
  by simp_all

definition ticket_kept :: "db \<Rightarrow> db \<Rightarrow> bool" where
  "ticket_kept d d' \<longleftrightarrow> (\<forall>t \<in> set (db_tickets d). \<exists>t' \<in> set (db_tickets d').
     same_ticket t t' \<and> (ct_ConsumedAt t \<noteq> None \<longrightarrow> ct_ConsumedAt t' \<noteq> None))"

definition lease_effect :: "gotime \<Rightarrow> db \<Rightarrow> db \<Rightarrow> bool" where
  "lease_effect now d d' \<longleftrightarrow> lease_inv d' \<and> leases_move now d d' \<and> db_users d' = db_users d \<and>
     set (db_lease_ops d) \<subseteq> set (db_lease_ops d') \<and> ticket_kept d d'"

lemma ticket_kept_same: "db_tickets d' = db_tickets d \<Longrightarrow> ticket_kept d d'"
  by (auto simp: ticket_kept_def same_ticket_def)

lemma ticket_kept_update:
  assumes "db_tickets d' = sql_update P f (db_tickets d)"
    and "\<And>t. same_ticket t (f t) \<and> (ct_ConsumedAt t \<noteq> None \<longrightarrow> ct_ConsumedAt (f t) \<noteq> None)"
  shows "ticket_kept d d'"
  unfolding ticket_kept_def
proof
  fix t assume t: "t \<in> set (db_tickets d)"
  let ?t = "if P t then f t else t"
  have "?t \<in> set (db_tickets d')" using t by (simp add: assms(1) set_sql_update)
  moreover have "same_ticket t ?t \<and> (ct_ConsumedAt t \<noteq> None \<longrightarrow> ct_ConsumedAt ?t \<noteq> None)"
    using assms(2) [of t] by (simp add: same_ticket_def)
  ultimately show "\<exists>t' \<in> set (db_tickets d'). same_ticket t t' \<and>
     (ct_ConsumedAt t \<noteq> None \<longrightarrow> ct_ConsumedAt t' \<noteq> None)" by blast
qed

lemma lease_effect_refl: "lease_inv d \<Longrightarrow> lease_effect now d d"
  by (auto simp: lease_effect_def lease_inv_def ticket_kept_def same_ticket_def intro: leases_move_same)

lemma acquired_effect:
  assumes "acquired_ok p r d d'" and "lease_inv d"
  shows "lease_effect (ap_Now p) d d'"
proof -
  obtain outcome where ops: "db_lease_ops d' = db_lease_ops d @ [lease_op p outcome (ar_Lease r)]"
    and fresh: "\<forall>q \<in> set (db_lease_ops d). lo_OperationID q \<noteq> ap_OperationID p"
    using assms(1) unfolding acquired_ok_def op_recorded_def by blast
  have "keyed lo_OperationID (db_lease_ops d')"
    using assms(2) fresh unfolding ops keyed_append by (auto simp: lease_inv_def lease_op_def)
  moreover have "leases_move (ap_Now p) d d'" "only_leases d d'" using assms(1) by (simp_all add: acquired_ok_def)
  ultimately show ?thesis using assms(2) only_leases_tables [of d d'] ops
    by (simp add: lease_effect_def lease_inv_def leases_move_def ticket_kept_same subset_insertI)
qed

lemma update_effect:
  assumes "lease_inv d" and "\<And>l. P l \<Longrightarrow> al_UserID (f l) = al_UserID l \<and> same_holder l (f l)"
  shows "lease_effect now d (d\<lparr>db_leases := sql_update P f (db_leases d)\<rparr>)"
proof -
  have "leases_move now d (d\<lparr>db_leases := sql_update P f (db_leases d)\<rparr>)"
    using assms by (intro leases_move_update [of d _ P f]) (auto simp: lease_inv_def)
  then show ?thesis using assms(1)
    by (simp add: lease_effect_def lease_inv_def leases_move_def ticket_kept_same)
qed

lemma issued_effect:
  assumes "handoff_issued p h d d'" and "lease_inv d"
  shows "lease_effect (hp_Now p) d d'"
proof -
  obtain g r d1 t where ok: "acquired_ok (lease_params p g) r d d1" and d': "d' = d1\<lparr>db_tickets := db_tickets d @ [t]\<rparr>"
    and t: "ct_JTI t = hp_JTI p" and fresh: "\<forall>t \<in> set (db_tickets d). ct_JTI t \<noteq> hp_JTI p"
    using assms(1) unfolding handoff_issued_def by (force simp: new_ticket_def)
  have e: "lease_effect (hp_Now p) d d1" using acquired_effect [OF ok assms(2)] by simp
  have "keyed ct_JTI (db_tickets d')"
    using assms(2) fresh t unfolding d' by (auto simp: lease_inv_def keyed_append)
  moreover have "ticket_kept d d'" by (auto simp: ticket_kept_def same_ticket_def d')
  ultimately show ?thesis using e
    by (simp add: lease_effect_def lease_inv_def leases_move_def leases_ok_def lease_of_def d')
qed

lemma consume_effect:
  assumes "consume_handoff jti h n iss key now ttl d = Inr (d', r)" and "lease_inv d"
  shows "lease_effect now d d'"
proof (cases r)
  case None
  then have "d' = d" using assms(1) by (auto simp: consume_handoff_def split: option.splits)
  then show ?thesis using lease_effect_refl assms(2) by simp
next
  case (Some x)
  then obtain t where d': "d' = d\<lparr>db_tickets := sql_update (ticket_redeemable jti h n iss key now)
        (\<lambda>r. r\<lparr>ct_ConsumedAt := Some now, ct_ConsumedByNodeID := Some n\<rparr>) (db_tickets d),
      db_leases := sql_update (ticket_fence t)
        (\<lambda>r. r\<lparr>al_LastRequestAt := now, al_LeaseExpiresAt := now + ttl, al_UpdatedAt := now\<rparr>) (db_leases d)\<rparr>"
    using assms(1) by (auto simp: consume_handoff_def split: option.splits)
  have "leases_move now d d'"
  proof (rule leases_move_update)
    show "leases_ok d" using assms(2) by (simp add: lease_inv_def)
    show "db_leases d' = sql_update (ticket_fence t)
        (\<lambda>r. r\<lparr>al_LastRequestAt := now, al_LeaseExpiresAt := now + ttl, al_UpdatedAt := now\<rparr>) (db_leases d)"
      by (simp add: d')
  qed (simp add: same_holder_def)
  moreover have "keyed ct_JTI (db_tickets d')"
    using assms(2) unfolding d' by (simp add: lease_inv_def keyed_update)
  moreover have "ticket_kept d d'"
    by (rule ticket_kept_update [where P = "ticket_redeemable jti h n iss key now"
        and f = "\<lambda>r. r\<lparr>ct_ConsumedAt := Some now, ct_ConsumedByNodeID := Some n\<rparr>"]) (simp_all add: d' same_ticket_def)
  ultimately show ?thesis using assms(2) by (simp add: lease_effect_def lease_inv_def leases_move_def d')
qed

lemma lease_step_effect:
  assumes "lease_inv d"
  shows "lease_effect (lease_event_now e) d (lease_step e d)"
proof (cases e)
  case (EvAcquire clock flt p)
  define p' where "p' = (if ap_Now p = time_zero then p\<lparr>ap_Now := clock\<rparr> else p)"
  have now: "ap_Now p' = lease_event_now e" by (simp add: p'_def EvAcquire or_clock_def)
  obtain d' r where r: "AcquireActivityLease clock [(flt, Cancelled)] p d = (d', r)"
    by (cases "AcquireActivityLease clock [(flt, Cancelled)] p d")
  have "d' = d \<or> (\<exists>x. acquireActivityLeaseOnce p' d = Inr (d', x))"
    using r unfolding AcquireActivityLease_def Let_def p'_def [symmetric]
    by (auto split: if_splits elim: one_attempt)
  then have "lease_effect (ap_Now p') d d'"
    using assms acquire_cases [of p' d d'] acquired_effect [of p' _ d d'] lease_effect_refl
    by (auto simp: acquireActivityLeaseOnce_def lease_inv_def split: sum.splits) metis+
  then show ?thesis using r now EvAcquire by simp
next
  case (EvHandoff clock flt p)
  define p' where "p' = (if hp_Now p = time_zero then p\<lparr>hp_Now := clock\<rparr> else p)"
  have now: "hp_Now p' = lease_event_now e" by (simp add: p'_def EvHandoff or_clock_def)
  obtain d' r where r: "CreateLoginHandoff clock [(flt, Cancelled)] p d = (d', r)"
    by (cases "CreateLoginHandoff clock [(flt, Cancelled)] p d")
  have "d' = d \<or> (\<exists>x. createLoginHandoffOnce p' d = Inr (d', x))"
    using r unfolding CreateLoginHandoff_def Let_def p'_def [symmetric]
    by (auto split: if_splits elim: one_attempt)
  then have "lease_effect (hp_Now p') d d'"
    using assms handoff_cases [of p' d d'] issued_effect [of p' _ d d'] lease_effect_refl
    by (metis lease_inv_def)
  then show ?thesis using r now EvHandoff by simp
next
  case (EvRedeem clock flt jti h n iss key now ttl)
  then show ?thesis
    using assms consume_effect [of jti h n iss key "or_clock clock now" ttl d] lease_effect_refl [OF assms]
    by (auto simp: ConsumeLoginHandoff_def or_clock_def run_tx_def split: tx_fault.splits sum.splits)
qed (use assms in \<open>auto simp: RenewActivityLease_def UpdateActivityLeaseTelemetry_def EndActivityLease_def Let_def
   run_tx_def lease_effect_refl same_holder_def intro!: update_effect split: tx_fault.splits\<close>)

lemma lease_step_advance:
  assumes "lease_inv d" and "lease_of u d = Some l"
  obtains l' where "lease_of u (lease_step e d) = Some l'" and "lease_advance (lease_event_now e) l l'"
  using lease_step_effect [OF assms(1), of e] assms(2) unfolding lease_effect_def leases_move_def by blast

interpretation lease_events: transitions lease_step lease_inv
  using lease_step_effect by unfold_locales (simp add: lease_effect_def)

abbreviation lease_run :: "lease_event list \<Rightarrow> db \<Rightarrow> db" where
  "lease_run \<equiv> lease_events.run"

fun lease_redeems :: "string \<Rightarrow> lease_event \<Rightarrow> db \<Rightarrow> bool" where
  "lease_redeems k (EvRedeem clock flt jti h n iss key now ttl) d =
     (jti = k \<and> (\<exists>r. snd (ConsumeLoginHandoff clock flt jti h n iss key now ttl d) = Inr (Some r)))"
| "lease_redeems k e d = False"

definition ticket_spent :: "string \<Rightarrow> db \<Rightarrow> bool" where
  "ticket_spent k d \<longleftrightarrow> (\<exists>t \<in> set (db_tickets d). ct_JTI t = k \<and> ct_ConsumedAt t \<noteq> None)"

text \<open>A successful redemption found a redeemable ticket and a live lease that fences it.\<close>

lemma redeemed:
  assumes "ConsumeLoginHandoff clock flt jti h n iss key now ttl d = (d', Inr (Some r))"
  shows "\<exists>t l. t \<in> set (db_tickets d) \<and> ticket_redeemable jti h n iss key (or_clock clock now) t \<and>
    l \<in> set (db_leases d) \<and> ticket_fence t l \<and> al_State l = ''active'' \<and> or_clock clock now < al_LeaseExpiresAt l \<and>
    (\<exists>e \<in> set (db_epochs d). ep_State e = ''active'' \<and> ep_Generation e = ct_ControllerGeneration t) \<and>
    lr_UserID r = ct_UserID t \<and> lr_SessionID r = ct_SessionID t \<and> lr_ActivityEpoch r = ct_ActivityEpoch t \<and>
    db_tickets d' = sql_update (ticket_redeemable jti h n iss key (or_clock clock now))
      (\<lambda>r. r\<lparr>ct_ConsumedAt := Some (or_clock clock now), ct_ConsumedByNodeID := Some n\<rparr>) (db_tickets d)"
proof -
  have c: "consume_handoff jti h n iss key (or_clock clock now) ttl d = Inr (d', Some r)"
    using assms by (auto simp: ConsumeLoginHandoff_def or_clock_def split: if_splits dest: run_tx_ok)
  obtain t where t: "sql_find (ticket_redeemable jti h n iss key (or_clock clock now)) (db_tickets d) = Some t"
    using c by (auto simp: consume_handoff_def split: option.splits)
  obtain u a l where x: "redemption_context t (or_clock clock now) d = Some (u, a, l)"
    using c t by (auto simp: consume_handoff_def split: option.splits)
  have "l \<in> set (db_leases d) \<and> ticket_fence t l \<and> al_State l = ''active'' \<and> or_clock clock now < al_LeaseExpiresAt l"
    using x sql_find_Some [of _ "db_leases d" l] by (auto simp: redemption_context_def split: if_splits option.splits)
  moreover have "\<exists>e \<in> set (db_epochs d). ep_State e = ''active'' \<and> ep_Generation e = ct_ControllerGeneration t"
    using x by (auto simp: redemption_context_def sql split: if_splits)
  ultimately show ?thesis using c t x sql_find_Some [OF t] by (intro exI [of _ t] exI [of _ l]) (auto simp: consume_handoff_def)
qed

lemma redeem_spends_ticket:
  assumes "lease_inv d" and "lease_redeems k e d"
  shows "\<not> ticket_spent k d \<and> ticket_spent k (lease_step e d)"
proof (cases e)
  case (EvRedeem clock flt jti h n iss key now ttl)
  obtain d' r where c: "ConsumeLoginHandoff clock flt jti h n iss key now ttl d = (d', Inr (Some r))" and k: "jti = k"
    using assms(2) EvRedeem by (cases "ConsumeLoginHandoff clock flt jti h n iss key now ttl d") auto
  obtain t where t: "t \<in> set (db_tickets d)" "ticket_redeemable jti h n iss key (or_clock clock now) t"
    and d': "db_tickets d' = sql_update (ticket_redeemable jti h n iss key (or_clock clock now))
      (\<lambda>r. r\<lparr>ct_ConsumedAt := Some (or_clock clock now), ct_ConsumedByNodeID := Some n\<rparr>) (db_tickets d)"
    using redeemed [OF c] by blast
  have "t = q" if "q \<in> set (db_tickets d)" "ct_JTI q = k" for q
    using keyed_unique [of ct_JTI "db_tickets d" t q] assms(1) t that k
    by (auto simp: lease_inv_def ticket_redeemable_def)
  then have "\<not> ticket_spent k d" using t by (auto simp: ticket_spent_def ticket_redeemable_def)
  moreover have "ticket_spent k d'"
  proof -
    let ?t = "t\<lparr>ct_ConsumedAt := Some (or_clock clock now), ct_ConsumedByNodeID := Some n\<rparr>"
    have "?t \<in> set (db_tickets d')" unfolding d' in_sql_update using t by blast
    moreover have "ct_JTI ?t = k" using t(2) k by (simp add: ticket_redeemable_def)
    ultimately show ?thesis unfolding ticket_spent_def by (intro bexI [of _ ?t]) simp_all
  qed
  ultimately show ?thesis using c EvRedeem by simp
qed (use assms in simp_all)

interpretation handoff_tickets: one_use lease_step lease_inv lease_redeems ticket_spent
proof unfold_locales
  show "ticket_spent k (lease_step e d)" if "lease_inv d" "ticket_spent k d" for d k e
    using that lease_step_effect [of d e] same_ticket_sel(1)
    unfolding lease_effect_def ticket_kept_def ticket_spent_def by metis
qed (use redeem_spends_ticket in blast)

section \<open>Properties\<close>

definition holder_kept :: "int \<Rightarrow> db \<Rightarrow> db \<Rightarrow> bool" where
  "holder_kept u d d' \<longleftrightarrow> (\<forall>l. lease_of u d = Some l \<longrightarrow>
     (\<exists>l'. lease_of u d' = Some l' \<and> al_ActivityEpoch l \<le> al_ActivityEpoch l' \<and>
        (al_ActivityEpoch l' = al_ActivityEpoch l \<longrightarrow> same_holder l l')))"

lemma holder_kept_run: "lease_inv d \<Longrightarrow> holder_kept u d (lease_run evs d)"
proof (rule lease_events.run_related)
  show "holder_kept u d d" for d by (simp add: holder_kept_def)
  show "holder_kept u d f" if "holder_kept u d e" and "holder_kept u e f" for d e f
    using that unfolding holder_kept_def same_holder_def by (smt (verit) order_antisym order_trans)
  show "holder_kept u d (lease_step e d)" if "lease_inv d" for d e
    using lease_step_effect [OF that, of e]
    by (fastforce simp: lease_effect_def leases_move_def lease_advance_def holder_kept_def same_holder_def)
qed

text \<open>
  C20. One writer per user. In any run of acquisitions, handoffs, renewals, telemetry, ends and
  redemptions the activity epoch of a user never goes down, one epoch names one holder
  (node, session and controller generation), and the writer node changes only at an event at
  whose time the lease of the old writer has expired or is not active, quiescing, drained or
  independent.
\<close>

theorem single_writer_lease:
  assumes "lease_inv d" and "lease_of u d = Some l" and "lease_run evs d = d'"
  shows "\<exists>l'. lease_of u d' = Some l' \<and> al_ActivityEpoch l \<le> al_ActivityEpoch l' \<and>
    (al_ActivityEpoch l' = al_ActivityEpoch l \<longrightarrow> same_holder l l') \<and>
    (al_WriterNodeID l' \<noteq> al_WriterNodeID l \<longrightarrow>
      (\<exists>k < length evs. \<exists>lk. lease_of u (lease_run (take k evs) d) = Some lk \<and>
         al_WriterNodeID lk = al_WriterNodeID l \<and>
         (al_LeaseExpiresAt lk \<le> lease_event_now (evs ! k) \<or> al_State lk \<notin> {''active'', ''quiescing'', ''drained'', ''independent''})))"
proof -
  obtain l' where l': "lease_of u d' = Some l'" "al_ActivityEpoch l \<le> al_ActivityEpoch l'"
    "al_ActivityEpoch l' = al_ActivityEpoch l \<longrightarrow> same_holder l l'"
    using holder_kept_run [OF assms(1), of u evs] assms(2,3) by (auto simp: holder_kept_def)
  moreover have "\<exists>k < length evs. \<exists>lk. lease_of u (lease_run (take k evs) d) = Some lk \<and>
         al_WriterNodeID lk = al_WriterNodeID l \<and>
         (al_LeaseExpiresAt lk \<le> lease_event_now (evs ! k) \<or> al_State lk \<notin> {''active'', ''quiescing'', ''drained'', ''independent''})"
    if changed: "al_WriterNodeID l' \<noteq> al_WriterNodeID l"
  proof -
    let ?P = "\<lambda>s. \<exists>x. lease_of u s = Some x \<and> al_WriterNodeID x = al_WriterNodeID l"
    obtain k where k: "k < length evs" "?P (lease_run (take k evs) d)"
      "\<not> ?P (lease_step (evs ! k) (lease_run (take k evs) d))"
      using lease_events.run_changed [of ?P d evs] assms(2,3) l'(1) changed by auto
    then obtain x where x: "lease_of u (lease_run (take k evs) d) = Some x" "al_WriterNodeID x = al_WriterNodeID l"
      by blast
    then obtain y where "lease_of u (lease_step (evs ! k) (lease_run (take k evs) d)) = Some y"
      "lease_advance (lease_event_now (evs ! k)) x y"
      using lease_step_advance [OF lease_events.run_inv [OF assms(1)]] by blast
    then have "\<not> leaseBlocksNewWriter x (lease_event_now (evs ! k))"
      using k(3) x(2) by (auto simp: lease_advance_def same_holder_def)
    then have "al_LeaseExpiresAt x \<le> lease_event_now (evs ! k) \<or>
      al_State x \<notin> {''active'', ''quiescing'', ''drained'', ''independent''}"
      unfolding leaseBlocksNewWriter_def blocking_states_def not_less [symmetric] by (simp only: list.set) blast
    then show ?thesis using k(1) x by blast
  qed
  ultimately show ?thesis by blast
qed

definition sample_acquire :: "string \<Rightarrow> int \<Rightarrow> string \<Rightarrow> gotime \<Rightarrow> acquire_params" where
  "sample_acquire i n s now = \<lparr>ap_OperationID = i, ap_UserID = 7, ap_WriterNodeID = n, ap_SessionID = s,
     ap_ControllerGeneration = 1, ap_TTL = 10, ap_ExistingWriterOnly = False, ap_Now = now\<rparr>"

definition leased_db :: db where
  "leased_db = lease_step (EvAcquire 1 TxOk (sample_acquire ''a'' 1 ''s1'' 5)) sample_db"

theorem single_writer_lease_witness:
  "let e = EvAcquire 1 TxOk (sample_acquire ''b'' 2 ''s2'' 20)
   in lease_inv leased_db \<and> map_option al_WriterNodeID (lease_of 7 leased_db) = Some 1 \<and>
      map_option al_WriterNodeID (lease_of 7 (lease_run [e] leased_db)) = Some 2 \<and>
      (\<exists>lk. lease_of 7 leased_db = Some lk \<and> (al_LeaseExpiresAt lk \<le> 20 \<or>
         al_State lk \<notin> {''active'', ''quiescing'', ''drained'', ''independent''}))"
proof -
  define e where "e = EvAcquire 1 TxOk (sample_acquire ''b'' 2 ''s2'' 20)"
  have inv: "lease_inv leased_db" by code_simp
  obtain l where l: "lease_of 7 leased_db = Some l" and w: "al_WriterNodeID l = 1"
  proof -
    have "map_option al_WriterNodeID (lease_of 7 leased_db) = Some 1" by code_simp
    then show ?thesis using that by auto
  qed
  have w2: "map_option al_WriterNodeID (lease_of 7 (lease_run [e] leased_db)) = Some 2"
    unfolding lease_events.run_Cons lease_events.run_Nil e_def by code_simp
  obtain k lk where "k < length [e]" "lease_of 7 (lease_run (take k [e]) leased_db) = Some lk"
    "al_LeaseExpiresAt lk \<le> lease_event_now ([e] ! k) \<or> al_State lk \<notin> {''active'', ''quiescing'', ''drained'', ''independent''}"
    using single_writer_lease [OF inv l refl, of "[e]"] w w2 by auto
  then have "lease_of 7 leased_db = Some lk" "al_LeaseExpiresAt lk \<le> 20 \<or>
      al_State lk \<notin> {''active'', ''quiescing'', ''drained'', ''independent''}"
    by (simp_all add: e_def sample_acquire_def or_clock_def)
  then show ?thesis using inv l w w2 unfolding Let_def e_def by auto
qed

definition op_of :: "acquire_params \<Rightarrow> acquire_result \<Rightarrow> lease_op_row \<Rightarrow> bool" where
  "op_of p r w \<longleftrightarrow> lo_OperationID w = ap_OperationID p \<and> lo_UserID w = ap_UserID p \<and>
     lo_RequestedNodeID w = ap_WriterNodeID p \<and> lo_RequestedSessionID w = ap_SessionID p \<and>
     lo_ResultWriterNodeID w = al_WriterNodeID (ar_Lease r) \<and> lo_ResultSessionID w = al_SessionID (ar_Lease r) \<and>
     lo_ResultActivityEpoch w = al_ActivityEpoch (ar_Lease r) \<and> ar_Acquired r = (lo_Outcome w = ''acquired'') \<and>
     ar_Existing r = (lo_Outcome w = ''existing'' \<or> lo_Outcome w = ''renewed'')"

lemma replayed_op:
  assumes "getLeaseOperation p d = Inr (Some r)"
  shows "\<exists>w \<in> set (db_lease_ops d). op_of p r w"
proof -
  obtain w where w: "sql_find (\<lambda>q. lo_OperationID q = ap_OperationID p) (db_lease_ops d) = Some w" "op_of p r w"
    using assms by (auto simp: getLeaseOperation_def op_of_def split: option.splits if_splits dest: sql_find_Some)
  then show ?thesis using sql_find_Some [OF w(1)] by blast
qed

lemma recorded_op:
  assumes "op_recorded p r d d'"
  shows "\<exists>w \<in> set (db_lease_ops d'). op_of p r w"
proof -
  obtain outcome where o': "db_lease_ops d' = db_lease_ops d @ [lease_op p outcome (ar_Lease r)]"
    "ar_Acquired r = (outcome = ''acquired'')" "ar_Existing r = (outcome = ''existing'' \<or> outcome = ''renewed'')"
    using assms unfolding op_recorded_def by (elim conjE exE)
  then have "op_of p r (lease_op p outcome (ar_Lease r))" by (simp add: op_of_def lease_op_def)
  then show ?thesis by (simp add: o')
qed

text \<open>
  An acquisition can be repeated safely. Once an acquisition has committed, also when its
  answer was lost, a later request with the same operation, user, node and session returns
  the same writer, session, epoch and flags and changes nothing, whatever happened to the
  leases in between.
\<close>

lemma acquire_replay:
  assumes "lease_inv d" and "acquireActivityLeaseOnce p d = Inr (d1, r)"
    and "ap_OperationID q = ap_OperationID p" "ap_UserID q = ap_UserID p"
    "ap_WriterNodeID q = ap_WriterNodeID p" "ap_SessionID q = ap_SessionID p"
  shows "\<exists>r'. acquireActivityLeaseOnce q (lease_run evs d1) = Inr (lease_run evs d1, r') \<and>
    al_WriterNodeID (ar_Lease r') = al_WriterNodeID (ar_Lease r) \<and>
    al_SessionID (ar_Lease r') = al_SessionID (ar_Lease r) \<and>
    al_ActivityEpoch (ar_Lease r') = al_ActivityEpoch (ar_Lease r) \<and>
    ar_Acquired r' = ar_Acquired r \<and> ar_Existing r' = ar_Existing r"
proof -
  obtain rep where a: "acquireActivityLeaseLocked p d = Inr (d1, r, rep)" and user: "lockGlobalUser (ap_UserID p) d = Inr ()"
    using assms(2) by (auto simp: acquireActivityLeaseOnce_def split: sum.splits)
  note c = acquire_cases [OF a] assms(1)
  have inv: "lease_inv d1"
    using c acquired_effect [of p r d d1] by (cases rep) (auto simp: lease_inv_def lease_effect_def)
  have users: "db_users d1 = db_users d"
    using c only_leases_tables [of d d1] by (cases rep) (auto simp: lease_inv_def acquired_ok_def)
  obtain w where w: "w \<in> set (db_lease_ops d1)" "op_of p r w"
    using c replayed_op [of p d r] recorded_op [of p r d d1] by (cases rep) (auto simp: lease_inv_def acquired_ok_def)
  have "w \<in> set (db_lease_ops (lease_run evs d1)) \<and> db_users (lease_run evs d1) = db_users d1"
    by (rule lease_events.run_stable [OF _ inv, where P = "\<lambda>x. w \<in> set (db_lease_ops x) \<and> db_users x = db_users d1"])
      (use lease_step_effect w(1) in \<open>auto simp: lease_effect_def\<close>)
  moreover have "keyed lo_OperationID (db_lease_ops (lease_run evs d1))"
    using lease_events.run_inv [OF inv] by (simp add: lease_inv_def)
  ultimately have "sql_find (\<lambda>x. lo_OperationID x = ap_OperationID q) (db_lease_ops (lease_run evs d1)) = Some w"
    and "lockGlobalUser (ap_UserID q) (lease_run evs d1) = Inr ()"
    using w(2) assms(3,4) user users by (auto simp: lockGlobalUser_def op_of_def intro: sql_find_keyed [where k = lo_OperationID])
  then show ?thesis using w assms(3-6)
    by (simp add: acquireActivityLeaseOnce_def acquireActivityLeaseLocked_def getLeaseOperation_def op_of_def)
qed

lemma acquire_replay_witness:
  "let p = sample_acquire ''a'' 1 ''s1'' 5; d1 = leased_db;
       e = EvAcquire 1 TxOk (sample_acquire ''b'' 2 ''s2'' 20)
   in \<exists>r'. acquireActivityLeaseOnce (p\<lparr>ap_Now := 30\<rparr>) (lease_run [e] d1) = Inr (lease_run [e] d1, r') \<and>
        al_WriterNodeID (ar_Lease r') = 1 \<and> al_ActivityEpoch (ar_Lease r') = 1 \<and> ar_Acquired r'"
proof -
  let ?p = "sample_acquire ''a'' 1 ''s1'' 5"
  have inv: "lease_inv sample_db" by code_simp
  have "fst (projr (acquireActivityLeaseOnce ?p sample_db)) = leased_db"
    "is_ok (acquireActivityLeaseOnce ?p sample_db)"
    "al_WriterNodeID (ar_Lease (snd (projr (acquireActivityLeaseOnce ?p sample_db)))) = 1"
    "al_ActivityEpoch (ar_Lease (snd (projr (acquireActivityLeaseOnce ?p sample_db)))) = 1"
    "ar_Acquired (snd (projr (acquireActivityLeaseOnce ?p sample_db)))"
    by code_simp+
  then obtain r where r: "acquireActivityLeaseOnce ?p sample_db = Inr (leased_db, r)" and
    "al_WriterNodeID (ar_Lease r) = 1" "al_ActivityEpoch (ar_Lease r) = 1" "ar_Acquired r"
    by (cases "acquireActivityLeaseOnce ?p sample_db") auto
  then show ?thesis
    using acquire_replay [OF inv r, of "?p\<lparr>ap_Now := 30\<rparr>" "[EvAcquire 1 TxOk (sample_acquire ''b'' 2 ''s2'' 20)]"]
    by (auto simp: Let_def)
qed

lemma issued_ticket:
  assumes "handoff_issued p h d d1"
  shows "\<exists>t \<in> set (db_tickets d1). ct_JTI t = ho_JTI h \<and> ct_UserID t = hp_UserID p \<and>
    ct_TargetNodeID t = ho_TargetNodeID h \<and> ct_SessionID t = ho_SessionID h \<and> ct_ActivityEpoch t = ho_ActivityEpoch h \<and>
    ct_ControllerGeneration t = ho_ControllerGeneration h \<and> ct_SecretHash t = hp_SecretHash p \<and>
    ct_ExpiresAt t = ho_ExpiresAt h"
  using assms unfolding handoff_issued_def by (elim exE conjE) (simp add: new_ticket_def)

lemma tickets_kept_run:
  assumes "lease_inv d" and "t \<in> set (db_tickets d)"
  shows "\<exists>t' \<in> set (db_tickets (lease_run evs d)). same_ticket t t'"
proof (rule lease_events.run_stable [OF _ assms(1), where P = "\<lambda>x. \<exists>t' \<in> set (db_tickets x). same_ticket t t'"])
  show "\<exists>t' \<in> set (db_tickets (lease_step e x)). same_ticket t t'"
    if "lease_inv x" and "\<exists>t' \<in> set (db_tickets x). same_ticket t t'" for x e
    using that lease_step_effect [OF that(1), of e]
    unfolding lease_effect_def ticket_kept_def same_ticket_def by metis
  show "\<exists>t' \<in> set (db_tickets d). same_ticket t t'" using assms(2) by (auto simp: same_ticket_def)
qed

text \<open>
  C21. A login ticket is redeemed at most once, in any run of lease and handoff operations and
  however the server treats their transactions.
\<close>

theorem login_ticket_redeemed_once:
  assumes "lease_inv d"
  shows "handoff_tickets.redemptions jti evs d \<le> 1"
  using assms by (rule handoff_tickets.redeemed_once)

definition sample_handoff :: "gotime \<Rightarrow> handoff_params" where
  "sample_handoff now = \<lparr>hp_OperationID = sample_uuid, hp_JTI = sample_uuid, hp_SecretHash = replicate 32 CHR ''x'',
     hp_UserID = 7, hp_RequestedNodeID = 1, hp_SessionID = sample_uuid, hp_Issuer = ''iss'', hp_Subject = ''u'',
     hp_KeyID = ''k'', hp_TicketTTL = 10, hp_LeaseTTL = 20, hp_ExistingWriterOnly = False, hp_Now = now\<rparr>"

definition handoff_db :: db where
  "handoff_db = fst (projr (createLoginHandoffOnce (sample_handoff 5) sample_db))"

abbreviation sample_redeem :: lease_event where
  "sample_redeem \<equiv> EvRedeem 1 TxOk sample_uuid (replicate 32 CHR ''x'') 1 ''iss'' ''k'' 6 20"

theorem login_ticket_redeemed_once_witness:
  "lease_redeems sample_uuid sample_redeem handoff_db \<and>
   handoff_tickets.redemptions sample_uuid [sample_redeem, sample_redeem] handoff_db = 1"
proof -
  have inv: "lease_inv handoff_db" by code_simp
  have "is_ok (snd (ConsumeLoginHandoff 1 TxOk sample_uuid (replicate 32 CHR ''x'') 1 ''iss'' ''k'' 6 20 handoff_db))"
    "projr (snd (ConsumeLoginHandoff 1 TxOk sample_uuid (replicate 32 CHR ''x'') 1 ''iss'' ''k'' 6 20 handoff_db)) \<noteq> None"
    by code_simp+
  then have "lease_redeems sample_uuid sample_redeem handoff_db"
    by (auto simp: is_ok_iff)
  then show ?thesis
    using login_ticket_redeemed_once [OF inv, of sample_uuid "[sample_redeem, sample_redeem]"] by simp
qed



end
