(* ===== verification/Store_Epochs.thy ===== *)
theory Store_Epochs
  imports Store_Leases
begin

text \<open>
  Controller epochs and what follows a change of the active one: promotion and resumption
  (\<open>store/leadership.go\<close>), the durable rebuild that tracks every node until it has reported
  under the new generation (\<open>store/controller_rebuilds.go\<close>), and the rotation of agent
  credentials (\<open>store/agent_credentials.go\<close>). The advisory lock and the random identifiers of
  the database server are arguments.
\<close>

definition errNoRows :: string where "errNoRows = ''sql: no rows in result set''"

definition coalesce :: "'a option \<Rightarrow> 'a \<Rightarrow> 'a option" where
  "coalesce x y = (case x of None \<Rightarrow> Some y | Some v \<Rightarrow> Some v)"

section \<open>Rebuilds\<close>

definition rebuild_open :: "rebuild_row \<Rightarrow> bool" where
  "rebuild_open r \<longleftrightarrow> rb_State r = ''reconciling'' \<or> rb_State r = ''ready_with_deferred''"

definition open_rebuild :: "int \<Rightarrow> db \<Rightarrow> rebuild_row option" where
  "open_rebuild generation d = sql_find (\<lambda>r. rb_Generation r = generation \<and> rebuild_open r) (db_rebuilds d)"

definition controllerRebuildAllowsOldCredentialLocked :: "int \<Rightarrow> int \<Rightarrow> int \<Rightarrow> db \<Rightarrow> bool" where
  "controllerRebuildAllowsOldCredentialLocked nodeID activeGeneration authenticatedGeneration d =
     sql_exists (\<lambda>r. rb_Generation r = activeGeneration \<and> rebuild_open r \<and>
       sql_exists (\<lambda>i. rn_RebuildID i = rb_ID r \<and> rn_NodeID i = nodeID \<and> rn_State i \<noteq> ''reconciled'' \<and>
         rn_PreviousGeneration i = authenticatedGeneration) (db_rebuild_nodes d) \<and>
       sql_exists (\<lambda>c. ac_NodeID c = nodeID \<and> ac_ControllerGeneration c = authenticatedGeneration \<and>
         ac_RevokedAt c = None) (db_credentials d)) (db_rebuilds d)"

definition node_offline :: "int \<Rightarrow> db \<Rightarrow> bool" where
  "node_offline i d = sql_exists (\<lambda>n. nd_ID n = i \<and> nd_Connectivity n \<noteq> ''online'') (db_nodes d)"

definition rebuild_progress :: "string \<Rightarrow> db \<Rightarrow> nat \<times> nat \<times> nat" where
  "rebuild_progress rebuildID d =
     (let items = filter (\<lambda>i. rn_RebuildID i = rebuildID) (db_rebuild_nodes d) in
      (length items, sql_count (\<lambda>i. rn_State i = ''reconciled'') items,
       sql_count (\<lambda>i. rn_State i = ''reconciled'' \<or> rn_State i = ''deferred'') items))"

definition finishControllerRebuildIfReadyLocked :: "string \<Rightarrow> gotime \<Rightarrow> db \<Rightarrow> db" where
  "finishControllerRebuildIfReadyLocked rebuildID now d =
     (let d1 = d\<lparr>db_rebuild_nodes := sql_update (\<lambda>i. rn_RebuildID i = rebuildID \<and>
            rn_State i \<noteq> ''deferred'' \<and> rn_State i \<noteq> ''reconciled'' \<and> rn_LastHeartbeatAt i \<noteq> None \<and>
            node_offline (rn_NodeID i) d)
            (\<lambda>i. i\<lparr>rn_State := ''deferred'', rn_UpdatedAt := now\<rparr>) (db_rebuild_nodes d)\<rparr>;
          (total, reconciled, ready) = rebuild_progress rebuildID d1;
          d2 = d1\<lparr>db_rebuilds := sql_update (\<lambda>r. rb_ID r = rebuildID)
            (\<lambda>r. r\<lparr>rb_TotalNodes := int total, rb_ReconciledNodes := int reconciled, rb_UpdatedAt := now\<rparr>)
            (db_rebuilds d1)\<rparr>;
          sel = (\<lambda>r. rb_ID r = rebuildID \<and> rebuild_open r) in
      if total \<noteq> reconciled then
        d2\<lparr>db_rebuilds := sql_update sel (\<lambda>r. r\<lparr>rb_State := (if ready = total then ''ready_with_deferred''
              else ''reconciling''), rb_CompletedAt := None, rb_UpdatedAt := now\<rparr>) (db_rebuilds d2)\<rparr>
      else
        (case sql_find sel (db_rebuilds d2) of
           None \<Rightarrow> d2
         | Some r \<Rightarrow> d2\<lparr>db_rebuilds := sql_update sel (\<lambda>r. r\<lparr>rb_State := ''succeeded'', rb_CompletedAt := Some now,
               rb_UpdatedAt := now\<rparr>) (db_rebuilds d2),
             db_audit := db_audit d2 @ [\<lparr>au_Action = ''controller-rebuild-completed'', au_TargetID = rb_Generation r,
               au_OperationID = Some (rb_OperationID r), au_ControllerGeneration = rb_Generation r\<rparr>]\<rparr>))"

definition heartbeat_item :: "int \<Rightarrow> int \<Rightarrow> string \<Rightarrow> string \<Rightarrow> gotime \<Rightarrow> rebuild_node_row \<Rightarrow> rebuild_node_row" where
  "heartbeat_item activeGeneration authenticatedGeneration reportedMode desiredMode now i =
     (let current = (authenticatedGeneration = activeGeneration);
          managed = (current \<and> reportedMode = NodeModeManaged \<and> desiredMode = NodeModeManaged) in
      i\<lparr>rn_State := (if rn_State i = ''reconciled'' then rn_State i
            else if managed then ''reconciled'' else if current then ''draining''
            else if rn_State i = ''deferred'' then rn_State i
            else if rn_State i = ''rotation_pending'' then rn_State i else ''heartbeat_verified''),
        rn_AuthenticatedGeneration := Some authenticatedGeneration, rn_LastHeartbeatAt := Some now,
        rn_CredentialActivatedAt := (if current then coalesce (rn_CredentialActivatedAt i) now
          else rn_CredentialActivatedAt i),
        rn_ReconciledAt := (if managed then coalesce (rn_ReconciledAt i) now else rn_ReconciledAt i),
        rn_UpdatedAt := now\<rparr>)"

text \<open>An update of the row of one node in the open rebuild of a generation.\<close>

definition update_rebuild_item ::
    "int \<Rightarrow> int \<Rightarrow> (rebuild_node_row \<Rightarrow> rebuild_node_row) \<Rightarrow> db \<Rightarrow> (string \<times> db) option" where
  "update_rebuild_item nodeID generation f d =
     (case open_rebuild generation d of
        None \<Rightarrow> None
      | Some r \<Rightarrow>
          let sel = (\<lambda>i. rn_RebuildID i = rb_ID r \<and> rn_NodeID i = nodeID) in
          if sql_exists sel (db_rebuild_nodes d)
          then Some (rb_ID r, d\<lparr>db_rebuild_nodes := sql_update sel f (db_rebuild_nodes d)\<rparr>) else None)"

definition markControllerRebuildHeartbeatLocked ::
    "int \<Rightarrow> int \<Rightarrow> int \<Rightarrow> string \<Rightarrow> string \<Rightarrow> gotime \<Rightarrow> db \<Rightarrow> db" where
  "markControllerRebuildHeartbeatLocked nodeID activeGeneration authenticatedGeneration reportedMode desiredMode now d =
     (case update_rebuild_item nodeID activeGeneration
             (heartbeat_item activeGeneration authenticatedGeneration reportedMode desiredMode now) d of
        None \<Rightarrow> d
      | Some (rebuildID, d') \<Rightarrow> finishControllerRebuildIfReadyLocked rebuildID now d')"

definition markControllerRebuildRotationPendingLocked :: "int \<Rightarrow> int \<Rightarrow> int \<Rightarrow> gotime \<Rightarrow> db \<Rightarrow> db" where
  "markControllerRebuildRotationPendingLocked nodeID generation credentialVersion now d =
     (case update_rebuild_item nodeID generation
             (\<lambda>i. i\<lparr>rn_State := (if rn_State i \<in> {''reconciled'', ''draining'', ''credential_activated'', ''deferred''}
                  then rn_State i else ''rotation_pending''),
                rn_CredentialVersion := Some credentialVersion, rn_UpdatedAt := now\<rparr>) d of
        None \<Rightarrow> d
      | Some (_, d') \<Rightarrow> d')"

definition markControllerRebuildCredentialActivatedLocked :: "int \<Rightarrow> int \<Rightarrow> int \<Rightarrow> gotime \<Rightarrow> db \<Rightarrow> db" where
  "markControllerRebuildCredentialActivatedLocked nodeID generation credentialVersion now d =
     (case node_by_id nodeID d of
        None \<Rightarrow> d
      | Some n \<Rightarrow>
          (case update_rebuild_item nodeID generation
                  (\<lambda>i. i\<lparr>rn_State := (if nd_Connectivity n = ''online'' then ''credential_activated'' else ''deferred''),
                     rn_AuthenticatedGeneration := Some generation, rn_CredentialVersion := Some credentialVersion,
                     rn_CredentialActivatedAt := coalesce (rn_CredentialActivatedAt i) now,
                     rn_ReconciledAt := None, rn_UpdatedAt := now\<rparr>) d of
             None \<Rightarrow> d
           | Some (rebuildID, d') \<Rightarrow> finishControllerRebuildIfReadyLocked rebuildID now d'))"

definition GetLatestControllerRebuild :: "db \<Rightarrow> (rebuild_row \<times> rebuild_node_row list) option" where
  "GetLatestControllerRebuild d =
     (case db_rebuilds d of
        [] \<Rightarrow> None
      | r # rs \<Rightarrow>
          let latest = foldl (\<lambda>b x. if rb_Generation x > rb_Generation b then x else b) r rs in
          Some (latest, take 1000 (sort_key rn_NodeID (filter (\<lambda>i. rn_RebuildID i = rb_ID latest \<and>
            sql_exists (\<lambda>n. nd_ID n = rn_NodeID i) (db_nodes d)) (db_rebuild_nodes d)))))"

section \<open>Epochs\<close>

definition MarkCleanShutdown :: "gotime \<Rightarrow> tx_fault \<Rightarrow> bool \<Rightarrow> int \<Rightarrow> gotime \<Rightarrow> db \<Rightarrow> db \<times> bool result" where
  "MarkCleanShutdown clock flt holdsLock generation now d =
     (if generation \<le> 0 then (d, Inl ''invalid controller generation'')
      else
        let sel = (\<lambda>e. ep_Generation e = generation \<and> ep_State e = ''active'' \<and> holdsLock) in
        run_tx flt (\<lambda>d. Inr (d\<lparr>db_epochs := sql_update sel
            (\<lambda>e. e\<lparr>ep_CleanShutdownAt := Some (if now = time_zero then clock else now)\<rparr>) (db_epochs d)\<rparr>,
          sql_count sel (db_epochs d) = 1)) d)"

definition resume_tx :: "duration \<Rightarrow> gotime \<Rightarrow> (db, (int \<times> bool)) tx" where
  "resume_tx maxGap now d =
     (case active_epoch d of
        None \<Rightarrow> Inr (d, 0, False)
      | Some e \<Rightarrow>
          (case ep_CleanShutdownAt e of
             None \<Rightarrow> Inr (d, 0, False)
           | Some at \<Rightarrow>
               let d1 = d\<lparr>db_epochs := sql_update (\<lambda>r. ep_Generation r = ep_Generation e \<and> ep_State r = ''active'')
                     (\<lambda>r. r\<lparr>ep_CleanShutdownAt := None\<rparr>) (db_epochs d)\<rparr>;
                   gap = time_sub now at in
               if gap \<ge> - minute \<and> gap \<le> maxGap
               then Inr (d1\<lparr>db_audit := db_audit d1 @ [\<lparr>au_Action = ''controller-generation-resumed'',
                        au_TargetID = ep_Generation e, au_OperationID = None,
                        au_ControllerGeneration = ep_Generation e\<rparr>]\<rparr>, ep_Generation e, True)
               else Inr (d1, 0, False)))"

definition ResumeControllerEpoch ::
    "gotime \<Rightarrow> tx_fault \<Rightarrow> string \<Rightarrow> duration \<Rightarrow> gotime \<Rightarrow> db \<Rightarrow> db \<times> (int \<times> bool) result" where
  "ResumeControllerEpoch clock flt source maxGap now d =
     (if source = [] \<or> length source > 128 \<or> maxGap \<le> 0 then (d, Inl ''invalid controller resume request'')
      else run_tx flt (resume_tx maxGap (if now = time_zero then clock else now)) d)"

definition credential_live :: "gotime \<Rightarrow> credential_row \<Rightarrow> bool" where
  "credential_live now c \<longleftrightarrow> ac_RevokedAt c = None \<and> (case ac_ExpiresAt c of None \<Rightarrow> True | Some t \<Rightarrow> t > now)"

text \<open>\<open>ORDER BY credential_version DESC LIMIT 1\<close>.\<close>

definition latest_credential :: "int \<Rightarrow> gotime \<Rightarrow> db \<Rightarrow> credential_row option" where
  "latest_credential nodeID now d =
     (case filter (\<lambda>c. ac_NodeID c = nodeID \<and> credential_live now c) (db_credentials d) of
        [] \<Rightarrow> None
      | c # cs \<Rightarrow> Some (foldl (\<lambda>b x. if ac_Version x > ac_Version b then x else b) c cs))"

definition rebuild_item :: "string \<Rightarrow> gotime \<Rightarrow> db \<Rightarrow> node_row \<Rightarrow> rebuild_node_row option" where
  "rebuild_item rebuildID now d n =
     (if (nd_Role n = ''compute'' \<or> nd_Role n = ''storage'') \<and> nd_Operational n \<noteq> ''decommissioned'' \<and>
         nd_Operational n \<noteq> ''retired''
      then
        (case latest_credential (nd_ID n) now d of
           None \<Rightarrow> None
         | Some c \<Rightarrow> Some \<lparr>rn_RebuildID = rebuildID, rn_NodeID = nd_ID n, rn_PreviousGeneration = ac_ControllerGeneration c,
             rn_State = (if nd_Connectivity n = ''online'' then ''awaiting_heartbeat'' else ''deferred''),
             rn_AuthenticatedGeneration = None, rn_CredentialVersion = None, rn_LastHeartbeatAt = None,
             rn_CredentialActivatedAt = None, rn_ReconciledAt = None, rn_UpdatedAt = now\<rparr>)
      else None)"

definition quarantine_node :: "gotime \<Rightarrow> node_row \<Rightarrow> node_row" where
  "quarantine_node now n = n\<lparr>nd_ControllerGeneration := 0, nd_Status := ''offline'', nd_Connectivity := ''offline'',
     nd_CapacityState := ''unknown'', nd_CapacityReason := Some ''controller_generation_promoted'',
     nd_PressureSince := None, nd_RecoverySince := None, nd_CooldownUntil := None, nd_CapacityChangedAt := now\<rparr>"

definition revoke_old :: "int \<Rightarrow> gotime \<Rightarrow> db \<Rightarrow> db" where
  "revoke_old current now d =
     d\<lparr>db_sessions := sql_update (\<lambda>x. se_RevokedAt x = None) (\<lambda>x. x\<lparr>se_RevokedAt := coalesce (se_RevokedAt x) now\<rparr>)
         (db_sessions d),
       db_tickets := sql_update (\<lambda>t. ct_ConsumedAt t = None \<and> ct_RevokedAt t = None)
         (\<lambda>t. t\<lparr>ct_RevokedAt := coalesce (ct_RevokedAt t) now\<rparr>) (db_tickets d),
       db_rotations := sql_update (\<lambda>r. rr_State r = ''pending'' \<and> rr_ControllerGeneration r = current)
         (\<lambda>r. r\<lparr>rr_State := ''revoked''\<rparr>) (db_rotations d),
       db_rebuilds := sql_update rebuild_open (\<lambda>r. r\<lparr>rb_State := ''failed'',
         rb_ErrorCode := Some ''superseded_by_generation'', rb_CompletedAt := Some now, rb_UpdatedAt := now\<rparr>)
         (db_rebuilds d)\<rparr>"

definition new_epoch :: "string \<Rightarrow> string \<Rightarrow> int \<Rightarrow> int \<Rightarrow> gotime \<Rightarrow> epoch_row" where
  "new_epoch operationID source next signingVersion now =
     \<lparr>ep_Generation = next, ep_OperationID = operationID, ep_Source = source, ep_State = ''active'',
      ep_SigningKeyVersion = signingVersion, ep_ActivatedAt = now, ep_RevokedAt = None, ep_CleanShutdownAt = None\<rparr>"

definition start_rebuild :: "string \<Rightarrow> string \<Rightarrow> string \<Rightarrow> int \<Rightarrow> int \<Rightarrow> gotime \<Rightarrow> db \<Rightarrow> db" where
  "start_rebuild rebuildID operationID source next current now d =
     (let items = List.map_filter (rebuild_item rebuildID now d) (db_nodes d);
          d1 = d\<lparr>db_rebuilds := db_rebuilds d @ [\<lparr>rb_ID = rebuildID, rb_OperationID = operationID,
                rb_Generation = next, rb_PreviousGeneration = current, rb_Source = source, rb_State = ''reconciling'',
                rb_TotalNodes = 0, rb_ReconciledNodes = 0, rb_ErrorCode = None, rb_StartedAt = now,
                rb_UpdatedAt = now, rb_CompletedAt = None\<rparr>],
              db_rebuild_nodes := db_rebuild_nodes d @ items\<rparr>;
          d2 = d1\<lparr>db_nodes := sql_update (\<lambda>n. sql_exists (\<lambda>i. rn_RebuildID i = rebuildID \<and> rn_NodeID i = nd_ID n)
                (db_rebuild_nodes d1) \<or> nd_Connectivity n = ''online'' \<and> nd_ControllerGeneration n \<noteq> next)
              (quarantine_node now) (db_nodes d1)\<rparr>;
          (total, reconciled, ready) = rebuild_progress rebuildID d2 in
      d2\<lparr>db_rebuilds := sql_update (\<lambda>r. rb_ID r = rebuildID)
           (\<lambda>r. r\<lparr>rb_TotalNodes := int total, rb_ReconciledNodes := int reconciled,
              rb_State := (if total = reconciled then ''succeeded'' else if total = ready then ''ready_with_deferred''
                else ''reconciling''),
              rb_CompletedAt := (if total = reconciled then Some now else None), rb_UpdatedAt := now\<rparr>)
           (db_rebuilds d2)\<rparr>)"

text \<open>
  \<open>operationID\<close> and \<open>rebuildID\<close> are the identifiers that \<open>gen_random_uuid()\<close> returned. The
  statements fail when a key is taken or the next generation is not positive.
\<close>

definition promote_tx :: "string \<Rightarrow> string \<Rightarrow> string \<Rightarrow> gotime \<Rightarrow> (db, int) tx" where
  "promote_tx operationID rebuildID source now d =
     (case active_epoch d of
        None \<Rightarrow> Inl errNoRows
      | Some e \<Rightarrow>
          let current = ep_Generation e; next = i64 (current + 1) in
          if next \<le> 0 \<or> sql_exists (\<lambda>x. ep_Generation x = next \<or> ep_OperationID x = operationID) (db_epochs d) \<or>
             sql_exists (\<lambda>r. rb_ID r = rebuildID \<or> rb_OperationID r = operationID \<or> rb_Generation r = next) (db_rebuilds d)
          then Inl dbError
          else
            let d1 = d\<lparr>db_epochs := sql_update (\<lambda>x. ep_Generation x = current \<and> ep_State x = ''active'')
                  (\<lambda>x. x\<lparr>ep_State := ''revoked'', ep_RevokedAt := Some now\<rparr>) (db_epochs d) @
                  [new_epoch operationID source next (i64 (ep_SigningKeyVersion e + 1)) now]\<rparr>;
                d2 = start_rebuild rebuildID operationID source next current now (revoke_old current now d1) in
            Inr (d2\<lparr>db_audit := db_audit d2 @ [\<lparr>au_Action = ''controller-generation-promoted'', au_TargetID = next,
                   au_OperationID = Some operationID, au_ControllerGeneration = next\<rparr>]\<rparr>, next))"

definition PromoteControllerEpoch ::
    "gotime \<Rightarrow> tx_fault \<Rightarrow> string \<Rightarrow> string \<Rightarrow> string \<Rightarrow> gotime \<Rightarrow> db \<Rightarrow> db \<times> int result" where
  "PromoteControllerEpoch clock flt operationID rebuildID source now d =
     (if source = [] \<or> length source > 128 then (d, Inl ''invalid controller promotion source'')
      else run_tx flt (promote_tx operationID rebuildID source (if now = time_zero then clock else now)) d)"

section \<open>Agent credentials\<close>

definition ErrAgentCredentialRotation :: string where
  "ErrAgentCredentialRotation = ''agent credential rotation rejected''"
definition agentCredentialMaxAge :: duration where "agentCredentialMaxAge = 30 * 24 * hour"

definition GetAgentCredentialForGeneration :: "int \<Rightarrow> int \<Rightarrow> db \<Rightarrow> string option result" where
  "GetAgentCredentialForGeneration nodeID generation d =
     (if nodeID \<le> 0 \<or> generation \<le> 0 then Inl ErrAgentCredentialRotation
      else
        (case filter (\<lambda>c. ac_NodeID c = nodeID \<and> ac_ControllerGeneration c = generation) (db_credentials d) of
           [] \<Rightarrow> Inr None
         | c # cs \<Rightarrow> Inr (Some (ac_Ciphertext (foldl (\<lambda>b x. if ac_Version x > ac_Version b then x else b) c cs)))))"

record auth_credential =
  aa_ID :: string
  aa_Ciphertext :: string
  aa_Version :: int
  aa_ControllerGeneration :: int
  aa_Pending :: bool

definition ListAgentAuthenticationCredentials :: "int \<Rightarrow> gotime \<Rightarrow> db \<Rightarrow> auth_credential list result" where
  "ListAgentAuthenticationCredentials nodeID now d =
     (if nodeID \<le> 0 \<or> now = time_zero then Inl ErrAgentCredentialRotation
      else Inr (rev (sort_key aa_Version
        (map (\<lambda>c. \<lparr>aa_ID = ac_ID c, aa_Ciphertext = ac_Ciphertext c, aa_Version = ac_Version c,
              aa_ControllerGeneration = ac_ControllerGeneration c, aa_Pending = False\<rparr>)
            (filter (\<lambda>c. ac_NodeID c = nodeID \<and> credential_live now c) (db_credentials d)) @
         map (\<lambda>r. \<lparr>aa_ID = rr_ID r, aa_Ciphertext = rr_Ciphertext r, aa_Version = rr_Version r,
              aa_ControllerGeneration = rr_ControllerGeneration r, aa_Pending = True\<rparr>)
            (filter (\<lambda>r. rr_NodeID r = nodeID \<and> rr_State r = ''pending'' \<and> rr_ExpiresAt r > now) (db_rotations d))))))"

record rotation_params =
  rp_ID :: string
  rp_OperationID :: string
  rp_NodeID :: int
  rp_ProposedCiphertext :: string
  rp_ControllerGeneration :: int
  rp_Now :: gotime
  rp_ExpiresAt :: gotime

record rotation =
  ra_ID :: string
  ra_Version :: int
  ra_Ciphertext :: string
  ra_ControllerGeneration :: int
  ra_ExpiresAt :: gotime

text \<open>\<open>GREATEST(COALESCE(MAX(..),0),COALESCE(MAX(..),0))+1\<close> over both tables of a node.\<close>

definition next_version :: "int \<Rightarrow> db \<Rightarrow> int" where
  "next_version nodeID d =
     max (foldl max 0 (map ac_Version (filter (\<lambda>c. ac_NodeID c = nodeID) (db_credentials d))))
         (foldl max 0 (map rr_Version (filter (\<lambda>r. rr_NodeID r = nodeID) (db_rotations d)))) + 1"

definition ensure_rotation_tx :: "rotation_params \<Rightarrow> (db, rotation option) tx" where
  "ensure_rotation_tx p d =
     (case node_by_id (rp_NodeID p) d of
        None \<Rightarrow> Inl errNoRows
      | Some n \<Rightarrow>
          if nd_Operational n = ''retired'' \<or> nd_Operational n = ''decommissioned'' then Inl ErrAgentCredentialRotation
          else
            (case active_generation d of
               None \<Rightarrow> Inl errNoRows
             | Some g \<Rightarrow>
                 if g \<noteq> rp_ControllerGeneration p then Inl ErrAgentCredentialRotation
                 else
                   let d1 = d\<lparr>db_rotations := sql_update (\<lambda>r. rr_NodeID r = rp_NodeID p \<and> rr_State r = ''pending'' \<and>
                         rr_ExpiresAt r \<le> rp_Now p) (\<lambda>r. r\<lparr>rr_State := ''expired''\<rparr>) (db_rotations d)\<rparr> in
                   (case sql_find (\<lambda>r. rr_NodeID r = rp_NodeID p \<and> rr_State r = ''pending'') (db_rotations d1) of
                      Some r \<Rightarrow>
                        if rr_ControllerGeneration r \<noteq> g \<or> \<not> rr_ExpiresAt r > rp_Now p then Inl ErrAgentCredentialRotation
                        else Inr (markControllerRebuildRotationPendingLocked (rp_NodeID p) g (rr_Version r) (rp_Now p) d1,
                          Some \<lparr>ra_ID = rr_ID r, ra_Version = rr_Version r, ra_Ciphertext = rr_Ciphertext r,
                            ra_ControllerGeneration = rr_ControllerGeneration r, ra_ExpiresAt = rr_ExpiresAt r\<rparr>)
                    | None \<Rightarrow>
                        (case latest_credential (rp_NodeID p) (rp_Now p) d1 of
                           None \<Rightarrow> Inl errNoRows
                         | Some c \<Rightarrow>
                             if ac_ControllerGeneration c = g \<and> ac_CreatedAt c > rp_Now p - agentCredentialMaxAge
                             then Inr (d1, None)
                             else
                               let version = next_version (rp_NodeID p) d1 in
                               if \<not> in_i64 version then Inl dbError
                               else if version \<le> ac_Version c then Inl ''invalid next agent credential version''
                               else if sql_exists (\<lambda>r. rr_ID r = rp_ID p \<or> rr_OperationID r = rp_OperationID p) (db_rotations d1)
                               then Inl dbError
                               else
                                 let d2 = d1\<lparr>db_rotations := db_rotations d1 @ [\<lparr>rr_ID = rp_ID p,
                                       rr_OperationID = rp_OperationID p, rr_NodeID = rp_NodeID p, rr_Version = version,
                                       rr_Ciphertext = rp_ProposedCiphertext p, rr_ControllerGeneration = g,
                                       rr_State = ''pending'', rr_ExpiresAt = rp_ExpiresAt p, rr_CreatedAt = rp_Now p,
                                       rr_ConfirmedAt = None\<rparr>]\<rparr> in
                                 Inr (markControllerRebuildRotationPendingLocked (rp_NodeID p) g version (rp_Now p) d2,
                                   Some \<lparr>ra_ID = rp_ID p, ra_Version = version, ra_Ciphertext = rp_ProposedCiphertext p,
                                     ra_ControllerGeneration = g, ra_ExpiresAt = rp_ExpiresAt p\<rparr>)))))"

definition EnsureAgentCredentialRotation :: "tx_fault \<Rightarrow> rotation_params \<Rightarrow> db \<Rightarrow> db \<times> rotation option result" where
  "EnsureAgentCredentialRotation flt p d =
     (if rp_ID p = [] \<or> rp_OperationID p = [] \<or> rp_NodeID p \<le> 0 \<or> rp_ProposedCiphertext p = [] \<or>
         rp_ControllerGeneration p \<le> 0 \<or> rp_Now p = time_zero \<or> \<not> rp_ExpiresAt p > rp_Now p \<or>
         rp_ExpiresAt p > rp_Now p + 25 * hour
      then (d, Inl ErrAgentCredentialRotation) else run_tx flt (ensure_rotation_tx p) d)"

definition live_command_states :: "string list" where
  "live_command_states = [''queued'', ''leased'', ''acked'', ''running'']"

definition activate_tx :: "int \<Rightarrow> int \<Rightarrow> gotime \<Rightarrow> (db, int) tx" where
  "activate_tx nodeID credentialVersion now d =
     (case active_generation d of
        None \<Rightarrow> Inl errNoRows
      | Some g \<Rightarrow>
          (case sql_find (\<lambda>r. rr_NodeID r = nodeID \<and> rr_Version r = credentialVersion) (db_rotations d) of
             None \<Rightarrow> Inl ErrAgentCredentialRotation
           | Some r \<Rightarrow>
               if rr_State r = ''activated'' then
                 if \<not> sql_exists (\<lambda>c. ac_NodeID c = nodeID \<and> ac_Version c = credentialVersion \<and> ac_RevokedAt c = None)
                        (db_credentials d)
                 then Inl ErrAgentCredentialRotation
                 else Inr (markControllerRebuildCredentialActivatedLocked nodeID g credentialVersion now d, g)
               else if rr_State r \<noteq> ''pending'' \<or> \<not> rr_ExpiresAt r > now \<or> rr_ControllerGeneration r \<noteq> g
               then Inl ErrAgentCredentialRotation
               else if sql_exists (\<lambda>c. ac_ID c = rr_ID r \<or> ac_NodeID c = nodeID \<and> ac_Version c = credentialVersion)
                         (db_credentials d)
               then Inl dbError
               else
                 let d1 = d\<lparr>db_credentials := sql_update (\<lambda>c. ac_NodeID c = nodeID \<and> ac_RevokedAt c = None)
                         (\<lambda>c. c\<lparr>ac_RevokedAt := coalesce (ac_RevokedAt c) now\<rparr>) (db_credentials d) @
                         [\<lparr>ac_ID = rr_ID r, ac_NodeID = nodeID, ac_Version = credentialVersion,
                           ac_Ciphertext = rr_Ciphertext r, ac_ControllerGeneration = g, ac_ExpiresAt = None,
                           ac_RevokedAt = None, ac_CreatedAt = now\<rparr>],
                       db_rotations := sql_update (\<lambda>x. rr_ID x = rr_ID r)
                         (\<lambda>x. x\<lparr>rr_State := ''activated'', rr_ConfirmedAt := Some now\<rparr>) (db_rotations d),
                       db_nodes := sql_update (\<lambda>n. nd_ID n = nodeID) (\<lambda>n. n\<lparr>nd_ControllerGeneration := g\<rparr>) (db_nodes d),
                       db_commands := sql_update (\<lambda>c. cr_NodeID c = nodeID \<and> cr_State c \<in> set live_command_states)
                         (\<lambda>c. c\<lparr>cr_State := ''expired'', cr_UpdatedAt := now\<rparr>) (db_commands d)\<rparr> in
                 Inr (markControllerRebuildCredentialActivatedLocked nodeID g credentialVersion now d1, g)))"

definition ActivateAgentCredentialRotation :: "tx_fault \<Rightarrow> int \<Rightarrow> int \<Rightarrow> gotime \<Rightarrow> db \<Rightarrow> db \<times> int result" where
  "ActivateAgentCredentialRotation flt nodeID credentialVersion now d =
     (if nodeID \<le> 0 \<or> credentialVersion \<le> 0 \<or> now = time_zero then (d, Inl ErrAgentCredentialRotation)
      else run_tx flt (activate_tx nodeID credentialVersion now) d)"

end
