(* ===== verification/Store_Sessions.thy ===== *)
theory Store_Sessions
  imports Store_Epochs
begin

text \<open>
  Controller browser sessions (\<open>store/sessions.go\<close>) and the demo tickets and registration
  tokens (\<open>store/tickets.go\<close>).
\<close>

section \<open>Sessions\<close>

definition ErrInvalidControllerSession :: string where
  "ErrInvalidControllerSession = ''invalid controller session input''"

record session_params =
  sp_ID :: string
  sp_UserID :: "int option"
  sp_AdminID :: "int option"
  sp_TokenHash :: string
  sp_CSRFHash :: string
  sp_ExpiresAt :: gotime
  sp_Now :: gotime

record controller_session =
  cs_ID :: string
  cs_LegacyUserID :: int
  cs_GlobalUserID :: int
  cs_AdminID :: int
  cs_Username :: string
  cs_IsAdmin :: bool
  cs_CSRFHash :: string
  cs_ExpiresAt :: gotime
  cs_LastSeenAt :: gotime
  cs_ControllerGeneration :: int

definition positive :: "int option \<Rightarrow> bool" where
  "positive x \<longleftrightarrow> (case x of None \<Rightarrow> False | Some i \<Rightarrow> i > 0)"

text \<open>
  The row needs exactly one principal (\<open>CHECK\<close>), fresh keys and an existing user
  (foreign key); a principal that is present but not positive is passed on as it is.
\<close>

definition create_session_tx :: "session_params \<Rightarrow> gotime \<Rightarrow> (db, int) tx" where
  "create_session_tx p now d =
     (case active_generation d of
        None \<Rightarrow> Inl ErrNoActiveController
      | Some g \<Rightarrow>
          if (sp_UserID p = None) = (sp_AdminID p = None) \<or>
             sql_exists (\<lambda>s. se_ID s = sp_ID p \<or> se_TokenHash s = sp_TokenHash p) (db_sessions d) \<or>
             (case sp_UserID p of None \<Rightarrow> False | Some u \<Rightarrow> \<not> sql_exists (\<lambda>r. gu_ID r = u) (db_users d))
          then Inl dbError
          else Inr (d\<lparr>db_sessions := db_sessions d @ [\<lparr>se_ID = sp_ID p, se_UserID = sp_UserID p,
                 se_AdminID = sp_AdminID p, se_TokenHash = sp_TokenHash p, se_CSRFHash = sp_CSRFHash p,
                 se_ExpiresAt = sp_ExpiresAt p, se_RevokedAt = None, se_LastSeenAt = now, se_CreatedAt = now,
                 se_ControllerGeneration = g\<rparr>]\<rparr>, g))"

definition CreateControllerSession :: "gotime \<Rightarrow> tx_fault \<Rightarrow> session_params \<Rightarrow> db \<Rightarrow> db \<times> int result" where
  "CreateControllerSession clock flt p d =
     (let principals = (if positive (sp_UserID p) then 1 else 0) + (if positive (sp_AdminID p) then 1 else (0::nat));
          now = (if sp_Now p = time_zero then clock else sp_Now p) in
      if sp_ID p = [] \<or> principals \<noteq> 1 \<or> length (sp_TokenHash p) \<noteq> 32 \<or> length (sp_CSRFHash p) \<noteq> 32 \<or>
         sp_ExpiresAt p = time_zero
      then (d, Inl ErrInvalidControllerSession)
      else if \<not> sp_ExpiresAt p > now then (d, Inl ErrInvalidControllerSession)
      else run_tx flt (create_session_tx p now) d)"

definition session_live :: "string \<Rightarrow> gotime \<Rightarrow> db \<Rightarrow> session_row \<Rightarrow> bool" where
  "session_live tokenHash now d s \<longleftrightarrow> se_TokenHash s = tokenHash \<and> se_RevokedAt s = None \<and> se_ExpiresAt s > now \<and>
     sql_exists (\<lambda>e. ep_Generation e = se_ControllerGeneration s \<and> ep_State e = ''active'') (db_epochs d)"

definition user_of_session :: "string \<Rightarrow> db \<Rightarrow> session_row \<Rightarrow> (user_row \<times> legacy_user_row) option" where
  "user_of_session status d s =
     (case se_UserID s of
        None \<Rightarrow> None
      | Some u \<Rightarrow>
          (case sql_find (\<lambda>g. gu_ID g = u \<and> gu_Status g = status) (db_users d) of
             None \<Rightarrow> None
           | Some g \<Rightarrow>
               (case gu_LegacyUserID g of
                  None \<Rightarrow> None
                | Some i \<Rightarrow> map_option (Pair g) (sql_find (\<lambda>l. us_ID l = i \<and> us_Status l = status) (db_legacy_users d)))))"

definition admin_of_session :: "db \<Rightarrow> session_row \<Rightarrow> admin_row option" where
  "admin_of_session d s =
     (case se_AdminID s of
        None \<Rightarrow> None
      | Some i \<Rightarrow> sql_find (\<lambda>a. ad_ID a = i \<and> ad_Status a = ''active'') (db_admins d))"

definition GetControllerSession :: "gotime \<Rightarrow> string \<Rightarrow> gotime \<Rightarrow> db \<Rightarrow> controller_session option result" where
  "GetControllerSession clock tokenHash now d =
     (if length tokenHash \<noteq> 32 then Inl ErrInvalidControllerSession
      else
        (case sql_find (session_live tokenHash (if now = time_zero then clock else now) d) (db_sessions d) of
           None \<Rightarrow> Inr None
         | Some s \<Rightarrow>
             (case (user_of_session ''active'' d s, admin_of_session d s) of
                (None, None) \<Rightarrow> Inr None
              | (ug, ad) \<Rightarrow> Inr (Some \<lparr>cs_ID = se_ID s,
                  cs_LegacyUserID = (case ug of None \<Rightarrow> 0 | Some (g, l) \<Rightarrow> us_ID l),
                  cs_GlobalUserID = (case se_UserID s of None \<Rightarrow> 0 | Some u \<Rightarrow> u),
                  cs_AdminID = (case se_AdminID s of None \<Rightarrow> 0 | Some a \<Rightarrow> a),
                  cs_Username = (case ug of Some (g, l) \<Rightarrow> us_Username l
                    | None \<Rightarrow> (case ad of None \<Rightarrow> [] | Some a \<Rightarrow> ad_Username a)),
                  cs_IsAdmin = (se_AdminID s \<noteq> None), cs_CSRFHash = se_CSRFHash s, cs_ExpiresAt = se_ExpiresAt s,
                  cs_LastSeenAt = se_LastSeenAt s, cs_ControllerGeneration = se_ControllerGeneration s\<rparr>))))"

definition GetConflictControllerSession :: "gotime \<Rightarrow> string \<Rightarrow> gotime \<Rightarrow> db \<Rightarrow> controller_session option result" where
  "GetConflictControllerSession clock tokenHash now d =
     (if length tokenHash \<noteq> 32 then Inl ErrInvalidControllerSession
      else
        (case sql_find (session_live tokenHash (if now = time_zero then clock else now) d) (db_sessions d) of
           None \<Rightarrow> Inr None
         | Some s \<Rightarrow>
             (case user_of_session ''conflict'' d s of
                None \<Rightarrow> Inr None
              | Some (g, l) \<Rightarrow>
                  if sql_exists (\<lambda>c. rf_UserID c = gu_ID g \<and> rf_State c \<noteq> ''resolved'' \<and> rf_State c \<noteq> ''failed'')
                       (db_conflicts d)
                  then Inr (Some \<lparr>cs_ID = se_ID s, cs_LegacyUserID = us_ID l, cs_GlobalUserID = gu_ID g, cs_AdminID = 0,
                    cs_Username = us_Username l, cs_IsAdmin = False, cs_CSRFHash = se_CSRFHash s,
                    cs_ExpiresAt = se_ExpiresAt s, cs_LastSeenAt = se_LastSeenAt s,
                    cs_ControllerGeneration = se_ControllerGeneration s\<rparr>)
                  else Inr None)))"

definition TouchControllerSession :: "gotime \<Rightarrow> tx_fault \<Rightarrow> string \<Rightarrow> gotime \<Rightarrow> db \<Rightarrow> db \<times> unit result" where
  "TouchControllerSession clock flt i now d =
     (if i = [] then (d, Inl ErrInvalidControllerSession)
      else
        let now' = (if now = time_zero then clock else now) in
        run_tx flt (\<lambda>d. Inr (d\<lparr>db_sessions := sql_update (\<lambda>s. se_ID s = i \<and> se_RevokedAt s = None \<and> se_ExpiresAt s > now')
          (\<lambda>s. s\<lparr>se_LastSeenAt := now'\<rparr>) (db_sessions d)\<rparr>, ())) d)"

definition RevokeControllerSession :: "gotime \<Rightarrow> tx_fault \<Rightarrow> string \<Rightarrow> gotime \<Rightarrow> db \<Rightarrow> db \<times> unit result" where
  "RevokeControllerSession clock flt tokenHash now d =
     (if length tokenHash \<noteq> 32 then (d, Inl ErrInvalidControllerSession)
      else
        let now' = (if now = time_zero then clock else now) in
        run_tx flt (\<lambda>d. Inr (d\<lparr>db_sessions := sql_update (\<lambda>s. se_TokenHash s = tokenHash)
          (\<lambda>s. s\<lparr>se_RevokedAt := coalesce (se_RevokedAt s) now'\<rparr>) (db_sessions d)\<rparr>, ())) d)"

definition CleanupControllerSessions :: "gotime \<Rightarrow> tx_fault \<Rightarrow> gotime \<Rightarrow> db \<Rightarrow> db \<times> int result" where
  "CleanupControllerSessions clock flt now d =
     (let now' = (if now = time_zero then clock else now);
          sel = (\<lambda>s. se_ExpiresAt s \<le> now' \<or>
            (case se_RevokedAt s of None \<Rightarrow> False | Some t \<Rightarrow> t \<le> now' - 24 * hour)) in
      run_tx flt (\<lambda>d. Inr (d\<lparr>db_sessions := sql_delete sel (db_sessions d)\<rparr>, int (sql_count sel (db_sessions d)))) d)"

section \<open>Demo tickets and registration tokens\<close>

definition CreateTicket :: "tx_fault \<Rightarrow> string \<Rightarrow> int \<Rightarrow> int \<Rightarrow> gotime \<Rightarrow> db \<Rightarrow> db \<times> unit result" where
  "CreateTicket flt jti userID nodeID expiresAt d =
     run_tx flt (\<lambda>d. if sql_exists (\<lambda>t. lk_JTI t = jti) (db_legacy_tickets d) \<or>
                      \<not> sql_exists (\<lambda>u. us_ID u = userID) (db_legacy_users d) \<or> \<not> node_exists nodeID d
       then Inl dbError
       else Inr (d\<lparr>db_legacy_tickets := db_legacy_tickets d @ [\<lparr>lk_JTI = jti, lk_UserID = userID, lk_NodeID = nodeID,
         lk_ExpiresAt = expiresAt, lk_UsedAt = None\<rparr>]\<rparr>, ())) d"

text \<open>Two statements: the update that spends the ticket, then a read of its row.\<close>

definition ConsumeTicket :: "tx_fault \<Rightarrow> tx_fault \<Rightarrow> string \<Rightarrow> gotime \<Rightarrow> db \<Rightarrow> db \<times> (int \<times> int \<times> bool) result" where
  "ConsumeTicket flt1 flt2 jti now d =
     (let sel = (\<lambda>t. lk_JTI t = jti \<and> lk_UsedAt t = None \<and> lk_ExpiresAt t > now) in
      (case run_tx flt1 (\<lambda>d. Inr (d\<lparr>db_legacy_tickets := sql_update sel (\<lambda>t. t\<lparr>lk_UsedAt := Some now\<rparr>)
              (db_legacy_tickets d)\<rparr>, sql_count sel (db_legacy_tickets d))) d of
         (d1, Inl e) \<Rightarrow> (d1, Inl e)
       | (d1, Inr n) \<Rightarrow>
           if n = 0 then (d1, Inr (0, 0, False))
           else run_tx flt2 (\<lambda>d. Inr (d, case sql_find (\<lambda>t. lk_JTI t = jti) (db_legacy_tickets d) of
                  None \<Rightarrow> (0, 0, False) | Some t \<Rightarrow> (lk_UserID t, lk_NodeID t, True))) d1))"

definition CreateRegisterToken :: "tx_fault \<Rightarrow> string \<Rightarrow> string \<Rightarrow> gotime \<Rightarrow> db \<Rightarrow> db \<times> unit result" where
  "CreateRegisterToken flt token note expiresAt d =
     run_tx flt (\<lambda>d. Inr (if sql_exists (\<lambda>t. rt_Token t = token) (db_register_tokens d) then d
       else d\<lparr>db_register_tokens := db_register_tokens d @ [\<lparr>rt_Token = token, rt_Note = note, rt_Used = False,
         rt_ExpiresAt = Some expiresAt\<rparr>]\<rparr>, ())) d"

text \<open>\<open>now\<close> is the clock of the database server (\<open>now()\<close>).\<close>

definition ConsumeRegisterToken :: "tx_fault \<Rightarrow> gotime \<Rightarrow> string \<Rightarrow> db \<Rightarrow> db \<times> bool result" where
  "ConsumeRegisterToken flt now token d =
     (let sel = (\<lambda>t. rt_Token t = token \<and> \<not> rt_Used t \<and>
            (case rt_ExpiresAt t of None \<Rightarrow> True | Some e \<Rightarrow> e > now)) in
      run_tx flt (\<lambda>d. Inr (d\<lparr>db_register_tokens := sql_update sel (\<lambda>t. t\<lparr>rt_Used := True\<rparr>) (db_register_tokens d)\<rparr>,
        sql_count sel (db_register_tokens d) > 0)) d)"

end
