(* ===== verification/Store_Commands.thy ===== *)
theory Store_Commands
  imports Store_Sessions
begin

text \<open>
  The durable command queue of the agents (\<open>store/commands.go\<close>): idempotent enqueueing,
  leasing one command at a time to a worker, renewal of a running lease, and completion by its
  owner. JSON validity of payloads and results is an argument (\<open>validJSON\<close>).
\<close>

definition ErrInvalidAgentCommand :: string where "ErrInvalidAgentCommand = ''invalid agent command input''"
definition ErrAgentCommandConflict :: string where "ErrAgentCommandConflict = ''agent command state conflict''"

section \<open>Enqueue\<close>

record enqueue_params =
  eq_ID :: string
  eq_OperationID :: string
  eq_NodeID :: int
  eq_CommandType :: string
  eq_EncryptedPayload :: string
  eq_PayloadSHA256 :: string
  eq_ExpiresAt :: gotime
  eq_Now :: gotime
  eq_ExpectedControllerGeneration :: int
  eq_RequeueRetryableTerminal :: bool

definition new_command :: "enqueue_params \<Rightarrow> gotime \<Rightarrow> int \<Rightarrow> command_row" where
  "new_command p now g = \<lparr>cr_ID = eq_ID p, cr_OperationID = eq_OperationID p, cr_NodeID = eq_NodeID p,
     cr_CommandType = eq_CommandType p, cr_Payload = eq_EncryptedPayload p, cr_PayloadSHA256 = eq_PayloadSHA256 p,
     cr_State = ''queued'', cr_ControllerGeneration = g, cr_LeaseOwner = None, cr_LeaseUntil = None, cr_Attempt = 0,
     cr_ExpiresAt = eq_ExpiresAt p, cr_ResultSummary = None, cr_ResultDigest = None, cr_CreatedAt = now, cr_UpdatedAt = now\<rparr>"

definition requeueable :: "enqueue_params \<Rightarrow> int \<Rightarrow> command_row \<Rightarrow> bool" where
  "requeueable p g c \<longleftrightarrow> cr_NodeID c = eq_NodeID p \<and> cr_CommandType c = eq_CommandType p \<and>
     cr_PayloadSHA256 c = eq_PayloadSHA256 p \<and> cr_ControllerGeneration c = g \<and> eq_RequeueRetryableTerminal p \<and>
     (cr_State c = ''failed'' \<or> cr_State c = ''expired'')"

definition requeue :: "enqueue_params \<Rightarrow> gotime \<Rightarrow> command_row \<Rightarrow> command_row" where
  "requeue p now c = c\<lparr>cr_ID := eq_ID p, cr_Payload := eq_EncryptedPayload p, cr_State := ''queued'', cr_Attempt := 0,
     cr_LeaseOwner := None, cr_LeaseUntil := None, cr_ResultSummary := None, cr_ResultDigest := None,
     cr_ExpiresAt := eq_ExpiresAt p, cr_UpdatedAt := now\<rparr>"

text \<open>
  The insert of \<open>EnqueueAgentCommand\<close>; its value is None when the statement returns no row.
  A taken delivery identifier violates the primary key.
\<close>

definition insert_command :: "enqueue_params \<Rightarrow> gotime \<Rightarrow> (db, int option) tx" where
  "insert_command p now d =
     (case sql_find (\<lambda>e. ep_State e = ''active'' \<and> (eq_ExpectedControllerGeneration p = 0 \<or>
             ep_Generation e = eq_ExpectedControllerGeneration p)) (db_epochs d) of
        None \<Rightarrow> Inr (d, None)
      | Some e \<Rightarrow>
          let g = ep_Generation e in
          (case sql_find (\<lambda>c. cr_OperationID c = eq_OperationID p) (db_commands d) of
             None \<Rightarrow>
               if sql_exists (\<lambda>c. cr_ID c = eq_ID p) (db_commands d) \<or> \<not> node_exists (eq_NodeID p) d then Inl dbError
               else Inr (d\<lparr>db_commands := db_commands d @ [new_command p now g]\<rparr>, Some g)
           | Some c \<Rightarrow>
               if \<not> requeueable p g c then Inr (d, None)
               else if sql_exists (\<lambda>x. cr_ID x = eq_ID p \<and> cr_OperationID x \<noteq> eq_OperationID p) (db_commands d)
               then Inl dbError
               else Inr (d\<lparr>db_commands := sql_update (\<lambda>x. cr_OperationID x = eq_OperationID p) (requeue p now)
                      (db_commands d)\<rparr>, Some g)))"

definition replayed_command :: "enqueue_params \<Rightarrow> db \<Rightarrow> int result" where
  "replayed_command p d =
     (case sql_find (\<lambda>c. cr_OperationID c = eq_OperationID p) (db_commands d) of
        None \<Rightarrow> Inl ErrNoActiveController
      | Some c \<Rightarrow>
          if cr_NodeID c \<noteq> eq_NodeID p \<or> cr_CommandType c \<noteq> eq_CommandType p \<or>
             cr_PayloadSHA256 c \<noteq> eq_PayloadSHA256 p \<or>
             (eq_ExpectedControllerGeneration p > 0 \<and> cr_ControllerGeneration c \<noteq> eq_ExpectedControllerGeneration p)
          then Inl ErrAgentCommandConflict else Inr (cr_ControllerGeneration c))"

text \<open>The second statement reads the database as it is then: \<open>others\<close> ran in between.\<close>

definition EnqueueAgentCommand ::
    "(string \<Rightarrow> bool) \<Rightarrow> gotime \<Rightarrow> tx_fault \<Rightarrow> (db \<Rightarrow> db) \<Rightarrow> enqueue_params \<Rightarrow> db \<Rightarrow> db \<times> int result" where
  "EnqueueAgentCommand validJSON clock flt others p d =
     (if eq_ID p = [] \<or> eq_OperationID p = [] \<or> eq_NodeID p \<le> 0 \<or> eq_CommandType p = [] \<or>
         \<not> validJSON (eq_EncryptedPayload p) \<or> length (eq_PayloadSHA256 p) \<noteq> 32 \<or> eq_ExpiresAt p = time_zero \<or>
         eq_ExpectedControllerGeneration p < 0
      then (d, Inl ErrInvalidAgentCommand)
      else
        let now = (if eq_Now p = time_zero then clock else eq_Now p) in
        if \<not> eq_ExpiresAt p > now then (d, Inl ErrInvalidAgentCommand)
        else
          (case run_tx flt (insert_command p now) d of
             (d1, Inl e) \<Rightarrow> (d1, Inl e)
           | (d1, Inr (Some g)) \<Rightarrow> (d1, Inr g)
           | (d1, Inr None) \<Rightarrow> (others d1, replayed_command p (others d1))))"

section \<open>Lease\<close>

record command_lease =
  cl_ID :: string
  cl_OperationID :: string
  cl_CommandType :: string
  cl_EncryptedPayload :: string
  cl_PayloadSHA256 :: string
  cl_Attempt :: int
  cl_Generation :: int
  cl_LeaseUntil :: gotime
  cl_ExpiresAt :: gotime

definition draining_commands :: "string list" where
  "draining_commands =
     [''prepare_snapshot_receive'', ''start_snapshot'', ''start_relay_receive'', ''get_snapshot_receipt'',
      ''complete_independent_sync'', ''capture_conflict_evidence'', ''read_conflict_evidence_page'',
      ''start_conflict_evidence_transfer'', ''prepare_conflict_resolution'', ''apply_conflict_resolution_decisions'',
      ''publish_conflict_resolution'', ''freeze_user_data'', ''release_user_data'']"

definition leasable :: "int \<Rightarrow> gotime \<Rightarrow> db \<Rightarrow> command_row \<Rightarrow> bool" where
  "leasable nodeID now d c \<longleftrightarrow>
     cr_NodeID c = nodeID \<and>
     sql_exists (\<lambda>e. ep_Generation e = cr_ControllerGeneration c \<and> ep_State e = ''active'') (db_epochs d) \<and>
     sql_exists (\<lambda>n. nd_ID n = cr_NodeID c \<and> nd_ControllerGeneration n = cr_ControllerGeneration c \<and>
       (nd_ControlMode n = NodeModeManaged \<or>
        nd_ControlMode n = NodeModeIndependentDraining \<and> cr_CommandType c \<in> set draining_commands)) (db_nodes d) \<and>
     (cr_State c = ''queued'' \<and> cr_ExpiresAt c > now \<or>
      cr_State c \<in> {''leased'', ''acked'', ''running''} \<and>
      (case cr_LeaseUntil c of None \<Rightarrow> False | Some t \<Rightarrow> t \<le> now))"

text \<open>
  \<open>ORDER BY created_at ... FOR UPDATE SKIP LOCKED LIMIT 1\<close>: the oldest leasable command that no
  other transaction has locked (\<open>locked\<close>).
\<close>

definition oldest :: "command_row list \<Rightarrow> command_row option" where
  "oldest cs = (case cs of [] \<Rightarrow> None
     | c # cs \<Rightarrow> Some (foldl (\<lambda>b x. if cr_CreatedAt x < cr_CreatedAt b then x else b) c cs))"

definition lease_command_tx ::
    "(string \<Rightarrow> bool) \<Rightarrow> int \<Rightarrow> string \<Rightarrow> gotime \<Rightarrow> duration \<Rightarrow> (db, command_lease option) tx" where
  "lease_command_tx locked nodeID workerID now ttl d =
     (case oldest (filter (\<lambda>c. leasable nodeID now d c \<and> \<not> locked (cr_ID c)) (db_commands d)) of
        None \<Rightarrow> Inr (d, None)
      | Some c \<Rightarrow>
          let attempt = i64 (cr_Attempt c + 1) in
          Inr (d\<lparr>db_commands := sql_update (\<lambda>x. cr_ID x = cr_ID c)
                 (\<lambda>x. x\<lparr>cr_State := ''leased'', cr_LeaseOwner := Some workerID, cr_LeaseUntil := Some (now + ttl),
                    cr_Attempt := attempt, cr_UpdatedAt := now\<rparr>) (db_commands d)\<rparr>,
            Some \<lparr>cl_ID = cr_ID c, cl_OperationID = cr_OperationID c, cl_CommandType = cr_CommandType c,
              cl_EncryptedPayload = cr_Payload c, cl_PayloadSHA256 = cr_PayloadSHA256 c, cl_Attempt = attempt,
              cl_Generation = cr_ControllerGeneration c, cl_LeaseUntil = now + ttl, cl_ExpiresAt = cr_ExpiresAt c\<rparr>))"

definition LeaseAgentCommand ::
    "gotime \<Rightarrow> tx_fault \<Rightarrow> (string \<Rightarrow> bool) \<Rightarrow> int \<Rightarrow> string \<Rightarrow> gotime \<Rightarrow> duration \<Rightarrow> db \<Rightarrow>
     db \<times> command_lease option result" where
  "LeaseAgentCommand clock flt locked nodeID workerID now leaseTTL d =
     (if nodeID \<le> 0 \<or> workerID = [] \<or> leaseTTL \<le> 0 then (d, Inl ErrInvalidAgentCommand)
      else run_tx flt (lease_command_tx locked nodeID workerID (if now = time_zero then clock else now) leaseTTL) d)"

section \<open>Acknowledgement, clamping and completion\<close>

definition owned :: "string \<Rightarrow> int \<Rightarrow> string \<Rightarrow> int \<Rightarrow> command_row \<Rightarrow> bool" where
  "owned i nodeID workerID generation c \<longleftrightarrow> cr_ID c = i \<and> cr_NodeID c = nodeID \<and> cr_LeaseOwner c = Some workerID \<and>
     cr_ControllerGeneration c = generation"

definition AckAgentCommand ::
    "gotime \<Rightarrow> tx_fault \<Rightarrow> string \<Rightarrow> int \<Rightarrow> string \<Rightarrow> int \<Rightarrow> gotime \<Rightarrow> duration \<Rightarrow> db \<Rightarrow> db \<times> bool result" where
  "AckAgentCommand clock flt i nodeID workerID generation now runTTL d =
     (if i = [] \<or> nodeID \<le> 0 \<or> workerID = [] \<or> generation \<le> 0 \<or> runTTL \<le> 0 then (d, Inl ErrInvalidAgentCommand)
      else
        let now' = (if now = time_zero then clock else now);
            sel = (\<lambda>c. owned i nodeID workerID generation c \<and> (cr_State c = ''leased'' \<or> cr_State c = ''running'') \<and>
              (case cr_LeaseUntil c of None \<Rightarrow> False | Some t \<Rightarrow> t > now')) in
        run_tx flt (\<lambda>d. Inr (d\<lparr>db_commands := sql_update sel (\<lambda>c. c\<lparr>cr_State := ''running'',
            cr_LeaseUntil := Some (now' + runTTL), cr_UpdatedAt := now'\<rparr>) (db_commands d)\<rparr>,
          sql_count sel (db_commands d) = 1)) d)"

definition ClampAgentCommandRunLeases :: "gotime \<Rightarrow> tx_fault \<Rightarrow> int \<Rightarrow> gotime \<Rightarrow> duration \<Rightarrow> db \<Rightarrow> db \<times> unit result" where
  "ClampAgentCommandRunLeases clock flt nodeID now maxTTL d =
     (if nodeID \<le> 0 \<or> maxTTL \<le> 0 then (d, Inl ErrInvalidAgentCommand)
      else
        let now' = (if now = time_zero then clock else now) in
        run_tx flt (\<lambda>d. Inr (d\<lparr>db_commands := sql_update (\<lambda>c. cr_NodeID c = nodeID \<and>
            (cr_State c = ''acked'' \<or> cr_State c = ''running'') \<and>
            (case cr_LeaseUntil c of None \<Rightarrow> False | Some t \<Rightarrow> t > now' + maxTTL))
            (\<lambda>c. c\<lparr>cr_LeaseUntil := Some (now' + maxTTL), cr_UpdatedAt := now'\<rparr>) (db_commands d)\<rparr>, ())) d)"

record finish_params =
  fp_ID :: string
  fp_NodeID :: int
  fp_WorkerID :: string
  fp_ControllerGeneration :: int
  fp_Succeeded :: bool
  fp_ResultSummary :: string
  fp_ResultDigest :: string
  fp_Now :: gotime

definition FinishAgentCommand ::
    "(string \<Rightarrow> bool) \<Rightarrow> gotime \<Rightarrow> tx_fault \<Rightarrow> finish_params \<Rightarrow> db \<Rightarrow> db \<times> bool result" where
  "FinishAgentCommand validJSON clock flt p d =
     (if fp_ID p = [] \<or> fp_NodeID p \<le> 0 \<or> fp_WorkerID p = [] \<or> fp_ControllerGeneration p \<le> 0 \<or>
         \<not> validJSON (fp_ResultSummary p) \<or> length (fp_ResultDigest p) \<noteq> 32
      then (d, Inl ErrInvalidAgentCommand)
      else
        let now = (if fp_Now p = time_zero then clock else fp_Now p);
            sel = (\<lambda>c. owned (fp_ID p) (fp_NodeID p) (fp_WorkerID p) (fp_ControllerGeneration p) c \<and>
              cr_State c \<in> {''leased'', ''acked'', ''running''}) in
        run_tx flt (\<lambda>d. Inr (d\<lparr>db_commands := sql_update sel
            (\<lambda>c. c\<lparr>cr_State := (if fp_Succeeded p then ''succeeded'' else ''failed''),
               cr_ResultSummary := Some (fp_ResultSummary p), cr_ResultDigest := Some (fp_ResultDigest p),
               cr_LeaseOwner := None, cr_LeaseUntil := None, cr_UpdatedAt := now\<rparr>) (db_commands d)\<rparr>,
          sql_count sel (db_commands d) = 1)) d)"

text \<open>
  \<open>GetAgentCommandResult\<close> expires a queued command and reads it in one statement. Both parts
  see the same snapshot, so the row that is returned is the one before the update.
\<close>

definition GetAgentCommandResult ::
    "gotime \<Rightarrow> tx_fault \<Rightarrow> string \<Rightarrow> db \<Rightarrow> db \<times> (string \<times> string \<times> gotime) option result" where
  "GetAgentCommandResult dbNow flt operationID d =
     (if operationID = [] then (d, Inl ErrInvalidAgentCommand)
      else run_tx flt (\<lambda>d. Inr (d\<lparr>db_commands := sql_update (\<lambda>c. cr_OperationID c = operationID \<and>
               cr_State c = ''queued'' \<and> cr_ExpiresAt c \<le> dbNow)
               (\<lambda>c. c\<lparr>cr_State := ''expired'', cr_UpdatedAt := dbNow\<rparr>) (db_commands d)\<rparr>,
             map_option (\<lambda>c. (cr_State c, (case cr_ResultSummary c of None \<Rightarrow> ''{}'' | Some r \<Rightarrow> r), cr_UpdatedAt c))
               (sql_find (\<lambda>c. cr_OperationID c = operationID) (db_commands d)))) d)"

end
