(* ===== verification/Command_Safety.thy ===== *)
theory Command_Safety
  imports Store_Commands Store_Contracts
begin

text \<open>
  What the command queue guarantees: one row per operation whatever is retried, a command is
  leased only when no unexpired lease of it exists and only to a node whose agent accepts it,
  and it is finished only by the worker it was leased to last.
\<close>

section \<open>Rows and keys\<close>

lemma keyed_rekey:
  assumes "keyed k t" and "keyed j t" and "\<forall>r \<in> set t. j r \<noteq> a \<longrightarrow> k r \<noteq> b" and "\<And>r. j r = a \<Longrightarrow> k (f r) = b"
  shows "keyed k (sql_update (\<lambda>r. j r = a) f t)"
  using assms(1-3)
proof (induction t)
  case Nil
  then show ?case by (simp add: sql_update_def)
next
  case (Cons r t)
  have IH: "keyed k (sql_update (\<lambda>r. j r = a) f t)" using Cons by (simp add: keyed_Cons)
  have "k (if j r = a then f r else r) \<notin> k ` set (sql_update (\<lambda>r. j r = a) f t)"
  proof (cases "j r = a")
    case True
    then have "\<forall>q \<in> set t. j q \<noteq> a" using Cons.prems(2) unfolding keyed_Cons by (metis imageI)
    then have "sql_update (\<lambda>r. j r = a) f t = t" by (rule sql_update_none)
    then show ?thesis using True assms(4) [OF True] Cons.prems(3) \<open>\<forall>q \<in> set t. j q \<noteq> a\<close> by auto
  next
    case False
    then show ?thesis using Cons.prems assms(4) by (auto simp: in_sql_update keyed_Cons)
  qed
  then show ?case using IH by (simp add: sql_update_def keyed_Cons)
qed

definition leased_states :: "string set" where
  "leased_states = {''leased'', ''acked'', ''running''}"

definition commands_keyed :: "db \<Rightarrow> bool" where
  "commands_keyed d \<longleftrightarrow> keyed cr_ID (db_commands d) \<and> keyed cr_OperationID (db_commands d)"

text \<open>
  The state of a run: the database, and for every delivery identifier the worker to which the
  queue last committed a lease of it (a ghost that the code does not have).
\<close>

type_synonym queue = "db \<times> (string \<Rightarrow> string option)"

definition queue_inv :: "queue \<Rightarrow> bool" where
  "queue_inv q \<longleftrightarrow> commands_keyed (fst q) \<and>
     (\<forall>c \<in> set (db_commands (fst q)). cr_State c \<in> leased_states \<longrightarrow>
        snd q (cr_ID c) \<noteq> None \<and> cr_LeaseOwner c = snd q (cr_ID c))"

datatype command_event =
    CeEnqueue gotime tx_fault enqueue_params
  | CeLease gotime tx_fault "string \<Rightarrow> bool" int string gotime duration
  | CeAck gotime tx_fault string int string int gotime duration
  | CeClamp gotime tx_fault int gotime duration
  | CeFinish gotime tx_fault finish_params
  | CeResult gotime tx_fault string

fun command_db :: "(string \<Rightarrow> bool) \<Rightarrow> command_event \<Rightarrow> db \<Rightarrow> db" where
  "command_db js (CeEnqueue clock flt p) d = fst (EnqueueAgentCommand js clock flt id p d)"
| "command_db js (CeLease clock flt locked n w now ttl) d = fst (LeaseAgentCommand clock flt locked n w now ttl d)"
| "command_db js (CeAck clock flt i n w g now ttl) d = fst (AckAgentCommand clock flt i n w g now ttl d)"
| "command_db js (CeClamp clock flt n now ttl) d = fst (ClampAgentCommandRunLeases clock flt n now ttl d)"
| "command_db js (CeFinish clock flt p) d = fst (FinishAgentCommand js clock flt p d)"
| "command_db js (CeResult clock flt i) d = fst (GetAgentCommandResult clock flt i d)"

text \<open>The lease that an event commits: the delivery identifier and the worker.\<close>

fun granted :: "command_event \<Rightarrow> db \<Rightarrow> (string \<times> string) option" where
  "granted (CeLease clock flt locked n w now ttl) d =
     (if n \<le> 0 \<or> w = [] \<or> ttl \<le> 0 \<or> flt \<notin> {TxOk, TxLost} then None
      else (case lease_command_tx locked n w (if now = time_zero then clock else now) ttl d of
              Inr (d', Some l) \<Rightarrow> Some (cl_ID l, w) | _ \<Rightarrow> None))"
| "granted e d = None"

definition command_step :: "(string \<Rightarrow> bool) \<Rightarrow> command_event \<Rightarrow> queue \<Rightarrow> queue" where
  "command_step js e q = (command_db js e (fst q),
     case granted e (fst q) of None \<Rightarrow> snd q | Some (i, w) \<Rightarrow> (snd q)(i := Some w))"

lemma queue_inv_same: "queue_inv (d, g) \<Longrightarrow> db_commands d' = db_commands d \<Longrightarrow> queue_inv (d', g)"
  by (simp add: queue_inv_def commands_keyed_def)

lemma queue_inv_update:
  assumes "queue_inv (d, g)"
    and "\<And>c. P c \<Longrightarrow> cr_ID (f c) = cr_ID c \<and> cr_OperationID (f c) = cr_OperationID c \<and>
      (cr_State (f c) \<in> leased_states \<longrightarrow> cr_State c \<in> leased_states \<and> cr_LeaseOwner (f c) = cr_LeaseOwner c)"
  shows "queue_inv (d\<lparr>db_commands := sql_update P f (db_commands d)\<rparr>, g)"
proof -
  have "commands_keyed (d\<lparr>db_commands := sql_update P f (db_commands d)\<rparr>)"
    using assms by (simp add: commands_keyed_def queue_inv_def keyed_update)
  then show ?thesis using assms by (auto simp: queue_inv_def in_sql_update)
qed

lemma oldest_in: "oldest cs = Some c \<Longrightarrow> c \<in> set cs"
proof -
  have "foldl (\<lambda>b x. if cr_CreatedAt x < cr_CreatedAt b then x else b) b cs \<in> insert b (set cs)" for b and cs :: "command_row list"
  proof (induction cs arbitrary: b)
    case (Cons x cs)
    then show ?case using Cons.IH [of x] Cons.IH [of b] by auto
  qed simp
  then show "oldest cs = Some c \<Longrightarrow> c \<in> set cs" by (auto simp: oldest_def split: list.splits)
qed

lemma lease_command_cases:
  assumes "lease_command_tx locked n w now ttl d = Inr (d', r)"
  obtains "d' = d" "r = None"
  | c l where "c \<in> set (db_commands d)" "leasable n now d c" "r = Some l" "cl_ID l = cr_ID c"
      "cl_CommandType l = cr_CommandType c" "cl_Generation l = cr_ControllerGeneration c" "cl_LeaseUntil l = now + ttl"
      "d' = d\<lparr>db_commands := sql_update (\<lambda>x. cr_ID x = cr_ID c)
        (\<lambda>x. x\<lparr>cr_State := ''leased'', cr_LeaseOwner := Some w, cr_LeaseUntil := Some (now + ttl),
           cr_Attempt := i64 (cr_Attempt c + 1), cr_UpdatedAt := now\<rparr>) (db_commands d)\<rparr>"
proof (cases "oldest (filter (\<lambda>c. leasable n now d c \<and> \<not> locked (cr_ID c)) (db_commands d))")
  case None
  then show ?thesis using assms that(1) by (simp add: lease_command_tx_def)
next
  case (Some c)
  then have c: "c \<in> set (db_commands d)" "leasable n now d c" using oldest_in [OF Some] by auto
  obtain l where "r = Some l" "cl_ID l = cr_ID c" "cl_CommandType l = cr_CommandType c"
    "cl_Generation l = cr_ControllerGeneration c" "cl_LeaseUntil l = now + ttl"
    using assms Some by (auto simp: lease_command_tx_def Let_def)
  moreover have "d' = d\<lparr>db_commands := sql_update (\<lambda>x. cr_ID x = cr_ID c)
        (\<lambda>x. x\<lparr>cr_State := ''leased'', cr_LeaseOwner := Some w, cr_LeaseUntil := Some (now + ttl),
           cr_Attempt := i64 (cr_Attempt c + 1), cr_UpdatedAt := now\<rparr>) (db_commands d)\<rparr>"
    using assms Some by (simp add: lease_command_tx_def Let_def)
  ultimately show ?thesis by (rule that(2) [OF c])
qed

lemma lease_command_inv:
  assumes "queue_inv (d, g)" and "lease_command_tx locked n w now ttl d = Inr (d', r)"
  shows "queue_inv (d', case r of None \<Rightarrow> g | Some l \<Rightarrow> g(cl_ID l := Some w))"
  using assms(2)
proof (cases rule: lease_command_cases)
  case 1
  then show ?thesis using assms(1) by simp
next
  case (2 c l)
  define f where "f = (\<lambda>x. x\<lparr>cr_State := ''leased'', cr_LeaseOwner := Some w, cr_LeaseUntil := Some (now + ttl),
           cr_Attempt := i64 (cr_Attempt c + 1), cr_UpdatedAt := now\<rparr> :: command_row)"
  have d': "d' = d\<lparr>db_commands := sql_update (\<lambda>x. cr_ID x = cr_ID c) f (db_commands d)\<rparr>" using 2 by (simp add: f_def)
  have "commands_keyed d'"
    using assms(1) unfolding d' by (simp add: commands_keyed_def queue_inv_def keyed_update f_def)
  then show ?thesis using assms(1) 2(3,4) by (auto simp: queue_inv_def d' in_sql_update f_def)
qed

lemma insert_cases:
  assumes "insert_command p now d = Inr (d', r)"
  obtains "d' = d" "r = None"
  | gen where "d' = d\<lparr>db_commands := db_commands d @ [new_command p now gen]\<rparr>" "r = Some gen"
      "\<forall>c \<in> set (db_commands d). cr_OperationID c \<noteq> eq_OperationID p \<and> cr_ID c \<noteq> eq_ID p"
  | gen c where "d' = d\<lparr>db_commands := sql_update (\<lambda>x. cr_OperationID x = eq_OperationID p) (requeue p now) (db_commands d)\<rparr>"
      "r = Some gen" "c \<in> set (db_commands d)" "cr_OperationID c = eq_OperationID p" "requeueable p gen c"
      "\<forall>c \<in> set (db_commands d). cr_OperationID c \<noteq> eq_OperationID p \<longrightarrow> cr_ID c \<noteq> eq_ID p"
proof (cases "sql_find (\<lambda>e. ep_State e = ''active'' \<and> (eq_ExpectedControllerGeneration p = 0 \<or>
             ep_Generation e = eq_ExpectedControllerGeneration p)) (db_epochs d)")
  case None
  then show ?thesis using assms that(1) by (simp add: insert_command_def)
next
  case e: (Some e)
  show ?thesis
  proof (cases "sql_find (\<lambda>c. cr_OperationID c = eq_OperationID p) (db_commands d)")
    case None
    have "\<not> sql_exists (\<lambda>c. cr_ID c = eq_ID p) (db_commands d)"
      and d': "d' = d\<lparr>db_commands := db_commands d @ [new_command p now (ep_Generation e)]\<rparr>" "r = Some (ep_Generation e)"
      using assms e None by (simp_all add: insert_command_def Let_def split: if_splits)
    then show ?thesis using that(2) [OF d'] None by (simp add: sql sql_find_None)
  next
    case (Some c)
    note c = sql_find_Some [OF Some]
    show ?thesis
    proof (cases "requeueable p (ep_Generation e) c")
      case False
      then show ?thesis using assms e Some that(1) by (simp add: insert_command_def Let_def)
    next
      case True
      have "\<not> sql_exists (\<lambda>x. cr_ID x = eq_ID p \<and> cr_OperationID x \<noteq> eq_OperationID p) (db_commands d)"
        and d': "d' = d\<lparr>db_commands := sql_update (\<lambda>x. cr_OperationID x = eq_OperationID p) (requeue p now) (db_commands d)\<rparr>"
          "r = Some (ep_Generation e)"
        using assms e Some True by (simp_all add: insert_command_def Let_def split: if_splits)
      then show ?thesis using that(3) [OF d', of c] c True by (auto simp: sql)
    qed
  qed
qed

lemma insert_inv:
  assumes "queue_inv (d, g)" and "insert_command p now d = Inr (d', r)"
  shows "queue_inv (d', g)"
proof -
  have k: "keyed cr_ID (db_commands d)" "keyed cr_OperationID (db_commands d)"
    using assms(1) by (simp_all add: queue_inv_def commands_keyed_def)
  show ?thesis using assms(2)
  proof (cases rule: insert_cases)
    case 1
    then show ?thesis using assms(1) by simp
  next
    case 2
    then show ?thesis using assms(1) k
      by (auto simp: queue_inv_def commands_keyed_def keyed_append new_command_def leased_states_def)
  next
    case 3
    have "keyed cr_ID (db_commands d')"
      unfolding 3(1) using k 3(6) by (simp, intro keyed_rekey [where b = "eq_ID p"]) (simp_all add: requeue_def)
    moreover have "keyed cr_OperationID (db_commands d')" using k 3 by (simp add: keyed_update requeue_def)
    ultimately show ?thesis using assms(1) 3
      by (auto simp: queue_inv_def commands_keyed_def in_sql_update requeue_def leased_states_def)
  qed
qed

lemma run_tx_db:
  "fst (run_tx flt t d) = (if flt = TxOk \<or> flt = TxLost then (case t d of Inl e \<Rightarrow> d | Inr (d', x) \<Rightarrow> d') else d)"
  by (cases flt) (auto simp: run_tx_def split: sum.splits)

lemma lease_total: "\<exists>d' r. lease_command_tx locked n w now ttl d = Inr (d', r)"
  by (simp add: lease_command_tx_def Let_def split: option.splits)

lemma command_step_inv:
  assumes "queue_inv q"
  shows "queue_inv (command_step js e q)"
proof -
  obtain d g where q: "q = (d, g)" by (cases q)
  note inv = assms [unfolded q]
  show ?thesis
  proof (cases e)
    case (CeEnqueue clock flt p)
    have "queue_inv (fst (run_tx flt (insert_command p now) d), g)" for now
      using inv insert_inv [OF inv] by (auto simp: run_tx_db split: sum.splits)
    then show ?thesis using inv CeEnqueue q
      by (auto simp: command_step_def EnqueueAgentCommand_def Let_def split: sum.splits option.splits prod.splits)
        (metis fst_conv)+
  next
    case (CeLease clock flt locked n w now ttl)
    obtain d' r where l: "lease_command_tx locked n w (if now = time_zero then clock else now) ttl d = Inr (d', r)"
      using lease_total by blast
    then show ?thesis using inv lease_command_inv [OF inv l] CeLease q
      by (auto simp: command_step_def LeaseAgentCommand_def run_tx_db split: option.splits if_splits)
  next
    case (CeAck clock flt i n w gen now ttl)
    then show ?thesis using inv q
      by (auto simp: command_step_def AckAgentCommand_def Let_def run_tx_db leased_states_def intro!: queue_inv_update)
  next
    case (CeClamp clock flt n now ttl)
    then show ?thesis using inv q
      by (auto simp: command_step_def ClampAgentCommandRunLeases_def Let_def run_tx_db intro!: queue_inv_update)
  next
    case (CeFinish clock flt p)
    then show ?thesis using inv q
      by (auto simp: command_step_def FinishAgentCommand_def Let_def run_tx_db leased_states_def intro!: queue_inv_update)
  next
    case (CeResult clock flt i)
    then show ?thesis using inv q
      by (auto simp: command_step_def GetAgentCommandResult_def Let_def run_tx_db leased_states_def intro!: queue_inv_update)
  qed
qed

interpretation command_events: transitions "command_step js" queue_inv for js
  by unfold_locales (rule command_step_inv)

abbreviation command_run :: "(string \<Rightarrow> bool) \<Rightarrow> command_event list \<Rightarrow> queue \<Rightarrow> queue" where
  "command_run js \<equiv> command_events.run js"

section \<open>Properties\<close>

text \<open>
  C23. A command is finished only by its last lessee. In any run of the queue that starts without
  leased commands, however the server treats the transactions, a result is accepted for a
  command only from the worker to which the queue last committed a lease of it.
\<close>

theorem finished_by_last_lessee:
  assumes "queue_inv (d0, \<lambda>_. None)" and "command_run js evs (d0, \<lambda>_. None) = (d, lessee)"
    and "FinishAgentCommand js clock flt p d = (d', Inr True)"
  shows "lessee (fp_ID p) = Some (fp_WorkerID p)"
proof -
  have inv: "queue_inv (d, lessee)" using command_events.run_inv [OF assms(1), of js evs] assms(2) by simp
  define sel where "sel = (\<lambda>c. owned (fp_ID p) (fp_NodeID p) (fp_WorkerID p) (fp_ControllerGeneration p) c \<and>
              cr_State c \<in> leased_states)"
  have "sql_count sel (db_commands d) = 1"
    using assms(3) unfolding FinishAgentCommand_def Let_def leased_states_def [symmetric] sel_def [symmetric]
    by (auto split: if_splits dest!: run_tx_ok)
  then have "\<exists>c \<in> set (db_commands d). sel c" using sql_count_pos [of sel "db_commands d"] by simp
  then obtain c where "c \<in> set (db_commands d)" "sel c" by blast
  then show ?thesis using inv by (auto simp: queue_inv_def sel_def owned_def)
qed

definition sample_command :: enqueue_params where
  "sample_command = \<lparr>eq_ID = ''c1'', eq_OperationID = ''o1'', eq_NodeID = 1, eq_CommandType = ''start_snapshot'',
     eq_EncryptedPayload = ''{}'', eq_PayloadSHA256 = replicate 32 CHR ''h'', eq_ExpiresAt = 50, eq_Now = 5,
     eq_ExpectedControllerGeneration = 0, eq_RequeueRetryableTerminal = False\<rparr>"

definition sample_finish :: "string \<Rightarrow> finish_params" where
  "sample_finish w = \<lparr>fp_ID = ''c1'', fp_NodeID = 1, fp_WorkerID = w, fp_ControllerGeneration = 1, fp_Succeeded = True,
     fp_ResultSummary = ''{}'', fp_ResultDigest = replicate 32 CHR ''h'', fp_Now = 30\<rparr>"

definition sample_queue_run :: "command_event list" where
  "sample_queue_run = [CeEnqueue 1 TxOk sample_command, CeLease 1 TxOk (\<lambda>_. False) 1 ''w1'' 6 10,
     CeLease 1 TxOk (\<lambda>_. False) 1 ''w2'' 20 10]"

theorem finished_by_last_lessee_witness:
  "let q = command_run (\<lambda>_. True) sample_queue_run (sample_db, \<lambda>_. None)
   in snd (FinishAgentCommand (\<lambda>_. True) 1 TxOk (sample_finish ''w2'') (fst q)) = Inr True \<and>
      snd (FinishAgentCommand (\<lambda>_. True) 1 TxOk (sample_finish ''w1'') (fst q)) = Inr False \<and>
      snd q ''c1'' = Some ''w2''"
proof -
  let ?q = "command_run (\<lambda>_. True) sample_queue_run (sample_db, \<lambda>_. None)"
  have inv: "queue_inv (sample_db, \<lambda>_. None)" by (simp add: queue_inv_def commands_keyed_def sample_db_def empty_db_def)
  have r: "snd (FinishAgentCommand (\<lambda>_. True) 1 TxOk (sample_finish ''w2'') (fst ?q)) = Inr True"
    "snd (FinishAgentCommand (\<lambda>_. True) 1 TxOk (sample_finish ''w1'') (fst ?q)) = Inr False"
    unfolding sample_queue_run_def command_events.run_Cons command_events.run_Nil by code_simp+
  obtain d' where "FinishAgentCommand (\<lambda>_. True) 1 TxOk (sample_finish ''w2'') (fst ?q) = (d', Inr True)"
    using r(1) by (cases "FinishAgentCommand (\<lambda>_. True) 1 TxOk (sample_finish ''w2'') (fst ?q)") auto
  from finished_by_last_lessee [OF inv prod.collapse [symmetric] this] r show ?thesis
    by (simp add: Let_def sample_finish_def)
qed

text \<open>
  C24. A leased command is one that its node may run now. A command is leased only under the
  active controller generation, to a node that has reported under that generation, when it is
  queued and unexpired or its previous lease has run out; afterwards exactly the worker holds
  it for the lease time; and an agent in the mode its node has reported accepts the command.
\<close>

theorem leased_command_accepted:
  assumes "LeaseAgentCommand clock flt locked n w now ttl d = (d', Inr (Some l))"
    and "keyed nd_ID (db_nodes d)" and "node_by_id n d = Some nd" and "cm_Mode (agent_mode a) = nd_ControlMode nd"
  defines "t \<equiv> (if now = time_zero then clock else now)"
  shows "commandAllowed (cl_CommandType l) a \<and> nd_ControllerGeneration nd = cl_Generation l \<and>
    (\<exists>e \<in> set (db_epochs d). ep_State e = ''active'' \<and> ep_Generation e = cl_Generation l) \<and>
    (\<exists>c \<in> set (db_commands d). cr_ID c = cl_ID l \<and> cr_NodeID c = n \<and>
       (cr_State c = ''queued'' \<and> t < cr_ExpiresAt c \<or> (\<exists>u \<le> t. cr_LeaseUntil c = Some u))) \<and>
    (\<forall>c \<in> set (db_commands d'). cr_ID c = cl_ID l \<longrightarrow> cr_LeaseOwner c = Some w \<and> cr_LeaseUntil c = Some (t + ttl))"
proof -
  have "lease_command_tx locked n w t ttl d = Inr (d', Some l)"
    using assms(1) by (auto simp: LeaseAgentCommand_def t_def split: if_splits dest: run_tx_ok)
  then obtain c where c: "c \<in> set (db_commands d)" "leasable n t d c" "cl_ID l = cr_ID c"
    "cl_CommandType l = cr_CommandType c" "cl_Generation l = cr_ControllerGeneration c"
    and d': "db_commands d' = sql_update (\<lambda>x. cr_ID x = cr_ID c)
        (\<lambda>x. x\<lparr>cr_State := ''leased'', cr_LeaseOwner := Some w, cr_LeaseUntil := Some (t + ttl),
           cr_Attempt := i64 (cr_Attempt c + 1), cr_UpdatedAt := t\<rparr>) (db_commands d)"
    by (cases rule: lease_command_cases) auto
  have ep: "\<exists>e \<in> set (db_epochs d). ep_State e = ''active'' \<and> ep_Generation e = cl_Generation l"
    and st: "cr_NodeID c = n" "cr_State c = ''queued'' \<and> t < cr_ExpiresAt c \<or> (\<exists>u \<le> t. cr_LeaseUntil c = Some u)"
    using c(2,5) by (auto simp: leasable_def sql split: option.splits)
  obtain m where m: "m \<in> set (db_nodes d)" "nd_ID m = n" "nd_ControllerGeneration m = cr_ControllerGeneration c"
    "nd_ControlMode m = NodeModeManaged \<or> nd_ControlMode m = NodeModeIndependentDraining \<and> cr_CommandType c \<in> set draining_commands"
    using c(2) by (auto simp: leasable_def sql)
  have "m = nd" using keyed_unique [OF assms(2) m(1)] node_by_id_Some [OF assms(3)] m(2) by simp
  moreover have "set draining_commands \<subseteq> set independentReconciliationCommands"
    by (simp add: draining_commands_def independentReconciliationCommands_def)
  ultimately have "commandAllowed (cl_CommandType l) a" "nd_ControllerGeneration nd = cl_Generation l"
    using m(3,4) c(4,5) assms(4) by (auto simp: commandAllowed_def independentReconciliationCommand_def)
  moreover have "\<forall>x \<in> set (db_commands d'). cr_ID x = cl_ID l \<longrightarrow> cr_LeaseOwner x = Some w \<and> cr_LeaseUntil x = Some (t + ttl)"
    unfolding d' using c(3) by (auto simp: in_sql_update)
  ultimately show ?thesis using ep c(1,3) st by auto
qed

theorem leased_command_accepted_witness:
  "let d = fst (command_run (\<lambda>_. True) [CeEnqueue 1 TxOk sample_command] (sample_db, \<lambda>_. None));
       a = set_state (\<lambda>s. s\<lparr>rs_ControlMode := zero_control_mode\<lparr>cm_Mode := NodeModeManaged\<rparr>\<rparr>) (new_agent sample_cfg)
   in \<exists>d' l. LeaseAgentCommand 1 TxOk (\<lambda>_. False) 1 ''w1'' 6 10 d = (d', Inr (Some l)) \<and> commandAllowed (cl_CommandType l) a"
proof -
  define d where "d = fst (command_run (\<lambda>_. True) [CeEnqueue 1 TxOk sample_command] (sample_db, \<lambda>_. None))"
  let ?a = "set_state (\<lambda>s. s\<lparr>rs_ControlMode := zero_control_mode\<lparr>cm_Mode := NodeModeManaged\<rparr>\<rparr>) (new_agent sample_cfg)"
  let ?l = "LeaseAgentCommand 1 TxOk (\<lambda>_. False) 1 ''w1'' 6 10 d"
  have "is_ok (snd ?l)" "projr (snd ?l) \<noteq> None" and k: "keyed nd_ID (db_nodes d)"
    and n: "map_option nd_ControlMode (node_by_id 1 d) = Some NodeModeManaged"
    unfolding d_def command_events.run_Cons command_events.run_Nil by code_simp+
  then obtain d' l where l: "?l = (d', Inr (Some l))" by (cases ?l) (auto simp: is_ok_iff)
  obtain nd where "node_by_id 1 d = Some nd" "nd_ControlMode nd = NodeModeManaged" using n by auto
  then show ?thesis using leased_command_accepted [OF l k, of nd ?a] l
    unfolding Let_def d_def [symmetric] by auto
qed

lemma enqueue_outcome:
  assumes "EnqueueAgentCommand js clock flt id p d = (d', r)"
    and "sql_find (\<lambda>x. cr_OperationID x = eq_OperationID p) (db_commands d) = Some c"
    and "\<And>x. x \<in> set (db_commands d) \<Longrightarrow> cr_OperationID x = eq_OperationID p \<Longrightarrow> x = c"
  defines "now \<equiv> (if eq_Now p = time_zero then clock else eq_Now p)"
  shows "(d' = d \<and> (\<forall>gen. r = Inr gen \<longrightarrow> replayed_command p d = Inr gen)) \<or>
    (d' = d\<lparr>db_commands := sql_update (\<lambda>x. cr_OperationID x = eq_OperationID p) (requeue p now) (db_commands d)\<rparr> \<and>
     (\<forall>gen. r = Inr gen \<longrightarrow> requeueable p gen c) \<and> (\<exists>gen. requeueable p gen c))"
proof -
  obtain d1 x where t: "run_tx flt (insert_command p now) d = (d1, x)" by (cases "run_tx flt (insert_command p now) d")
  have c: "c \<in> set (db_commands d)" "cr_OperationID c = eq_OperationID p" using sql_find_Some [OF assms(2)] by auto
  have r: "(d' = d \<and> is_ok r = False) \<or> (d' = d1 \<and> r = (case x of Inl e \<Rightarrow> Inl e | Inr (Some gen) \<Rightarrow> Inr gen
     | Inr None \<Rightarrow> replayed_command p d1))"
    using assms(1) t unfolding EnqueueAgentCommand_def Let_def now_def [symmetric]
    by (auto split: if_splits sum.splits option.splits)
  have x: "(d1 = d \<and> (x = Inr None \<or> (\<exists>e. x = Inl e))) \<or>
    (d1 = d\<lparr>db_commands := sql_update (\<lambda>x. cr_OperationID x = eq_OperationID p) (requeue p now) (db_commands d)\<rparr> \<and>
     (\<exists>gen. requeueable p gen c \<and> (x = Inr (Some gen) \<or> (\<exists>e. x = Inl e))))"
    using t
  proof (cases rule: run_tx_cases)
    case (2 y)
    from 2(1) show ?thesis
    proof (cases rule: insert_cases)
      case 1
      then show ?thesis using 2(2) by auto
    next
      case 2
      then show ?thesis using c by auto
    next
      case (3 gen z)
      then show ?thesis using 2(2) assms(3) [of z] by auto
    qed
  qed auto
  show ?thesis using r x by auto
qed

text \<open>
  Enqueueing is idempotent. Once an operation has a command, any further enqueue of the
  operation leaves exactly one row for it, of the same node, type, payload digest and
  generation; it answers with that generation only for the same node, type and digest; and it
  changes nothing unless the caller asked for a retry and the command had failed or expired.
\<close>

lemma enqueue_idempotent:
  assumes "queue_inv (d, g)" and "c \<in> set (db_commands d)" and "cr_OperationID c = eq_OperationID p"
    and "EnqueueAgentCommand js clock flt id p d = (d', r)"
  shows "(\<exists>!x. x \<in> set (db_commands d') \<and> cr_OperationID x = eq_OperationID p) \<and>
    (\<forall>x \<in> set (db_commands d'). cr_OperationID x = eq_OperationID p \<longrightarrow> cr_NodeID x = cr_NodeID c \<and>
       cr_CommandType x = cr_CommandType c \<and> cr_PayloadSHA256 x = cr_PayloadSHA256 c \<and>
       cr_ControllerGeneration x = cr_ControllerGeneration c) \<and>
    (\<forall>gen. r = Inr gen \<longrightarrow> gen = cr_ControllerGeneration c \<and> cr_NodeID c = eq_NodeID p \<and>
       cr_CommandType c = eq_CommandType p \<and> cr_PayloadSHA256 c = eq_PayloadSHA256 p) \<and>
    (d' = d \<or> eq_RequeueRetryableTerminal p \<and> cr_State c \<in> {''failed'', ''expired''})"
proof -
  define now where "now = (if eq_Now p = time_zero then clock else eq_Now p)"
  have k: "keyed cr_OperationID (db_commands d)" using assms(1) by (simp add: queue_inv_def commands_keyed_def)
  have uniq: "x = c" if "x \<in> set (db_commands d)" "cr_OperationID x = eq_OperationID p" for x
    using keyed_unique [OF k that(1) assms(2)] that(2) assms(3) by simp
  have find: "sql_find (\<lambda>x. cr_OperationID x = eq_OperationID p) (db_commands d) = Some c"
    using sql_find_keyed [OF k assms(2)] assms(3) by simp
  consider (same) "d' = d" "\<And>gen. r = Inr gen \<Longrightarrow> replayed_command p d = Inr gen"
    | (requeued) "d' = d\<lparr>db_commands := sql_update (\<lambda>x. cr_OperationID x = eq_OperationID p) (requeue p now) (db_commands d)\<rparr>"
        "\<And>gen. r = Inr gen \<Longrightarrow> requeueable p gen c" "\<exists>gen. requeueable p gen c"
    using enqueue_outcome [OF assms(4) find uniq] unfolding now_def by blast
  then show ?thesis
  proof cases
    case same
    have A: "\<exists>!x. x \<in> set (db_commands d') \<and> cr_OperationID x = eq_OperationID p" using same(1) assms(2,3) uniq by auto
    have B: "\<forall>x \<in> set (db_commands d'). cr_OperationID x = eq_OperationID p \<longrightarrow> cr_NodeID x = cr_NodeID c \<and>
       cr_CommandType x = cr_CommandType c \<and> cr_PayloadSHA256 x = cr_PayloadSHA256 c \<and>
       cr_ControllerGeneration x = cr_ControllerGeneration c"
      using same(1) uniq by metis
    have C: "\<forall>gen. r = Inr gen \<longrightarrow> gen = cr_ControllerGeneration c \<and> cr_NodeID c = eq_NodeID p \<and>
       cr_CommandType c = eq_CommandType p \<and> cr_PayloadSHA256 c = eq_PayloadSHA256 p"
      using same(2) find by (fastforce simp: replayed_command_def split: if_splits)
    show ?thesis by (rule conjI [OF A conjI [OF B conjI [OF C disjI1 [OF same(1)]]]])
  next
    case requeued
    have eq: "x \<in> set (db_commands d') \<and> cr_OperationID x = eq_OperationID p \<longleftrightarrow> x = requeue p now c" for x
    proof -
      have "x \<in> set (db_commands d') \<longleftrightarrow> (x \<in> set (db_commands d) \<and> cr_OperationID x \<noteq> eq_OperationID p) \<or> x = requeue p now c"
        using assms(2,3) by (auto simp: requeued(1) in_sql_update dest: uniq intro: bexI [of _ c])
      moreover have "cr_OperationID (requeue p now c) = eq_OperationID p" using assms(3) by (simp add: requeue_def)
      ultimately show ?thesis by auto
    qed
    then have A: "\<exists>!x. x \<in> set (db_commands d') \<and> cr_OperationID x = eq_OperationID p" by simp
    have B: "\<forall>x \<in> set (db_commands d'). cr_OperationID x = eq_OperationID p \<longrightarrow> cr_NodeID x = cr_NodeID c \<and>
       cr_CommandType x = cr_CommandType c \<and> cr_PayloadSHA256 x = cr_PayloadSHA256 c \<and>
       cr_ControllerGeneration x = cr_ControllerGeneration c"
    proof (intro ballI impI)
      fix x assume "x \<in> set (db_commands d')" "cr_OperationID x = eq_OperationID p"
      then have "x = requeue p now c" using eq [of x] by simp
      then show "cr_NodeID x = cr_NodeID c \<and> cr_CommandType x = cr_CommandType c \<and>
        cr_PayloadSHA256 x = cr_PayloadSHA256 c \<and> cr_ControllerGeneration x = cr_ControllerGeneration c"
        by (simp add: requeue_def)
    qed
    have C: "\<forall>gen. r = Inr gen \<longrightarrow> gen = cr_ControllerGeneration c \<and> cr_NodeID c = eq_NodeID p \<and>
       cr_CommandType c = eq_CommandType p \<and> cr_PayloadSHA256 c = eq_PayloadSHA256 p"
      using requeued(2) by (auto simp: requeueable_def)
    have D: "eq_RequeueRetryableTerminal p \<and> cr_State c \<in> {''failed'', ''expired''}"
      using requeued(3) by (auto simp: requeueable_def)
    show ?thesis by (rule conjI [OF A conjI [OF B conjI [OF C disjI2 [OF D]]]])
  qed
qed

lemma enqueue_idempotent_witness:
  "let q = command_run (\<lambda>_. True) [CeEnqueue 1 TxOk sample_command] (sample_db, \<lambda>_. None);
       r = EnqueueAgentCommand (\<lambda>_. True) 1 TxOk id (sample_command\<lparr>eq_ID := ''c2''\<rparr>) (fst q)
   in snd r = Inr 1 \<and> (\<exists>!x. x \<in> set (db_commands (fst r)) \<and> cr_OperationID x = ''o1'')"
proof -
  define p where "p = sample_command\<lparr>eq_ID := ''c2''\<rparr>"
  define q where "q = command_run (\<lambda>_. True) [CeEnqueue 1 TxOk sample_command] (sample_db, \<lambda>_. None)"
  define r where "r = EnqueueAgentCommand (\<lambda>_. True) 1 TxOk id p (fst q)"
  have "queue_inv (sample_db, \<lambda>_. None)" by (simp add: queue_inv_def commands_keyed_def sample_db_def empty_db_def)
  then have inv: "queue_inv (fst q, snd q)"
    using command_events.run_inv [of _ "\<lambda>_. True"] unfolding prod.collapse q_def by blast
  have r: "snd r = Inr 1" and ops: "map cr_OperationID (db_commands (fst q)) = [''o1'']" and id: "eq_OperationID p = ''o1''"
    unfolding r_def q_def p_def command_events.run_Cons command_events.run_Nil by code_simp+
  obtain c where c: "c \<in> set (db_commands (fst q))" "cr_OperationID c = eq_OperationID p"
    using ops id by (auto simp: map_eq_Cons_conv)
  have "EnqueueAgentCommand (\<lambda>_. True) 1 TxOk id p (fst q) = (fst r, snd r)" by (simp add: r_def)
  from conjunct1 [OF enqueue_idempotent [OF inv c this]] r show ?thesis
    unfolding Let_def p_def [symmetric] q_def [symmetric] r_def [symmetric] id by (rule conjI [rotated])
qed

text \<open>
  A command that runs out in the queue is reported late. The query that expires a queued
  command returns the row as it was before the update: the first call after the deadline still
  answers queued, and only the next one answers expired.
\<close>

lemma expiry_reported_late:
  assumes "keyed cr_OperationID (db_commands d)" and "c \<in> set (db_commands d)" and "cr_OperationID c = i"
    and "cr_State c = ''queued''" and "cr_ExpiresAt c \<le> now" and "i \<noteq> []"
    and "GetAgentCommandResult now TxOk i d = (d1, r1)" and "GetAgentCommandResult later TxOk i d1 = (d2, r2)"
  shows "(\<exists>s t. r1 = Inr (Some (''queued'', s, t))) \<and> (\<exists>s t. r2 = Inr (Some (''expired'', s, t)))"
proof -
  define P where "P = (\<lambda>c :: command_row. cr_OperationID c = i \<and> cr_State c = ''queued'' \<and> cr_ExpiresAt c \<le> now)"
  define f where "f = (\<lambda>c. c\<lparr>cr_State := ''expired'', cr_UpdatedAt := now\<rparr> :: command_row)"
  have find: "sql_find (\<lambda>c. cr_OperationID c = i) (db_commands d) = Some c"
    using sql_find_keyed [OF assms(1,2), of "\<lambda>c. cr_OperationID c = i"] assms(3) by simp
  have d1: "db_commands d1 = sql_update P f (db_commands d)"
    using assms(6,7) by (auto simp: GetAgentCommandResult_def run_tx_def P_def f_def)
  have "sql_find (\<lambda>c. cr_OperationID c = i) (db_commands d1) = Some (f c)"
    unfolding d1 using find assms(3-5) by (subst sql_find_update) (simp_all add: P_def f_def)
  then show ?thesis using assms(4,6-8) find by (auto simp: GetAgentCommandResult_def run_tx_def f_def)
qed

lemma expiry_reported_late_witness:
  "let d = fst (command_run (\<lambda>_. True) [CeEnqueue 1 TxOk sample_command] (sample_db, \<lambda>_. None));
       r1 = GetAgentCommandResult 60 TxOk ''o1'' d; r2 = GetAgentCommandResult 61 TxOk ''o1'' (fst r1)
   in (\<exists>s t. snd r1 = Inr (Some (''queued'', s, t))) \<and> (\<exists>s t. snd r2 = Inr (Some (''expired'', s, t)))"
proof -
  define d where "d = fst (command_run (\<lambda>_. True) [CeEnqueue 1 TxOk sample_command] (sample_db, \<lambda>_. None))"
  have "map cr_OperationID (db_commands d) = [''o1'']" "map cr_State (db_commands d) = [''queued'']"
    "map cr_ExpiresAt (db_commands d) = [50]"
    unfolding d_def command_events.run_Cons command_events.run_Nil by code_simp+
  then obtain c where c: "db_commands d = [c]" "cr_OperationID c = ''o1''" "cr_State c = ''queued''" "cr_ExpiresAt c = 50"
    by (auto simp: map_eq_Cons_conv)
  then show ?thesis
    using expiry_reported_late [of d c "''o1''" 60 _ _ 61, OF _ _ _ _ _ _ prod.collapse [symmetric] prod.collapse [symmetric]]
    unfolding Let_def d_def [symmetric] by (simp add: keyed_def)
qed

end
