(* ===== verification/Rebuild_Safety.thy ===== *)
theory Rebuild_Safety
  imports Epoch_Safety
begin

text \<open>
  Invariants of the rebuild and credential tables, kept by promotions, recovery heartbeats,
  rotation offers and activations (an interpretation of \<open>transitions\<close>), what a finished rebuild
  means, and what a confirmed credential rotation changes.
\<close>

section \<open>Rebuilds\<close>

definition rebuild_row_ok :: "rebuild_node_row list \<Rightarrow> rebuild_row \<Rightarrow> bool" where
  "rebuild_row_ok items r \<longleftrightarrow>
     (rb_State r = ''succeeded'' \<longrightarrow> (\<forall>i \<in> set items. rn_RebuildID i = rb_ID r \<longrightarrow> rn_State i = ''reconciled'')) \<and>
     (rb_State r = ''ready_with_deferred'' \<longrightarrow>
        (\<forall>i \<in> set items. rn_RebuildID i = rb_ID r \<longrightarrow> rn_State i = ''reconciled'' \<or> rn_State i = ''deferred''))"

definition rebuilds_sound :: "db \<Rightarrow> bool" where
  "rebuilds_sound d \<longleftrightarrow> keyed rb_ID (db_rebuilds d) \<and> (\<forall>r \<in> set (db_rebuilds d). rebuild_row_ok (db_rebuild_nodes d) r)"

lemma sql_count_all: "sql_count P t = length t \<longleftrightarrow> (\<forall>r \<in> set t. P r)"
  unfolding sql_count_def by (metis filter_id_conv length_filter_less nat_less_le)

lemma rebuild_progress_all:
  assumes "rebuild_progress i d = (tot, reconciled, ready)"
  shows "tot = reconciled \<longleftrightarrow> (\<forall>x \<in> set (db_rebuild_nodes d). rn_RebuildID x = i \<longrightarrow> rn_State x = ''reconciled'')"
    and "tot = ready \<longleftrightarrow> (\<forall>x \<in> set (db_rebuild_nodes d). rn_RebuildID x = i \<longrightarrow>
      rn_State x = ''reconciled'' \<or> rn_State x = ''deferred'')"
  using assms sql_count_all [of "\<lambda>i. rn_State i = ''reconciled''" "filter (\<lambda>x. rn_RebuildID x = i) (db_rebuild_nodes d)"]
    sql_count_all [of "\<lambda>i. rn_State i = ''reconciled'' \<or> rn_State i = ''deferred''" "filter (\<lambda>x. rn_RebuildID x = i) (db_rebuild_nodes d)"]
  by (auto simp: rebuild_progress_def Let_def)

lemma finish_same [simp]:
  "db_credentials (finishControllerRebuildIfReadyLocked i now d) = db_credentials d"
  "db_rotations (finishControllerRebuildIfReadyLocked i now d) = db_rotations d"
  "db_nodes (finishControllerRebuildIfReadyLocked i now d) = db_nodes d"
  "db_commands (finishControllerRebuildIfReadyLocked i now d) = db_commands d"
  "db_epochs (finishControllerRebuildIfReadyLocked i now d) = db_epochs d"
  by (simp_all add: finishControllerRebuildIfReadyLocked_def Let_def case_prod_unfold split: option.splits)

text \<open>The state that the last update of \<open>finishControllerRebuildIfReadyLocked\<close> gives the rebuild.\<close>

definition finished_state :: "string \<Rightarrow> db \<Rightarrow> string" where
  "finished_state i d = (case rebuild_progress i d of (tot, reconciled, ready) \<Rightarrow>
     if tot = reconciled then ''succeeded'' else if ready = tot then ''ready_with_deferred'' else ''reconciling'')"

lemma finish_rebuilds_eq:
  "\<exists>cnt upd. db_rebuilds (finishControllerRebuildIfReadyLocked i now d) =
      sql_update (\<lambda>r. rb_ID r = i \<and> rebuild_open r) upd (sql_update (\<lambda>r. rb_ID r = i) cnt (db_rebuilds d)) \<and>
    (\<forall>r. rb_ID (upd r) = rb_ID r \<and> rb_Generation (upd r) = rb_Generation r \<and>
      rb_State (upd r) = finished_state i (finishControllerRebuildIfReadyLocked i now d)) \<and>
    (\<forall>r. rb_ID (cnt r) = rb_ID r \<and> rb_Generation (cnt r) = rb_Generation r \<and> rb_State (cnt r) = rb_State r)"
proof -
  define d1 where "d1 = d\<lparr>db_rebuild_nodes := sql_update (\<lambda>x. rn_RebuildID x = i \<and>
            rn_State x \<noteq> ''deferred'' \<and> rn_State x \<noteq> ''reconciled'' \<and> rn_LastHeartbeatAt x \<noteq> None \<and>
            node_offline (rn_NodeID x) d)
            (\<lambda>x. x\<lparr>rn_State := ''deferred'', rn_UpdatedAt := now\<rparr>) (db_rebuild_nodes d)\<rparr>"
  obtain tot rec ready where p: "rebuild_progress i d1 = (tot, rec, ready)" by (cases "rebuild_progress i d1")
  define cnt :: "rebuild_row \<Rightarrow> rebuild_row"
    where "cnt = (\<lambda>r. r\<lparr>rb_TotalNodes := int tot, rb_ReconciledNodes := int rec, rb_UpdatedAt := now\<rparr>)"
  define d2 where "d2 = d1\<lparr>db_rebuilds := sql_update (\<lambda>r. rb_ID r = i) cnt (db_rebuilds d1)\<rparr>"
  define upd :: "rebuild_row \<Rightarrow> rebuild_row"
    where "upd = (if tot = rec then (\<lambda>r. r\<lparr>rb_State := ''succeeded'', rb_CompletedAt := Some now, rb_UpdatedAt := now\<rparr>)
      else (\<lambda>r. r\<lparr>rb_State := (if ready = tot then ''ready_with_deferred'' else ''reconciling''), rb_CompletedAt := None,
        rb_UpdatedAt := now\<rparr>))"
  let ?f = "finishControllerRebuildIfReadyLocked i now d"
  have items: "db_rebuild_nodes ?f = db_rebuild_nodes d1"
    by (simp add: finishControllerRebuildIfReadyLocked_def Let_def case_prod_unfold d1_def split: option.splits)
  have fs: "finished_state i ?f = finished_state i d1"
    by (simp add: finished_state_def rebuild_progress_def items)
  have "db_rebuilds ?f = sql_update (\<lambda>r. rb_ID r = i \<and> rebuild_open r) upd (db_rebuilds d2)"
  proof (cases "tot = rec")
    case False
    then show ?thesis using p by (simp add: finishControllerRebuildIfReadyLocked_def Let_def d1_def d2_def cnt_def upd_def)
  next
    case True
    show ?thesis
    proof (cases "sql_find (\<lambda>r. rb_ID r = i \<and> rebuild_open r) (db_rebuilds d2)")
      case None
      then have "\<forall>r \<in> set (db_rebuilds d2). \<not> (rb_ID r = i \<and> rebuild_open r)" by (simp add: sql_find_None)
      then show ?thesis using None True p
        by (simp add: finishControllerRebuildIfReadyLocked_def Let_def d1_def d2_def cnt_def sql_update_none)
    next
      case (Some q)
      then show ?thesis using True p
        by (simp add: finishControllerRebuildIfReadyLocked_def Let_def d1_def d2_def cnt_def upd_def)
    qed
  qed
  moreover have "rb_State (upd r) = finished_state i ?f" for r
    unfolding fs using p by (simp add: finished_state_def upd_def)
  ultimately show ?thesis
    by (intro exI [of _ cnt] exI [of _ upd]) (simp add: d2_def d1_def cnt_def upd_def)
qed

lemma finish_rebuilds:
  assumes "r \<in> set (db_rebuilds (finishControllerRebuildIfReadyLocked i now d))"
  shows "\<exists>q \<in> set (db_rebuilds d). rb_ID r = rb_ID q \<and> rb_Generation r = rb_Generation q \<and>
    rb_State r = (if rb_ID q = i \<and> rebuild_open q
      then finished_state i (finishControllerRebuildIfReadyLocked i now d) else rb_State q)"
proof -
  define x where "x = finished_state i (finishControllerRebuildIfReadyLocked i now d)"
  obtain cnt upd where eq: "db_rebuilds (finishControllerRebuildIfReadyLocked i now d) =
      sql_update (\<lambda>r. rb_ID r = i \<and> rebuild_open r) upd (sql_update (\<lambda>r. rb_ID r = i) cnt (db_rebuilds d))"
    and upd: "\<And>r. rb_ID (upd r) = rb_ID r \<and> rb_Generation (upd r) = rb_Generation r \<and> rb_State (upd r) = x"
    and cnt: "\<And>r. rb_ID (cnt r) = rb_ID r \<and> rb_Generation (cnt r) = rb_Generation r \<and> rb_State (cnt r) = rb_State r"
    using finish_rebuilds_eq [of i now d] unfolding x_def by blast
  obtain q where q: "q \<in> set (db_rebuilds d)" and r: "r = (let q' = if rb_ID q = i then cnt q else q
      in if rb_ID q' = i \<and> rebuild_open q' then upd q' else q')"
    using assms unfolding eq sql_update_def by (auto simp: Let_def)
  have "rebuild_open (cnt q) = rebuild_open q" by (simp add: rebuild_open_def cnt)
  then show ?thesis using q r unfolding x_def [symmetric] by (intro bexI [OF _ q]) (simp add: Let_def upd cnt)
qed

lemma finish_items:
  assumes "x \<in> set (db_rebuild_nodes (finishControllerRebuildIfReadyLocked i now d))" and "rn_RebuildID x \<noteq> i"
  shows "x \<in> set (db_rebuild_nodes d)"
proof -
  have "db_rebuild_nodes (finishControllerRebuildIfReadyLocked i now d) = sql_update (\<lambda>x. rn_RebuildID x = i \<and>
            rn_State x \<noteq> ''deferred'' \<and> rn_State x \<noteq> ''reconciled'' \<and> rn_LastHeartbeatAt x \<noteq> None \<and>
            node_offline (rn_NodeID x) d)
            (\<lambda>x. x\<lparr>rn_State := ''deferred'', rn_UpdatedAt := now\<rparr>) (db_rebuild_nodes d)"
    by (simp add: finishControllerRebuildIfReadyLocked_def Let_def case_prod_unfold split: option.splits)
  then show ?thesis using assms by (auto simp only: in_sql_update) auto
qed

lemma finish_ids: "map rb_ID (db_rebuilds (finishControllerRebuildIfReadyLocked i now d)) = map rb_ID (db_rebuilds d)"
proof -
  obtain cnt upd where eq: "db_rebuilds (finishControllerRebuildIfReadyLocked i now d) =
      sql_update (\<lambda>r. rb_ID r = i \<and> rebuild_open r) upd (sql_update (\<lambda>r. rb_ID r = i) cnt (db_rebuilds d))"
    and upd: "\<forall>r. rb_ID (upd r) = rb_ID r \<and> rb_Generation (upd r) = rb_Generation r \<and>
      rb_State (upd r) = finished_state i (finishControllerRebuildIfReadyLocked i now d)"
    and cnt: "\<forall>r. rb_ID (cnt r) = rb_ID r \<and> rb_Generation (cnt r) = rb_Generation r \<and> rb_State (cnt r) = rb_State r"
    using finish_rebuilds_eq [of i now d] by blast
  show ?thesis unfolding eq by (simp add: map_sql_update upd cnt)
qed

lemma finished_row_ok: "rb_ID r = i \<Longrightarrow> rb_State r = finished_state i d \<Longrightarrow> rebuild_row_ok (db_rebuild_nodes d) r"
proof -
  assume r: "rb_ID r = i" "rb_State r = finished_state i d"
  obtain tot rec ready where p: "rebuild_progress i d = (tot, rec, ready)" by (cases "rebuild_progress i d")
  show ?thesis
    unfolding rebuild_row_ok_def r(1) rebuild_progress_all [OF p, symmetric]
    using r(2) p by (simp add: finished_state_def)
qed

text \<open>Closing the books on a rebuild that is open makes them right, whatever its items are.\<close>

lemma finish_sound:
  assumes "keyed rb_ID (db_rebuilds d)" and "\<And>r. r \<in> set (db_rebuilds d) \<Longrightarrow> rb_ID r = i \<Longrightarrow> rebuild_open r"
    and "\<And>r. r \<in> set (db_rebuilds d) \<Longrightarrow> rb_ID r \<noteq> i \<Longrightarrow> rebuild_row_ok (db_rebuild_nodes d) r"
  shows "rebuilds_sound (finishControllerRebuildIfReadyLocked i now d)"
proof -
  let ?f = "finishControllerRebuildIfReadyLocked i now d"
  have "rebuild_row_ok (db_rebuild_nodes ?f) r" if r: "r \<in> set (db_rebuilds ?f)" for r
  proof -
    obtain q where q: "q \<in> set (db_rebuilds d)" "rb_ID r = rb_ID q"
      "rb_State r = (if rb_ID q = i \<and> rebuild_open q then finished_state i ?f else rb_State q)"
      using finish_rebuilds [OF r] by blast
    show ?thesis
    proof (cases "rb_ID q = i")
      case True
      then show ?thesis using q assms(2) by (intro finished_row_ok) auto
    next
      case False
      have "rebuild_row_ok (db_rebuild_nodes d) q" using assms(3) q(1) False by blast
      then show ?thesis using q False finish_items unfolding rebuild_row_ok_def by (smt (verit))
    qed
  qed
  moreover have "keyed rb_ID (db_rebuilds ?f)" using assms(1) by (simp add: keyed_def finish_ids)
  ultimately show ?thesis by (simp add: rebuilds_sound_def)
qed

lemma update_rebuild_item_cases:
  assumes "update_rebuild_item n g f d = Some (i, d')" and "\<And>x. rn_RebuildID (f x) = rn_RebuildID x"
  obtains r where "r \<in> set (db_rebuilds d)" "rb_ID r = i" "rebuild_open r" "db_rebuilds d' = db_rebuilds d"
    "\<And>x. x \<in> set (db_rebuild_nodes d') \<Longrightarrow> x \<in> set (db_rebuild_nodes d) \<or> rn_RebuildID x = i \<and> (\<exists>y \<in> set (db_rebuild_nodes d). x = f y)"
proof -
  obtain r where r: "open_rebuild g d = Some r" "i = rb_ID r"
    "d' = d\<lparr>db_rebuild_nodes := sql_update (\<lambda>i. rn_RebuildID i = rb_ID r \<and> rn_NodeID i = n) f (db_rebuild_nodes d)\<rparr>"
    using assms(1) by (auto simp: update_rebuild_item_def Let_def split: option.splits if_splits)
  have "r \<in> set (db_rebuilds d) \<and> rebuild_open r" using r(1) by (auto simp: open_rebuild_def dest: sql_find_Some)
  moreover have "x \<in> set (db_rebuild_nodes d) \<or> rn_RebuildID x = i \<and> (\<exists>y \<in> set (db_rebuild_nodes d). x = f y)"
    if "x \<in> set (db_rebuild_nodes d')" for x
    using that assms(2) by (auto simp: r(2,3) in_sql_update)
  ultimately show ?thesis using that [of r] r by simp
qed

lemma update_rebuild_item_same:
  "update_rebuild_item n g f d = Some (i, d') \<Longrightarrow> db_credentials d' = db_credentials d \<and> db_rotations d' = db_rotations d \<and>
    db_nodes d' = db_nodes d \<and> db_commands d' = db_commands d \<and> db_epochs d' = db_epochs d"
  by (auto simp: update_rebuild_item_def Let_def split: option.splits if_splits)

lemma update_finish_sound:
  assumes "rebuilds_sound d" and "update_rebuild_item n g f d = Some (i, d')" and "\<And>x. rn_RebuildID (f x) = rn_RebuildID x"
  shows "rebuilds_sound (finishControllerRebuildIfReadyLocked i now d')"
  using assms(2,3)
proof (cases rule: update_rebuild_item_cases)
  case (1 r)
  have keyed: "keyed rb_ID (db_rebuilds d)" using assms(1) by (simp add: rebuilds_sound_def)
  show ?thesis
  proof (rule finish_sound)
    show "keyed rb_ID (db_rebuilds d')" using keyed 1(4) by simp
    show "rebuild_open q" if "q \<in> set (db_rebuilds d')" "rb_ID q = i" for q
      using keyed_unique [OF keyed _ 1(1)] that 1 by metis
    show "rebuild_row_ok (db_rebuild_nodes d') q" if q: "q \<in> set (db_rebuilds d')" "rb_ID q \<noteq> i" for q
    proof -
      have "rebuild_row_ok (db_rebuild_nodes d) q" using assms(1) q(1) 1(4) by (simp add: rebuilds_sound_def)
      then show ?thesis using 1(5) q(2) unfolding rebuild_row_ok_def by (smt (verit))
    qed
  qed
qed

lemma heartbeat_sound:
  "rebuilds_sound d \<Longrightarrow> rebuilds_sound (markControllerRebuildHeartbeatLocked n active auth m m' now d)"
  unfolding markControllerRebuildHeartbeatLocked_def
  by (auto split: option.splits intro!: update_finish_sound simp: heartbeat_item_def Let_def)

lemma activated_sound:
  "rebuilds_sound d \<Longrightarrow> rebuilds_sound (markControllerRebuildCredentialActivatedLocked n g v now d)"
  unfolding markControllerRebuildCredentialActivatedLocked_def
  by (auto split: option.splits intro!: update_finish_sound)

lemma rotation_pending_sound:
  assumes "rebuilds_sound d"
  shows "rebuilds_sound (markControllerRebuildRotationPendingLocked n g v now d)"
proof -
  define f where "f = (\<lambda>i :: rebuild_node_row. i\<lparr>rn_State := (if rn_State i \<in> {''reconciled'', ''draining'', ''credential_activated'', ''deferred''}
                  then rn_State i else ''rotation_pending''),
                rn_CredentialVersion := Some v, rn_UpdatedAt := now\<rparr>)"
  have f: "rn_RebuildID (f x) = rn_RebuildID x" for x by (simp add: f_def)
  have kept: "rn_State x = ''reconciled'' \<or> rn_State x = ''deferred'' \<Longrightarrow> rn_State (f x) = rn_State x" for x
    by (auto simp: f_def)
  have "rebuilds_sound d'" if u: "update_rebuild_item n g f d = Some (i, d')" for i d'
    using u f
  proof (cases rule: update_rebuild_item_cases)
    case (1 r)
    have keyed: "keyed rb_ID (db_rebuilds d)" using assms by (simp add: rebuilds_sound_def)
    have "rebuild_row_ok (db_rebuild_nodes d') q" if q: "q \<in> set (db_rebuilds d)" for q
    proof -
      have ok: "rebuild_row_ok (db_rebuild_nodes d) q" using assms q by (simp add: rebuilds_sound_def)
      have open_q: "rb_State q \<noteq> ''succeeded''" if "rb_ID q = i"
        using keyed_unique [OF keyed q 1(1)] that 1(2,3) by (auto simp: rebuild_open_def)
      show ?thesis unfolding rebuild_row_ok_def
      proof (intro conjI impI ballI)
        fix x assume "rb_State q = ''succeeded''" "x \<in> set (db_rebuild_nodes d')" "rn_RebuildID x = rb_ID q"
        then show "rn_State x = ''reconciled''" using ok 1(5) open_q unfolding rebuild_row_ok_def by metis
      next
        fix x assume x: "rb_State q = ''ready_with_deferred''" "x \<in> set (db_rebuild_nodes d')" "rn_RebuildID x = rb_ID q"
        then show "rn_State x = ''reconciled'' \<or> rn_State x = ''deferred''"
          using ok 1(5) kept f unfolding rebuild_row_ok_def by metis
      qed
    qed
    then show ?thesis using keyed 1(4) by (simp add: rebuilds_sound_def)
  qed
  then show ?thesis
    using assms unfolding markControllerRebuildRotationPendingLocked_def f_def by (auto split: option.splits)
qed

lemma start_rebuild_sound:
  assumes "rebuilds_sound d" and "\<forall>r \<in> set (db_rebuilds d). rb_ID r \<noteq> rid"
  shows "rebuilds_sound (start_rebuild rid oid src g c now d)"
proof -
  let ?s = "start_rebuild rid oid src g c now d"
  have items: "x \<in> set (db_rebuild_nodes ?s) \<Longrightarrow> x \<in> set (db_rebuild_nodes d) \<or> rn_RebuildID x = rid" for x
    by (auto simp: start_rebuild_def Let_def case_prod_unfold List.map_filter_def rebuild_item_def split: option.splits if_splits)
  have keyed: "keyed rb_ID (db_rebuilds ?s)"
    using assms by (auto simp: start_rebuild_def Let_def case_prod_unfold keyed_update keyed_append rebuilds_sound_def)
  have rows: "r \<in> set (db_rebuilds d) \<or> rb_ID r = rid \<and> rb_State r = finished_state rid ?s" if "r \<in> set (db_rebuilds ?s)" for r
    using that assms(2)
    by (auto simp: start_rebuild_def Let_def case_prod_unfold in_sql_update finished_state_def rebuild_progress_def)
  have "rebuild_row_ok (db_rebuild_nodes ?s) r" if "r \<in> set (db_rebuilds ?s)" for r
  proof (cases "rb_ID r = rid \<and> rb_State r = finished_state rid ?s")
    case True
    then show ?thesis by (intro finished_row_ok) auto
  next
    case False
    then have r: "r \<in> set (db_rebuilds d)" "rb_ID r \<noteq> rid" using rows [OF that] assms(2) by auto
    then have "rebuild_row_ok (db_rebuild_nodes d) r" using assms(1) by (simp add: rebuilds_sound_def)
    then show ?thesis using items r(2) unfolding rebuild_row_ok_def by metis
  qed
  then show ?thesis using keyed by (simp add: rebuilds_sound_def)
qed

section \<open>Credentials\<close>

definition credentials_sound :: "db \<Rightarrow> bool" where
  "credentials_sound d \<longleftrightarrow> unique_where (\<lambda>c. ac_RevokedAt c = None) ac_NodeID (db_credentials d) \<and>
     unique_where (\<lambda>r. rr_State r = ''pending'') rr_NodeID (db_rotations d)"

definition recovery_inv :: "db \<Rightarrow> bool" where
  "recovery_inv d \<longleftrightarrow> rebuilds_sound d \<and> credentials_sound d"

lemma mark_same [simp]:
  "db_credentials (markControllerRebuildHeartbeatLocked n a b m m' now d) = db_credentials d"
  "db_rotations (markControllerRebuildHeartbeatLocked n a b m m' now d) = db_rotations d"
  "db_credentials (markControllerRebuildRotationPendingLocked n g v now d) = db_credentials d"
  "db_rotations (markControllerRebuildRotationPendingLocked n g v now d) = db_rotations d"
  "db_credentials (markControllerRebuildCredentialActivatedLocked n g v now d) = db_credentials d"
  "db_rotations (markControllerRebuildCredentialActivatedLocked n g v now d) = db_rotations d"
  "db_nodes (markControllerRebuildCredentialActivatedLocked n g v now d) = db_nodes d"
  "db_commands (markControllerRebuildCredentialActivatedLocked n g v now d) = db_commands d"
  "db_epochs (markControllerRebuildCredentialActivatedLocked n g v now d) = db_epochs d"
  unfolding markControllerRebuildHeartbeatLocked_def markControllerRebuildRotationPendingLocked_def
    markControllerRebuildCredentialActivatedLocked_def
  by (auto split: option.splits dest: update_rebuild_item_same)

lemma credentials_sound_cong:
  "db_credentials d = db_credentials e \<Longrightarrow> db_rotations d = db_rotations e \<Longrightarrow> credentials_sound d = credentials_sound e"
  by (simp add: credentials_sound_def)

lemma rebuilds_sound_cong:
  "db_rebuilds d = db_rebuilds e \<Longrightarrow> db_rebuild_nodes d = db_rebuild_nodes e \<Longrightarrow> rebuilds_sound d = rebuilds_sound e"
  by (simp add: rebuilds_sound_def)

lemma promote_recovery:
  assumes "promote_tx oid rid src now d = Inr (d', g)" and "recovery_inv d"
  shows "recovery_inv d'"
  using assms(1)
proof (cases rule: promote_cases)
  case (1 e d1)
  let ?o = "revoke_old (ep_Generation e) now d1"
  have rows: "\<exists>q \<in> set (db_rebuilds d). rb_ID r = rb_ID q \<and> (r = q \<or> rb_State r = ''failed'')"
    if "r \<in> set (db_rebuilds ?o)" for r
    using that by (auto simp: revoke_old_def 1(6) in_sql_update)
  have items: "db_rebuild_nodes ?o = db_rebuild_nodes d" by (simp add: revoke_old_def 1(6))
  have "rebuild_row_ok (db_rebuild_nodes ?o) r" if r: "r \<in> set (db_rebuilds ?o)" for r
  proof -
    obtain q where q: "q \<in> set (db_rebuilds d)" "r = q \<or> rb_State r = ''failed''" using rows [OF r] by blast
    have "rebuild_row_ok (db_rebuild_nodes d) q" using q(1) assms(2) by (simp add: recovery_inv_def rebuilds_sound_def)
    then show ?thesis using q(2) unfolding items by (cases "r = q") (simp_all add: rebuild_row_ok_def)
  qed
  moreover have "keyed rb_ID (db_rebuilds ?o)"
    using assms(2) by (simp add: revoke_old_def 1(6) keyed_update recovery_inv_def rebuilds_sound_def)
  ultimately have old: "rebuilds_sound ?o" "\<forall>r \<in> set (db_rebuilds ?o). rb_ID r \<noteq> rid"
    using rows 1(5) unfolding rebuilds_sound_def by (blast, metis)
  obtain au where d': "d' = (start_rebuild rid oid src g (ep_Generation e) now ?o)\<lparr>db_audit := au\<rparr>" using 1(7) by blast
  have "rebuilds_sound d'" using start_rebuild_sound [OF old] by (simp add: d' rebuilds_sound_def)
  moreover have "credentials_sound d'"
    using assms(2) unfolding recovery_inv_def credentials_sound_def d'
    by (auto simp: revoke_old_def 1(6) intro!: unique_where_update)
  ultimately show ?thesis by (simp add: recovery_inv_def)
qed

lemma pending_expired:
  "unique_where (\<lambda>r. rr_State r = ''pending'') rr_NodeID t \<Longrightarrow>
   unique_where (\<lambda>r. rr_State r = ''pending'') rr_NodeID (sql_update P (\<lambda>r. r\<lparr>rr_State := ''expired''\<rparr>) t)"
  by (auto intro!: unique_where_update)

lemma ensure_recovery:
  assumes "ensure_rotation_tx p d = Inr (d', x)" and "recovery_inv d"
  shows "recovery_inv d'"
proof -
  define t where "t = sql_update (\<lambda>r. rr_NodeID r = rp_NodeID p \<and> rr_State r = ''pending'' \<and> rr_ExpiresAt r \<le> rp_Now p)
    (\<lambda>r. r\<lparr>rr_State := ''expired''\<rparr>) (db_rotations d)"
  have t: "unique_where (\<lambda>r. rr_State r = ''pending'') rr_NodeID t"
    using assms(2) pending_expired by (auto simp: t_def recovery_inv_def credentials_sound_def)
  have sound: "rebuilds_sound (d\<lparr>db_rotations := rs\<rparr>)" for rs
    using assms(2) by (simp add: recovery_inv_def rebuilds_sound_def)
  have "db_credentials d' = db_credentials d \<and> rebuilds_sound d' \<and> (db_rotations d' = t \<or>
      (\<exists>r. db_rotations d' = t @ [r] \<and> rr_NodeID r = rp_NodeID p \<and>
        sql_find (\<lambda>r. rr_NodeID r = rp_NodeID p \<and> rr_State r = ''pending'') t = None))"
    using assms(1) rotation_pending_sound [OF sound] sound unfolding ensure_rotation_tx_def t_def [symmetric]
    by (auto simp: Let_def split: option.splits if_splits)
  then show ?thesis
    using assms(2) t by (auto simp: recovery_inv_def credentials_sound_def sql_find_None intro!: unique_where_insert)
qed

text \<open>What the first confirmation of a pending rotation does.\<close>

lemma activate_pending:
  assumes "activate_tx n v now d = Inr (d', g)"
    and "sql_find (\<lambda>r. rr_NodeID r = n \<and> rr_Version r = v) (db_rotations d) = Some r" and "rr_State r = ''pending''"
  shows "rr_ControllerGeneration r = g" "active_generation d = Some g"
    "db_credentials d' = sql_update (\<lambda>c. ac_NodeID c = n \<and> ac_RevokedAt c = None)
        (\<lambda>c. c\<lparr>ac_RevokedAt := coalesce (ac_RevokedAt c) now\<rparr>) (db_credentials d) @
        [\<lparr>ac_ID = rr_ID r, ac_NodeID = n, ac_Version = v, ac_Ciphertext = rr_Ciphertext r, ac_ControllerGeneration = g,
          ac_ExpiresAt = None, ac_RevokedAt = None, ac_CreatedAt = now\<rparr>]"
    "db_rotations d' = sql_update (\<lambda>x. rr_ID x = rr_ID r) (\<lambda>x. x\<lparr>rr_State := ''activated'', rr_ConfirmedAt := Some now\<rparr>)
        (db_rotations d)"
    "db_nodes d' = sql_update (\<lambda>n'. nd_ID n' = n) (\<lambda>n. n\<lparr>nd_ControllerGeneration := g\<rparr>) (db_nodes d)"
    "db_commands d' = sql_update (\<lambda>c. cr_NodeID c = n \<and> cr_State c \<in> set live_command_states)
        (\<lambda>c. c\<lparr>cr_State := ''expired'', cr_UpdatedAt := now\<rparr>) (db_commands d)"
    "rebuilds_sound d \<Longrightarrow> rebuilds_sound d'"
proof -
  have cs: "active_generation d = Some g \<and> rr_ControllerGeneration r = g \<and> d' = markControllerRebuildCredentialActivatedLocked n g v now
      (d\<lparr>db_credentials := sql_update (\<lambda>c. ac_NodeID c = n \<and> ac_RevokedAt c = None)
        (\<lambda>c. c\<lparr>ac_RevokedAt := coalesce (ac_RevokedAt c) now\<rparr>) (db_credentials d) @
        [\<lparr>ac_ID = rr_ID r, ac_NodeID = n, ac_Version = v, ac_Ciphertext = rr_Ciphertext r, ac_ControllerGeneration = g,
          ac_ExpiresAt = None, ac_RevokedAt = None, ac_CreatedAt = now\<rparr>],
       db_rotations := sql_update (\<lambda>x. rr_ID x = rr_ID r) (\<lambda>x. x\<lparr>rr_State := ''activated'', rr_ConfirmedAt := Some now\<rparr>)
        (db_rotations d),
       db_nodes := sql_update (\<lambda>n'. nd_ID n' = n) (\<lambda>n. n\<lparr>nd_ControllerGeneration := g\<rparr>) (db_nodes d),
       db_commands := sql_update (\<lambda>c. cr_NodeID c = n \<and> cr_State c \<in> set live_command_states)
        (\<lambda>c. c\<lparr>cr_State := ''expired'', cr_UpdatedAt := now\<rparr>) (db_commands d)\<rparr>)"
    using assms by (auto simp: activate_tx_def Let_def split: option.splits if_splits)
  then show "rr_ControllerGeneration r = g" "active_generation d = Some g"
    "db_credentials d' = sql_update (\<lambda>c. ac_NodeID c = n \<and> ac_RevokedAt c = None)
        (\<lambda>c. c\<lparr>ac_RevokedAt := coalesce (ac_RevokedAt c) now\<rparr>) (db_credentials d) @
        [\<lparr>ac_ID = rr_ID r, ac_NodeID = n, ac_Version = v, ac_Ciphertext = rr_Ciphertext r, ac_ControllerGeneration = g,
          ac_ExpiresAt = None, ac_RevokedAt = None, ac_CreatedAt = now\<rparr>]"
    "db_rotations d' = sql_update (\<lambda>x. rr_ID x = rr_ID r) (\<lambda>x. x\<lparr>rr_State := ''activated'', rr_ConfirmedAt := Some now\<rparr>)
        (db_rotations d)"
    "db_nodes d' = sql_update (\<lambda>n'. nd_ID n' = n) (\<lambda>n. n\<lparr>nd_ControllerGeneration := g\<rparr>) (db_nodes d)"
    "db_commands d' = sql_update (\<lambda>c. cr_NodeID c = n \<and> cr_State c \<in> set live_command_states)
        (\<lambda>c. c\<lparr>cr_State := ''expired'', cr_UpdatedAt := now\<rparr>) (db_commands d)"
    by simp_all
  show "rebuilds_sound d'" if "rebuilds_sound d"
    unfolding cs [THEN conjunct2, THEN conjunct2] by (rule activated_sound) (use that in \<open>simp add: rebuilds_sound_def\<close>)
qed

definition revoke_credentials :: "int \<Rightarrow> gotime \<Rightarrow> credential_row list \<Rightarrow> credential_row list" where
  "revoke_credentials n now t = sql_update (\<lambda>c. ac_NodeID c = n \<and> ac_RevokedAt c = None)
     (\<lambda>c. c\<lparr>ac_RevokedAt := coalesce (ac_RevokedAt c) now\<rparr>) t"

lemma revoke_credentials_map:
  "revoke_credentials n now t = map (\<lambda>c. if ac_NodeID c = n \<and> ac_RevokedAt c = None then c\<lparr>ac_RevokedAt := Some now\<rparr> else c) t"
  unfolding revoke_credentials_def sql_update_def by (rule map_cong) (simp_all add: coalesce_def)

lemma revoked_all:
  assumes "c \<in> set (revoke_credentials n now t)" and "ac_NodeID c = n"
  shows "ac_RevokedAt c \<noteq> None"
proof -
  obtain x where "c = (if ac_NodeID x = n \<and> ac_RevokedAt x = None then x\<lparr>ac_RevokedAt := Some now\<rparr> else x)"
    using assms(1) unfolding revoke_credentials_map set_map by (rule imageE)
  then show ?thesis using assms(2) by (cases "ac_NodeID x = n \<and> ac_RevokedAt x = None") simp_all
qed

lemma activated_credentials:
  assumes "unique_where (\<lambda>c. ac_RevokedAt c = None) ac_NodeID t" and "ac_NodeID c = n"
  shows "unique_where (\<lambda>c. ac_RevokedAt c = None) ac_NodeID (revoke_credentials n now t @ [c])"
proof (rule unique_where_insert)
  show "unique_where (\<lambda>c. ac_RevokedAt c = None) ac_NodeID (revoke_credentials n now t)"
    unfolding revoke_credentials_map by (rule unique_where_kept [OF assms(1)]) (simp split: if_splits)
  show "\<forall>q \<in> set (revoke_credentials n now t). ac_RevokedAt q = None \<longrightarrow> ac_NodeID q \<noteq> ac_NodeID c"
    using revoked_all assms(2) by blast
qed

lemma activated_rotations:
  "unique_where (\<lambda>r. rr_State r = ''pending'') rr_NodeID t \<Longrightarrow> unique_where (\<lambda>r. rr_State r = ''pending'') rr_NodeID
    (sql_update P (\<lambda>x. x\<lparr>rr_State := ''activated'', rr_ConfirmedAt := Some now\<rparr>) t)"
  by (erule unique_where_update) simp

lemma activate_recovery:
  assumes "activate_tx n v now d = Inr (d', g)" and "recovery_inv d"
  shows "recovery_inv d'"
proof -
  have "sql_find (\<lambda>r. rr_NodeID r = n \<and> rr_Version r = v) (db_rotations d) \<noteq> None"
  proof
    assume "sql_find (\<lambda>r. rr_NodeID r = n \<and> rr_Version r = v) (db_rotations d) = None"
    then show False using assms(1) by (cases "active_generation d") (simp_all add: activate_tx_def)
  qed
  then obtain r where r: "sql_find (\<lambda>r. rr_NodeID r = n \<and> rr_Version r = v) (db_rotations d) = Some r" by blast
  show ?thesis
  proof (cases "rr_State r = ''pending''")
    case True
    note a = activate_pending [OF assms(1) r True]
    have sound: "credentials_sound d" "rebuilds_sound d" using assms(2) by (simp_all add: recovery_inv_def)
    have "credentials_sound d'"
      unfolding credentials_sound_def a(3,4) revoke_credentials_def [symmetric] using sound(1) unfolding credentials_sound_def
      by (intro conjI activated_credentials activated_rotations) simp_all
    then show ?thesis using a(7) sound by (simp add: recovery_inv_def)
  next
    case False
    then have "d' = markControllerRebuildCredentialActivatedLocked n g v now d"
      using assms(1) r by (cases "active_generation d") (auto simp: activate_tx_def split: if_splits)
    then show ?thesis
      using assms(2) activated_sound by (simp add: recovery_inv_def credentials_sound_def)
  qed
qed

datatype recovery_event =
  Promote gotime tx_fault string string string gotime
| NodeHeartbeat int int int string string gotime
| OfferCredential tx_fault rotation_params
| ConfirmCredential tx_fault int int gotime

primrec recovery_step :: "recovery_event \<Rightarrow> db \<Rightarrow> db" where
  "recovery_step (Promote clock flt oid rid src now) d = fst (PromoteControllerEpoch clock flt oid rid src now d)"
| "recovery_step (NodeHeartbeat n active auth m m' now) d = markControllerRebuildHeartbeatLocked n active auth m m' now d"
| "recovery_step (OfferCredential flt p) d = fst (EnsureAgentCredentialRotation flt p d)"
| "recovery_step (ConfirmCredential flt n v now) d = fst (ActivateAgentCredentialRotation flt n v now d)"

lemma run_tx_recovery:
  assumes "recovery_inv d" and "\<And>d' x. t d = Inr (d', x) \<Longrightarrow> recovery_inv d'"
  shows "recovery_inv (fst (run_tx flt t d))"
  using run_tx_inv [of flt t d _ _ recovery_inv, OF surjective_pairing assms(1)] assms(2) by blast

lemma recovery_step_inv: "recovery_inv d \<Longrightarrow> recovery_inv (recovery_step e d)"
proof (cases e)
  case (NodeHeartbeat n active auth m m' now)
  then show "recovery_inv d \<Longrightarrow> ?thesis"
    using heartbeat_sound by (simp add: recovery_inv_def credentials_sound_def)
qed (auto simp: PromoteControllerEpoch_def EnsureAgentCredentialRotation_def ActivateAgentCredentialRotation_def
  intro: run_tx_recovery promote_recovery ensure_recovery activate_recovery)

interpretation recovery: transitions recovery_step recovery_inv
  by unfold_locales (rule recovery_step_inv)

text \<open>
  C30. A rebuild never claims more than it has. From tables that satisfy their constraints, after
  any promotions, heartbeats, credential offers and confirmations, a rebuild that is recorded as
  succeeded has every one of its nodes reconciled, one that is recorded as ready with deferred
  nodes has every node reconciled or deferred, and each node has at most one credential that is
  not revoked.
\<close>

theorem rebuild_claims_hold:
  assumes "recovery_inv d" and "d' = recovery.run evs d" and "r \<in> set (db_rebuilds d')"
  shows "(rb_State r = ''succeeded'' \<longrightarrow> (\<forall>i \<in> set (db_rebuild_nodes d'). rn_RebuildID i = rb_ID r \<longrightarrow> rn_State i = ''reconciled'')) \<and>
    (rb_State r = ''ready_with_deferred'' \<longrightarrow> (\<forall>i \<in> set (db_rebuild_nodes d'). rn_RebuildID i = rb_ID r \<longrightarrow>
       rn_State i = ''reconciled'' \<or> rn_State i = ''deferred'')) \<and>
    (\<forall>c \<in> set (db_credentials d'). \<forall>c' \<in> set (db_credentials d').
       ac_NodeID c = ac_NodeID c' \<and> ac_RevokedAt c = None \<and> ac_RevokedAt c' = None \<longrightarrow> c = c')"
proof -
  have inv: "recovery_inv d'" unfolding assms(2) by (rule recovery.run_inv [OF assms(1)])
  then have "rebuild_row_ok (db_rebuild_nodes d') r" using assms(3) by (simp add: recovery_inv_def rebuilds_sound_def)
  moreover have "unique_where (\<lambda>c. ac_RevokedAt c = None) ac_NodeID (db_credentials d')"
    using inv by (simp add: recovery_inv_def credentials_sound_def)
  ultimately show ?thesis unfolding rebuild_row_ok_def by (blast dest: unique_where_unique)
qed

definition credential_db :: db where
  "credential_db = sample_db\<lparr>db_credentials := [\<lparr>ac_ID = ''c1'', ac_NodeID = 1, ac_Version = 1, ac_Ciphertext = ''old'',
     ac_ControllerGeneration = 1, ac_ExpiresAt = None, ac_RevokedAt = None, ac_CreatedAt = 1\<rparr>]\<rparr>"

definition recovery_events :: "recovery_event list" where
  "recovery_events = [Promote 9 TxOk ''o'' ''r'' ''failover'' 10,
     OfferCredential TxOk \<lparr>rp_ID = ''c2'', rp_OperationID = ''p'', rp_NodeID = 1, rp_ProposedCiphertext = ''new'',
       rp_ControllerGeneration = 2, rp_Now = 20, rp_ExpiresAt = 1000\<rparr>]"

definition recovery_rest :: "recovery_event list" where
  "recovery_rest = [ConfirmCredential TxOk 1 2 30, NodeHeartbeat 1 2 2 NodeModeManaged NodeModeManaged 40]"

lemma credential_db_inv: "recovery_inv credential_db"
  unfolding recovery_inv_def rebuilds_sound_def credentials_sound_def unique_where_def keyed_def by code_simp

theorem rebuild_claims_hold_witness:
  "let d' = recovery.run (recovery_events @ recovery_rest) credential_db
   in map rb_State (db_rebuilds d') = [''succeeded''] \<and> map rn_RebuildID (db_rebuild_nodes d') = [''r''] \<and>
      list_all (\<lambda>i. rn_State i = ''reconciled'') (db_rebuild_nodes d')"
proof -
  define d' where "d' = recovery.run (recovery_events @ recovery_rest) credential_db"
  have d: "d' = recovery.run (recovery_events @ recovery_rest) credential_db" by (rule d'_def)
  have run: "d' = fold recovery_step (recovery_events @ recovery_rest) credential_db"
    by (simp add: d'_def recovery.run_def)
  have states: "map rb_State (db_rebuilds d') = [''succeeded'']" and rids: "map rb_ID (db_rebuilds d') = [''r'']"
    and items: "map rn_RebuildID (db_rebuild_nodes d') = [''r'']" unfolding run by code_simp+
  obtain r where r: "db_rebuilds d' = [r]" "rb_ID r = ''r''" "rb_State r = ''succeeded''"
    using states rids by (cases "db_rebuilds d'") auto
  have all_r: "\<forall>i \<in> set (db_rebuild_nodes d'). rn_RebuildID i = ''r''"
    using items by (cases "db_rebuild_nodes d'") auto
  have mem: "r \<in> set (db_rebuilds d')" by (simp add: r(1))
  have "\<forall>i \<in> set (db_rebuild_nodes d'). rn_State i = ''reconciled''"
    using rebuild_claims_hold [OF credential_db_inv d mem, THEN conjunct1] r(2,3) all_r by simp
  then show ?thesis using states items unfolding Let_def d'_def [symmetric] list_all_iff by blast
qed

lemma other_credentials:
  "m \<noteq> n \<Longrightarrow> filter (\<lambda>c. ac_NodeID c = m) (revoke_credentials n now t) = filter (\<lambda>c. ac_NodeID c = m) t"
  unfolding revoke_credentials_map by (induction t) simp_all

lemma sql_updateE:
  assumes "r \<in> set (sql_update P f t)"
  obtains q where "P q" "r = f q" | "\<not> P r"
  using assms unfolding in_sql_update by (elim disjE conjE bexE) blast+

lemma activated_nodes:
  assumes "x \<in> set (sql_update (\<lambda>x. nd_ID x = n) (\<lambda>x. x\<lparr>nd_ControllerGeneration := g\<rparr>) t)" and "nd_ID x = n"
  shows "nd_ControllerGeneration x = g"
  using assms(1) by (cases rule: sql_updateE) (use assms(2) in simp_all)

lemma activated_commands:
  assumes "c \<in> set (sql_update (\<lambda>c. cr_NodeID c = n \<and> cr_State c \<in> set live_command_states)
     (\<lambda>c. c\<lparr>cr_State := ''expired'', cr_UpdatedAt := now\<rparr>) t)" and "cr_NodeID c = n"
  shows "cr_State c \<notin> {''queued'', ''leased'', ''acked'', ''running''}"
  using assms(1) by (cases rule: sql_updateE) (use assms(2) in \<open>simp_all add: live_command_states_def\<close>)

lemma no_pending:
  assumes "recovery_inv d" and "sql_find (\<lambda>r. rr_NodeID r = n \<and> rr_Version r = v) (db_rotations d) = Some r"
    and "rr_State r = ''pending''"
    and "x \<in> set (sql_update (\<lambda>x. rr_ID x = rr_ID r) (\<lambda>x. x\<lparr>rr_State := ''activated'', rr_ConfirmedAt := Some now\<rparr>) (db_rotations d))"
    and "rr_NodeID x = n"
  shows "rr_State x \<noteq> ''pending''"
proof
  assume p: "rr_State x = ''pending''"
  have r: "r \<in> set (db_rotations d)" "rr_NodeID r = n" using sql_find_Some [OF assms(2)] by simp_all
  obtain y where y: "y \<in> set (db_rotations d)"
    "x = (if rr_ID y = rr_ID r then y\<lparr>rr_State := ''activated'', rr_ConfirmedAt := Some now\<rparr> else y)"
    using assms(4) unfolding sql_update_def set_map by blast
  have x: "x = y" "rr_ID y \<noteq> rr_ID r" using y(2) p by (simp_all split: if_splits)
  have "unique_where (\<lambda>r. rr_State r = ''pending'') rr_NodeID (db_rotations d)"
    using assms(1) by (simp add: recovery_inv_def credentials_sound_def)
  then have "y = r" by (rule unique_where_unique) (use x y r p assms(3,5) in simp_all)
  then show False using x(2) by simp
qed

text \<open>
  A confirmed rotation switches the node over. After any sequence of recovery events, when
  the confirmation of a pending rotation succeeds, the confirmed secret is the only one that
  authenticates the node, at any time after; the credentials of other nodes are as they were; the
  node carries the active generation; and no command that was issued under the old credential
  is left to run.
\<close>

lemma activation_switches_credential:
  assumes "recovery_inv d0" and "d = recovery.run evs d0"
    and "ActivateAgentCredentialRotation flt n v now d = (d', Inr g)"
    and "sql_find (\<lambda>r. rr_NodeID r = n \<and> rr_Version r = v) (db_rotations d) = Some r" and "rr_State r = ''pending''"
    and "t \<noteq> time_zero"
  shows "ListAgentAuthenticationCredentials n t d' = Inr [\<lparr>aa_ID = rr_ID r, aa_Ciphertext = rr_Ciphertext r, aa_Version = v,
      aa_ControllerGeneration = g, aa_Pending = False\<rparr>] \<and>
    (\<forall>m. m \<noteq> n \<longrightarrow> filter (\<lambda>c. ac_NodeID c = m) (db_credentials d') = filter (\<lambda>c. ac_NodeID c = m) (db_credentials d)) \<and>
    active_generation d = Some g \<and> (\<forall>x \<in> set (db_nodes d'). nd_ID x = n \<longrightarrow> nd_ControllerGeneration x = g) \<and>
    (\<forall>c \<in> set (db_commands d'). cr_NodeID c = n \<longrightarrow> cr_State c \<notin> {''queued'', ''leased'', ''acked'', ''running''})"
proof -
  have inv: "recovery_inv d" unfolding assms(2) by (rule recovery.run_inv [OF assms(1)])
  have guard: "0 < n" and tx: "activate_tx n v now d = Inr (d', g)"
    using assms(3) by (auto simp: ActivateAgentCredentialRotation_def split: if_splits dest: run_tx_ok)
  note a = activate_pending [OF tx assms(4,5)]
  have creds: "db_credentials d' = revoke_credentials n now (db_credentials d) @
      [\<lparr>ac_ID = rr_ID r, ac_NodeID = n, ac_Version = v, ac_Ciphertext = rr_Ciphertext r, ac_ControllerGeneration = g,
        ac_ExpiresAt = None, ac_RevokedAt = None, ac_CreatedAt = now\<rparr>]" unfolding a(3) revoke_credentials_def ..
  have "filter (\<lambda>c. ac_NodeID c = n \<and> credential_live t c) (revoke_credentials n now (db_credentials d)) = []"
    using revoked_all by (simp add: filter_empty_conv credential_live_def)
  moreover have "filter (\<lambda>r. rr_NodeID r = n \<and> rr_State r = ''pending'' \<and> rr_ExpiresAt r > t) (db_rotations d') = []"
    using no_pending [OF inv assms(4,5)] a(4) by (simp add: filter_empty_conv) blast
  ultimately have "ListAgentAuthenticationCredentials n t d' = Inr [\<lparr>aa_ID = rr_ID r, aa_Ciphertext = rr_Ciphertext r, aa_Version = v,
      aa_ControllerGeneration = g, aa_Pending = False\<rparr>]"
    using guard assms(6) by (simp add: ListAgentAuthenticationCredentials_def creds credential_live_def)
  moreover have "filter (\<lambda>c. ac_NodeID c = m) (db_credentials d') = filter (\<lambda>c. ac_NodeID c = m) (db_credentials d)" if "m \<noteq> n" for m
    using other_credentials that by (simp add: creds)
  ultimately show ?thesis using a(2) activated_nodes activated_commands unfolding a(5,6) by blast
qed

lemma activation_switches_credential_witness:
  "let d = recovery.run recovery_events credential_db; r = ActivateAgentCredentialRotation TxOk 1 2 30 d
   in snd r = Inr 2 \<and>
      ListAgentAuthenticationCredentials 1 35 d = Inr [\<lparr>aa_ID = ''c2'', aa_Ciphertext = ''new'', aa_Version = 2,
        aa_ControllerGeneration = 2, aa_Pending = True\<rparr>, \<lparr>aa_ID = ''c1'', aa_Ciphertext = ''old'', aa_Version = 1,
        aa_ControllerGeneration = 1, aa_Pending = False\<rparr>] \<and>
      ListAgentAuthenticationCredentials 1 35 (fst r) = Inr [\<lparr>aa_ID = ''c2'', aa_Ciphertext = ''new'', aa_Version = 2,
        aa_ControllerGeneration = 2, aa_Pending = False\<rparr>]"
proof -
  define d where "d = recovery.run recovery_events credential_db"
  have run: "d = fold recovery_step recovery_events credential_db" by (simp add: d_def recovery.run_def)
  define r where "r = ActivateAgentCredentialRotation TxOk 1 2 30 d"
  have ok: "snd r = Inr 2" unfolding r_def run by code_simp
  have act: "ActivateAgentCredentialRotation TxOk 1 2 30 d = (fst r, Inr 2)"
    unfolding r_def [symmetric] using ok by (simp add: prod_eq_iff)
  have before: "ListAgentAuthenticationCredentials 1 35 d = Inr [\<lparr>aa_ID = ''c2'', aa_Ciphertext = ''new'', aa_Version = 2,
        aa_ControllerGeneration = 2, aa_Pending = True\<rparr>, \<lparr>aa_ID = ''c1'', aa_Ciphertext = ''old'', aa_Version = 1,
        aa_ControllerGeneration = 1, aa_Pending = False\<rparr>]" unfolding run by code_simp
  define x where "x = \<lparr>rr_ID = ''c2'', rr_OperationID = ''p'', rr_NodeID = 1, rr_Version = 2, rr_Ciphertext = ''new'',
    rr_ControllerGeneration = 2, rr_State = ''pending'', rr_ExpiresAt = 1000, rr_CreatedAt = 20, rr_ConfirmedAt = None\<rparr>"
  have find: "sql_find (\<lambda>r. rr_NodeID r = 1 \<and> rr_Version r = 2) (db_rotations d) = Some x" unfolding run x_def by code_simp
  have "ListAgentAuthenticationCredentials 1 35 (fst r) = Inr [\<lparr>aa_ID = rr_ID x, aa_Ciphertext = rr_Ciphertext x,
      aa_Version = 2, aa_ControllerGeneration = 2, aa_Pending = False\<rparr>]"
    by (rule activation_switches_credential [OF credential_db_inv d_def act find, THEN conjunct1]) (simp_all add: x_def)
  then show ?thesis using ok before unfolding Let_def d_def [symmetric] r_def [symmetric] by (simp add: x_def)
qed

end
