(* ===== verification/Store_Modes.thy ===== *)
theory Store_Modes
  imports Store_Epochs "HOL-Library.Char_ord" "HOL-Library.List_Lexorder" "HOL-Library.Product_Lexorder"
begin

text \<open>
  The controller's side of the control modes: what a node reported and the mode it is asked
  for (\<open>store/control_modes.go\<close>), the writes of independent users that must be reconciled
  (\<open>store/independent_reconciliations.go\<close>) and the takeovers users confirmed meanwhile
  (\<open>store/independent_takeovers.go\<close>).

  The random identifiers of the inserted reconciliations are an argument (\<open>fresh\<close>, by the
  position of the fact). Integer columns of 32 bits refuse larger values with \<open>dbError\<close>.
\<close>

section \<open>Reports\<close>

record sync_fact =
  sy_Handle :: string
  sy_Marker :: string
  sy_ChangedAt :: gotime
  sy_Reason :: string

record takeover_fact =
  tf_OperationID :: string
  tf_Handle :: string
  tf_ParentClaimID :: string
  tf_ClaimID :: string
  tf_ControllerGeneration :: int
  tf_ActivityEpoch :: int
  tf_TakeoverSequence :: int
  tf_ConfirmedAt :: gotime

record mode_fact =
  mf_Mode :: string
  mf_ModeGeneration :: int
  mf_ControllerGeneration :: int
  mf_ReasonCode :: string
  mf_HeartbeatFails :: int
  mf_HealthProbeFails :: int
  mf_PeerWitnessFails :: int
  mf_OutageStartedAt :: gotime
  mf_ConfirmedOutageStartedAt :: gotime
  mf_LastControllerSuccessAt :: gotime
  mf_IndependentSince :: gotime
  mf_ActiveIndependentSessions :: int
  mf_PendingUserSyncs :: int
  mf_PendingUsers :: "sync_fact list"
  mf_ConfirmedTakeovers :: "takeover_fact list"
  mf_ObservedAt :: gotime

record mode_decision =
  md_ControllerGeneration :: int
  md_DesiredMode :: string
  md_ModeGeneration :: int

definition validControlMode :: "string \<Rightarrow> bool" where
  "validControlMode m \<longleftrightarrow>
     m = NodeModeManaged \<or> m = NodeModeControllerUnreachable \<or> m = NodeModeIndependent \<or>
     m = NodeModeIndependentDraining"

text \<open>
  \<open>unicode.IsControl\<close> over the runes of a string: an ASCII control byte, or the two bytes of a
  rune between \<open>U+0080\<close> and \<open>U+009F\<close>. The byte \<open>0xC2\<close> only ever starts such a pair.
\<close>

fun has_control :: "string \<Rightarrow> bool" where
  "has_control [] = False"
| "has_control (c # cs) \<longleftrightarrow>
     (of_char c :: nat) < 32 \<or> (of_char c :: nat) = 127 \<or>
     ((of_char c :: nat) = 0xC2 \<and> cs \<noteq> [] \<and> 0x80 \<le> (of_char (hd cs) :: nat) \<and> (of_char (hd cs) :: nat) \<le> 0x9F) \<or>
     has_control cs"

definition validControlModeHandle :: "golib \<Rightarrow> string \<Rightarrow> bool" where
  "validControlModeHandle lib s \<longleftrightarrow>
     s \<noteq> [] \<and> length s \<le> 128 \<and> go_ToLower lib s = s \<and> go_TrimSpace lib s = s \<and> \<not> has_control s"

definition line_break :: "string \<Rightarrow> bool" where
  "line_break s \<longleftrightarrow> CHR 0x0D \<in> set s \<or> CHR 0x0A \<in> set s"

fun check_takeover_facts :: "golib \<Rightarrow> int \<Rightarrow> gotime \<Rightarrow> string list \<Rightarrow> string list \<Rightarrow> takeover_fact list \<Rightarrow> bool" where
  "check_takeover_facts lib generation observedAt operations claims [] = True"
| "check_takeover_facts lib generation observedAt operations claims (t # ts) \<longleftrightarrow>
     validUUIDText (tf_OperationID t) \<and> validControlModeHandle lib (tf_Handle t) \<and>
     validSHA256Text lib (tf_ParentClaimID t) \<and> validSHA256Text lib (tf_ClaimID t) \<and>
     tf_ParentClaimID t \<noteq> tf_ClaimID t \<and> 0 < tf_ControllerGeneration t \<and>
     tf_ControllerGeneration t \<le> generation \<and> 0 < tf_ActivityEpoch t \<and> 0 < tf_TakeoverSequence t \<and>
     tf_ConfirmedAt t \<noteq> time_zero \<and> \<not> tf_ConfirmedAt t > observedAt + minute \<and>
     tf_OperationID t \<notin> set operations \<and> tf_ClaimID t \<notin> set claims \<and>
     check_takeover_facts lib generation observedAt (tf_OperationID t # operations) (tf_ClaimID t # claims) ts"

definition validNodeControlModeFact :: "golib \<Rightarrow> mode_fact \<Rightarrow> bool" where
  "validNodeControlModeFact lib f \<longleftrightarrow>
     validControlMode (mf_Mode f) \<and> 0 < mf_ModeGeneration f \<and> 0 < mf_ControllerGeneration f \<and>
     0 \<le> mf_HeartbeatFails f \<and> 0 \<le> mf_HealthProbeFails f \<and> 0 \<le> mf_PeerWitnessFails f \<and>
     0 \<le> mf_ActiveIndependentSessions f \<and> 0 \<le> mf_PendingUserSyncs f \<and> mf_ObservedAt f \<noteq> time_zero \<and>
     length (mf_ReasonCode f) \<le> 128 \<and> \<not> line_break (mf_ReasonCode f) \<and>
     int (length (mf_PendingUsers f)) = mf_PendingUserSyncs f \<and> length (mf_PendingUsers f) \<le> 500 \<and>
     length (mf_ConfirmedTakeovers f) \<le> 1000 \<and>
     check_takeover_facts lib (mf_ControllerGeneration f) (mf_ObservedAt f) [] [] (mf_ConfirmedTakeovers f) \<and>
     list_all (\<lambda>t. t = time_zero \<or> \<not> t > mf_ObservedAt f + minute)
       [mf_OutageStartedAt f, mf_ConfirmedOutageStartedAt f, mf_LastControllerSuccessAt f, mf_IndependentSince f] \<and>
     (mf_Mode f = NodeModeIndependent \<longrightarrow>
        mf_IndependentSince f \<noteq> time_zero \<and> mf_ConfirmedOutageStartedAt f \<noteq> time_zero \<and> 0 < mf_PeerWitnessFails f)"

section \<open>Writes of independent users\<close>

definition closed_state :: "string \<Rightarrow> bool" where
  "closed_state s \<longleftrightarrow> s = ''succeeded'' \<or> s = ''superseded'' \<or> s = ''failed''"

definition workflow_done :: "string \<Rightarrow> bool" where
  "workflow_done s \<longleftrightarrow> s = ''succeeded'' \<or> s = ''cancelled'' \<or> s = ''failed''"

text \<open>
  The two statements that stop the snapshot of reconciliations \<open>P\<close>: their workflows are
  cancelled and the capabilities of these workflows revoked.
\<close>

definition cancel_workflows :: "string \<Rightarrow> string \<Rightarrow> gotime \<Rightarrow> (reconciliation_row \<Rightarrow> bool) \<Rightarrow> db \<Rightarrow> db" where
  "cancel_workflows code summary now P d =
     d\<lparr>db_workflows := sql_update (\<lambda>w. sql_exists (\<lambda>r. ir_WorkflowID r = Some (wf_ID w) \<and> P r) (db_reconciliations d) \<and>
           \<not> workflow_done (wf_State w))
         (\<lambda>w. w\<lparr>wf_State := ''cancelled'', wf_ErrorCode := Some code, wf_ErrorSummary := Some summary,
            wf_CleanupState := ''pending'', wf_UpdatedAt := now, wf_FinishedAt := Some now\<rparr>) (db_workflows d)\<rparr>"

definition revoke_capabilities :: "(reconciliation_row \<Rightarrow> bool) \<Rightarrow> db \<Rightarrow> db" where
  "revoke_capabilities P d =
     d\<lparr>db_capabilities := sql_update (\<lambda>c. sql_exists (\<lambda>r. ir_WorkflowID r = Some (sc_WorkflowID c) \<and> P r)
           (db_reconciliations d) \<and> sc_State c = ''prepared'')
         (\<lambda>c. c\<lparr>sc_State := ''revoked''\<rparr>) (db_capabilities d)\<rparr>"

definition supersede_markers :: "int \<Rightarrow> sync_fact \<Rightarrow> gotime \<Rightarrow> db \<Rightarrow> db" where
  "supersede_markers nodeID f now d =
     (let mine = (\<lambda>r. ir_NodeID r = nodeID \<and> ir_LocalHandle r = sy_Handle f);
          d1 = d\<lparr>db_reconciliations := sql_update (\<lambda>r. mine r \<and> ir_Marker r \<noteq> sy_Marker f \<and> \<not> closed_state (ir_State r))
                (\<lambda>r. r\<lparr>ir_State := ''superseded'', ir_ErrorCode := Some ''marker_changed'', ir_NextAttemptAt := None,
                   ir_UpdatedAt := now\<rparr>) (db_reconciliations d)\<rparr>;
          gone = (\<lambda>r. mine r \<and> ir_State r = ''superseded'') in
      revoke_capabilities gone (cancel_workflows ''independent_marker_changed''
        ''independent synchronization marker changed'' now gone d1))"

text \<open>The user of a local handle, and the state in which its write starts.\<close>

definition map_sync_user :: "int \<Rightarrow> string \<Rightarrow> db \<Rightarrow> int option \<times> string" where
  "map_sync_user nodeID handle d =
     (case sql_find (\<lambda>a. na_NodeID a = nodeID \<and> na_LocalHandle a = handle \<and>
             sql_exists (\<lambda>u. gu_ID u = na_UserID a) (db_users d)) (db_accounts d) of
        None \<Rightarrow> (None, ''unmapped'')
      | Some a \<Rightarrow>
          let home = (case sql_find (\<lambda>u. gu_ID u = na_UserID a) (db_users d) of
                None \<Rightarrow> None
              | Some u \<Rightarrow> (case gu_LegacyUserID u of
                    None \<Rightarrow> None
                  | Some i \<Rightarrow> (case sql_find (\<lambda>l. us_ID l = i) (db_legacy_users d) of
                        None \<Rightarrow> None | Some l \<Rightarrow> us_HomeNodeID l))) in
          (Some (na_UserID a), if home = Some nodeID then ''pending'' else ''conflict''))"

definition upsert_reconciliation ::
    "string \<times> string \<Rightarrow> int \<Rightarrow> int \<Rightarrow> sync_fact \<Rightarrow> int option \<Rightarrow> string \<Rightarrow> gotime \<Rightarrow> db \<Rightarrow> db result" where
  "upsert_reconciliation ids nodeID generation f userID state now d =
     (let sel = (\<lambda>r. ir_NodeID r = nodeID \<and> ir_LocalHandle r = sy_Handle f \<and> ir_Marker r = sy_Marker f) in
      if sql_exists sel (db_reconciliations d)
      then Inr (d\<lparr>db_reconciliations := sql_update sel
             (\<lambda>r. r\<lparr>ir_UserID := (case ir_UserID r of None \<Rightarrow> userID | Some u \<Rightarrow> Some u),
                ir_State := (if ir_State r = ''unmapped'' \<and> userID \<noteq> None then state else ir_State r),
                ir_LastObservedAt := now, ir_UpdatedAt := now\<rparr>) (db_reconciliations d)\<rparr>)
      else if sql_exists (\<lambda>r. ir_ID r = fst ids \<or> ir_OperationID r = snd ids) (db_reconciliations d) then Inl dbError
      else Inr (d\<lparr>db_reconciliations := db_reconciliations d @ [\<lparr>ir_ID = fst ids, ir_OperationID = snd ids,
             ir_NodeID = nodeID, ir_UserID = userID, ir_LocalHandle = sy_Handle f, ir_Marker = sy_Marker f,
             ir_ChangedAt = sy_ChangedAt f, ir_ReasonCode = sy_Reason f, ir_State = state, ir_WorkflowID = None,
             ir_Attempt = 0, ir_NextAttemptAt = None, ir_ErrorCode = None, ir_ControllerGeneration = generation,
             ir_FirstObservedAt = now, ir_LastObservedAt = now, ir_UpdatedAt = now, ir_CompletedAt = None\<rparr>]\<rparr>))"

definition unmapped_key :: "int \<Rightarrow> string \<Rightarrow> string" where
  "unmapped_key nodeID handle = ''independent-unmapped:'' @ dec_int nodeID @ '':'' @ handle"

definition mapping_alert :: "int \<Rightarrow> string \<Rightarrow> bool \<Rightarrow> gotime \<Rightarrow> db \<Rightarrow> db" where
  "mapping_alert nodeID handle mapped now d =
     (let key = unmapped_key nodeID handle; sel = (\<lambda>a. at_DeduplicationKey a = key) in
      if mapped
      then d\<lparr>db_alerts := sql_update (\<lambda>a. sel a \<and> at_State a \<noteq> ''resolved'')
             (\<lambda>a. a\<lparr>at_State := ''resolved'', at_ResolvedAt := Some now, at_LastSeenAt := now\<rparr>) (db_alerts d)\<rparr>
      else if sql_exists sel (db_alerts d)
      then d\<lparr>db_alerts := sql_update sel (\<lambda>a. a\<lparr>at_State := ''open'', at_LastSeenAt := now, at_ResolvedAt := None,
             at_OccurrenceCount := at_OccurrenceCount a + 1\<rparr>) (db_alerts d)\<rparr>
      else d\<lparr>db_alerts := db_alerts d @ [\<lparr>at_DeduplicationKey = key, at_State = ''open'', at_NodeID = Some nodeID,
             at_LastSeenAt = now, at_ResolvedAt = None, at_OccurrenceCount = 1\<rparr>]\<rparr>)"

definition record_sync_fact :: "string \<times> string \<Rightarrow> int \<Rightarrow> int \<Rightarrow> gotime \<Rightarrow> sync_fact \<Rightarrow> db \<Rightarrow> db result" where
  "record_sync_fact ids nodeID generation now f d =
     (let d1 = supersede_markers nodeID f now d; (userID, state) = map_sync_user nodeID (sy_Handle f) d1 in
      case upsert_reconciliation ids nodeID generation f userID state now d1 of
        Inl e \<Rightarrow> Inl e
      | Inr d2 \<Rightarrow> Inr (mapping_alert nodeID (sy_Handle f) (userID \<noteq> None) now d2))"

fun record_sync_facts :: "(nat \<Rightarrow> string \<times> string) \<Rightarrow> nat \<Rightarrow> int \<Rightarrow> int \<Rightarrow> gotime \<Rightarrow> sync_fact list \<Rightarrow> db \<Rightarrow> db result" where
  "record_sync_facts fresh i nodeID generation now [] d = Inr d"
| "record_sync_facts fresh i nodeID generation now (f # fs) d =
     (case record_sync_fact (fresh i) nodeID generation now f d of
        Inl e \<Rightarrow> Inl e
      | Inr d' \<Rightarrow> record_sync_facts fresh (Suc i) nodeID generation now fs d')"

text \<open>The users with open writes on more than one node.\<close>

definition collided :: "db \<Rightarrow> int \<Rightarrow> bool" where
  "collided d u \<longleftrightarrow> 1 < length (remdups (map ir_NodeID (filter (\<lambda>r. ir_UserID r = Some u \<and> \<not> closed_state (ir_State r))
     (db_reconciliations d))))"

definition freeze_collided :: "gotime \<Rightarrow> db \<Rightarrow> db" where
  "freeze_collided now d =
     d\<lparr>db_reconciliations := sql_update (\<lambda>r. (case ir_UserID r of None \<Rightarrow> False | Some u \<Rightarrow> collided d u) \<and>
           \<not> closed_state (ir_State r))
         (\<lambda>r. r\<lparr>ir_State := ''conflict'', ir_ErrorCode := Some ''multiple_independent_writers'', ir_UpdatedAt := now\<rparr>)
         (db_reconciliations d)\<rparr>"

definition mark_conflicted :: "gotime \<Rightarrow> db \<Rightarrow> db" where
  "mark_conflicted now d =
     (let conflicted = (\<lambda>u. sql_exists (\<lambda>r. ir_UserID r = Some u \<and> ir_State r = ''conflict'') (db_reconciliations d)) in
      d\<lparr>db_replica_copies := sql_update (\<lambda>c. conflicted (rc_UserID c))
            (\<lambda>c. c\<lparr>rc_State := ''conflict'', rc_IsAuthoritative := False, rc_UpdatedAt := now\<rparr>) (db_replica_copies d),
        db_user_replicas := sql_update (\<lambda>c. sql_exists (\<lambda>u. gu_LegacyUserID u = Some (ur_UserID c) \<and> conflicted (gu_ID u))
            (db_users d)) (\<lambda>c. c\<lparr>ur_State := ''conflict''\<rparr>) (db_user_replicas d)\<rparr>)"

definition recordIndependentSyncFactsTx ::
    "(nat \<Rightarrow> string \<times> string) \<Rightarrow> int \<Rightarrow> int \<Rightarrow> sync_fact list \<Rightarrow> gotime \<Rightarrow> db \<Rightarrow> db result" where
  "recordIndependentSyncFactsTx fresh nodeID generation facts now d =
     (if facts = [] then Inr d
      else
        (case record_sync_facts fresh 0 nodeID generation now facts d of
           Inl e \<Rightarrow> Inl e
         | Inr d1 \<Rightarrow>
             let clash = (\<lambda>r. ir_State r = ''conflict'') in
             Inr (mark_conflicted now (revoke_capabilities clash (cancel_workflows ''multiple_independent_writers''
               ''multiple nodes reported independent writes'' now clash (freeze_collided now d1))))))"

section \<open>Confirmed takeovers\<close>

definition same_takeover :: "int \<Rightarrow> takeover_fact \<Rightarrow> takeover_row \<Rightarrow> bool" where
  "same_takeover nodeID t r \<longleftrightarrow>
     tk_NodeID r = nodeID \<and> tk_LocalHandle r = tf_Handle t \<and> tk_ParentClaimID r = tf_ParentClaimID t \<and>
     tk_ClaimID r = tf_ClaimID t \<and> tk_ControllerGeneration r = tf_ControllerGeneration t \<and>
     tk_ActivityEpoch r = tf_ActivityEpoch t \<and> tk_TakeoverSequence r = tf_TakeoverSequence t \<and>
     tk_ConfirmedAt r = tf_ConfirmedAt t"

definition new_takeover :: "int \<Rightarrow> takeover_fact \<Rightarrow> gotime \<Rightarrow> takeover_row" where
  "new_takeover nodeID t now = \<lparr>tk_OperationID = tf_OperationID t, tk_NodeID = nodeID, tk_LocalHandle = tf_Handle t,
     tk_ParentClaimID = tf_ParentClaimID t, tk_ClaimID = tf_ClaimID t,
     tk_ControllerGeneration = tf_ControllerGeneration t, tk_ActivityEpoch = tf_ActivityEpoch t,
     tk_TakeoverSequence = tf_TakeoverSequence t, tk_ConfirmedAt = tf_ConfirmedAt t, tk_FirstObservedAt = now,
     tk_LastObservedAt = now\<rparr>"

text \<open>The table also has a unique sequence per lease and checks \<open>last_observed_at >= first_observed_at\<close>.\<close>

definition upsert_takeover :: "int \<Rightarrow> takeover_fact \<Rightarrow> gotime \<Rightarrow> db \<Rightarrow> db result" where
  "upsert_takeover nodeID t now d =
     (case sql_find (\<lambda>r. tk_OperationID r = tf_OperationID t) (db_takeovers d) of
        Some r \<Rightarrow>
          if \<not> same_takeover nodeID t r then Inl ''independent activity takeover operation conflict''
          else if now < tk_FirstObservedAt r then Inl dbError
          else Inr (d\<lparr>db_takeovers := sql_update (\<lambda>r. tk_OperationID r = tf_OperationID t)
                 (\<lambda>r. r\<lparr>tk_LastObservedAt := now\<rparr>) (db_takeovers d)\<rparr>)
      | None \<Rightarrow>
          if sql_exists (\<lambda>r. tk_NodeID r = nodeID \<and> tk_LocalHandle r = tf_Handle t \<and>
               tk_ControllerGeneration r = tf_ControllerGeneration t \<and> tk_ActivityEpoch r = tf_ActivityEpoch t \<and>
               tk_TakeoverSequence r = tf_TakeoverSequence t) (db_takeovers d)
          then Inl dbError
          else Inr (d\<lparr>db_takeovers := db_takeovers d @ [new_takeover nodeID t now]\<rparr>))"

fun recordIndependentTakeoverFactsTx :: "int \<Rightarrow> takeover_fact list \<Rightarrow> gotime \<Rightarrow> db \<Rightarrow> db result" where
  "recordIndependentTakeoverFactsTx nodeID [] now d = Inr d"
| "recordIndependentTakeoverFactsTx nodeID (t # ts) now d =
     (case upsert_takeover nodeID t now d of
        Inl e \<Rightarrow> Inl e
      | Inr d' \<Rightarrow> recordIndependentTakeoverFactsTx nodeID ts now d')"

section \<open>The desired mode\<close>

definition ErrStaleNodeControlMode :: string where
  "ErrStaleNodeControlMode = ''stale node control mode generation''"
definition ErrStaleControllerMode :: string where
  "ErrStaleControllerMode = ''node report belongs to stale controller generation''"

definition maxInt64 :: "int \<Rightarrow> int \<Rightarrow> int" where
  "maxInt64 left right = (if left > right then left else right)"

definition nullableControlModeTime :: "gotime \<Rightarrow> gotime option" where
  "nullableControlModeTime t = (if t = time_zero then None else Some t)"

definition durable_pending :: "int \<Rightarrow> db \<Rightarrow> bool" where
  "durable_pending nodeID d = sql_exists (\<lambda>r. ir_NodeID r = nodeID \<and> ir_State r \<noteq> ''succeeded'' \<and>
     ir_State r \<noteq> ''superseded'') (db_reconciliations d)"

definition desired_for :: "int \<Rightarrow> mode_fact \<Rightarrow> db \<Rightarrow> string" where
  "desired_for nodeID f d =
     (if mf_Mode f = NodeModeControllerUnreachable then NodeModeManaged
      else if mf_Mode f = NodeModeIndependent then NodeModeIndependentDraining
      else if mf_Mode f = NodeModeIndependentDraining then
        (if mf_ActiveIndependentSessions f = 0 \<and> mf_PendingUserSyncs f = 0 \<and> \<not> durable_pending nodeID d
         then NodeModeManaged else NodeModeIndependentDraining)
      else mf_Mode f)"

definition desired_generation :: "mode_fact \<Rightarrow> string \<Rightarrow> node_row \<Rightarrow> int" where
  "desired_generation f desired n =
     (if desired = mf_Mode f then mf_ModeGeneration f
      else if nd_ControlMode n = mf_Mode f \<and> nd_ModeGeneration n = mf_ModeGeneration f \<and>
         nd_DesiredMode n = desired \<and> nd_DesiredGeneration n > mf_ModeGeneration f
      then nd_DesiredGeneration n
      else i64 (maxInt64 (mf_ModeGeneration f) (nd_DesiredGeneration n) + 1))"

definition report_node :: "mode_fact \<Rightarrow> string \<Rightarrow> int \<Rightarrow> int \<Rightarrow> node_row \<Rightarrow> node_row" where
  "report_node f desired desiredGeneration active n =
     n\<lparr>nd_ControlMode := mf_Mode f, nd_ModeGeneration := mf_ModeGeneration f, nd_DesiredMode := desired,
       nd_DesiredGeneration := desiredGeneration,
       nd_ModeReason := (if mf_ReasonCode f = [] then None else Some (mf_ReasonCode f)),
       nd_ModeChangedAt := mf_ObservedAt f, nd_ControllerGeneration := active,
       nd_OutageStartedAt := nullableControlModeTime (mf_OutageStartedAt f),
       nd_LastSuccessAt := nullableControlModeTime (mf_LastControllerSuccessAt f),
       nd_IndependentSince := nullableControlModeTime (mf_IndependentSince f),
       nd_HeartbeatFails := mf_HeartbeatFails f, nd_HealthProbeFails := mf_HealthProbeFails f,
       nd_ActiveSessions := mf_ActiveIndependentSessions f, nd_PendingSyncs := mf_PendingUserSyncs f,
       nd_ConfirmedOutageStartedAt := nullableControlModeTime (mf_ConfirmedOutageStartedAt f),
       nd_PeerWitnessFails := mf_PeerWitnessFails f\<rparr>"

definition in_i32 :: "int \<Rightarrow> bool" where
  "in_i32 n \<longleftrightarrow> -2147483648 \<le> n \<and> n \<le> 2147483647"

definition mode_columns_ok :: "mode_fact \<Rightarrow> int \<Rightarrow> bool" where
  "mode_columns_ok f desiredGeneration \<longleftrightarrow>
     0 < desiredGeneration \<and> in_i32 (mf_HeartbeatFails f) \<and> in_i32 (mf_HealthProbeFails f) \<and>
     in_i32 (mf_PeerWitnessFails f) \<and> in_i32 (mf_ActiveIndependentSessions f)"

definition mode_event :: "int \<Rightarrow> mode_fact \<Rightarrow> string \<Rightarrow> int \<Rightarrow> int \<Rightarrow> mode_event_row" where
  "mode_event nodeID f desired desiredGeneration active =
     \<lparr>me_NodeID = nodeID, me_ReportedMode = mf_Mode f, me_ReportedGeneration = mf_ModeGeneration f,
      me_DesiredMode = desired, me_DesiredGeneration = desiredGeneration, me_ControllerGeneration = active,
      me_ReasonCode = mf_ReasonCode f, me_ObservedAt = mf_ObservedAt f\<rparr>"

text \<open>The part of the transaction for a credential of the active generation.\<close>

definition publish_mode ::
    "(nat \<Rightarrow> string \<times> string) \<Rightarrow> int \<Rightarrow> mode_fact \<Rightarrow> int \<Rightarrow> node_row \<Rightarrow> (db, mode_decision) tx" where
  "publish_mode fresh nodeID f active n d =
     (if mf_ModeGeneration f < nd_ModeGeneration n \<or>
         (mf_ModeGeneration f = nd_ModeGeneration n \<and> mf_Mode f \<noteq> nd_ControlMode n)
      then Inl ErrStaleNodeControlMode
      else if nd_Role n \<noteq> ''compute'' \<and> (mf_Mode f = NodeModeIndependent \<or> mf_Mode f = NodeModeIndependentDraining)
      then Inl ''storage node cannot enter independent mode''
      else
        let desired = desired_for nodeID f d; generation = desired_generation f desired n in
        if \<not> mode_columns_ok f generation then Inl dbError
        else
          let d1 = d\<lparr>db_nodes := sql_update (\<lambda>x. nd_ID x = nodeID) (report_node f desired generation active) (db_nodes d),
                db_mode_events := db_mode_events d @ [mode_event nodeID f desired generation active]\<rparr> in
          (case recordIndependentSyncFactsTx fresh nodeID active (mf_PendingUsers f) (mf_ObservedAt f) d1 of
             Inl e \<Rightarrow> Inl e
           | Inr d2 \<Rightarrow>
               (case recordIndependentTakeoverFactsTx nodeID (mf_ConfirmedTakeovers f) (mf_ObservedAt f) d2 of
                  Inl e \<Rightarrow> Inl e
                | Inr d3 \<Rightarrow>
                    Inr (markControllerRebuildHeartbeatLocked nodeID active active (mf_Mode f) desired (mf_ObservedAt f) d3,
                      \<lparr>md_ControllerGeneration = active, md_DesiredMode = desired, md_ModeGeneration = generation\<rparr>))))"

definition reconcile_mode_tx ::
    "(nat \<Rightarrow> string \<times> string) \<Rightarrow> int \<Rightarrow> mode_fact \<Rightarrow> int \<Rightarrow> (db, mode_decision) tx" where
  "reconcile_mode_tx fresh nodeID f auth d =
     (case (node_by_id nodeID d, active_generation d) of
        (Some n, Some active) \<Rightarrow>
          if auth > active \<or> mf_ControllerGeneration f > active then Inl ErrStaleControllerMode
          else if auth = active then
            if mf_ControllerGeneration f \<noteq> active then Inl ErrStaleControllerMode
            else publish_mode fresh nodeID f active n d
          else if \<not> controllerRebuildAllowsOldCredentialLocked nodeID active auth d \<or> mf_ControllerGeneration f < auth
          then Inl ErrStaleControllerMode
          else Inr (markControllerRebuildHeartbeatLocked nodeID active auth (mf_Mode f) (nd_DesiredMode n)
                 (mf_ObservedAt f) d,
               \<lparr>md_ControllerGeneration = active, md_DesiredMode = mf_Mode f, md_ModeGeneration = mf_ModeGeneration f\<rparr>)
      | _ \<Rightarrow> Inl ''node or active controller not found'')"

definition reconcileNodeControlModeAuthenticated ::
    "golib \<Rightarrow> tx_fault \<Rightarrow> (nat \<Rightarrow> string \<times> string) \<Rightarrow> int \<Rightarrow> mode_fact \<Rightarrow> int \<Rightarrow> db \<Rightarrow> db \<times> mode_decision result" where
  "reconcileNodeControlModeAuthenticated lib flt fresh nodeID f auth d =
     (if nodeID \<le> 0 \<or> \<not> validNodeControlModeFact lib f then (d, Inl ''invalid node control mode fact'')
      else if auth \<le> 0 then (d, Inl ErrStaleControllerMode)
      else run_tx flt (reconcile_mode_tx fresh nodeID f auth) d)"

definition ReconcileNodeControlMode ::
    "golib \<Rightarrow> tx_fault \<Rightarrow> (nat \<Rightarrow> string \<times> string) \<Rightarrow> int \<Rightarrow> mode_fact \<Rightarrow> db \<Rightarrow> db \<times> mode_decision result" where
  "ReconcileNodeControlMode lib flt fresh nodeID f =
     reconcileNodeControlModeAuthenticated lib flt fresh nodeID f (mf_ControllerGeneration f)"

definition IsControlPlaneReady :: "db \<Rightarrow> bool" where
  "IsControlPlaneReady d \<longleftrightarrow>
     sql_exists (\<lambda>e. ep_State e = ''active'') (db_epochs d) \<and>
     \<not> sql_exists (\<lambda>r. sql_exists (\<lambda>e. ep_Generation e = rb_Generation r \<and> ep_State e = ''active'') (db_epochs d) \<and>
         rb_State r \<noteq> ''succeeded'' \<and> rb_State r \<noteq> ''ready_with_deferred'') (db_rebuilds d) \<and>
     \<not> sql_exists (\<lambda>n. nd_Role n = ''compute'' \<and> nd_Operational n \<noteq> ''decommissioned'' \<and> nd_Operational n \<noteq> ''retired'' \<and>
         nd_Connectivity n = ''online'' \<and>
         sql_exists (\<lambda>c. ac_NodeID c = nd_ID n \<and> ac_RevokedAt c = None) (db_credentials d) \<and>
         (nd_ControlMode n \<noteq> NodeModeManaged \<or> nd_DesiredMode n \<noteq> NodeModeManaged \<or>
          Some (nd_ControllerGeneration n) \<noteq> active_generation d)) (db_nodes d)"

section \<open>Reconciliation work\<close>

definition ErrInvalidIndependentReconciliation :: string where
  "ErrInvalidIndependentReconciliation = ''invalid independent reconciliation input''"
definition ErrIndependentReconciliationState :: string where
  "ErrIndependentReconciliationState = ''independent reconciliation state conflict''"

definition open_conflict :: "int \<Rightarrow> db \<Rightarrow> bool" where
  "open_conflict u d = sql_exists (\<lambda>c. rf_UserID c = u \<and> rf_State c \<noteq> ''resolved'' \<and> rf_State c \<noteq> ''failed'')
     (db_conflicts d)"

definition resolved_since :: "int \<Rightarrow> gotime \<Rightarrow> db \<Rightarrow> bool" where
  "resolved_since u t d = sql_exists (\<lambda>c. rf_UserID c = u \<and> rf_State c = ''resolved'' \<and>
     (case rf_ResolvedAt c of None \<Rightarrow> False | Some at \<Rightarrow> at \<ge> t)) (db_conflicts d)"

definition workflow_state :: "reconciliation_row \<Rightarrow> db \<Rightarrow> string option" where
  "workflow_state r d = (case ir_WorkflowID r of
     None \<Rightarrow> None | Some i \<Rightarrow> map_option wf_State (sql_find (\<lambda>w. wf_ID w = i) (db_workflows d)))"

definition drained_node :: "int \<Rightarrow> db \<Rightarrow> bool" where
  "drained_node nodeID d = sql_exists (\<lambda>n. nd_ID n = nodeID \<and> nd_ControlMode n = NodeModeIndependentDraining \<and>
     nd_ActiveSessions n = 0) (db_nodes d)"

record reconciliation_work =
  rw_ID :: string
  rw_State :: string
  rw_Action :: string
  rw_Attempt :: int
  rw_NodeID :: int
  rw_GlobalUserID :: int
  rw_LegacyUserID :: int
  rw_Handle :: string
  rw_Marker :: string
  rw_WorkflowID :: "string option"
  rw_WorkflowState :: "string option"

definition work_action :: "reconciliation_row \<Rightarrow> db \<Rightarrow> string" where
  "work_action r d =
     (if ir_State r = ''pending'' \<or> ir_State r = ''retry_wait'' then ''snapshot''
      else if ir_State r = ''snapshotting'' then
        (case workflow_state r d of
           Some s \<Rightarrow> if s = ''failed'' \<or> s = ''cancelled'' then ''restart'' else if s = ''succeeded'' then ''complete''
             else ''execute''
         | None \<Rightarrow> ''execute'')
      else ''complete'')"

definition work_due :: "gotime \<Rightarrow> db \<Rightarrow> reconciliation_row \<Rightarrow> user_row \<Rightarrow> bool" where
  "work_due now d r u \<longleftrightarrow>
     ir_State r \<in> {''pending'', ''snapshotting'', ''completing'', ''completion_retry'', ''conflict'', ''retry_wait''} \<and>
     (case ir_NextAttemptAt r of None \<Rightarrow> True | Some t \<Rightarrow> t \<le> now) \<and> drained_node (ir_NodeID r) d \<and>
     \<not> open_conflict (gu_ID u) d \<and>
     (ir_State r \<noteq> ''conflict'' \<or> gu_Status u = ''active'' \<and> resolved_since (gu_ID u) (ir_FirstObservedAt r) d)"

definition work_item :: "gotime \<Rightarrow> db \<Rightarrow> reconciliation_row \<Rightarrow> reconciliation_work option" where
  "work_item now d r =
     (case ir_UserID r of
        None \<Rightarrow> None
      | Some i \<Rightarrow>
          (case sql_find (\<lambda>u. gu_ID u = i) (db_users d) of
             None \<Rightarrow> None
           | Some u \<Rightarrow>
               (case gu_LegacyUserID u of
                  None \<Rightarrow> None
                | Some l \<Rightarrow>
                    if sql_exists (\<lambda>x. us_ID x = l) (db_legacy_users d) \<and> work_due now d r u
                    then Some \<lparr>rw_ID = ir_ID r, rw_State = ir_State r, rw_Action = work_action r d,
                      rw_Attempt = ir_Attempt r, rw_NodeID = ir_NodeID r, rw_GlobalUserID = i, rw_LegacyUserID = l,
                      rw_Handle = ir_LocalHandle r, rw_Marker = ir_Marker r, rw_WorkflowID = ir_WorkflowID r,
                      rw_WorkflowState = workflow_state r d\<rparr>
                    else None)))"

definition ListIndependentReconciliationWork :: "gotime \<Rightarrow> int \<Rightarrow> gotime \<Rightarrow> db \<Rightarrow> reconciliation_work list" where
  "ListIndependentReconciliationWork clock limit now d =
     (let n = (if limit \<le> 0 \<or> limit > 200 then 50 else limit); now' = (if now = time_zero then clock else now) in
      take (nat n) (List.map_filter (work_item now' d)
        (sort_key (\<lambda>r. (ir_UpdatedAt r, ir_ID r)) (db_reconciliations d))))"

definition completable :: "gotime \<Rightarrow> db \<Rightarrow> reconciliation_row \<Rightarrow> bool" where
  "completable now d r \<longleftrightarrow>
     drained_node (ir_NodeID r) d \<and>
     (ir_State r \<noteq> ''pending'' \<and> ir_State r \<noteq> ''retry_wait'' \<or>
      \<not> sql_exists (\<lambda>l. Some (al_UserID l) = ir_UserID r \<and>
          (al_WriterNodeID l \<noteq> ir_NodeID r \<or> al_InFlightReads l \<noteq> 0 \<or> al_InFlightWrites l \<noteq> 0 \<or>
           al_State l = ''quiescing'' \<or> al_LeaseExpiresAt l > now \<and> al_State l \<noteq> ''independent'')) (db_leases d)) \<and>
     (ir_State r \<in> {''snapshotting'', ''completing'', ''completion_retry''} \<and> workflow_state r d = Some ''succeeded'' \<or>
      ir_State r \<in> {''conflict'', ''completing'', ''completion_retry''} \<and>
      (case ir_UserID r of None \<Rightarrow> False | Some u \<Rightarrow> resolved_since u (ir_FirstObservedAt r) d \<and> \<not> open_conflict u d))"

text \<open>An update of one reconciliation that fails unless exactly one row was changed.\<close>

definition update_reconciliation ::
    "tx_fault \<Rightarrow> (db \<Rightarrow> reconciliation_row \<Rightarrow> bool) \<Rightarrow> (reconciliation_row \<Rightarrow> reconciliation_row) \<Rightarrow> db \<Rightarrow> db \<times> unit result" where
  "update_reconciliation flt sel f d =
     (case run_tx flt (\<lambda>d. Inr (d\<lparr>db_reconciliations := sql_update (sel d) f (db_reconciliations d)\<rparr>,
             sql_count (sel d) (db_reconciliations d))) d of
        (d', Inl e) \<Rightarrow> (d', Inl e)
      | (d', Inr n) \<Rightarrow> (d', if n \<noteq> 1 then Inl ErrIndependentReconciliationState else Inr ()))"

definition BeginIndependentReconciliationCompletion ::
    "gotime \<Rightarrow> tx_fault \<Rightarrow> string \<Rightarrow> string \<Rightarrow> gotime \<Rightarrow> db \<Rightarrow> db \<times> unit result" where
  "BeginIndependentReconciliationCompletion clock flt i marker now d =
     (if i = [] \<or> marker = [] then (d, Inl ErrInvalidIndependentReconciliation)
      else
        let now' = (if now = time_zero then clock else now) in
        update_reconciliation flt (\<lambda>d r. ir_ID r = i \<and> ir_Marker r = marker \<and> completable now' d r)
          (\<lambda>r. r\<lparr>ir_State := ''completing'', ir_NextAttemptAt := Some (now' + 2 * minute), ir_ErrorCode := None,
             ir_UpdatedAt := now'\<rparr>) d)"

definition CompleteIndependentReconciliation ::
    "gotime \<Rightarrow> tx_fault \<Rightarrow> string \<Rightarrow> string \<Rightarrow> gotime \<Rightarrow> db \<Rightarrow> db \<times> unit result" where
  "CompleteIndependentReconciliation clock flt i marker now d =
     (if i = [] \<or> marker = [] then (d, Inl ErrInvalidIndependentReconciliation)
      else
        let now' = (if now = time_zero then clock else now) in
        update_reconciliation flt (\<lambda>d r. ir_ID r = i \<and> ir_Marker r = marker \<and> ir_State r = ''completing'')
          (\<lambda>r. r\<lparr>ir_State := ''succeeded'', ir_ErrorCode := None, ir_NextAttemptAt := None, ir_UpdatedAt := now',
             ir_CompletedAt := Some now'\<rparr>) d)"

definition RetryIndependentReconciliationCompletion ::
    "gotime \<Rightarrow> tx_fault \<Rightarrow> string \<Rightarrow> string \<Rightarrow> string \<Rightarrow> gotime \<Rightarrow> duration \<Rightarrow> db \<Rightarrow> db \<times> unit result" where
  "RetryIndependentReconciliationCompletion clock flt i marker errorCode now delay d =
     (if i = [] \<or> marker = [] \<or> errorCode = [] \<or> delay \<le> 0 then (d, Inl ErrInvalidIndependentReconciliation)
      else
        let now' = (if now = time_zero then clock else now) in
        update_reconciliation flt (\<lambda>d r. ir_ID r = i \<and> ir_Marker r = marker \<and> ir_State r = ''completing'')
          (\<lambda>r. r\<lparr>ir_State := (if ir_Attempt r \<ge> 9 then ''failed'' else ''completion_retry''),
             ir_Attempt := ir_Attempt r + 1, ir_ErrorCode := Some errorCode,
             ir_NextAttemptAt := (if ir_Attempt r \<ge> 9 then None else Some (now' + delay)), ir_UpdatedAt := now'\<rparr>) d)"

definition RestartIndependentReconciliationSnapshot ::
    "gotime \<Rightarrow> tx_fault \<Rightarrow> string \<Rightarrow> string \<Rightarrow> string \<Rightarrow> gotime \<Rightarrow> duration \<Rightarrow> db \<Rightarrow> db \<times> unit result" where
  "RestartIndependentReconciliationSnapshot clock flt i marker errorCode now delay d =
     (if i = [] \<or> marker = [] \<or> errorCode = [] \<or> delay \<le> 0 then (d, Inl ErrInvalidIndependentReconciliation)
      else
        let now' = (if now = time_zero then clock else now) in
        update_reconciliation flt (\<lambda>d r. ir_ID r = i \<and> ir_Marker r = marker \<and> ir_State r = ''snapshotting'' \<and>
            (workflow_state r d = Some ''failed'' \<or> workflow_state r d = Some ''cancelled''))
          (\<lambda>r. r\<lparr>ir_State := (if ir_Attempt r \<ge> 4 then ''failed'' else ''retry_wait''), ir_WorkflowID := None,
             ir_Attempt := ir_Attempt r + 1, ir_ErrorCode := Some errorCode,
             ir_NextAttemptAt := (if ir_Attempt r \<ge> 4 then None else Some (now' + delay)), ir_UpdatedAt := now'\<rparr>) d)"

end
