(* ===== verification/Controller_Heartbeat.thy ===== *)
theory Controller_Heartbeat
  imports Store_Modes
begin

text \<open>
  The controller's heartbeat endpoint (\<open>controller/agent.go\<close>): the check of a mode report, the
  takeovers it acknowledges, the offer and the confirmation of a credential rotation, and the
  admission gate of the control plane (\<open>controller/control_plane.go\<close>).
\<close>

section \<open>Mode reports\<close>

definition isUUID :: "string \<Rightarrow> bool" where
  "isUUID s \<longleftrightarrow>
     length s = 36 \<and> dash_at s 8 \<and> dash_at s 13 \<and> dash_at s 18 \<and> dash_at s 23 \<and>
     (case hex_decode (filter (\<lambda>c. c \<noteq> CHR ''-'') s) of
        None \<Rightarrow> False | Some b \<Rightarrow> length b = 16)"

definition canonical_handle :: "golib \<Rightarrow> string \<Rightarrow> bool" where
  "canonical_handle lib h \<longleftrightarrow> isValidHandle h \<and> NormalizeHandle lib h = h"

definition pending_ok :: "golib \<Rightarrow> gotime \<Rightarrow> sync_user \<Rightarrow> bool" where
  "pending_ok lib now p \<longleftrightarrow>
     canonical_handle lib (su_Handle p) \<and> isUUID (su_Marker p) \<and> 0 < su_ChangedAt p \<and>
     \<not> time_unix_milli (su_ChangedAt p) > now + minute \<and> su_Reason p \<noteq> [] \<and> length (su_Reason p) \<le> 128 \<and>
     go_TrimSpace lib (su_Reason p) = su_Reason p \<and> \<not> line_break (su_Reason p)"

fun normalize_pending ::
    "golib \<Rightarrow> gotime \<Rightarrow> string list \<Rightarrow> string list \<Rightarrow> sync_user list \<Rightarrow> sync_fact list result" where
  "normalize_pending lib now handles markers [] = Inr []"
| "normalize_pending lib now handles markers (p # ps) =
     (if \<not> pending_ok lib now p then Inl ''invalid pending independent synchronization fact''
      else if su_Handle p \<in> set handles then Inl ''duplicate pending independent synchronization handle''
      else if su_Marker p \<in> set markers then Inl ''duplicate pending independent synchronization marker''
      else
        (case normalize_pending lib now (su_Handle p # handles) (su_Marker p # markers) ps of
           Inl e \<Rightarrow> Inl e
         | Inr fs \<Rightarrow> Inr (\<lparr>sy_Handle = su_Handle p, sy_Marker = su_Marker p,
               sy_ChangedAt = time_unix_milli (su_ChangedAt p), sy_Reason = su_Reason p\<rparr> # fs)))"

definition digest_text :: "golib \<Rightarrow> string \<Rightarrow> bool" where
  "digest_text lib s \<longleftrightarrow> (case hex_decode s of None \<Rightarrow> False | Some b \<Rightarrow> length b = 32) \<and> go_ToLower lib s = s"

definition takeover_ok :: "golib \<Rightarrow> gotime \<Rightarrow> int \<Rightarrow> independent_takeover \<Rightarrow> bool" where
  "takeover_ok lib now generation t \<longleftrightarrow>
     isUUID (it_OperationID t) \<and> canonical_handle lib (it_Handle t) \<and> digest_text lib (it_ParentClaimID t) \<and>
     digest_text lib (it_ClaimID t) \<and> it_ParentClaimID t \<noteq> it_ClaimID t \<and> 0 < it_ControllerGeneration t \<and>
     it_ControllerGeneration t \<le> generation \<and> 0 < it_ActivityEpoch t \<and> 0 < it_TakeoverSequence t \<and>
     0 < it_ConfirmedAt t \<and> \<not> time_unix_milli (it_ConfirmedAt t) > now + minute"

definition takeover_of :: "independent_takeover \<Rightarrow> takeover_fact" where
  "takeover_of t = \<lparr>tf_OperationID = it_OperationID t, tf_Handle = it_Handle t, tf_ParentClaimID = it_ParentClaimID t,
     tf_ClaimID = it_ClaimID t, tf_ControllerGeneration = it_ControllerGeneration t,
     tf_ActivityEpoch = it_ActivityEpoch t, tf_TakeoverSequence = it_TakeoverSequence t,
     tf_ConfirmedAt = time_unix_milli (it_ConfirmedAt t)\<rparr>"

fun normalize_takeovers ::
    "golib \<Rightarrow> gotime \<Rightarrow> int \<Rightarrow> string list \<Rightarrow> string list \<Rightarrow> independent_takeover list \<Rightarrow> takeover_fact list result" where
  "normalize_takeovers lib now generation operations claims [] = Inr []"
| "normalize_takeovers lib now generation operations claims (t # ts) =
     (if \<not> takeover_ok lib now generation t then Inl ''invalid confirmed independent takeover''
      else if it_OperationID t \<in> set operations then Inl ''duplicate confirmed independent takeover operation''
      else if it_ClaimID t \<in> set claims then Inl ''duplicate confirmed independent takeover claim''
      else
        (case normalize_takeovers lib now generation (it_OperationID t # operations) (it_ClaimID t # claims) ts of
           Inl e \<Rightarrow> Inl e
         | Inr fs \<Rightarrow> Inr (takeover_of t # fs)))"

definition normalizeNodeControlMode :: "golib \<Rightarrow> mode_report \<Rightarrow> gotime \<Rightarrow> mode_fact result" where
  "normalizeNodeControlMode lib r now =
     (if mr_Mode r \<noteq> NodeModeManaged \<and> mr_Mode r \<noteq> NodeModeControllerUnreachable \<and> mr_Mode r \<noteq> NodeModeIndependent \<and>
         mr_Mode r \<noteq> NodeModeIndependentDraining
      then Inl ''invalid node control mode''
      else if mr_ModeGeneration r \<le> 0 \<or> mr_ControllerGeneration r \<le> 0 \<or> mr_HeartbeatFails r < 0 \<or>
         mr_HealthProbeFails r < 0 \<or> mr_PeerWitnessFails r < 0 \<or> mr_ActiveIndependentSessions r < 0 \<or>
         mr_PendingUserSyncs r < 0 \<or> length (mr_ReasonCode r) > 128 \<or> line_break (mr_ReasonCode r)
      then Inl ''invalid node control mode evidence''
      else if mr_Mode r = NodeModeIndependent \<and> (mr_IndependentSince r = time_zero \<or>
         mr_ConfirmedOutageStartedAt r = time_zero \<or> mr_PeerWitnessFails r \<le> 0)
      then Inl ''independent mode is missing activation time''
      else if int (length (mr_PendingUsers r)) \<noteq> mr_PendingUserSyncs r \<or> length (mr_PendingUsers r) > 500
      then Inl ''pending independent synchronization count mismatch''
      else
        (case normalize_pending lib now [] [] (mr_PendingUsers r) of
           Inl e \<Rightarrow> Inl e
         | Inr pending \<Rightarrow>
             if length (mr_ConfirmedTakeovers r) > 1000 then Inl ''too many confirmed independent takeovers''
             else
               (case normalize_takeovers lib now (mr_ControllerGeneration r) [] [] (mr_ConfirmedTakeovers r) of
                  Inl e \<Rightarrow> Inl e
                | Inr takeovers \<Rightarrow>
                    Inr \<lparr>mf_Mode = mr_Mode r, mf_ModeGeneration = mr_ModeGeneration r,
                      mf_ControllerGeneration = mr_ControllerGeneration r, mf_ReasonCode = mr_ReasonCode r,
                      mf_HeartbeatFails = mr_HeartbeatFails r, mf_HealthProbeFails = mr_HealthProbeFails r,
                      mf_PeerWitnessFails = mr_PeerWitnessFails r, mf_OutageStartedAt = mr_OutageStartedAt r,
                      mf_ConfirmedOutageStartedAt = mr_ConfirmedOutageStartedAt r,
                      mf_LastControllerSuccessAt = mr_LastControllerSuccessAt r,
                      mf_IndependentSince = mr_IndependentSince r,
                      mf_ActiveIndependentSessions = mr_ActiveIndependentSessions r,
                      mf_PendingUserSyncs = mr_PendingUserSyncs r, mf_PendingUsers = pending,
                      mf_ConfirmedTakeovers = takeovers, mf_ObservedAt = now\<rparr>)))"

definition durableTakeoverAcknowledgements :: "independent_takeover list \<Rightarrow> bool \<Rightarrow> string list" where
  "durableTakeoverAcknowledgements takeovers durablyRecorded =
     (if durablyRecorded then map it_OperationID takeovers else [])"

definition heartbeatRequiresImmediateGate :: "int \<Rightarrow> int \<Rightarrow> string \<Rightarrow> bool" where
  "heartbeatRequiresImmediateGate authenticated active reportedMode \<longleftrightarrow>
     authenticated \<le> 0 \<or> active \<le> 0 \<or> authenticated \<noteq> active \<or> reportedMode \<noteq> NodeModeManaged"

definition validateActivityObservation :: "gotime \<Rightarrow> int \<Rightarrow> bool" where
  "validateActivityObservation now observedAt \<longleftrightarrow>
     observedAt = 0 \<or> \<not> (observedAt < 0 \<or> time_unix_milli observedAt > now + minute \<or>
       time_unix_milli observedAt < now - 5 * minute)"

section \<open>Admission gate\<close>

record gate =
  ga_newOperationsBlocked :: bool
  ga_controlPlaneReason :: string

definition setControlPlaneGate :: "bool \<Rightarrow> string \<Rightarrow> gate \<Rightarrow> gate" where
  "setControlPlaneGate blocked reason g =
     g\<lparr>ga_newOperationsBlocked := blocked, ga_controlPlaneReason := (if blocked then reason else [])\<rparr>"

text \<open>\<open>readable\<close> says whether the query of \<open>IsControlPlaneReady\<close> succeeded.\<close>

definition refreshControlPlaneGate :: "bool \<Rightarrow> db \<Rightarrow> gate \<Rightarrow> gate \<times> unit result" where
  "refreshControlPlaneGate readable d g =
     (if \<not> readable then (setControlPlaneGate True ''control_state_unavailable'' g, Inl dbError)
      else if IsControlPlaneReady d then (setControlPlaneGate False [] g, Inr ())
      else (setControlPlaneGate True ''node_reconciliation_required'' g, Inr ()))"

definition requireNewOperations :: "gate \<Rightarrow> bool" where
  "requireNewOperations g \<longleftrightarrow> \<not> ga_newOperationsBlocked g"

text \<open>
  The two places where a heartbeat moves the gate: before any durable change, and after the
  decision of the store.
\<close>

definition heartbeat_gate_before :: "int \<Rightarrow> int \<Rightarrow> string \<Rightarrow> gate \<Rightarrow> gate" where
  "heartbeat_gate_before authenticated active reportedMode g =
     (if heartbeatRequiresImmediateGate authenticated active reportedMode
      then setControlPlaneGate True ''node_reconciliation_required'' g else g)"

definition heartbeat_gate_after :: "bool \<Rightarrow> int \<Rightarrow> string \<Rightarrow> mode_decision \<Rightarrow> db \<Rightarrow> gate \<Rightarrow> gate" where
  "heartbeat_gate_after readable authenticated reportedMode q d g =
     (if authenticated \<noteq> md_ControllerGeneration q \<or> reportedMode \<noteq> NodeModeManaged \<or> md_DesiredMode q \<noteq> NodeModeManaged
      then setControlPlaneGate True ''node_reconciliation_required'' g
      else if ga_newOperationsBlocked g then fst (refreshControlPlaneGate readable d g) else g)"

section \<open>Credential rotation\<close>

text \<open>
  \<open>agentCredentialRotationOffer\<close>: the random secret and its encryptions are arguments. The
  stored ciphertext of the rotation that the store returns is decrypted with \<open>unseal\<close> and
  wrapped for the agent with \<open>wrap\<close>.
\<close>

definition agentCredentialRotationOffer ::
    "tx_fault \<Rightarrow> string \<Rightarrow> string \<Rightarrow> string \<Rightarrow> (string \<Rightarrow> string result) \<Rightarrow> (string \<Rightarrow> string \<Rightarrow> string) \<Rightarrow> int \<Rightarrow> string \<Rightarrow>
     int \<Rightarrow> gotime \<Rightarrow> db \<Rightarrow> db \<times> rotation_offer option result" where
  "agentCredentialRotationOffer flt rotationID operationID ciphertext unseal wrap nodeID currentPSK generation now d =
     (if currentPSK = [] \<or> generation \<le> 0 then (d, Inl ErrAgentCredentialRotation)
      else
        (case EnsureAgentCredentialRotation flt \<lparr>rp_ID = rotationID, rp_OperationID = operationID, rp_NodeID = nodeID,
                rp_ProposedCiphertext = ciphertext, rp_ControllerGeneration = generation, rp_Now = now,
                rp_ExpiresAt = now + 24 * hour\<rparr> d of
           (d', Inl e) \<Rightarrow> (d', Inl e)
         | (d', Inr None) \<Rightarrow> (d', Inr None)
         | (d', Inr (Some r)) \<Rightarrow>
             (case unseal (ra_Ciphertext r) of
                Inl e \<Rightarrow> (d', Inl e)
              | Inr psk \<Rightarrow> (d', Inr (Some \<lparr>ro_CredentialVersion = ra_Version r,
                  ro_ControllerGeneration = ra_ControllerGeneration r, ro_EncryptedPSK = wrap currentPSK psk,
                  ro_ExpiresAt = ra_ExpiresAt r\<rparr>)))))"

text \<open>\<open>handleAgentConfirmCredential\<close>: the status of the answer, with its body.\<close>

definition handleAgentConfirmCredential ::
    "tx_fault \<Rightarrow> bool \<Rightarrow> int \<Rightarrow> gotime \<Rightarrow> int \<Rightarrow> int option \<Rightarrow> db \<Rightarrow> gate \<Rightarrow> db \<times> gate \<times> int \<times> confirm_response option" where
  "handleAgentConfirmCredential flt readable nodeID now matchedVersion requested d g =
     (case requested of
        None \<Rightarrow> (d, g, 400, None)
      | Some v \<Rightarrow>
          if v \<le> 0 \<or> v \<noteq> matchedVersion then (d, g, 400, None)
          else
            (case ActivateAgentCredentialRotation flt nodeID v now d of
               (d', Inl e) \<Rightarrow> (d', g, 409, None)
             | (d', Inr generation) \<Rightarrow> (d', fst (refreshControlPlaneGate readable d' g), 200,
                 Some \<lparr>cf_OK = True, cf_CredentialVersion = v, cf_ControllerGeneration = generation\<rparr>)))"

end
