(* ===== verification/Mode_Safety.thy ===== *)
theory Mode_Safety
  imports Agent_Mode
begin

text \<open>
  What the control mode guarantees. The mode only changes together with its generation; a node
  becomes independent only after a long enough unbroken row of confirmed failures; it never
  skips the draining boundary on its way back; and a loss of the controller is confirmed only
  by a majority of distinct witnesses without a dissenting one.
\<close>

section \<open>One failed heartbeat\<close>

lemma count_failure_sel [simp]:
  "cm_Mode (count_failure now hp pq s) = cm_Mode s"
  "cm_ReasonCode (count_failure now hp pq s) = cm_ReasonCode s"
  "cm_ModeGeneration (count_failure now hp pq s) = cm_ModeGeneration s"
  "cm_IndependentSince (count_failure now hp pq s) = cm_IndependentSince s"
  "cm_HeartbeatFails (count_failure now hp pq s) = i64 (cm_HeartbeatFails s + 1)"
  "cm_HealthProbeFails (count_failure now hp pq s) = (if hp then i64 (cm_HealthProbeFails s + 1) else 0)"
  "cm_PeerWitnessFails (count_failure now hp pq s) = (if hp \<and> pq then i64 (cm_PeerWitnessFails s + 1) else 0)"
  "cm_ConfirmedOutageStartedAt (count_failure now hp pq s) =
     (if hp \<and> pq then (if cm_PeerWitnessFails s = 0 \<or> cm_ConfirmedOutageStartedAt s = time_zero then now
                       else cm_ConfirmedOutageStartedAt s) else time_zero)"
  "cm_ActiveIndependentSessions (count_failure now hp pq s) = cm_ActiveIndependentSessions s"
  "cm_PendingUserSyncs (count_failure now hp pq s) = cm_PendingUserSyncs s"
  by (auto simp: count_failure_def Let_def)

definition failure_target :: "normalized_policy \<Rightarrow> string \<Rightarrow> gotime \<Rightarrow> bool \<Rightarrow> bool \<Rightarrow> control_mode \<Rightarrow> string" where
  "failure_target p role now hp pq s = fst (decide_failure p role now hp pq (count_failure now hp pq s))"

lemma failure_mode_sel:
  "cm_Mode (failure_mode p role now hp pq s) = failure_target p role now hp pq s"
  "cm_ModeGeneration (failure_mode p role now hp pq s) =
     (if failure_target p role now hp pq s = cm_Mode s then cm_ModeGeneration s else i64 (cm_ModeGeneration s + 1))"
  "cm_HeartbeatFails (failure_mode p role now hp pq s) = i64 (cm_HeartbeatFails s + 1)"
  "cm_HealthProbeFails (failure_mode p role now hp pq s) = (if hp then i64 (cm_HealthProbeFails s + 1) else 0)"
  "cm_PeerWitnessFails (failure_mode p role now hp pq s) = (if hp \<and> pq then i64 (cm_PeerWitnessFails s + 1) else 0)"
  "cm_ConfirmedOutageStartedAt (failure_mode p role now hp pq s) =
     (if hp \<and> pq then (if cm_PeerWitnessFails s = 0 \<or> cm_ConfirmedOutageStartedAt s = time_zero then now
                       else cm_ConfirmedOutageStartedAt s) else time_zero)"
  by (simp_all add: failure_mode_def failure_target_def Let_def case_prod_unfold)

lemma failure_target_cases:
  "failure_target p role now hp pq s =
     (let s' = count_failure now hp pq s;
          m1 = (if cm_Mode s = NodeModeIndependent \<and> (\<not> hp \<or> \<not> pq) then NodeModeIndependentDraining else cm_Mode s);
          m2 = (if m1 = NodeModeManaged \<and> time_sub now (cm_OutageStartedAt s') \<ge> np_unreachableAfter p
                then NodeModeControllerUnreachable else m1)
      in if m2 \<noteq> NodeModeIndependentDraining \<and> evidence_sustained p role now s' then NodeModeIndependent else m2)"
  by (simp add: failure_target_def decide_failure_def Let_def)

lemma failure_not_managed:
  "failure_target p role now hp pq s = NodeModeManaged \<Longrightarrow> cm_Mode s = NodeModeManaged"
  by (auto simp: failure_target_cases Let_def split: if_splits)

lemma failure_draining:
  "cm_Mode s = NodeModeIndependentDraining \<Longrightarrow> failure_target p role now hp pq s = NodeModeIndependentDraining"
  by (simp add: failure_target_cases Let_def)

lemma failure_disputed:
  "cm_Mode s = NodeModeIndependent \<Longrightarrow> \<not> (hp \<and> pq) \<Longrightarrow>
   failure_target p role now hp pq s = NodeModeIndependentDraining"
  by (auto simp: failure_target_cases Let_def)

lemma failure_independent:
  assumes "failure_target p role now hp pq s = NodeModeIndependent" and "cm_Mode s \<noteq> NodeModeIndependent"
  shows "evidence_sustained p role now (count_failure now hp pq s)"
  using assms by (auto simp: failure_target_cases Let_def split: if_splits)

lemma record_failure_state:
  "ag_state (fst (recordControllerFailure flt now hp pq a)) =
     (ag_state a)\<lparr>rs_ControlMode := failure_mode (normalizeDisasterPolicy (cfg_Disaster (ag_Cfg a)))
        (cfg_Role (ag_Cfg a)) now hp pq (agent_mode a)\<rparr>"
  "ag_Cfg (fst (recordControllerFailure flt now hp pq a)) = ag_Cfg a"
  by (simp_all add: recordControllerFailure_def)

section \<open>One successful heartbeat\<close>

lemma accept_lease_mode:
  "recordActivityLeaseConfirmations lib clock now r a = (b, x) \<Longrightarrow>
   rs_ControlMode (ag_state b) = rs_ControlMode (ag_state a) \<and> ag_Cfg b = ag_Cfg a \<and>
   rs_HighestGeneration (ag_state b) = rs_HighestGeneration (ag_state a)"
  by (auto simp: recordActivityLeaseConfirmations_def Let_def split: if_splits sum.splits)

lemma acknowledgement_errors: "check_acknowledgements seen is \<noteq> Inl saveError"
  by (induction seen "is" rule: check_acknowledgements.induct) auto

lemma mode_refused_errors: "mode_refused r s \<noteq> Some saveError"
  by (simp add: mode_refused_def)

text \<open>
  The answer of the controller was applied: the counters were reset and the mode set, even when
  the save at the end failed.
\<close>

definition answer_applied :: "unit result \<Rightarrow> bool" where
  "answer_applied r \<longleftrightarrow> r = Inr () \<or> r = Inl saveError"

lemma accept_mode:
  "acceptGeneration flt g a = (b, ok) \<Longrightarrow> agent_mode b = agent_mode a \<and> ag_Cfg b = ag_Cfg a"
  using acceptGeneration_cases [of flt g a b ok] by (cases ok) auto

lemma record_success_cases:
  assumes "recordControllerSuccess lib flt1 flt2 clock now response a = (b, r)"
  shows "ag_Cfg b = ag_Cfg a \<and>
    (if answer_applied r then
       mode_refused response (agent_mode a) = None \<and> validNodeControlMode (hb_DesiredMode response) \<and>
       agent_mode b = success_mode now response (desired_mode response (agent_mode a)) (agent_mode a)
     else agent_mode b = agent_mode a)"
proof -
  obtain c ok where c: "acceptGeneration flt1 (hb_ControllerGeneration response) a = (c, ok)"
    by (cases "acceptGeneration flt1 (hb_ControllerGeneration response) a")
  note cm = accept_mode [OF c]
  show ?thesis
    using assms c cm acknowledgement_errors [of "[]" "hb_AcknowledgedTakeovers response"]
      mode_refused_errors [of response "agent_mode a"]
    by (auto simp: recordControllerSuccess_def answer_applied_def
        split: if_splits sum.splits option.splits prod.splits
        dest!: accept_lease_mode update_save_result)
qed

lemma success_mode_sel:
  "cm_Mode (success_mode now r d s) = d"
  "cm_ModeGeneration (success_mode now r d s) = (if d = cm_Mode s then cm_ModeGeneration s else hb_ModeGeneration r)"
  "cm_HeartbeatFails (success_mode now r d s) = 0"
  "cm_HealthProbeFails (success_mode now r d s) = 0"
  "cm_PeerWitnessFails (success_mode now r d s) = 0"
  "cm_ConfirmedOutageStartedAt (success_mode now r d s) = time_zero"
  by (auto simp: success_mode_def Let_def)

lemma mode_refused_None:
  "mode_refused r s = None \<Longrightarrow>
     cm_ModeGeneration s \<le> hb_ModeGeneration r \<and>
     (desired_mode r s \<noteq> cm_Mode s \<longrightarrow> cm_ModeGeneration s < hb_ModeGeneration r) \<and>
     (cm_Mode s = NodeModeIndependentDraining \<longrightarrow> desired_mode r s = NodeModeManaged \<longrightarrow>
        cm_ActiveIndependentSessions s \<le> 0 \<and> cm_PendingUserSyncs s \<le> 0)"
  by (auto simp: mode_refused_def split: if_splits)

lemma desired_not_managed: "cm_Mode s = NodeModeIndependent \<Longrightarrow> desired_mode r s \<noteq> NodeModeManaged"
  by (simp add: desired_mode_def)

section \<open>Runs of heartbeats\<close>

datatype mode_event =
    Failed gotime bool bool save_fault
  | Answered gotime gotime heartbeat_response save_fault save_fault

text \<open>
  The state of a run: the agent, and the times of the confirmed failures since the last
  heartbeat that was not one (a ghost of the run that the code does not have).
\<close>

fun mode_step :: "golib \<Rightarrow> mode_event \<Rightarrow> agent \<times> gotime list \<Rightarrow> agent \<times> gotime list" where
  "mode_step lib (Failed now hp pq flt) (a, row) =
     (fst (recordControllerFailure flt now hp pq a), if hp \<and> pq then row @ [now] else [])"
| "mode_step lib (Answered clock now response flt1 flt2) (a, row) =
     (let (b, r) = recordControllerSuccess lib flt1 flt2 clock now response a
      in (b, if answer_applied r then [] else row))"

definition mode_run :: "golib \<Rightarrow> mode_event list \<Rightarrow> agent \<times> gotime list \<Rightarrow> agent \<times> gotime list" where
  "mode_run lib evs s = fold (mode_step lib) evs s"

fun event_time :: "mode_event \<Rightarrow> gotime" where
  "event_time (Failed now hp pq flt) = now"
| "event_time (Answered clock now response flt1 flt2) = now"

definition row_counted :: "nat \<Rightarrow> agent \<times> gotime list \<Rightarrow> bool" where
  "row_counted n s \<longleftrightarrow>
     (case s of (a, row) \<Rightarrow>
        cm_PeerWitnessFails (agent_mode a) = int (length row) \<and>
        cm_ConfirmedOutageStartedAt (agent_mode a) = (if row = [] then time_zero else hd row) \<and>
        time_zero \<notin> set row \<and>
        cm_HealthProbeFails (agent_mode a) \<in> {int (length row) .. int n} \<and>
        cm_HeartbeatFails (agent_mode a) \<in> {int (length row) .. int n})"

lemma i64_count: "0 \<le> c \<Longrightarrow> c \<le> int n \<Longrightarrow> int n < MaxInt64 \<Longrightarrow> i64 (c + 1) = c + 1"
  by (rule i64_id) (simp add: in_i64_def)

lemma mode_step_counted:
  assumes "row_counted n s" and "int n < MaxInt64" and "event_time e \<noteq> time_zero"
  shows "row_counted (Suc n) (mode_step lib e s)"
proof (cases s)
  case (Pair a row)
  note c = assms(1) [unfolded row_counted_def Pair prod.case]
  show ?thesis
  proof (cases e)
    case (Failed now hp pq flt)
    have "i64 (cm_PeerWitnessFails (agent_mode a) + 1) = int (length row) + 1"
      "i64 (cm_HealthProbeFails (agent_mode a) + 1) = cm_HealthProbeFails (agent_mode a) + 1"
      "i64 (cm_HeartbeatFails (agent_mode a) + 1) = cm_HeartbeatFails (agent_mode a) + 1"
      using c assms(2) i64_count [of _ n] by auto
    moreover have "row \<noteq> [] \<Longrightarrow> hd row \<noteq> time_zero"
      using c hd_in_set [of row] by metis
    ultimately show ?thesis
      using c Failed assms(3) Pair
      by (auto simp: row_counted_def record_failure_state failure_mode_sel)
  next
    case (Answered clock now response flt1 flt2)
    obtain b r where b: "recordControllerSuccess lib flt1 flt2 clock now response a = (b, r)"
      by (cases "recordControllerSuccess lib flt1 flt2 clock now response a")
    show ?thesis
      using c record_success_cases [OF b] b Answered Pair
      by (auto simp: row_counted_def success_mode_sel split: if_splits)
  qed
qed

lemma mode_run_counted:
  assumes "row_counted n s" and "\<forall>e \<in> set evs. event_time e \<noteq> time_zero" and "int (n + length evs) \<le> MaxInt64"
  shows "row_counted (n + length evs) (mode_run lib evs s)"
  using assms
proof (induction evs arbitrary: n s)
  case Nil
  then show ?case by (simp add: mode_run_def)
next
  case (Cons e evs)
  then have "row_counted (Suc n) (mode_step lib e s)" by (intro mode_step_counted) auto
  from Cons.IH [OF this] Cons.prems show ?case by (simp add: mode_run_def)
qed

section \<open>Generations and the draining boundary\<close>

abbreviation run_mode :: "agent \<times> gotime list \<Rightarrow> control_mode" where
  "run_mode s \<equiv> agent_mode (fst s)"

lemma mode_step_fence:
  assumes "0 \<le> cm_ModeGeneration (run_mode s)" and "cm_ModeGeneration (run_mode s) < MaxInt64"
  shows "cm_ModeGeneration (run_mode s) \<le> cm_ModeGeneration (run_mode (mode_step lib e s)) \<and>
    (cm_Mode (run_mode (mode_step lib e s)) \<noteq> cm_Mode (run_mode s) \<longrightarrow>
       cm_ModeGeneration (run_mode s) < cm_ModeGeneration (run_mode (mode_step lib e s)))"
proof (cases s)
  case (Pair a row)
  show ?thesis
  proof (cases e)
    case (Failed now hp pq flt)
    have "i64 (cm_ModeGeneration (agent_mode a) + 1) = cm_ModeGeneration (agent_mode a) + 1"
      using assms Pair by (intro i64_id) (simp add: in_i64_def)
    then show ?thesis using Failed Pair by (simp add: record_failure_state failure_mode_sel)
  next
    case (Answered clock now response flt1 flt2)
    obtain b r where b: "recordControllerSuccess lib flt1 flt2 clock now response a = (b, r)"
      by (cases "recordControllerSuccess lib flt1 flt2 clock now response a")
    show ?thesis
      using record_success_cases [OF b] mode_refused_None [of response "agent_mode a"] b Answered Pair
      by (auto simp: success_mode_sel split: if_splits)
  qed
qed

fun answers_unreachable :: "mode_event \<Rightarrow> bool" where
  "answers_unreachable (Failed now hp pq flt) = False"
| "answers_unreachable (Answered clock now response flt1 flt2) =
     (hb_DesiredMode response = NodeModeControllerUnreachable)"

abbreviation outside_control :: "string \<Rightarrow> bool" where
  "outside_control m \<equiv> m = NodeModeIndependent \<or> m = NodeModeIndependentDraining"

definition drained :: "control_mode \<Rightarrow> bool" where
  "drained m \<longleftrightarrow> cm_Mode m = NodeModeIndependentDraining \<and> cm_ActiveIndependentSessions m \<le> 0 \<and>
     cm_PendingUserSyncs m \<le> 0"

lemma mode_step_boundary:
  assumes "outside_control (cm_Mode (run_mode s))" and "\<not> answers_unreachable e"
  shows "outside_control (cm_Mode (run_mode (mode_step lib e s))) \<or> drained (run_mode s)"
proof (cases s)
  case (Pair a row)
  show ?thesis
  proof (cases e)
    case (Failed now hp pq flt)
    then show ?thesis using assms(1) Pair
      by (auto simp: record_failure_state failure_mode_sel failure_target_cases Let_def)
  next
    case (Answered clock now response flt1 flt2)
    obtain b r where b: "recordControllerSuccess lib flt1 flt2 clock now response a = (b, r)"
      by (cases "recordControllerSuccess lib flt1 flt2 clock now response a")
    have "answer_applied r \<Longrightarrow> validNodeControlMode (hb_DesiredMode response)"
      using record_success_cases [OF b] by simp
    then show ?thesis
      using assms record_success_cases [OF b] mode_refused_None [of response "agent_mode a"] b Answered Pair
      by (auto simp: success_mode_sel validNodeControlMode_def desired_mode_def drained_def split: if_splits)
  qed
qed

lemma mode_run_Cons: "mode_run lib (e # evs) s = mode_run lib evs (mode_step lib e s)"
  by (simp add: mode_run_def)

lemma mode_run_fence:
  assumes "\<forall>k \<le> length evs. cm_ModeGeneration (run_mode (mode_run lib (take k evs) s)) \<in> {0 ..< MaxInt64}"
  shows "cm_ModeGeneration (run_mode s) \<le> cm_ModeGeneration (run_mode (mode_run lib evs s)) \<and>
    (cm_Mode (run_mode (mode_run lib evs s)) \<noteq> cm_Mode (run_mode s) \<longrightarrow>
       cm_ModeGeneration (run_mode s) < cm_ModeGeneration (run_mode (mode_run lib evs s)))"
  using assms
proof (induction evs arbitrary: s)
  case Nil
  then show ?case by (simp add: mode_run_def)
next
  case (Cons e evs)
  have "\<forall>k \<le> length evs. cm_ModeGeneration (run_mode (mode_run lib (take k evs) (mode_step lib e s))) \<in> {0 ..< MaxInt64}"
    using Cons.prems mode_run_Cons by (metis Suc_le_mono length_Cons take_Suc_Cons)
  note IH = Cons.IH [OF this]
  have "cm_ModeGeneration (run_mode s) \<in> {0 ..< MaxInt64}"
    using Cons.prems [rule_format, of 0] by (simp add: mode_run_def)
  then have st: "cm_ModeGeneration (run_mode s) \<le> cm_ModeGeneration (run_mode (mode_step lib e s))"
    "cm_Mode (run_mode (mode_step lib e s)) \<noteq> cm_Mode (run_mode s) \<Longrightarrow>
       cm_ModeGeneration (run_mode s) < cm_ModeGeneration (run_mode (mode_step lib e s))"
    using mode_step_fence [of s lib e] by auto
  show ?case unfolding mode_run_Cons
    using IH st by (cases "cm_Mode (run_mode (mode_step lib e s)) = cm_Mode (run_mode s)") auto
qed

lemma mode_run_boundary:
  assumes "outside_control (cm_Mode (run_mode s))" and "\<forall>e \<in> set evs. \<not> answers_unreachable e"
    and "\<not> outside_control (cm_Mode (run_mode (mode_run lib evs s)))"
  shows "\<exists>k < length evs. drained (run_mode (mode_run lib (take k evs) s))"
  using assms
proof (induction evs arbitrary: s)
  case Nil
  then show ?case by (simp add: mode_run_def)
next
  case (Cons e evs)
  show ?case
  proof (cases "drained (run_mode s)")
    case True
    then show ?thesis by (intro exI [of _ 0]) (simp add: mode_run_def)
  next
    case False
    then have "outside_control (cm_Mode (run_mode (mode_step lib e s)))"
      using mode_step_boundary [of s e lib] Cons.prems by simp
    then obtain k where "k < length evs" "drained (run_mode (mode_run lib (take k evs) (mode_step lib e s)))"
      using Cons.IH [of "mode_step lib e s"] Cons.prems by (auto simp: mode_run_Cons)
    then show ?thesis by (intro exI [of _ "Suc k"]) (simp add: mode_run_Cons)
  qed
qed

section \<open>Witness rounds\<close>

lemma witness_rounds_Some:
  "witness_rounds n evs acc = Some ws \<Longrightarrow> distinct acc \<Longrightarrow>
   n \<le> length evs \<and> distinct ws \<and>
   set ws = set acc \<union> {wr_WitnessNodeID r | r. Valid r \<in> set (take n evs)} \<and>
   (\<forall>r. Valid r \<in> set (take n evs) \<longrightarrow> \<not> wr_ControllerAvailable r) \<and> CtxDone \<notin> set (take n evs)"
proof (induction n evs acc rule: witness_rounds.induct)
  case (5 n r evs acc)
  then have nav: "\<not> wr_ControllerAvailable r" and IH: "witness_rounds n evs (List.insert (wr_WitnessNodeID r) acc) = Some ws"
    by (auto split: if_splits)
  from "5.IH" [OF nav IH] "5.prems"(2) nav show ?case by auto
qed auto

section \<open>Properties\<close>

definition fresh_modes :: "agent \<Rightarrow> bool" where
  "fresh_modes a \<longleftrightarrow> cm_PeerWitnessFails (agent_mode a) = 0 \<and> cm_ConfirmedOutageStartedAt (agent_mode a) = time_zero \<and>
     cm_HealthProbeFails (agent_mode a) = 0 \<and> cm_HeartbeatFails (agent_mode a) = 0"

definition managed_agent :: agent where
  "managed_agent = set_state (\<lambda>s. s\<lparr>rs_ControlMode := zero_control_mode\<lparr>cm_Mode := NodeModeManaged, cm_ModeGeneration := 1\<rparr>\<rparr>)
     (new_agent sample_cfg)"



text \<open>
  C18. The mode generation is a fence and draining is a boundary. In a run of heartbeats the
  mode generation never goes down and every change of mode raises it, so one generation names
  one mode; and a node that was independent or draining is under control again only after it
  was draining with no independent session and no pending user left, as long as the controller
  does not order it to be unreachable.
\<close>

theorem mode_generation_and_boundary:
  assumes "mode_run lib evs s = t"
    and "\<forall>k \<le> length evs. cm_ModeGeneration (run_mode (mode_run lib (take k evs) s)) \<in> {0 ..< MaxInt64}"
    and "\<forall>e \<in> set evs. \<not> answers_unreachable e"
  shows "cm_ModeGeneration (run_mode s) \<le> cm_ModeGeneration (run_mode t) \<and>
    (cm_ModeGeneration (run_mode s) = cm_ModeGeneration (run_mode t) \<longrightarrow> cm_Mode (run_mode s) = cm_Mode (run_mode t)) \<and>
    (outside_control (cm_Mode (run_mode s)) \<longrightarrow> managedCommandsAllowed (fst t) \<longrightarrow>
      (\<exists>k < length evs. drained (run_mode (mode_run lib (take k evs) s))))"
proof (intro conjI impI)
  note f = mode_run_fence [OF assms(2), unfolded assms(1)]
  show "cm_ModeGeneration (run_mode s) \<le> cm_ModeGeneration (run_mode t)" using f by simp
  show "cm_Mode (run_mode s) = cm_Mode (run_mode t)" if "cm_ModeGeneration (run_mode s) = cm_ModeGeneration (run_mode t)"
    using f that by (metis order_less_irrefl)
  show "\<exists>k < length evs. drained (run_mode (mode_run lib (take k evs) s))"
    if "outside_control (cm_Mode (run_mode s))" and "managedCommandsAllowed (fst t)"
    using that assms(1) by (intro mode_run_boundary [OF _ assms(3)]) (auto simp: managedCommandsAllowed_def)
qed

definition independent_agent :: agent where
  "independent_agent = set_state (\<lambda>s. s\<lparr>rs_HighestGeneration := 1, rs_ControlMode := zero_control_mode\<lparr>cm_Mode := NodeModeIndependent,
     cm_ModeGeneration := 3\<rparr>\<rparr>) (new_agent sample_cfg)"

definition sample_answer :: "string \<Rightarrow> int \<Rightarrow> heartbeat_response" where
  "sample_answer m g = \<lparr>hb_ControllerGeneration = 1, hb_DesiredMode = m, hb_ModeGeneration = g,
     hb_AcknowledgedTakeovers = [], hb_CredentialRotation = None, hb_LeaseConfirmedAt = 0,
     hb_LeaseConfirmations = [], hb_ExpectedDiskQuotaBytes = 0, hb_QuotaPolicyVersion = 0\<rparr>"

theorem mode_generation_and_boundary_witness:
  "let evs = [Answered 1 1 (sample_answer NodeModeManaged 4) NoFault NoFault,
              Answered 2 2 (sample_answer NodeModeManaged 5) NoFault NoFault];
       s = (independent_agent, [])
   in managedCommandsAllowed (fst (mode_run sample_lib evs s)) \<and>
      (\<exists>k < 2. drained (run_mode (mode_run sample_lib (take k evs) s)))"
proof -
  let ?evs = "[Answered 1 1 (sample_answer NodeModeManaged 4) NoFault NoFault,
              Answered 2 2 (sample_answer NodeModeManaged 5) NoFault NoFault]"
  let ?s = "(independent_agent, [])"
  have m: "outside_control (cm_Mode (run_mode ?s))" "managedCommandsAllowed (fst (mode_run sample_lib ?evs ?s))"
    by code_simp+
  have "cm_ModeGeneration (run_mode (mode_run sample_lib (take 0 ?evs) ?s)) = 3"
    "cm_ModeGeneration (run_mode (mode_run sample_lib (take 1 ?evs) ?s)) = 4"
    "cm_ModeGeneration (run_mode (mode_run sample_lib (take 2 ?evs) ?s)) = 5"
    by code_simp+
  then have "\<forall>k \<le> length ?evs. cm_ModeGeneration (run_mode (mode_run sample_lib (take k ?evs) ?s)) \<in> {0 ..< MaxInt64}"
    by (auto simp: le_Suc_eq numeral_2_eq_2)
  moreover have "\<forall>e \<in> set ?evs. \<not> answers_unreachable e" by (simp add: sample_answer_def)
  moreover have "length ?evs = 2" by simp
  ultimately show ?thesis
    using mode_generation_and_boundary [OF refl, of ?evs sample_lib ?s] m unfolding Let_def by metis
qed

text \<open>
  C19. A loss of the controller is confirmed by a majority. When the peer quorum confirms a
  loss on answers that passed the probe, every configured peer was heard, no valid answer says
  that the controller is available, and the confirming witnesses are distinct nodes other than
  the node itself, watching the same controller: together with the node a strict majority of
  the group of the node and its peers.
\<close>

theorem confirmed_loss_has_majority:
  assumes "peerWitnessQuorumConfirmsLoss lib endpoint fp evs a"
    and "\<forall>r. Valid r \<in> set evs \<longrightarrow>
      (\<exists>now nonce t sig body dec. probePeerWitness lib now fingerprint nonce t sig body dec a = Valid r)"
  defines "heard \<equiv> take (length (peer_urls a)) evs"
  shows "length heard = length (peer_urls a) \<and> (\<forall>r. Valid r \<in> set heard \<longrightarrow> \<not> wr_ControllerAvailable r) \<and>
    (\<exists>ws. distinct (self_id a # ws) \<and> length (peer_urls a) + 1 < 2 * length (self_id a # ws) \<and>
       (\<forall>w \<in> set ws. \<exists>r. Valid r \<in> set heard \<and> wr_WitnessNodeID r = w \<and> wr_ControllerFingerprint r = fingerprint))"
proof -
  let ?n = "length (peer_urls a)"
  obtain ws where ws: "witness_rounds ?n evs [] = Some ws" and q: "length ws \<ge> required_confirmations ?n"
    using assms(1) by (auto simp: peerWitnessQuorumConfirmsLoss_def split: if_splits option.splits)
  note w = witness_rounds_Some [OF ws, simplified]
  have pr: "wr_WitnessNodeID r \<noteq> self_id a \<and> wr_ControllerFingerprint r = fingerprint" if "Valid r \<in> set heard" for r
    using assms(2) that in_set_takeD [of "Valid r" ?n evs]
    by (auto simp: heard_def probePeerWitness_def split: option.splits if_splits)
  have "self_id a \<notin> set ws" using w pr unfolding heard_def by fastforce
  then have "distinct (self_id a # ws)" using w by simp
  moreover have "?n + 1 < 2 * length (self_id a # ws)" using q by (simp add: required_confirmations_def)
  moreover have "\<forall>x \<in> set ws. \<exists>r. Valid r \<in> set heard \<and> wr_WitnessNodeID r = x \<and> wr_ControllerFingerprint r = fingerprint"
    using w pr by (auto simp: heard_def)
  moreover have "length heard = ?n" "\<forall>r. Valid r \<in> set heard \<longrightarrow> \<not> wr_ControllerAvailable r"
    using w by (simp_all add: heard_def)
  ultimately show ?thesis by blast
qed

definition witnessed_agent :: agent where
  "witnessed_agent = (new_agent (sample_cfg\<lparr>cfg_Disaster := \<lparr>dp_UnreachableAfterSec = 0, dp_IndependentAfterSec = 0,
     dp_MinFailedHeartbeats = 0, dp_PeerWitnessURLs = [''https://peer''], dp_PeerWitnessSecretEnv = ''S''\<rparr>\<rparr>))
     \<lparr>ag_peerWitnessSecret := replicate 32 CHR ''s''\<rparr>"

definition sample_witness :: witness_response where
  "sample_witness = \<lparr>wr_OK = True, wr_WitnessNodeID = 99, wr_ControllerFingerprint = ''fp'',
     wr_ControllerAvailable = False, wr_ObservedAt = 1000\<rparr>"

theorem confirmed_loss_has_majority_witness:
  "peerWitnessQuorumConfirmsLoss sample_lib Inr (Inr ()) [Valid sample_witness] witnessed_agent \<and>
   (\<exists>ws. distinct (self_id witnessed_agent # ws) \<and> 2 < 2 * length (self_id witnessed_agent # ws))"
proof -
  have c: "peerWitnessQuorumConfirmsLoss sample_lib Inr (Inr ()) [Valid sample_witness] witnessed_agent"
    by code_simp
  have pi: "ParseInt ''1'' = Some 1" and id: "0 < self_id witnessed_agent" "self_id witnessed_agent < 99"
    by code_simp+
  have "probePeerWitness sample_lib (time_unix 1) ''fp'' ''n'' ''1''
     (Sign sample_lib (ag_peerWitnessSecret witnessed_agent) ''RESPONSE'' ''/agent/disaster-witness/v1'' ''1'' ''n'' ''b'')
     ''b'' (Some sample_witness) witnessed_agent = Valid sample_witness"
    using pi id unfolding probePeerWitness_def
    by (simp add: sample_witness_def go_div_def time_sub_def absDuration_def MaxClockSkew_def time_unix_def time_unix_milli_def unix_origin_def second_def i64_def)
  then have "\<forall>r. Valid r \<in> set [Valid sample_witness] \<longrightarrow>
      (\<exists>now nonce t sig body dec. probePeerWitness sample_lib now ''fp'' nonce t sig body dec witnessed_agent = Valid r)"
    by (intro allI impI) (simp, blast)
  from confirmed_loss_has_majority [OF c this] c show ?thesis
    by (auto simp: witnessed_agent_def new_agent_def)
qed

text \<open>
  The disaster policy can order its own deadlines the wrong way round. A node whose policy
  sets a controller-unreachable delay of more than fifteen minutes and leaves the independence
  delay unset is normalised to a policy in which independence comes before the
  controller-unreachable state, although the default is chosen exactly to be the later one.
\<close>

lemma normalized_policy_order:
  assumes "in_i64 (dp_UnreachableAfterSec p * second)" and "in_i64 (dp_IndependentAfterSec p * second)"
  shows "np_independentAfter (normalizeDisasterPolicy p) < np_unreachableAfter (normalizeDisasterPolicy p) \<longleftrightarrow>
    900 < dp_UnreachableAfterSec p \<and> dp_IndependentAfterSec p \<le> dp_UnreachableAfterSec p"
proof -
  have "in_i64 (900 * second)" "in_i64 (45 * second)" by (simp_all add: in_i64_def second_def)
  then show ?thesis using assms by (auto simp: normalizeDisasterPolicy_def Let_def i64_id second_def)
qed

lemma normalized_policy_order_witness:
  "let p = normalizeDisasterPolicy \<lparr>dp_UnreachableAfterSec = 1800, dp_IndependentAfterSec = 0,
     dp_MinFailedHeartbeats = 4, dp_PeerWitnessURLs = [], dp_PeerWitnessSecretEnv = []\<rparr>
   in np_independentAfter p < np_unreachableAfter p"
  unfolding Let_def by (subst normalized_policy_order) (simp_all add: in_i64_def second_def)

end
