(* ===== verification/Independent_Safety.thy ===== *)
theory Independent_Safety
  imports Reconcile_Safety
begin

text \<open>
  What the controller keeps of independent operation: every reported write has a durable row,
  users who wrote on two nodes are frozen, a node returns to managed mode only when nothing is
  left to reconcile, and the handles that an agent accepts but a report may not carry.
\<close>

section \<open>Rows of reconciliations\<close>

definition rkey :: "reconciliation_row \<Rightarrow> int \<times> string \<times> string" where
  "rkey r = (ir_NodeID r, ir_LocalHandle r, ir_Marker r)"

lemma cancel_workflows_same [simp]:
  "db_reconciliations (cancel_workflows c s now P d) = db_reconciliations d"
  "db_capabilities (cancel_workflows c s now P d) = db_capabilities d"
  "db_replica_copies (cancel_workflows c s now P d) = db_replica_copies d"
  "db_users (cancel_workflows c s now P d) = db_users d"
  by (simp_all add: cancel_workflows_def)

lemma revoke_capabilities_same [simp]:
  "db_reconciliations (revoke_capabilities P d) = db_reconciliations d"
  "db_workflows (revoke_capabilities P d) = db_workflows d"
  "db_replica_copies (revoke_capabilities P d) = db_replica_copies d"
  "db_users (revoke_capabilities P d) = db_users d"
  by (simp_all add: revoke_capabilities_def)

lemma mark_conflicted_same [simp]:
  "db_reconciliations (mark_conflicted now d) = db_reconciliations d"
  "db_workflows (mark_conflicted now d) = db_workflows d"
  "db_capabilities (mark_conflicted now d) = db_capabilities d"
  by (simp_all add: mark_conflicted_def Let_def)

lemma mapping_alert_same [simp]: "db_reconciliations (mapping_alert n h m now d) = db_reconciliations d"
  by (simp add: mapping_alert_def Let_def)

lemma supersede_rkeys [simp]:
  "map rkey (db_reconciliations (supersede_markers n f now d)) = map rkey (db_reconciliations d)"
  unfolding supersede_markers_def Let_def by (simp, rule map_sql_update) (simp add: rkey_def)

lemma freeze_rkeys [simp]: "map rkey (db_reconciliations (freeze_collided now d)) = map rkey (db_reconciliations d)"
  unfolding freeze_collided_def by (simp, rule map_sql_update) (simp add: rkey_def)

lemma upsert_rkeys:
  assumes "upsert_reconciliation ids n g f u st now d = Inr d'"
  shows "set (map rkey (db_reconciliations d')) = insert (n, sy_Handle f, sy_Marker f) (set (map rkey (db_reconciliations d)))"
proof (cases "sql_exists (\<lambda>r. ir_NodeID r = n \<and> ir_LocalHandle r = sy_Handle f \<and> ir_Marker r = sy_Marker f) (db_reconciliations d)")
  case True
  have "map rkey (db_reconciliations d') = map rkey (db_reconciliations d)"
    using assms True unfolding upsert_reconciliation_def Let_def
    by (auto simp: rkey_def intro!: map_sql_update)
  moreover have "(n, sy_Handle f, sy_Marker f) \<in> set (map rkey (db_reconciliations d))"
    using True by (force simp: sql rkey_def)
  ultimately show ?thesis by (simp add: insert_absorb)
next
  case False
  then show ?thesis using assms unfolding upsert_reconciliation_def Let_def
    by (auto simp: rkey_def split: if_splits)
qed

lemma record_sync_fact_rkeys:
  assumes "record_sync_fact ids n g now f d = Inr d'"
  shows "set (map rkey (db_reconciliations d')) = insert (n, sy_Handle f, sy_Marker f) (set (map rkey (db_reconciliations d)))"
proof -
  obtain u st where m: "map_sync_user n (sy_Handle f) (supersede_markers n f now d) = (u, st)"
    by (cases "map_sync_user n (sy_Handle f) (supersede_markers n f now d)")
  obtain d2 where d2: "upsert_reconciliation ids n g f u st now (supersede_markers n f now d) = Inr d2"
    "db_reconciliations d' = db_reconciliations d2"
    using assms m by (auto simp: record_sync_fact_def Let_def split: sum.splits)
  show ?thesis unfolding d2(2) upsert_rkeys [OF d2(1)] by simp
qed

lemma record_sync_facts_rkeys:
  "record_sync_facts fresh i n g now fs d = Inr d' \<Longrightarrow>
   set (map rkey (db_reconciliations d')) = (\<lambda>f. (n, sy_Handle f, sy_Marker f)) ` set fs \<union> set (map rkey (db_reconciliations d))"
proof (induction fs arbitrary: i d)
  case Nil
  then show ?case by simp
next
  case (Cons f fs)
  then obtain d1 where d1: "record_sync_fact (fresh i) n g now f d = Inr d1"
    "record_sync_facts fresh (Suc i) n g now fs d1 = Inr d'" by (auto split: sum.splits)
  show ?case unfolding Cons.IH [OF d1(2)] record_sync_fact_rkeys [OF d1(1)] by auto
qed

section \<open>Two writers\<close>

lemma two_in_remdups: "x \<in> set xs \<Longrightarrow> y \<in> set xs \<Longrightarrow> x \<noteq> y \<Longrightarrow> 1 < length (remdups xs)"
  using card_le_Suc0_iff_eq [of "set xs"] by (fastforce simp: length_remdups_card_conv)

lemma not_closed_conflict [simp]: "\<not> closed_state ''conflict''"
  by (simp add: closed_state_def)

lemma freeze_collided_rows:
  assumes "r \<in> set (db_reconciliations (freeze_collided now d))"
  shows "\<exists>q \<in> set (db_reconciliations d). ir_UserID q = ir_UserID r \<and> ir_NodeID q = ir_NodeID r \<and>
    closed_state (ir_State q) = closed_state (ir_State r) \<and>
    (\<forall>u. ir_UserID r = Some u \<and> collided d u \<and> \<not> closed_state (ir_State r) \<longrightarrow> ir_State r = ''conflict'')"
  using assms unfolding freeze_collided_def
  by (auto simp: in_sql_update split: option.splits)

lemma frozen_together:
  assumes r: "r \<in> set (db_reconciliations (freeze_collided now d))" "ir_UserID r = Some u" "\<not> closed_state (ir_State r)"
    and s: "s \<in> set (db_reconciliations (freeze_collided now d))" "ir_UserID s = Some u" "\<not> closed_state (ir_State s)"
    and "ir_NodeID r \<noteq> ir_NodeID s"
  shows "ir_State r = ''conflict''"
proof -
  let ?open = "filter (\<lambda>r. ir_UserID r = Some u \<and> \<not> closed_state (ir_State r)) (db_reconciliations d)"
  have "ir_NodeID x \<in> set (map ir_NodeID ?open)"
    if x: "x \<in> set (db_reconciliations (freeze_collided now d))" "ir_UserID x = Some u" "\<not> closed_state (ir_State x)" for x
  proof -
    obtain q where "q \<in> set (db_reconciliations d)" "ir_UserID q = ir_UserID x" "ir_NodeID q = ir_NodeID x"
      "closed_state (ir_State q) = closed_state (ir_State x)" using freeze_collided_rows [OF x(1)] by blast
    then show ?thesis using x(2,3) unfolding set_map by (intro image_eqI [of _ _ q]) simp_all
  qed
  from this [OF r] this [OF s] have "collided d u" unfolding collided_def by (rule two_in_remdups) (rule assms)
  then show ?thesis using freeze_collided_rows [OF r(1)] r(2,3) by blast
qed

lemma conflict_copies:
  assumes "c \<in> set (db_replica_copies (mark_conflicted now d))" and "r \<in> set (db_reconciliations d)"
    and "ir_State r = ''conflict''" "ir_UserID r = Some (rc_UserID c)"
  shows "\<not> rc_IsAuthoritative c \<and> rc_State c = ''conflict''"
  using assms unfolding mark_conflicted_def Let_def by (auto simp: in_sql_update sql)

lemma cancelled_workflows:
  assumes "w \<in> set (db_workflows (cancel_workflows code s now P d))" and "r \<in> set (db_reconciliations d)"
    and "P r" "ir_WorkflowID r = Some (wf_ID w)"
  shows "workflow_done (wf_State w)"
  using assms unfolding cancel_workflows_def by (auto simp: in_sql_update sql workflow_done_def)

lemma revoked_capabilities:
  assumes "c \<in> set (db_capabilities (revoke_capabilities P d))" and "r \<in> set (db_reconciliations d)"
    and "P r" "ir_WorkflowID r = Some (sc_WorkflowID c)"
  shows "sc_State c \<noteq> ''prepared''"
  using assms unfolding revoke_capabilities_def by (auto simp: in_sql_update sql)

section \<open>Properties\<close>


definition sample_sync :: "string \<Rightarrow> sync_fact" where
  "sample_sync m = \<lparr>sy_Handle = ''ann'', sy_Marker = m, sy_ChangedAt = 5, sy_Reason = ''edit''\<rparr>"

definition ok_or :: "'a \<Rightarrow> 'a result \<Rightarrow> 'a" where
  "ok_or x r = (case r of Inl _ \<Rightarrow> x | Inr y \<Rightarrow> y)"

definition two_node_db :: db where
  "two_node_db = sample_db\<lparr>db_accounts := db_accounts sample_db @ [\<lparr>na_UserID = 7, na_NodeID = 2, na_LocalHandle = ''ann'',
       na_Status = ''active''\<rparr>],
     db_replica_copies := [\<lparr>rc_UserID = 7, rc_State = ''ready'', rc_IsAuthoritative = True, rc_UpdatedAt = 1\<rparr>]\<rparr>"

definition one_writer_db :: db where
  "one_writer_db = ok_or two_node_db (recordIndependentSyncFactsTx (\<lambda>_. (''i1'', ''o1'')) 1 1 [sample_sync ''m1''] 10 two_node_db)"

definition two_writers_db :: db where
  "two_writers_db = ok_or one_writer_db (recordIndependentSyncFactsTx (\<lambda>_. (''i2'', ''o2'')) 2 1 [sample_sync ''m2''] 20 one_writer_db)"


section \<open>Back to managed mode\<close>

lemma takeovers_keep:
  "recordIndependentTakeoverFactsTx n ts now d = Inr d' \<Longrightarrow> db_reconciliations d' = db_reconciliations d \<and> db_nodes d' = db_nodes d"
  by (induction ts arbitrary: d) (fastforce simp: upsert_takeover_def split: if_splits option.splits sum.splits)+

lemma rebuild_mark_keeps:
  "db_reconciliations (markControllerRebuildHeartbeatLocked n active auth m m' now d) = db_reconciliations d"
  "db_nodes (markControllerRebuildHeartbeatLocked n active auth m m' now d) = db_nodes d"
  by (auto simp: markControllerRebuildHeartbeatLocked_def update_rebuild_item_def finishControllerRebuildIfReadyLocked_def
      Let_def case_prod_unfold split: option.splits if_splits)

lemma sync_fact_keeps_nodes: "record_sync_fact ids n g now f d = Inr d' \<Longrightarrow> db_nodes d' = db_nodes d"
  by (auto simp: record_sync_fact_def upsert_reconciliation_def supersede_markers_def cancel_workflows_def
      revoke_capabilities_def mapping_alert_def Let_def split: prod.splits sum.splits if_splits)

lemma sync_facts_keep_nodes: "record_sync_facts fresh i n g now fs d = Inr d' \<Longrightarrow> db_nodes d' = db_nodes d"
  by (induction fs arbitrary: i d) (auto split: sum.splits dest: sync_fact_keeps_nodes)

lemma sync_keeps_nodes:
  "recordIndependentSyncFactsTx fresh n g fs now d = Inr d' \<Longrightarrow> db_nodes d' = db_nodes d"
  by (auto simp: recordIndependentSyncFactsTx_def mark_conflicted_def revoke_capabilities_def cancel_workflows_def
      freeze_collided_def Let_def split: if_splits sum.splits dest: sync_facts_keep_nodes)

lemma report_rows:
  assumes "x \<in> set (sql_update (\<lambda>x. nd_ID x = i) (report_node f m g act) t)" and "nd_ID x = i"
  shows "nd_ControlMode x = mf_Mode f \<and> nd_ModeGeneration x = mf_ModeGeneration f \<and> nd_DesiredMode x = m \<and>
    nd_DesiredGeneration x = g"
proof -
  obtain y where "x = report_node f m g act y" using assms unfolding in_sql_update by blast
  then show ?thesis by (simp add: report_node_def)
qed

text \<open>
  C28. Recovery ends in managed mode only when nothing is left behind. If a node that reported
  draining under the active generation is asked to become managed, it reported no session and no
  pending user, no reconciliation of the node is open in the database before or after the
  report, and the database records the report and the decision. A node that reported
  independent is asked to drain.
\<close>

theorem managed_after_reconciliation:
  assumes "reconcileNodeControlModeAuthenticated lib flt fresh nodeID f auth d = (d', Inr q)"
    and "active_generation d = Some auth"
  shows "(mf_Mode f = NodeModeIndependent \<longrightarrow> md_DesiredMode q = NodeModeIndependentDraining) \<and>
    (mf_Mode f = NodeModeIndependentDraining \<and> md_DesiredMode q = NodeModeManaged \<longrightarrow>
       mf_ActiveIndependentSessions f = 0 \<and> mf_PendingUsers f = [] \<and>
       (\<forall>r \<in> set (db_reconciliations d). ir_NodeID r = nodeID \<longrightarrow> ir_State r = ''succeeded'' \<or> ir_State r = ''superseded'') \<and>
       db_reconciliations d' = db_reconciliations d) \<and>
    (\<forall>n \<in> set (db_nodes d'). nd_ID n = nodeID \<longrightarrow> nd_ControlMode n = mf_Mode f \<and> nd_ModeGeneration n = mf_ModeGeneration f \<and>
       nd_DesiredMode n = md_DesiredMode q \<and> nd_DesiredGeneration n = md_ModeGeneration q)"
proof -
  obtain n where pub: "publish_mode fresh nodeID f auth n d = Inr (d', q)" and valid: "validNodeControlModeFact lib f"
    using assms(1) by (cases rule: reconcile_cases) (use assms(2) in auto)
  from pub show ?thesis
  proof (cases rule: publish_mode_cases)
    case (1 d1 d2)
    have q: "md_DesiredMode q = desired_for nodeID f d" by (simp add: 1(2))
    have nodes: "db_nodes d' = sql_update (\<lambda>x. nd_ID x = nodeID)
        (report_node f (md_DesiredMode q) (md_ModeGeneration q) auth) (db_nodes d)"
      using sync_keeps_nodes [OF 1(4)] takeovers_keep [OF 1(5)] by (simp add: 1(6) rebuild_mark_keeps)
    have recs: "db_reconciliations d' = db_reconciliations d" if "mf_PendingUsers f = []"
      using 1(4) takeovers_keep [OF 1(5)] that by (auto simp: 1(6) rebuild_mark_keeps recordIndependentSyncFactsTx_def)
    have ind: "mf_Mode f = NodeModeIndependent \<longrightarrow> md_DesiredMode q = NodeModeIndependentDraining"
      by (simp add: q desired_for_def)
    have drain: "mf_ActiveIndependentSessions f = 0 \<and> mf_PendingUserSyncs f = 0 \<and> \<not> durable_pending nodeID d"
      if "mf_Mode f = NodeModeIndependentDraining" "md_DesiredMode q = NodeModeManaged"
      using that unfolding q by (simp add: desired_for_def split: if_splits)
    have none: "mf_PendingUsers f = []" if "mf_PendingUserSyncs f = 0"
    proof -
      have "int (length (mf_PendingUsers f)) = mf_PendingUserSyncs f"
        using valid unfolding validNodeControlModeFact_def by (elim conjE)
      then show ?thesis using that by simp
    qed
    have rows: "nd_ControlMode x = mf_Mode f \<and> nd_ModeGeneration x = mf_ModeGeneration f \<and>
       nd_DesiredMode x = md_DesiredMode q \<and> nd_DesiredGeneration x = md_ModeGeneration q"
      if "x \<in> set (db_nodes d')" "nd_ID x = nodeID" for x
      using that(1) unfolding nodes by (rule report_rows) (rule that(2))
    have closed: "ir_State r = ''succeeded'' \<or> ir_State r = ''superseded''"
      if "\<not> durable_pending nodeID d" "r \<in> set (db_reconciliations d)" "ir_NodeID r = nodeID" for r
      using that unfolding durable_pending_def sql_exists_iff by blast
    show ?thesis
    proof (intro conjI impI ballI)
      assume "mf_Mode f = NodeModeIndependent"
      with ind show "md_DesiredMode q = NodeModeIndependentDraining" by (rule mp)
    next
      assume "mf_Mode f = NodeModeIndependentDraining \<and> md_DesiredMode q = NodeModeManaged"
      then have z: "mf_ActiveIndependentSessions f = 0 \<and> mf_PendingUserSyncs f = 0 \<and> \<not> durable_pending nodeID d"
        by (elim conjE) (rule drain)
      then show "mf_ActiveIndependentSessions f = 0" "mf_PendingUsers f = []" "db_reconciliations d' = db_reconciliations d"
        using none recs by simp_all
      show "ir_State r = ''succeeded'' \<or> ir_State r = ''superseded''"
        if "r \<in> set (db_reconciliations d)" "ir_NodeID r = nodeID" for r
        by (rule closed [OF conjunct2 [OF conjunct2 [OF z]] that])
    next
      fix x assume x: "x \<in> set (db_nodes d')" "nd_ID x = nodeID"
      show "nd_ControlMode x = mf_Mode f" "nd_ModeGeneration x = mf_ModeGeneration f"
        "nd_DesiredMode x = md_DesiredMode q" "nd_DesiredGeneration x = md_ModeGeneration q"
        using rows [OF x] by simp_all
    qed
  qed
qed

definition drained_db :: db where
  "drained_db = one_writer_db\<lparr>db_reconciliations := map (\<lambda>r. r\<lparr>ir_State := ''succeeded''\<rparr>) (db_reconciliations one_writer_db)\<rparr>"

theorem managed_after_reconciliation_witness:
  "let q = \<lparr>md_ControllerGeneration = 1, md_DesiredMode = NodeModeManaged, md_ModeGeneration = 5\<rparr>;
       run = reconcileNodeControlModeAuthenticated sample_lib TxOk (\<lambda>_. ([], [])) 1 (sample_fact NodeModeIndependentDraining 4) 1
   in snd (run drained_db) = Inr q \<and>
      list_all (\<lambda>r. ir_State r = ''succeeded'' \<or> ir_State r = ''superseded'')
        (filter (\<lambda>r. ir_NodeID r = 1) (db_reconciliations drained_db)) \<and>
      snd (run one_writer_db) = Inr (q\<lparr>md_DesiredMode := NodeModeIndependentDraining, md_ModeGeneration := 4\<rparr>)"
proof -
  define q where "q = \<lparr>md_ControllerGeneration = 1, md_DesiredMode = NodeModeManaged, md_ModeGeneration = 5\<rparr>"
  define f where "f = sample_fact NodeModeIndependentDraining 4"
  define run where "run = reconcileNodeControlModeAuthenticated sample_lib TxOk (\<lambda>_. ([], [])) 1 f 1"
  have s: "snd (run drained_db) = Inr q" unfolding run_def f_def q_def by code_simp
  then have r: "reconcileNodeControlModeAuthenticated sample_lib TxOk (\<lambda>_. ([], [])) 1 f 1 drained_db = (fst (run drained_db), Inr q)"
    unfolding run_def by (simp add: prod_eq_iff)
  have g: "active_generation drained_db = Some 1" by code_simp
  have m: "mf_Mode f = NodeModeIndependentDraining \<and> md_DesiredMode q = NodeModeManaged" by (simp add: f_def sample_fact_def q_def)
  have t: "snd (run one_writer_db) = Inr (q\<lparr>md_DesiredMode := NodeModeIndependentDraining, md_ModeGeneration := 4\<rparr>)"
    unfolding run_def f_def q_def by code_simp
  have "\<forall>r \<in> set (db_reconciliations drained_db). ir_NodeID r = 1 \<longrightarrow> ir_State r = ''succeeded'' \<or> ir_State r = ''superseded''"
    using managed_after_reconciliation [OF r g] m by meson
  then have "list_all (\<lambda>r. ir_State r = ''succeeded'' \<or> ir_State r = ''superseded'')
      (filter (\<lambda>r. ir_NodeID r = 1) (db_reconciliations drained_db))" unfolding list_all_iff by simp
  then show ?thesis using s t unfolding Let_def q_def [symmetric] f_def [symmetric] run_def [symmetric] by blast
qed

section \<open>Handles that a report may not carry\<close>

text \<open>
  C29. The agent lets a user confirm a takeover for any handle that \<open>validOwnershipHandle\<close>
  accepts, and reports it on each heartbeat until the controller acknowledges it. When the
  handle is not one that \<open>isValidHandle\<close> accepts, for example because it has two characters,
  every report of the agent is refused, so the takeover is never acknowledged.
\<close>

theorem confirmed_takeover_blocks_report:
  assumes "(i, op) \<in> set (rs_OwnershipTakeovers (ag_state a))" and "to_Succeeded op" "to_Audited op"
    and "\<not> isValidHandle (cl_Handle (to_Claim op))"
  shows "\<not> is_ok (normalizeNodeControlMode lib (controlModeReport a) now)"
proof
  assume "is_ok (normalizeNodeControlMode lib (controlModeReport a) now)"
  then obtain f where "normalizeNodeControlMode lib (controlModeReport a) now = Inr f" by (auto simp: is_ok_iff)
  note ok = normalize_mode_ok(7) [OF this]
  have "report_takeover op \<in> set (mr_ConfirmedTakeovers (controlModeReport a))"
    using assms(1-3) by (force simp: controlModeReport_def Let_def)
  with ok have "isValidHandle (it_Handle (report_takeover op))"
    unfolding takeover_ok_def canonical_handle_def by blast
  then show False using assms(4) by (simp add: report_takeover_def)
qed

definition short_claim :: "claim result" where
  "short_claim = makeActivityOwnershipClaim sample_lib ''ab'' 1 1 1 1 user_confirmed_takeover (replicate 64 (CHR ''a''))
     ''00000000-0000-0000-0000-000000000001'' (unix_origin + second)"

definition short_takeover :: "claim \<Rightarrow> takeover_op" where
  "short_takeover c = \<lparr>to_OperationID = cl_OperationID c, to_ParentClaimID = cl_ParentClaimID c, to_Claim = c,
     to_Succeeded = True, to_Audited = True, to_UpdatedAt = 1\<rparr>"

definition short_takeover_agent :: "claim \<Rightarrow> agent" where
  "short_takeover_agent c =
     set_state (\<lambda>s. s\<lparr>rs_OwnershipTakeovers := [(cl_OperationID c, short_takeover c)]\<rparr>) (new_agent sample_cfg)"

theorem confirmed_takeover_blocks_report_witness:
  "validOwnershipHandle sample_lib ''ab'' \<and>
   (\<exists>c. short_claim = Inr c \<and> cl_Handle c = ''ab'' \<and>
      \<not> is_ok (normalizeNodeControlMode sample_lib (controlModeReport (short_takeover_agent c)) 10))"
proof -
  have "is_ok short_claim" by code_simp
  then obtain c where c: "short_claim = Inr c" by (auto simp: is_ok_iff)
  have h: "cl_Handle c = ''ab''" using c unfolding short_claim_def makeActivityOwnershipClaim_def
    by (auto simp: Let_def split: sum.splits)
  have "\<not> is_ok (normalizeNodeControlMode sample_lib (controlModeReport (short_takeover_agent c)) 10)"
    by (rule confirmed_takeover_blocks_report [where i = "cl_OperationID c" and op = "short_takeover c"])
      (simp_all add: short_takeover_agent_def short_takeover_def h isValidHandle_def)
  moreover have "validOwnershipHandle sample_lib ''ab''" by code_simp
  ultimately show ?thesis using c h by blast
qed

end
