(* ===== verification/Controller_Limits.thy ===== *)
theory Controller_Limits
  imports Controller_Heartbeat
begin

text \<open>
  What stands in front of the login endpoints of the controller: the fixed-window rate limiter
  (\<open>controller/ratelimit.go\<close>), the lockout of a user name after repeated failures
  (\<open>controller/login_lockout.go\<close>), the two login handlers that feed it
  (\<open>controller/auth.go\<close>, \<open>controller/admin_auth.go\<close>) and the order in which
  \<open>controller/router.go\<close> chains them.

  A handler is a function from the server to the server and its answer; a middleware is a
  function from the next handler to a handler. A call of \<open>allow\<close> and a call of the lockout are
  one step each, as their mutexes make them (the limiter takes a second mutex for the bucket;
  the gap between the two is not modelled). The client address, the check of the request
  origin, the accounts, the password check and the creation of the session are arguments.
\<close>

section \<open>Rate limiter\<close>

record rateBucket =
  rb_windowAt :: gotime
  rb_count :: int

record rateLimiter =
  rl_buckets :: "(string, rateBucket) gomap"
  rl_limit :: int
  rl_window :: duration
  rl_maxKeys :: int
  rl_lastGC :: gotime

definition newRateLimiter :: "int \<Rightarrow> duration \<Rightarrow> int \<Rightarrow> gotime \<Rightarrow> rateLimiter" where
  "newRateLimiter limit window maxKeys now =
     \<lparr>rl_buckets = [],
      rl_limit = (if limit \<le> 0 then 60 else limit),
      rl_window = (if window \<le> 0 then minute else window),
      rl_maxKeys = (if maxKeys \<le> 0 then 100000 else maxKeys),
      rl_lastGC = now\<rparr>"

definition collect_buckets :: "gotime \<Rightarrow> rateLimiter \<Rightarrow> rateLimiter" where
  "collect_buckets now l =
     (if minute < time_sub now (rl_lastGC l)
      then l\<lparr>rl_buckets := filter (\<lambda>(k, b). \<not> rl_window l < time_sub now (rb_windowAt b)) (rl_buckets l),
             rl_lastGC := now\<rparr>
      else l)"

definition hit_bucket :: "duration \<Rightarrow> gotime \<Rightarrow> rateBucket \<Rightarrow> rateBucket" where
  "hit_bucket window now b =
     (let b = (if window \<le> time_sub now (rb_windowAt b) then b\<lparr>rb_windowAt := now, rb_count := 0\<rparr> else b)
      in b\<lparr>rb_count := i64 (rb_count b + 1)\<rparr>)"

definition allow :: "string \<Rightarrow> gotime \<Rightarrow> rateLimiter \<Rightarrow> rateLimiter \<times> bool" where
  "allow key now l0 =
     (let l = collect_buckets now l0;
          found = map_of (rl_buckets l) key
      in if found = None \<and> rl_maxKeys l \<le> int (length (rl_buckets l)) then (l, False)
         else
           (let b = (case found of Some b \<Rightarrow> b | None \<Rightarrow> \<lparr>rb_windowAt = now, rb_count = 0\<rparr>);
                b' = hit_bucket (rl_window l) now b
            in (l\<lparr>rl_buckets := gm_put key b' (rl_buckets l)\<rparr>, rb_count b' \<le> rl_limit l)))"

section \<open>Login lockout\<close>

record loginFailureState =
  lf_failures :: int
  lf_lockedUntil :: gotime

record loginLockout =
  ll_failures :: "(string, loginFailureState) gomap"
  ll_maxFailures :: int
  ll_baseDelay :: duration
  ll_maxDelay :: duration

definition newLoginLockout :: "int \<Rightarrow> duration \<Rightarrow> duration \<Rightarrow> loginLockout" where
  "newLoginLockout maxFailures baseDelay maxDelay =
     \<lparr>ll_failures = [],
      ll_maxFailures = (if maxFailures \<le> 0 then 5 else maxFailures),
      ll_baseDelay = (if baseDelay \<le> 0 then 30 * second else baseDelay),
      ll_maxDelay = (if maxDelay \<le> 0 then 15 * minute else maxDelay)\<rparr>"

definition locked :: "string \<Rightarrow> gotime \<Rightarrow> loginLockout \<Rightarrow> bool \<times> duration" where
  "locked username now l =
     (if username = [] then (False, 0)
      else
        (case map_of (ll_failures l) username of
           None \<Rightarrow> (False, 0)
         | Some st \<Rightarrow>
             if now < lf_lockedUntil st then (True, time_sub (lf_lockedUntil st) now) else (False, 0)))"

text \<open>
  The loop of \<open>recordFailure\<close>. The counter \<open>i\<close> stays below \<open>failures\<close>, so that \<open>i++\<close> does not
  wrap; the doubling may.
\<close>

function backoff :: "int \<Rightarrow> int \<Rightarrow> duration \<Rightarrow> duration \<Rightarrow> duration" where
  "backoff i failures delay maxDelay =
     (if i < failures \<and> delay < maxDelay
      then (let delay = i64 (delay * 2);
                delay = (if maxDelay < delay then maxDelay else delay)
            in backoff (i + 1) failures delay maxDelay)
      else delay)"
  by pat_completeness auto
termination by (relation "measure (\<lambda>(i, failures, _). nat (failures - i))") auto

declare backoff.simps [simp del]

definition recordFailure :: "string \<Rightarrow> gotime \<Rightarrow> loginLockout \<Rightarrow> loginLockout" where
  "recordFailure username now l =
     (if username = [] then l
      else
        (let st = (case map_of (ll_failures l) username of
                     Some st \<Rightarrow> st | None \<Rightarrow> \<lparr>lf_failures = 0, lf_lockedUntil = time_zero\<rparr>);
             st = st\<lparr>lf_failures := i64 (lf_failures st + 1)\<rparr>;
             st = (if ll_maxFailures l \<le> lf_failures st
                   then st\<lparr>lf_lockedUntil :=
                     now + backoff (ll_maxFailures l) (lf_failures st) (ll_baseDelay l) (ll_maxDelay l)\<rparr>
                   else st)
         in l\<lparr>ll_failures := gm_put username st (ll_failures l)\<rparr>))"

definition recordSuccess :: "string \<Rightarrow> loginLockout \<Rightarrow> loginLockout" where
  "recordSuccess username l =
     (if username = [] then l else l\<lparr>ll_failures := gm_del username (ll_failures l)\<rparr>)"

text \<open>
  \<open>itoa\<close> fills a buffer of 20 bytes from its end; the buffer is the text built so far.
\<close>

function itoa_digits :: "int \<Rightarrow> string \<Rightarrow> string" where
  "itoa_digits v digits =
     (if 0 < v then itoa_digits (v div 10) (decimal_digit (nat (v mod 10)) # digits) else digits)"
  by pat_completeness auto
termination by (relation "measure (\<lambda>(v, _). nat v)") auto

declare itoa_digits.simps [simp del]

definition itoa :: "int \<Rightarrow> string" where
  "itoa v =
     (if v = 0 then ''0''
      else if v < 0 then CHR ''-'' # itoa_digits (i64 (- v)) []
      else itoa_digits v [])"

text \<open>
  \<open>int(wait.Seconds())\<close> goes through a float64, which is exact to the second for waits below
  $2^{23}$ seconds; the lockout waits at most \<open>maxDelay\<close>.
\<close>

definition formatRetryAfter :: "duration \<Rightarrow> string" where
  "formatRetryAfter wait =
     (let seconds = go_div wait second in itoa (if seconds < 1 then 1 else seconds))"

section \<open>Server and requests\<close>

record login_server =
  sv_rateLimiter :: "rateLimiter option"
  sv_loginLimiter :: "rateLimiter option"
  sv_loginLockout :: "loginLockout option"
  sv_gate :: gate

record http_answer =
  ha_status :: int
  ha_retryAfter :: "string option"

definition answer :: "int \<Rightarrow> http_answer" where
  "answer code = \<lparr>ha_status = code, ha_retryAfter = None\<rparr>"

type_synonym handler = "login_server \<Rightarrow> login_server \<times> http_answer"

text \<open>
  The body of a login request, by the JSON texts it is made of: an object with the fields of
  \<open>loginRequest\<close> (the last component says whether it has unknown fields), another value, from
  which the peek at the user name reads a name but which does not decode as a
  \<open>loginRequest\<close>, or bytes that are not JSON. \<open>json.Unmarshal\<close> accepts one value and nothing
  after it; \<open>Decoder.Decode\<close> reads the first value and leaves the rest. Bodies above the read
  limits of the handlers (64 KiB and 1 MiB) are not modelled.
\<close>

datatype json_item = LoginObject string string bool | OtherValue string | NotJson

record login_request =
  lr_path :: string
  lr_clientIP :: string
  lr_originValid :: bool
  lr_body :: "json_item list option"
  lr_checkedAt :: gotime
  lr_doneAt :: gotime

fun unmarshal_username :: "json_item list \<Rightarrow> string" where
  "unmarshal_username [LoginObject u p x] = u"
| "unmarshal_username [OtherValue u] = u"
| "unmarshal_username _ = []"

fun decode_login :: "json_item list \<Rightarrow> (string \<times> string \<times> bool) option" where
  "decode_login (LoginObject u p x # rest) = Some (u, p, x)"
| "decode_login _ = None"

definition peekLoginUsername :: "login_request \<Rightarrow> string" where
  "peekLoginUsername r = (case lr_body r of None \<Rightarrow> [] | Some items \<Rightarrow> unmarshal_username items)"

definition decode_body :: "login_request \<Rightarrow> (string \<times> string \<times> bool) option" where
  "decode_body r = (case lr_body r of None \<Rightarrow> None | Some items \<Rightarrow> decode_login items)"

definition HasSuffix :: "string \<Rightarrow> string \<Rightarrow> bool" where
  "HasSuffix s suf \<longleftrightarrow> length suf \<le> length s \<and> drop (length s - length suf) s = suf"

section \<open>Middlewares\<close>

definition protocolWriteTooManyRequests :: http_answer where
  "protocolWriteTooManyRequests = \<lparr>ha_status = 429, ha_retryAfter = Some ''60''\<rparr>"

definition rateLimitMiddleware :: "login_request \<Rightarrow> handler \<Rightarrow> handler" where
  "rateLimitMiddleware r next s =
     (case sv_rateLimiter s of
        None \<Rightarrow> next s
      | Some l \<Rightarrow>
          (case allow (lr_clientIP r) (lr_checkedAt r) l of
             (l', ok) \<Rightarrow>
               (let s' = s\<lparr>sv_rateLimiter := Some l'\<rparr> in
                if \<not> ok then (s', protocolWriteTooManyRequests) else next s')))"

definition loginRateLimitMiddleware :: "login_request \<Rightarrow> handler \<Rightarrow> handler" where
  "loginRateLimitMiddleware r next s =
     (case sv_loginLimiter s of
        None \<Rightarrow> next s
      | Some l \<Rightarrow>
          (case allow (''ip:'' @ lr_clientIP r) (lr_checkedAt r) l of
             (l', ok) \<Rightarrow>
               (let s' = s\<lparr>sv_loginLimiter := Some l'\<rparr> in
                if \<not> ok then (s', protocolWriteTooManyRequests) else next s')))"

definition agentRegistrationRateLimitMiddleware :: "login_request \<Rightarrow> handler \<Rightarrow> handler" where
  "agentRegistrationRateLimitMiddleware r next s =
     (case sv_loginLimiter s of
        None \<Rightarrow> next s
      | Some l \<Rightarrow>
          (case allow (''agent-register-ip:'' @ lr_clientIP r) (lr_checkedAt r) l of
             (l', ok) \<Rightarrow>
               (let s' = s\<lparr>sv_loginLimiter := Some l'\<rparr> in
                if \<not> ok then (s', protocolWriteTooManyRequests) else next s')))"

definition agentRateLimitMiddleware :: "int option \<Rightarrow> gotime \<Rightarrow> handler \<Rightarrow> handler" where
  "agentRateLimitMiddleware node now next s =
     (case node of
        None \<Rightarrow> (s, answer 401)
      | Some nodeID \<Rightarrow>
          (case sv_rateLimiter s of
             None \<Rightarrow> next s
           | Some l \<Rightarrow>
               (case allow (''agent-node:'' @ dec_int nodeID) now l of
                  (l', ok) \<Rightarrow>
                    (let s' = s\<lparr>sv_rateLimiter := Some l'\<rparr> in
                     if \<not> ok then (s', protocolWriteTooManyRequests) else next s'))))"

definition loginLockoutMiddleware :: "login_request \<Rightarrow> handler \<Rightarrow> handler" where
  "loginLockoutMiddleware r next s =
     (case sv_loginLockout s of
        None \<Rightarrow> next s
      | Some l \<Rightarrow>
          (let username = peekLoginUsername r;
               lockoutKey = (if HasSuffix (lr_path r) ''/admin/login'' then ''admin:'' @ username else username)
           in case locked lockoutKey (lr_checkedAt r) l of
                (True, wait) \<Rightarrow> (s, \<lparr>ha_status = 429, ha_retryAfter = Some (formatRetryAfter wait)\<rparr>)
              | (False, _) \<Rightarrow> next s))"

section \<open>Login handlers\<close>

record login_user =
  lu_Username :: string
  lu_Status :: string

record login_admin =
  ad_Username :: string
  ad_Status :: string

text \<open>
  What the handlers ask of the store, of the password hashes and of the session layer. A
  session that cannot be created is \<open>False\<close>.
\<close>

record login_env =
  le_GetUserByUsername :: "string \<Rightarrow> login_user option result"
  le_passwordMatches :: "login_user \<Rightarrow> string \<Rightarrow> bool"
  le_createUserSession :: "login_user \<Rightarrow> bool"
  le_GetAdminByUsername :: "string \<Rightarrow> login_admin option result"
  le_adminPasswordValid :: "login_admin option \<Rightarrow> string \<Rightarrow> bool"
  le_RecordAdminLogin :: "login_admin \<Rightarrow> bool"
  le_createAdminSession :: "login_admin \<Rightarrow> bool"

definition note_failure :: "string \<Rightarrow> gotime \<Rightarrow> login_server \<Rightarrow> login_server" where
  "note_failure key now s = s\<lparr>sv_loginLockout := map_option (recordFailure key now) (sv_loginLockout s)\<rparr>"

definition note_success :: "string \<Rightarrow> login_server \<Rightarrow> login_server" where
  "note_success key s = s\<lparr>sv_loginLockout := map_option (recordSuccess key) (sv_loginLockout s)\<rparr>"

definition handleLogin :: "golib \<Rightarrow> login_env \<Rightarrow> login_request \<Rightarrow> handler" where
  "handleLogin lib env r s =
     (if \<not> lr_originValid r then (s, answer 403)
      else if \<not> requireNewOperations (sv_gate s) then (s, \<lparr>ha_status = 503, ha_retryAfter = Some ''15''\<rparr>)
      else
        (case decode_body r of
           None \<Rightarrow> (s, answer 400)
         | Some (username, password, _) \<Rightarrow>
             (let handle = NormalizeHandle lib username in
              case le_GetUserByUsername env handle of
                Inl e \<Rightarrow> (note_failure handle (lr_doneAt r) s, answer 403)
              | Inr None \<Rightarrow> (note_failure handle (lr_doneAt r) s, answer 403)
              | Inr (Some user) \<Rightarrow>
                  if lu_Status user \<noteq> ''active'' \<and> lu_Status user \<noteq> ''conflict'' then (s, answer 403)
                  else if \<not> le_passwordMatches env user password
                  then (note_failure handle (lr_doneAt r) s, answer 403)
                  else if \<not> le_createUserSession env user then (note_success handle s, answer 503)
                  else (note_success handle s, answer 200))))"

definition handleAdminLogin :: "golib \<Rightarrow> login_env \<Rightarrow> login_request \<Rightarrow> handler" where
  "handleAdminLogin lib env r s =
     (if \<not> lr_originValid r then (s, answer 403)
      else
        (case decode_body r of
           None \<Rightarrow> (s, answer 400)
         | Some (_, _, True) \<Rightarrow> (s, answer 400)
         | Some (name, password, False) \<Rightarrow>
             (let username = go_ToLower lib (go_TrimSpace lib name) in
              case le_GetAdminByUsername env username of
                Inl e \<Rightarrow> (s, answer 503)
              | Inr admin \<Rightarrow>
                  (case admin of
                     None \<Rightarrow> (note_failure (''admin:'' @ username) (lr_doneAt r) s, answer 403)
                   | Some a \<Rightarrow>
                       if ad_Status a \<noteq> ''active'' \<or> \<not> le_adminPasswordValid env admin password
                       then (note_failure (''admin:'' @ username) (lr_doneAt r) s, answer 403)
                       else
                         (let s' = note_success (''admin:'' @ username) s in
                          if \<not> le_RecordAdminLogin env a then (s', answer 503)
                          else if \<not> le_createAdminSession env a then (s', answer 503)
                          else (s', answer 200))))))"

text \<open>The two login routes of \<open>/api/auth\<close>.\<close>

definition login_routes :: "golib \<Rightarrow> login_env \<Rightarrow> login_request \<Rightarrow> handler" where
  "login_routes lib env r =
     (if lr_path r = ''/api/auth/login''
      then rateLimitMiddleware r (loginRateLimitMiddleware r (loginLockoutMiddleware r (handleLogin lib env r)))
      else if lr_path r = ''/api/auth/admin/login''
      then rateLimitMiddleware r (loginRateLimitMiddleware r (loginLockoutMiddleware r (handleAdminLogin lib env r)))
      else (\<lambda>s. (s, answer 404)))"

definition new_login_server :: "gotime \<Rightarrow> gate \<Rightarrow> login_server" where
  "new_login_server now g =
     \<lparr>sv_rateLimiter = Some (newRateLimiter 120 minute 100000 now),
      sv_loginLimiter = Some (newRateLimiter 20 minute 100000 now),
      sv_loginLockout = Some (newLoginLockout 5 (30 * second) (15 * minute)),
      sv_gate = g\<rparr>"

fun serve_logins :: "golib \<Rightarrow> (login_env \<times> login_request) list \<Rightarrow> login_server \<Rightarrow> login_server" where
  "serve_logins lib [] s = s"
| "serve_logins lib ((env, r) # rest) s = serve_logins lib rest (fst (login_routes lib env r s))"

end
