(* ===== verification/Login_Safety.thy ===== *)
theory Login_Safety
  imports Controller_Limits
begin

text \<open>
  Properties of the limits in front of the login endpoints: how many requests of a client a
  limiter lets through in a period, how long a user name is locked after repeated failures,
  and which requests the lockout does not see.
\<close>

section \<open>Rate limiter\<close>

fun drive :: "(string \<times> gotime) list \<Rightarrow> rateLimiter \<Rightarrow> rateLimiter" where
  "drive [] l = l"
| "drive ((k, t) # ops) l = drive ops (fst (allow k t l))"

fun admitted_of :: "string \<Rightarrow> (string \<times> gotime) list \<Rightarrow> rateLimiter \<Rightarrow> int" where
  "admitted_of key [] l = 0"
| "admitted_of key ((k, t) # ops) l =
     (if k = key \<and> snd (allow k t l) then 1 else 0) + admitted_of key ops (fst (allow k t l))"

abbreviation bucket_of :: "rateLimiter \<Rightarrow> string \<Rightarrow> rateBucket option" where
  "bucket_of l k \<equiv> map_of (rl_buckets l) k"

definition limiter_ok :: "int \<Rightarrow> rateLimiter \<Rightarrow> bool" where
  "limiter_ok n l \<longleftrightarrow> gm_wf (rl_buckets l) \<and> 0 < rl_limit l \<and> 0 < rl_window l \<and> rl_window l \<le> MaxInt64 \<and>
     int (length (rl_buckets l)) \<le> rl_maxKeys l \<and>
     (\<forall>k b. bucket_of l k = Some b \<longrightarrow> 0 \<le> rb_count b \<and> rb_count b \<le> n)"

lemma collect_params [simp]:
  "rl_limit (collect_buckets t l) = rl_limit l" "rl_window (collect_buckets t l) = rl_window l"
  "rl_maxKeys (collect_buckets t l) = rl_maxKeys l"
  by (simp_all add: collect_buckets_def)

lemma collect_wf: "gm_wf (rl_buckets l) \<Longrightarrow> gm_wf (rl_buckets (collect_buckets t l))"
  by (simp add: collect_buckets_def)

lemma collect_length: "length (rl_buckets (collect_buckets t l)) \<le> length (rl_buckets l)"
  by (simp add: collect_buckets_def)

lemma collect_bucket:
  assumes "gm_wf (rl_buckets l)"
  shows "bucket_of (collect_buckets t l) k = bucket_of l k \<or>
    (\<exists>b. bucket_of l k = Some b \<and> rl_window l < time_sub t (rb_windowAt b) \<and> bucket_of (collect_buckets t l) k = None)"
  using map_of_filter_snd [OF assms, of "\<lambda>_ b. \<not> rl_window l < time_sub t (rb_windowAt b)" k]
  by (auto simp: collect_buckets_def case_prod_unfold split: option.splits if_splits)

lemma allow_params [simp]:
  "rl_limit (fst (allow k t l)) = rl_limit l" "rl_window (fst (allow k t l)) = rl_window l"
  "rl_maxKeys (fst (allow k t l)) = rl_maxKeys l"
  by (simp_all add: allow_def Let_def)

lemma hit_count: "0 \<le> rb_count b \<Longrightarrow> rb_count b < MaxInt64 \<Longrightarrow>
    rb_count (hit_bucket w t b) = (if w \<le> time_sub t (rb_windowAt b) then 1 else rb_count b + 1)"
  by (simp add: hit_bucket_def Let_def in_i64_def)

lemma hit_windowAt: "rb_windowAt (hit_bucket w t b) = (if w \<le> time_sub t (rb_windowAt b) then t else rb_windowAt b)"
  by (simp add: hit_bucket_def Let_def)

text \<open>What one call does to the bucket of a key, its own or another.\<close>

lemma allow_other:
  assumes "gm_wf (rl_buckets l)" and "k \<noteq> key"
  shows "bucket_of (fst (allow k t l)) key = bucket_of l key \<or> bucket_of (fst (allow k t l)) key = None"
  using collect_bucket [OF assms(1), of t key] assms(2) by (auto simp: allow_def Let_def)

lemma allow_other_live:
  assumes "gm_wf (rl_buckets l)" and "k \<noteq> key" and "bucket_of l key = Some b" and "time_sub t (rb_windowAt b) < rl_window l"
  shows "bucket_of (fst (allow k t l)) key = Some b"
  using collect_bucket [OF assms(1), of t key] assms(2-4) by (auto simp: allow_def Let_def)

lemma allow_live:
  assumes "gm_wf (rl_buckets l)" and "bucket_of l key = Some b" and "time_sub t (rb_windowAt b) < rl_window l"
    and "0 \<le> rb_count b" and "rb_count b < MaxInt64"
  shows "bucket_of (fst (allow key t l)) key = Some (b\<lparr>rb_count := rb_count b + 1\<rparr>)"
    and "snd (allow key t l) \<longleftrightarrow> rb_count b + 1 \<le> rl_limit l"
  using collect_bucket [OF assms(1), of t key] assms(2-5)
  by (auto simp: allow_def Let_def hit_bucket_def in_i64_def)

lemma allow_fresh:
  assumes "limiter_ok n l" and "n < MaxInt64" and "\<And>b. bucket_of l key = Some b \<Longrightarrow> rl_window l \<le> time_sub t (rb_windowAt b)"
  shows "bucket_of (fst (allow key t l)) key = Some \<lparr>rb_windowAt = t, rb_count = 1\<rparr> \<and> snd (allow key t l) \<or>
    bucket_of (fst (allow key t l)) key = None \<and> \<not> snd (allow key t l)"
proof -
  have wf: "gm_wf (rl_buckets l)" and lim: "0 < rl_limit l" and w: "0 < rl_window l"
    using assms(1) by (auto simp: limiter_ok_def)
  have new: "hit_bucket (rl_window l) t \<lparr>rb_windowAt = t, rb_count = 0\<rparr> = \<lparr>rb_windowAt = t, rb_count = 1\<rparr>"
    using w by (simp add: hit_bucket_def Let_def in_i64_def)
  have old: "hit_bucket (rl_window l) t b = \<lparr>rb_windowAt = t, rb_count = 1\<rparr>" if "bucket_of l key = Some b" for b
    using assms(3) [OF that] by (cases b) (simp add: hit_bucket_def Let_def in_i64_def)
  show ?thesis
    using collect_bucket [OF wf, of t key] new old lim
    by (auto simp: allow_def Let_def split: option.splits)
qed

lemma limiter_ok_allow:
  assumes "limiter_ok n l" and "0 \<le> n" and "n < MaxInt64"
  shows "limiter_ok (n + 1) (fst (allow k t l))"
proof -
  let ?c = "collect_buckets t l"
  have wf: "gm_wf (rl_buckets l)" and len: "int (length (rl_buckets l)) \<le> rl_maxKeys l"
    using assms(1) by (auto simp: limiter_ok_def)
  have cnt: "0 \<le> rb_count b \<and> rb_count b \<le> n" if "bucket_of ?c j = Some b" for j b
    using that collect_bucket [OF wf, of t j] assms(1) by (auto simp: limiter_ok_def)
  have lc: "int (length (rl_buckets ?c)) \<le> rl_maxKeys l" using collect_length [of t l] len by linarith
  have size: "int (length (gm_put k b (rl_buckets ?c))) \<le> rl_maxKeys l"
    if "bucket_of ?c k \<noteq> None \<or> \<not> rl_maxKeys l \<le> int (length (rl_buckets ?c))" for b
    using that lc length_gm_put [OF collect_wf [OF wf], of k b t] by (auto simp: map_of_eq_None_iff)
  have hit: "0 \<le> rb_count (hit_bucket w t b) \<and> rb_count (hit_bucket w t b) \<le> n + 1"
    if "0 \<le> rb_count b \<and> rb_count b \<le> n" for w b
    using that assms(2,3) hit_count [of b w t] by auto
  show ?thesis
    using assms(1,2) lc size cnt collect_wf [OF wf]
    unfolding limiter_ok_def allow_def Let_def
    by (auto split: option.splits if_splits intro!: hit [THEN conjunct1] hit [THEN conjunct2] dest: cnt)
qed

lemma limiter_ok_drive:
  "limiter_ok n l \<Longrightarrow> 0 \<le> n \<Longrightarrow> n + int (length ops) \<le> MaxInt64 \<Longrightarrow> limiter_ok (n + int (length ops)) (drive ops l)"
proof (induction ops l arbitrary: n rule: drive.induct)
  case (2 k t ops l)
  have "limiter_ok (n + 1) (fst (allow k t l))" using "2.prems" by (intro limiter_ok_allow) auto
  then show ?case using "2.IH" [of "n + 1"] "2.prems" by (simp add: algebra_simps)
qed simp

lemma drive_params [simp]: "rl_limit (drive ops l) = rl_limit l" "rl_window (drive ops l) = rl_window l"
  "rl_maxKeys (drive ops l) = rl_maxKeys l"
  by (induction ops l rule: drive.induct) auto

lemma drive_append: "drive (xs @ ys) l = drive ys (drive xs l)"
  by (induction xs l rule: drive.induct) auto

text \<open>While a window is open its bucket admits what is left of the limit.\<close>

lemma admitted_in_window:
  assumes "limiter_ok n l" and "0 \<le> n" and "n + int (length ops) \<le> MaxInt64" and "bucket_of l key = Some b"
    and "\<And>k t. (k, t) \<in> set ops \<Longrightarrow> t < rb_windowAt b + rl_window l"
  shows "admitted_of key ops l \<le> max 0 (rl_limit l - rb_count b)"
  using assms
proof (induction key ops l arbitrary: n b rule: admitted_of.induct)
  case (2 key k t ops l)
  let ?l = "fst (allow k t l)"
  have wf: "gm_wf (rl_buckets l)" and w: "0 < rl_window l" "rl_window l \<le> MaxInt64"
    and b: "0 \<le> rb_count b" "rb_count b \<le> n"
    using "2.prems"(1,4) unfolding limiter_ok_def by blast+
  have c: "0 \<le> rb_count b" "rb_count b < MaxInt64" using b "2.prems"(3) by simp_all
  have live: "time_sub t (rb_windowAt b) < rl_window l"
    using "2.prems"(5) [of k t] w time_sub_ge [of "rl_window l" t "rb_windowAt b"] by (auto simp: not_le [symmetric])
  have ok: "limiter_ok (n + 1) ?l" using "2.prems" by (intro limiter_ok_allow) auto
  note IH = "2.IH" [OF ok]
  show ?case
  proof (cases "k = key")
    case True
    have "admitted_of key ops ?l \<le> max 0 (rl_limit l - (rb_count b + 1))"
      using IH [of "b\<lparr>rb_count := rb_count b + 1\<rparr>"] allow_live(1) [OF wf "2.prems"(4) live c] "2.prems"(2,3,5) True by auto
    then show ?thesis using allow_live(2) [OF wf "2.prems"(4) live c] True by auto
  next
    case False
    show ?thesis
      using IH [of b] allow_other_live [OF wf False "2.prems"(4) live] "2.prems"(2,3,5) False by auto
  qed
qed simp

text \<open>Within the length of a window a second one may open, which admits the limit once more.\<close>

lemma admitted_in_burst:
  assumes "limiter_ok n l" and "0 \<le> n" and "n + int (length ops) \<le> MaxInt64"
    and "\<And>k t. (k, t) \<in> set ops \<Longrightarrow> t1 \<le> t \<and> t < t1 + rl_window l"
  shows "admitted_of key ops l \<le> rl_limit l +
    (case bucket_of l key of None \<Rightarrow> 0 | Some b \<Rightarrow> max 0 (rl_limit l - rb_count b))"
  using assms
proof (induction key ops l arbitrary: n rule: admitted_of.induct)
  case (1 key l)
  then show ?case by (auto simp: limiter_ok_def split: option.splits)
next
  case (2 key k t ops l)
  let ?l = "fst (allow k t l)"
  have wf: "gm_wf (rl_buckets l)" and lim: "0 < rl_limit l" using "2.prems"(1) unfolding limiter_ok_def by blast+
  have ok: "limiter_ok (n + 1) ?l" using "2.prems" by (intro limiter_ok_allow) auto
  have n1: "0 \<le> n + 1" "n + 1 + int (length ops) \<le> MaxInt64" using "2.prems"(2,3) by simp_all
  have later: "t1 \<le> t' \<and> t' < t1 + rl_window l" if "(k', t') \<in> set ops" for k' t'
    using "2.prems"(4) [of k' t'] that by simp
  have IH: "admitted_of key ops ?l \<le> rl_limit l +
      (case bucket_of ?l key of None \<Rightarrow> 0 | Some b \<Rightarrow> max 0 (rl_limit l - rb_count b))"
    by (rule "2.IH" [OF ok n1, unfolded allow_params]) (erule later)
  consider (other) "k \<noteq> key" | (live) b where "k = key" "bucket_of l key = Some b" "time_sub t (rb_windowAt b) < rl_window l"
    | (fresh) "k = key" "\<And>b. bucket_of l key = Some b \<Longrightarrow> rl_window l \<le> time_sub t (rb_windowAt b)"
    by (metis not_le option.inject)
  then show ?case
  proof cases
    case other
    then show ?thesis using IH allow_other [OF wf other, of t] by (auto split: option.splits)
  next
    case (live b)
    have b: "0 \<le> rb_count b" "rb_count b < MaxInt64"
      using "2.prems"(1,3) live(2) unfolding limiter_ok_def by fastforce+
    show ?thesis using IH live allow_live [OF wf live(2,3) b] by auto
  next
    case fresh
    have n: "n < MaxInt64" using "2.prems"(3) by simp
    have open_: "admitted_of key ops ?l \<le> max 0 (rl_limit l - 1)"
      if "bucket_of ?l key = Some \<lparr>rb_windowAt = t, rb_count = 1\<rparr>"
      using admitted_in_window [OF ok n1 that] "2.prems"(4) [of k t] later by fastforce
    have "bucket_of ?l key = Some \<lparr>rb_windowAt = t, rb_count = 1\<rparr> \<and> snd (allow key t l) \<or>
        bucket_of ?l key = None \<and> \<not> snd (allow key t l)"
      unfolding fresh(1) by (rule allow_fresh [OF "2.prems"(1) n]) (rule fresh(2))
    then have "(if k = key \<and> snd (allow k t l) then 1 else 0) + admitted_of key ops ?l \<le> rl_limit l"
      using IH open_ lim fresh(1) by auto
    moreover have "0 \<le> (case bucket_of l key of None \<Rightarrow> 0 | Some b \<Rightarrow> max 0 (rl_limit l - rb_count b))"
      by (simp split: option.split)
    ultimately show ?thesis unfolding admitted_of.simps by linarith
  qed
qed

lemma new_limiter_ok: "in_i64 window \<Longrightarrow> limiter_ok 0 (newRateLimiter limit window maxKeys t0)"
  by (auto simp: limiter_ok_def newRateLimiter_def minute_def second_def in_i64_def)

text \<open>
  C31. A limiter admits at most twice its limit of one key in any period shorter than its window,
  whatever came before and whatever the other keys do, and never tracks more keys than it was
  configured for.
\<close>

theorem rate_limit_bound:
  assumes "in_i64 window" and "int (length past + length burst) \<le> MaxInt64"
    and "l = newRateLimiter limit window maxKeys t0"
    and "\<forall>(k, t) \<in> set burst. t1 \<le> t \<and> t < t1 + rl_window l"
  shows "admitted_of key burst (drive past l) \<le> 2 * rl_limit l \<and>
    int (length (rl_buckets (drive (past @ burst) l))) \<le> rl_maxKeys l"
proof
  let ?p = "drive past l"
  have p: "limiter_ok (int (length past)) ?p"
    using limiter_ok_drive [OF new_limiter_ok [OF assms(1), of limit maxKeys t0], of past] assms(2)
    unfolding assms(3) by simp
  have near: "t1 \<le> t \<and> t < t1 + rl_window ?p" if "(k, t) \<in> set burst" for k t
    using bspec [OF assms(4) that] by simp
  have fits: "int (length past) + int (length burst) \<le> MaxInt64" using assms(2) by simp
  have burst: "admitted_of key burst ?p \<le> rl_limit l +
      (case bucket_of ?p key of None \<Rightarrow> 0 | Some b \<Rightarrow> max 0 (rl_limit l - rb_count b))"
    by (rule admitted_in_burst [OF p _ fits, unfolded drive_params]) (simp, erule near [unfolded drive_params])
  have "0 \<le> rb_count b" if "bucket_of ?p key = Some b" for b
    using p that unfolding limiter_ok_def by blast
  moreover have "0 < rl_limit l" using p unfolding limiter_ok_def by simp
  ultimately show "admitted_of key burst ?p \<le> 2 * rl_limit l"
    using burst by (cases "bucket_of ?p key") auto
  show "int (length (rl_buckets (drive (past @ burst) l))) \<le> rl_maxKeys l"
    using limiter_ok_drive [OF p _ fits] by (simp add: limiter_ok_def drive_append)
qed

theorem rate_limit_bound_witness:
  "let l = newRateLimiter 1 10 0 0; burst = [(''b'', 4), (''a'', 9), (''a'', 10), (''a'', 12)] in
   admitted_of ''a'' burst (drive [(''a'', 0)] l) = 1 \<and> admitted_of ''a'' burst (drive [(''a'', 0)] l) \<le> 2 * rl_limit l"
proof -
  define l where "l = newRateLimiter 1 10 0 0"
  define burst :: "(string \<times> gotime) list" where "burst = [(''b'', 4), (''a'', 9), (''a'', 10), (''a'', 12)]"
  have "admitted_of ''a'' burst (drive [(''a'', 0)] l) \<le> 2 * rl_limit l"
    using rate_limit_bound [where window = 10 and past = "[(''a'', 0)]" and burst = burst and l = l and limit = 1
        and maxKeys = 0 and ?t0.0 = 0 and ?t1.0 = 4 and key = "''a''"]
    by (simp add: l_def burst_def newRateLimiter_def in_i64_def)
  moreover have "admitted_of ''a'' burst (drive [(''a'', 0)] l) = 1" unfolding burst_def l_def by code_simp
  ultimately show ?thesis unfolding l_def burst_def by simp
qed

section \<open>Lockout\<close>

text \<open>\<open>itoa\<close> prints what \<open>strconv\<close> prints.\<close>

lemma itoa_digits_dec: "0 < v \<Longrightarrow> itoa_digits v acc = dec_nat (nat v) @ acc"
proof (induction v acc rule: itoa_digits.induct)
  case (1 v acc)
  show ?case
  proof (cases "v < 10")
    case True
    then show ?thesis
      using "1.prems" by (subst itoa_digits.simps, subst itoa_digits.simps, subst dec_nat.simps) simp
  next
    case False
    then have pos: "0 < v div 10" by simp
    have "nat (v div 10) = nat v div 10" "nat (v mod 10) = nat v mod 10"
      using "1.prems" by (simp_all add: nat_div_distrib nat_mod_distrib)
    then show ?thesis
      using "1.IH" [OF "1.prems" pos] "1.prems" False
      by (subst itoa_digits.simps, subst dec_nat.simps) simp
  qed
qed

lemma itoa_dec_int: "0 < v \<Longrightarrow> itoa v = dec_int v"
  by (simp add: itoa_def dec_int_def itoa_digits_dec)

lemma backoff_closed:
  assumes "0 < delay" and "delay \<le> maxDelay" and "2 * maxDelay \<le> MaxInt64"
  shows "backoff i n delay maxDelay = min maxDelay (delay * 2 ^ nat (n - i))"
  using assms
proof (induction i n delay maxDelay rule: backoff.induct)
  case (1 i n delay maxDelay)
  show ?case
  proof (cases "i < n \<and> delay < maxDelay")
    case True
    have i: "i64 (delay * 2) = delay * 2" using True "1.prems" by (intro i64_id) (auto simp: in_i64_def)
    let ?d = "if maxDelay < delay * 2 then maxDelay else delay * 2"
    have "backoff i n delay maxDelay = backoff (i + 1) n ?d maxDelay"
      using True by (subst backoff.simps) (simp add: i Let_def)
    also have "\<dots> = min maxDelay (?d * 2 ^ nat (n - (i + 1)))"
      using "1.IH" [OF True refl refl] "1.prems" True by (auto simp: i)
    also have "\<dots> = min maxDelay (delay * 2 ^ nat (n - i))"
    proof -
      have e: "nat (n - i) = Suc (nat (n - (i + 1)))" using True by arith
      define x where "x = (2 :: int) ^ nat (n - (i + 1))"
      have x: "maxDelay \<le> maxDelay * x"
        using "1.prems" mult_left_mono [of 1 x maxDelay] by (simp add: x_def)
      show ?thesis
      proof (cases "maxDelay < delay * 2")
        case True
        then have "maxDelay * x \<le> delay * 2 * x" by (intro mult_right_mono) (auto simp: x_def)
        then have "maxDelay \<le> delay * (2 * x)" using x by (simp add: mult.assoc)
        then show ?thesis using True x by (simp add: e x_def [symmetric] min_def)
      next
        case False
        then show ?thesis by (simp add: e x_def [symmetric] mult.assoc)
      qed
    qed
    finally show ?thesis .
  next
    case False
    have "delay \<le> delay * 2 ^ nat (n - i)"
      using "1.prems" mult_left_mono [of 1 "2 ^ nat (n - i)" delay] by simp
    then show ?thesis using False "1.prems" by (subst backoff.simps) (auto simp: min_def)
  qed
qed

definition fails :: "string \<Rightarrow> gotime list \<Rightarrow> loginLockout \<Rightarrow> loginLockout" where
  "fails h ts l = fold (recordFailure h) ts l"

definition locked_until :: "loginLockout \<Rightarrow> gotime list \<Rightarrow> gotime" where
  "locked_until l ts =
     last ts + min (ll_maxDelay l) (ll_baseDelay l * 2 ^ (length ts - nat (ll_maxFailures l)))"

lemma recordFailure_params [simp]:
  "ll_maxFailures (recordFailure h t l) = ll_maxFailures l" "ll_baseDelay (recordFailure h t l) = ll_baseDelay l"
  "ll_maxDelay (recordFailure h t l) = ll_maxDelay l"
  by (simp_all add: recordFailure_def Let_def)

lemma fails_params [simp]:
  "ll_maxFailures (fails h ts l) = ll_maxFailures l" "ll_baseDelay (fails h ts l) = ll_baseDelay l"
  "ll_maxDelay (fails h ts l) = ll_maxDelay l"
  by (induction ts arbitrary: l) (simp_all add: fails_def)

lemma fails_snoc: "fails h (ts @ [t]) l = recordFailure h t (fails h ts l)"
  by (simp add: fails_def)

lemma fails_entry:
  assumes "h \<noteq> []" and "map_of (ll_failures l) h = None" and "0 < ll_maxFailures l" and "int (length ts) \<le> MaxInt64"
    and "ts \<noteq> []"
  shows "map_of (ll_failures (fails h ts l)) h = Some \<lparr>lf_failures = int (length ts),
    lf_lockedUntil = (if ll_maxFailures l \<le> int (length ts)
      then last ts + backoff (ll_maxFailures l) (int (length ts)) (ll_baseDelay l) (ll_maxDelay l) else time_zero)\<rparr>"
  using assms(4,5)
proof (induction ts rule: rev_induct)
  case (snoc t ts)
  have n: "i64 (int (length ts) + 1) = int (length ts) + 1" using snoc.prems by (intro i64_id) (simp add: in_i64_def)
  show ?case
  proof (cases "ts = []")
    case True
    then show ?thesis using assms(1-3) by (simp add: fails_def recordFailure_def Let_def in_i64_def)
  next
    case False
    then show ?thesis
      using snoc.IH snoc.prems assms(1,3) n by (simp add: fails_snoc recordFailure_def Let_def add.commute)
  qed
qed simp

lemma fails_locked:
  assumes "l = newLoginLockout maxFailures baseDelay maxDelay" and "ll_baseDelay l \<le> ll_maxDelay l"
    and "2 * ll_maxDelay l \<le> MaxInt64" and "h \<noteq> []" and "ts \<noteq> []" and "int (length ts) \<le> MaxInt64"
    and "time_zero \<le> last ts" and "last ts \<le> now"
  shows "locked h now (fails h ts l) =
    (if ll_maxFailures l \<le> int (length ts) \<and> now < locked_until l ts then (True, locked_until l ts - now) else (False, 0))"
proof -
  have pos: "0 < ll_maxFailures l" "0 < ll_baseDelay l" and none: "map_of (ll_failures l) h = None"
    by (auto simp: assms(1) newLoginLockout_def second_def)
  have b: "last ts + backoff (ll_maxFailures l) (int (length ts)) (ll_baseDelay l) (ll_maxDelay l) = locked_until l ts"
    if "ll_maxFailures l \<le> int (length ts)"
  proof -
    have "nat (int (length ts) - ll_maxFailures l) = length ts - nat (ll_maxFailures l)" using that pos by arith
    then show ?thesis by (simp add: backoff_closed [OF pos(2) assms(2,3)] locked_until_def)
  qed
  have "locked_until l ts - now \<le> ll_maxDelay l" using assms(8) by (simp add: locked_until_def)
  then have sub: "time_sub (locked_until l ts) now = locked_until l ts - now" if "now < locked_until l ts"
    using that assms(3) by (simp add: time_sub_def)
  show ?thesis
    using fails_entry [OF assms(4) none pos(1) assms(6,5)] assms(4,7,8) b sub by (auto simp: locked_def)
qed

text \<open>
  C32. The lockout backs off as documented. After \<open>n\<close> failures in a row for a name, a login
  request that carries that name is refused with status 429, without running the handler or
  changing the server, exactly while \<open>n\<close> has reached the threshold and less than the base delay,
  doubled for each failure beyond the threshold and capped at the maximal delay, has passed
  since the last failure. The answer says how many seconds are left, at least one.
\<close>

theorem lockout_backoff:
  assumes "l = newLoginLockout maxFailures baseDelay maxDelay" and "ll_baseDelay l \<le> ll_maxDelay l"
    and "2 * ll_maxDelay l \<le> MaxInt64" and "h \<noteq> []" and "ts \<noteq> []" and "int (length ts) \<le> MaxInt64"
    and "time_zero \<le> last ts" and "last ts \<le> lr_checkedAt r"
    and "lr_path r = ''/api/auth/login''" and "lr_body r = Some [LoginObject h p x]"
    and "sv_loginLockout s = Some (fails h ts l)"
  shows "loginLockoutMiddleware r run s =
    (if ll_maxFailures l \<le> int (length ts) \<and> lr_checkedAt r < locked_until l ts
     then (s, \<lparr>ha_status = 429, ha_retryAfter = Some (dec_int (max 1 ((locked_until l ts - lr_checkedAt r) div second)))\<rparr>)
     else run s)"
proof -
  have key: "(if HasSuffix (lr_path r) ''/admin/login'' then ''admin:'' @ peekLoginUsername r else peekLoginUsername r) = h"
    by (simp add: assms(9,10) HasSuffix_def peekLoginUsername_def)
  have after: "formatRetryAfter wait = dec_int (max 1 (wait div second))" if "0 < wait" for wait
    using that itoa_dec_int [of "max 1 (wait div second)"]
    by (auto simp: formatRetryAfter_def Let_def go_div_def second_def max_def not_less)
  show ?thesis
    using fails_locked [OF assms(1-8)] after [of "locked_until l ts - lr_checkedAt r"]
    by (simp add: loginLockoutMiddleware_def assms(11) key Let_def)
qed

definition sample_login :: "json_item list \<Rightarrow> gotime \<Rightarrow> login_request" where
  "sample_login body now = \<lparr>lr_path = ''/api/auth/login'', lr_clientIP = ''10.0.0.1'', lr_originValid = True,
     lr_body = Some body, lr_checkedAt = now, lr_doneAt = now\<rparr>"

definition ready_gate :: gate where
  "ready_gate = \<lparr>ga_newOperationsBlocked = False, ga_controlPlaneReason = []\<rparr>"

theorem lockout_backoff_witness:
  "let s = (new_login_server 0 ready_gate)\<lparr>sv_loginLockout := Some (fails ''alice'' [1, 2, 3, 4, 5, 6] (newLoginLockout 5 (30 * second) (15 * minute)))\<rparr>
   in loginLockoutMiddleware (sample_login [LoginObject ''alice'' ''pw'' False] (20 * second)) (\<lambda>s. (s, answer 200)) s =
        (s, \<lparr>ha_status = 429, ha_retryAfter = Some ''40''\<rparr>)"
proof -
  define l where "l = newLoginLockout 5 (30 * second) (15 * minute)"
  define s where "s = (new_login_server 0 ready_gate)\<lparr>sv_loginLockout := Some (fails ''alice'' [1, 2, 3, 4, 5, 6] l)\<rparr>"
  define r where "r = sample_login [LoginObject ''alice'' ''pw'' False] (20 * second)"
  have params: "ll_maxFailures l = 5" "ll_baseDelay l = 30 * second" "ll_maxDelay l = 15 * minute"
    by (simp_all add: l_def newLoginLockout_def second_def minute_def)
  have dec: "dec_int 40 = ''40''" by code_simp
  have "loginLockoutMiddleware r (\<lambda>s. (s, answer 200)) s = (s, \<lparr>ha_status = 429, ha_retryAfter = Some ''40''\<rparr>)"
    using lockout_backoff [where l = l and h = "''alice''" and ts = "[1, 2, 3, 4, 5, 6]" and r = r and s = s
        and p = "''pw''" and x = False and run = "\<lambda>s. (s, answer 200)", OF l_def] dec
    by (simp add: params s_def r_def sample_login_def second_def minute_def locked_until_def)
  then show ?thesis unfolding s_def r_def l_def Let_def .
qed

section \<open>What the lockout does not see\<close>

definition lockout_keys :: "login_server \<Rightarrow> string set" where
  "lockout_keys s = (case sv_loginLockout s of None \<Rightarrow> {} | Some l \<Rightarrow> dom (map_of (ll_failures l)))"

definition keys_ok :: "login_server \<Rightarrow> bool" where
  "keys_ok s \<longleftrightarrow> (\<forall>k \<in> lockout_keys s. normal_handle k \<or> (\<exists>name. k = ''admin:'' @ name))"

lemma keys_note_failure: "lockout_keys (note_failure k t s) \<subseteq> insert k (lockout_keys s)"
  by (auto simp: lockout_keys_def note_failure_def recordFailure_def Let_def split: option.splits if_splits)

lemma keys_note_success: "lockout_keys (note_success k s) \<subseteq> lockout_keys s"
  by (auto simp: lockout_keys_def note_success_def recordSuccess_def split: option.splits if_splits)

lemma keys_ok_failure:
  "keys_ok s \<Longrightarrow> normal_handle k \<or> (\<exists>name. k = ''admin:'' @ name) \<Longrightarrow> keys_ok (note_failure k t s)"
  using keys_note_failure [of k t s] unfolding keys_ok_def by blast

lemma keys_ok_success: "keys_ok s \<Longrightarrow> keys_ok (note_success k s)"
  using keys_note_success [of k s] unfolding keys_ok_def by blast

lemma keys_ok_limits [simp]: "keys_ok (s\<lparr>sv_rateLimiter := x\<rparr>) = keys_ok s" "keys_ok (s\<lparr>sv_loginLimiter := y\<rparr>) = keys_ok s"
  by (simp_all add: keys_ok_def lockout_keys_def)

lemma handleLogin_keys: "keys_ok s \<Longrightarrow> keys_ok (fst (handleLogin lib env r s))"
  using keys_ok_failure [OF _ disjI1 [OF normal_handle_NormalizeHandle]] keys_ok_success
  by (auto simp: handleLogin_def Let_def split: option.splits sum.splits)

lemma handleAdminLogin_keys: "keys_ok s \<Longrightarrow> keys_ok (fst (handleAdminLogin lib env r s))"
  using keys_ok_failure keys_ok_success
  by (auto simp: handleAdminLogin_def Let_def split: option.splits sum.splits bool.splits)

lemma middleware_keys:
  assumes "\<And>s. keys_ok s \<Longrightarrow> keys_ok (fst (run s))" and "keys_ok s"
  shows "keys_ok (fst (rateLimitMiddleware r run s))" "keys_ok (fst (loginRateLimitMiddleware r run s))"
    "keys_ok (fst (loginLockoutMiddleware r run s))"
  using assms by (auto simp: rateLimitMiddleware_def loginRateLimitMiddleware_def loginLockoutMiddleware_def Let_def
      split: option.splits prod.splits bool.splits)

lemma login_routes_keys: "keys_ok s \<Longrightarrow> keys_ok (fst (login_routes lib env r s))"
  unfolding login_routes_def
  by (auto intro!: middleware_keys handleLogin_keys handleAdminLogin_keys)

lemma serve_logins_keys: "keys_ok s \<Longrightarrow> keys_ok (serve_logins lib reqs s)"
  by (induction lib reqs s rule: serve_logins.induct) (simp_all add: login_routes_keys)

lemma new_server_keys: "keys_ok (new_login_server t g)"
  by (simp add: keys_ok_def lockout_keys_def new_login_server_def newLoginLockout_def)

lemma unlocked_key:
  assumes "keys_ok s" and "sv_loginLockout s = Some l" and "k = [] \<or> NormalizeHandle lib k \<noteq> k \<and> CHR '':'' \<notin> set k"
  shows "locked k now l = (False, 0)"
proof (cases "k = []")
  case False
  then have "\<not> normal_handle k" and "\<not> (\<exists>name. k = ''admin:'' @ name)"
    using assms(3) NormalizeHandle_normal [of k lib] by auto
  then have "k \<notin> lockout_keys s" using assms(1) unfolding keys_ok_def by blast
  then have "map_of (ll_failures l) k = None" by (auto simp: lockout_keys_def assms(2))
  then show ?thesis by (simp add: locked_def)
qed (simp add: locked_def)

text \<open>
  C33. The lockout can be walked around. Failures are counted under the normalised handle, but the
  middleware looks up the name as it was typed, and only if the body is a single JSON value.
  Whatever logins were served before, a request whose user name is not in normal form (and has
  no colon), or whose body has anything after the login object, reaches the handler.
\<close>

theorem lockout_bypassed:
  assumes "lr_path r = ''/api/auth/login''" and "lr_body r = Some (LoginObject u p x # rest)"
    and "rest \<noteq> [] \<or> NormalizeHandle lib u \<noteq> u \<and> CHR '':'' \<notin> set u"
    and "s = serve_logins lib past (new_login_server t0 g)"
  shows "loginLockoutMiddleware r run s = run s"
proof -
  have keys: "keys_ok s" unfolding assms(4) by (intro serve_logins_keys new_server_keys)
  have "peekLoginUsername r = [] \<or> NormalizeHandle lib (peekLoginUsername r) \<noteq> peekLoginUsername r \<and>
      CHR '':'' \<notin> set (peekLoginUsername r)"
    using assms(2,3) by (cases rest) (auto simp: peekLoginUsername_def)
  then have "locked (peekLoginUsername r) (lr_checkedAt r) l = (False, 0)" if "sv_loginLockout s = Some l" for l
    by (rule unlocked_key [OF keys that])
  then show ?thesis
    by (auto simp: loginLockoutMiddleware_def assms(1) HasSuffix_def Let_def split: option.splits)
qed

definition alice_env :: login_env where
  "alice_env = \<lparr>le_GetUserByUsername = (\<lambda>h. Inr (if h = ''alice'' then Some \<lparr>lu_Username = h, lu_Status = ''active''\<rparr> else None)),
     le_passwordMatches = (\<lambda>_ p. p = ''pw''), le_createUserSession = (\<lambda>_. True),
     le_GetAdminByUsername = (\<lambda>_. Inr None), le_adminPasswordValid = (\<lambda>_ _. False),
     le_RecordAdminLogin = (\<lambda>_. True), le_createAdminSession = (\<lambda>_. True)\<rparr>"

definition locked_alice :: login_server where
  "locked_alice = serve_logins sample_lib
     (replicate 5 (alice_env, sample_login [LoginObject ''alice'' ''guess'' False] 1)) (new_login_server 0 ready_gate)"

theorem lockout_bypassed_witness:
  "ha_status (snd (login_routes sample_lib alice_env (sample_login [LoginObject ''alice'' ''pw'' False] 2) locked_alice)) = 429 \<and>
   ha_status (snd (loginLockoutMiddleware (sample_login [LoginObject ''Alice'' ''pw'' False] 2)
     (handleLogin sample_lib alice_env (sample_login [LoginObject ''Alice'' ''pw'' False] 2)) locked_alice)) = 200"
proof -
  define r where "r = sample_login [LoginObject ''Alice'' ''pw'' False] 2"
  have "NormalizeHandle sample_lib ''Alice'' \<noteq> ''Alice''" by code_simp
  then have "loginLockoutMiddleware r (handleLogin sample_lib alice_env r) locked_alice =
      handleLogin sample_lib alice_env r locked_alice"
    using lockout_bypassed [where r = r and u = "''Alice''" and p = "''pw''" and x = False and rest = "[]" and lib = sample_lib
        and run = "handleLogin sample_lib alice_env r", OF _ _ _ locked_alice_def]
    by (simp add: r_def sample_login_def)
  moreover have "ha_status (snd (handleLogin sample_lib alice_env r locked_alice)) = 200" unfolding r_def by code_simp
  moreover have "ha_status (snd (login_routes sample_lib alice_env (sample_login [LoginObject ''alice'' ''pw'' False] 2) locked_alice)) = 429"
    by code_simp
  ultimately show ?thesis by (simp add: r_def)
qed

end
