(* ===== verification/Workflow_Tables.thy ===== *)
theory Workflow_Tables
  imports Store_Tables
begin

text \<open>
  The tables behind snapshots and their transport: workflows and their steps, manifests,
  transfer capabilities, relay transfers, backup jobs and the replicas that a finished
  snapshot publishes (\<open>store/migrations/*.sql\<close>). Each row has the columns that
  \<open>store/snapshots.go\<close>, \<open>store/relay.go\<close> and \<open>prepareWorkflowTargetAccount\<close> of
  \<open>store/restores.go\<close> read, and those they write that are read elsewhere. They stand in
  a record of their own, \<open>wdb\<close>, beside \<open>db\<close> of \<open>Store_Tables\<close>. Epochs, users, leases and
  reconciliations appear in both, with the row types of \<open>Store_Tables\<close>: the theorems on \<open>db\<close>
  are about the operations on \<open>db\<close>, and do not cover what \<open>CreateSnapshotWorkflow\<close> writes to
  the lease and the reconciliation of a user.
\<close>

section \<open>Workflows\<close>

record snapshot_workflow_row =
  sw_ID :: string
  sw_OperationID :: string
  sw_Type :: string
  sw_State :: string
  sw_UserID :: int
  sw_SourceNodeID :: int
  sw_TargetNodeID :: int
  sw_ActivityEpoch :: int
  sw_ControllerGeneration :: int
  sw_Attempt :: int
  sw_GenerationRecoveries :: int
  sw_NextAttemptAt :: "gotime option"
  sw_ErrorCode :: "string option"
  sw_ErrorSummary :: "string option"
  sw_CleanupState :: string
  sw_LeaseOwner :: "string option"
  sw_LeaseUntil :: "gotime option"
  sw_ResumeState :: "string option"
  sw_TransferMode :: string
  sw_UpdatedAt :: gotime
  sw_FinishedAt :: "gotime option"

record workflow_step_row =
  st_WorkflowID :: string
  st_Name :: string
  st_State :: string
  st_Attempt :: int
  st_ErrorCode :: "string option"
  st_StartedAt :: "gotime option"
  st_FinishedAt :: "gotime option"
  st_UpdatedAt :: gotime

record manifest_row =
  sm_ID :: string
  sm_WorkflowID :: string
  sm_UserID :: int
  sm_SourceNodeID :: int
  sm_ActivityEpoch :: int
  sm_ManifestSHA256 :: string
  sm_ArchiveSHA256 :: "string option"
  sm_FileCount :: int
  sm_TotalBytes :: int
  sm_State :: string

record transfer_capability_row =
  tc_ID :: string
  tc_WorkflowID :: string
  tc_SnapshotID :: string
  tc_SourceNodeID :: int
  tc_TargetNodeID :: int
  tc_TokenHash :: string
  tc_State :: string
  tc_ControllerGeneration :: int
  tc_ExpiresAt :: gotime
  tc_ConsumedAt :: "gotime option"
  tc_CreatedAt :: gotime

record backup_job_row =
  bj_ID :: int
  bj_UserID :: int
  bj_SrcNodeID :: int
  bj_DstNodeID :: int
  bj_Trigger :: string
  bj_Status :: string
  bj_DataVersion :: "int option"
  bj_Bytes :: "int option"
  bj_FileCount :: "int option"
  bj_Error :: "string option"
  bj_FinishedAt :: "gotime option"
  bj_WorkflowID :: "string option"
  bj_SnapshotID :: "string option"
  bj_ActivityEpoch :: "int option"

section \<open>Relay\<close>

record relay_row =
  rt_ID :: string
  rt_WorkflowID :: string
  rt_TransportScopeID :: string
  rt_SnapshotID :: string
  rt_SourceNodeID :: int
  rt_TargetNodeID :: int
  rt_Attempt :: int
  rt_State :: string
  rt_UploadTokenHash :: string
  rt_DownloadTokenHash :: string
  rt_ControllerGeneration :: int
  rt_MaxCiphertextBytes :: int
  rt_PlaintextBytes :: "int option"
  rt_CiphertextBytes :: "int option"
  rt_ArchiveSHA256 :: "string option"
  rt_CiphertextSHA256 :: "string option"
  rt_StoragePath :: "string option"
  rt_UploadLeaseUntil :: "gotime option"
  rt_DownloadLeaseUntil :: "gotime option"
  rt_ExpiresAt :: gotime
  rt_UpdatedAt :: gotime
  rt_ConsumedAt :: "gotime option"

record resolution_row =
  co_OperationID :: string
  co_WorkflowID :: string
  co_ConflictID :: string
  co_BaseNodeID :: int

record conflict_source_row =
  cs_ConflictID :: string
  cs_EvidenceID :: string
  cs_NodeID :: int
  cs_EvidenceState :: string

section \<open>Replicas, placement and accounts\<close>

record legacy_replica_row =
  up_UserID :: int
  up_NodeID :: int
  up_Kind :: string
  up_DataVersion :: int
  up_State :: string
  up_Checksum :: "string option"
  up_SizeBytes :: "int option"
  up_LastSyncAt :: "gotime option"

record copy_row =
  cp_ID :: string
  cp_UserID :: int
  cp_NodeID :: int
  cp_SnapshotID :: "string option"
  cp_Kind :: string
  cp_State :: string
  cp_Origin :: string
  cp_IsAuthoritative :: bool
  cp_Compatibility :: string
  cp_PublishedAt :: "gotime option"
  cp_VerifiedAt :: "gotime option"
  cp_IntegrityState :: string
  cp_IntegrityNextCheckAt :: gotime
  cp_IntegrityDeepCheckAt :: gotime
  cp_UpdatedAt :: gotime

record cleanup_row =
  ck_ReplicaID :: string
  ck_UserID :: int
  ck_LegacyUserID :: int
  ck_NodeID :: int
  ck_SnapshotID :: string
  ck_Handle :: string
  ck_Kind :: string
  ck_ReasonCode :: string
  ck_State :: string
  ck_NextAttemptAt :: gotime
  ck_ErrorCode :: "string option"
  ck_UpdatedAt :: gotime
  ck_FinishedAt :: "gotime option"

record placement_row =
  pn_ID :: int
  pn_Role :: string
  pn_Connectivity :: string
  pn_Operational :: string
  pn_Compatibility :: string
  pn_ControlMode :: string
  pn_DesiredMode :: string
  pn_CapacityState :: string
  pn_TransferURL :: string
  pn_IsBackupTarget :: bool
  pn_ActiveSessions :: int

record retirement_row =
  re_ID :: string
  re_NodeID :: int
  re_State :: string
  re_ControllerGeneration :: int

record retirement_item_row =
  ri_ID :: string
  ri_RetirementID :: string
  ri_UserID :: int
  ri_LegacyUserID :: "int option"
  ri_Kind :: string
  ri_State :: string
  ri_TargetNodeID :: "int option"
  ri_WorkflowID :: "string option"
  ri_NextAttemptAt :: "gotime option"
  ri_ErrorCode :: "string option"
  ri_UpdatedAt :: gotime

record account_material_row =
  am_UserID :: int
  am_NodeID :: int
  am_LocalHandle :: string
  am_Status :: string
  am_AccountVersion :: int
  am_PasswordVersion :: int
  am_PasswordHash :: "string option"
  am_PasswordSalt :: "string option"
  am_OauthSubjects :: "(string \<times> string) list"
  am_ProvisioningWorkflowID :: "string option"
  am_UpdatedAt :: gotime

record auth_identity_row =
  ai_UserID :: int
  ai_Provider :: string
  ai_Subject :: string
  ai_Status :: string

record wdb =
  w_epochs :: "epoch_row list"
  w_users :: "user_row list"
  w_legacy_users :: "legacy_user_row list"
  w_nodes :: "placement_row list"
  w_leases :: "lease_row list"
  w_reconciliations :: "reconciliation_row list"
  w_workflows :: "snapshot_workflow_row list"
  w_steps :: "workflow_step_row list"
  w_manifests :: "manifest_row list"
  w_caps :: "transfer_capability_row list"
  w_jobs :: "backup_job_row list"
  w_relays :: "relay_row list"
  w_resolutions :: "resolution_row list"
  w_conflict_sources :: "conflict_source_row list"
  w_replicas :: "legacy_replica_row list"
  w_copies :: "copy_row list"
  w_cleanups :: "cleanup_row list"
  w_retirements :: "retirement_row list"
  w_retirement_items :: "retirement_item_row list"
  w_accounts :: "account_material_row list"
  w_identities :: "auth_identity_row list"
  w_alerts :: "alert_row list"

definition empty_wdb :: wdb where
  "empty_wdb = \<lparr>w_epochs = [], w_users = [], w_legacy_users = [], w_nodes = [], w_leases = [], w_reconciliations = [],
     w_workflows = [], w_steps = [], w_manifests = [], w_caps = [], w_jobs = [], w_relays = [], w_resolutions = [],
     w_conflict_sources = [], w_replicas = [], w_copies = [], w_cleanups = [], w_retirements = [],
     w_retirement_items = [], w_accounts = [], w_identities = [], w_alerts = []\<rparr>"

text \<open>The join with the active epoch that fences almost every statement here.\<close>

definition generation_active :: "int \<Rightarrow> wdb \<Rightarrow> bool" where
  "generation_active g d = sql_exists (\<lambda>e. ep_Generation e = g \<and> ep_State e = ''active'') (w_epochs d)"

definition terminal_states :: "string list" where
  "terminal_states = [''succeeded'', ''cancelled'', ''failed'']"

definition workflow_open :: "string \<Rightarrow> bool" where
  "workflow_open s \<longleftrightarrow> s \<notin> set terminal_states"

definition nullIfEmpty :: "string \<Rightarrow> string option" where
  "nullIfEmpty s = (if s = [] then None else Some s)"

end
