(* ===== verification/Store_Relay.thy ===== *)
theory Store_Relay
  imports Workflow_Tables
begin

text \<open>
  The durable side of the encrypted relay (\<open>store/relay.go\<close>): a relay transfer is created for
  one attempt of a workflow, claimed by the uploader, stored, claimed by the downloader and
  consumed, or expires. The secrets are compared by their 32-byte hashes. \<open>clock\<close> is what
  \<open>time.Now\<close> returns, used when the caller passes the zero time. The statements run outside a
  transaction, one after the other, except \<open>ExpireRelayTransfers\<close>.
\<close>

definition ErrInvalidRelayTransfer :: string where "ErrInvalidRelayTransfer = ''invalid relay transfer input''"
definition ErrRelayTransferState :: string where "ErrRelayTransferState = ''relay transfer state conflict''"
definition ErrRelayTransferTerminal :: string where "ErrRelayTransferTerminal = ''relay transfer is terminal''"

definition at_time :: "gotime \<Rightarrow> gotime \<Rightarrow> gotime" where
  "at_time clock now = (if now = time_zero then clock else now)"

record relay_params =
  rq_ID :: string
  rq_WorkflowID :: string
  rq_SnapshotID :: string
  rq_SourceNodeID :: int
  rq_TargetNodeID :: int
  rq_Attempt :: int
  rq_UploadTokenHash :: string
  rq_DownloadTokenHash :: string
  rq_MaxCiphertextBytes :: int
  rq_ExpiresAt :: gotime
  rq_Now :: gotime

section \<open>Creation\<close>

definition relay_params_ok :: "relay_params \<Rightarrow> bool" where
  "relay_params_ok p \<longleftrightarrow> rq_ID p \<noteq> [] \<and> rq_WorkflowID p \<noteq> [] \<and> rq_SnapshotID p \<noteq> [] \<and> 0 < rq_SourceNodeID p \<and>
     0 < rq_TargetNodeID p \<and> rq_SourceNodeID p \<noteq> rq_TargetNodeID p \<and> 0 \<le> rq_Attempt p \<and>
     length (rq_UploadTokenHash p) = 32 \<and> length (rq_DownloadTokenHash p) = 32 \<and> 0 < rq_MaxCiphertextBytes p"

definition new_relay :: "relay_params \<Rightarrow> gotime \<Rightarrow> string \<Rightarrow> int \<Rightarrow> relay_row" where
  "new_relay p now scope g = \<lparr>rt_ID = rq_ID p, rt_WorkflowID = rq_WorkflowID p, rt_TransportScopeID = scope,
     rt_SnapshotID = rq_SnapshotID p, rt_SourceNodeID = rq_SourceNodeID p, rt_TargetNodeID = rq_TargetNodeID p,
     rt_Attempt = rq_Attempt p, rt_State = ''prepared'', rt_UploadTokenHash = rq_UploadTokenHash p,
     rt_DownloadTokenHash = rq_DownloadTokenHash p, rt_ControllerGeneration = g,
     rt_MaxCiphertextBytes = rq_MaxCiphertextBytes p, rt_PlaintextBytes = None, rt_CiphertextBytes = None,
     rt_ArchiveSHA256 = None, rt_CiphertextSHA256 = None, rt_StoragePath = None, rt_UploadLeaseUntil = None,
     rt_DownloadLeaseUntil = None, rt_ExpiresAt = rq_ExpiresAt p, rt_UpdatedAt = now, rt_ConsumedAt = None\<rparr>"

definition same_relay_task :: "relay_params \<Rightarrow> relay_row \<Rightarrow> bool" where
  "same_relay_task p r \<longleftrightarrow> rt_WorkflowID r = rq_WorkflowID p \<and> rt_Attempt r = rq_Attempt p \<and> rt_SnapshotID r = rq_SnapshotID p"

definition same_relay :: "relay_params \<Rightarrow> relay_row \<Rightarrow> bool" where
  "same_relay p r \<longleftrightarrow> rt_ID r = rq_ID p \<and> rt_SnapshotID r = rq_SnapshotID p \<and> rt_SourceNodeID r = rq_SourceNodeID p \<and>
     rt_TargetNodeID r = rq_TargetNodeID p \<and> rt_MaxCiphertextBytes r = rq_MaxCiphertextBytes p \<and>
     rt_UploadTokenHash r = rq_UploadTokenHash p \<and> rt_DownloadTokenHash r = rq_DownloadTokenHash p"

text \<open>
  \<open>INSERT ... SELECT ... ON CONFLICT (workflow_id, attempt, snapshot_id) DO NOTHING\<close>, then the
  comparison with the row that is there. The \<open>SELECT\<close> gives the transport scope and the
  generation, or no row. Another row with the same primary key fails the statement.
\<close>

definition insert_relay :: "relay_params \<Rightarrow> gotime \<Rightarrow> (string \<times> int) option \<Rightarrow> wdb \<Rightarrow> wdb \<times> relay_row result" where
  "insert_relay p now selected d =
     (let found = sql_find (same_relay_task p) (w_relays d) in
      case (selected, found) of
        (Some (scope, g), None) \<Rightarrow>
          if sql_exists (\<lambda>r. rt_ID r = rq_ID p) (w_relays d) then (d, Inl dbError)
          else (d\<lparr>w_relays := w_relays d @ [new_relay p now scope g]\<rparr>, Inr (new_relay p now scope g))
      | (_, None) \<Rightarrow> (d, Inl ErrRelayTransferState)
      | (_, Some r) \<Rightarrow> if same_relay p r then (d, Inr r) else (d, Inl ErrRelayTransferState))"

definition relay_workflow :: "relay_params \<Rightarrow> wdb \<Rightarrow> (string \<times> int) option" where
  "relay_workflow p d =
     (case sql_find (\<lambda>w. sw_ID w = rq_WorkflowID p \<and> sw_SourceNodeID w = rq_SourceNodeID p \<and>
             sw_TargetNodeID w = rq_TargetNodeID p \<and> sw_Attempt w = rq_Attempt p \<and> sw_TransferMode w = ''relay'' \<and>
             workflow_open (sw_State w) \<and> generation_active (sw_ControllerGeneration w) d \<and>
             sql_exists (\<lambda>m. sm_WorkflowID m = sw_ID w \<and> sm_ID m = rq_SnapshotID p) (w_manifests d)) (w_workflows d) of
        None \<Rightarrow> None
      | Some w \<Rightarrow> Some (sw_ID w, sw_ControllerGeneration w))"

definition CreateRelayTransfer :: "gotime \<Rightarrow> relay_params \<Rightarrow> wdb \<Rightarrow> wdb \<times> relay_row result" where
  "CreateRelayTransfer clock p d =
     (if \<not> relay_params_ok p then (d, Inl ErrInvalidRelayTransfer)
      else
        (let now = at_time clock (rq_Now p) in
         if \<not> now < rq_ExpiresAt p then (d, Inl ErrInvalidRelayTransfer)
         else insert_relay p now (relay_workflow p d) d))"

definition conflict_relay :: "relay_params \<Rightarrow> string \<Rightarrow> wdb \<Rightarrow> (string \<times> int) option" where
  "conflict_relay p operationID d =
     (case sql_find (\<lambda>w. sw_ID w = rq_WorkflowID p \<and> sw_Type w = ''conflict_resolution'' \<and> sw_Attempt w = rq_Attempt p \<and>
             workflow_open (sw_State w) \<and> generation_active (sw_ControllerGeneration w) d) (w_workflows d) of
        None \<Rightarrow> None
      | Some w \<Rightarrow>
          (case sql_find (\<lambda>c. co_WorkflowID c = sw_ID w \<and> co_OperationID c = operationID \<and> co_BaseNodeID c = rq_TargetNodeID p \<and>
                  sql_exists (\<lambda>s. cs_ConflictID s = co_ConflictID c \<and> cs_EvidenceID s = rq_SnapshotID p \<and>
                    cs_NodeID s = rq_SourceNodeID p \<and> cs_EvidenceState s = ''ready'') (w_conflict_sources d)) (w_resolutions d) of
             None \<Rightarrow> None
           | Some c \<Rightarrow> Some (co_ConflictID c, sw_ControllerGeneration w)))"

definition CreateConflictRelayTransfer :: "gotime \<Rightarrow> relay_params \<Rightarrow> string \<Rightarrow> wdb \<Rightarrow> wdb \<times> relay_row result" where
  "CreateConflictRelayTransfer clock p operationID d =
     (if \<not> relay_params_ok p \<or> operationID = [] then (d, Inl ErrInvalidRelayTransfer)
      else
        (let now = at_time clock (rq_Now p) in
         if \<not> now < rq_ExpiresAt p then (d, Inl ErrInvalidRelayTransfer)
         else insert_relay p now (conflict_relay p operationID d) d))"

section \<open>Statements\<close>

text \<open>Comparisons with a nullable column: SQL gives no row where the column is \<open>NULL\<close>.\<close>

definition col_le :: "gotime option \<Rightarrow> gotime \<Rightarrow> bool" where
  "col_le c t = (case c of None \<Rightarrow> False | Some x \<Rightarrow> x \<le> t)"

definition col_gt :: "gotime option \<Rightarrow> gotime \<Rightarrow> bool" where
  "col_gt c t = (case c of None \<Rightarrow> False | Some x \<Rightarrow> t < x)"

definition null_or :: "'a option \<Rightarrow> 'a \<Rightarrow> bool" where
  "null_or c v \<longleftrightarrow> c = None \<or> c = Some v"

definition update_relays :: "(relay_row \<Rightarrow> bool) \<Rightarrow> (relay_row \<Rightarrow> relay_row) \<Rightarrow> wdb \<Rightarrow> wdb" where
  "update_relays P f d = d\<lparr>w_relays := sql_update P f (w_relays d)\<rparr>"

definition relay_upload_by :: "string \<Rightarrow> string \<Rightarrow> wdb \<Rightarrow> relay_row \<Rightarrow> bool" where
  "relay_upload_by i uploadTokenHash d r \<longleftrightarrow> rt_ID r = i \<and> rt_UploadTokenHash r = uploadTokenHash \<and>
     generation_active (rt_ControllerGeneration r) d"

definition relay_download_by :: "string \<Rightarrow> string \<Rightarrow> wdb \<Rightarrow> relay_row \<Rightarrow> bool" where
  "relay_download_by i downloadTokenHash d r \<longleftrightarrow> rt_ID r = i \<and> rt_DownloadTokenHash r = downloadTokenHash \<and>
     generation_active (rt_ControllerGeneration r) d"

text \<open>\<open>UPDATE ... RETURNING\<close> of one transfer.\<close>

definition claim_relay :: "(relay_row \<Rightarrow> bool) \<Rightarrow> (relay_row \<Rightarrow> relay_row) \<Rightarrow> wdb \<Rightarrow> (wdb \<times> relay_row) option" where
  "claim_relay P f d = map_option (\<lambda>r. (update_relays P f d, f r)) (sql_find P (w_relays d))"

section \<open>Upload\<close>

definition upload_args_ok :: "string \<Rightarrow> string \<Rightarrow> int \<Rightarrow> int \<Rightarrow> string \<Rightarrow> duration \<Rightarrow> bool" where
  "upload_args_ok i uploadTokenHash plaintextBytes ciphertextBytes archiveSHA256 leaseTTL \<longleftrightarrow>
     i \<noteq> [] \<and> length uploadTokenHash = 32 \<and> 0 < plaintextBytes \<and> 0 < ciphertextBytes \<and> length archiveSHA256 = 32 \<and> 0 < leaseTTL"

definition begin_upload :: "int \<Rightarrow> string \<Rightarrow> gotime \<Rightarrow> duration \<Rightarrow> relay_row \<Rightarrow> relay_row" where
  "begin_upload plaintextBytes archiveSHA256 now leaseTTL r =
     r\<lparr>rt_State := ''uploading'', rt_PlaintextBytes := Some plaintextBytes, rt_ArchiveSHA256 := Some archiveSHA256,
       rt_UploadLeaseUntil := Some (now + leaseTTL), rt_UpdatedAt := now\<rparr>"

text \<open>An exact repetition after the ciphertext was stored reads the stored row.\<close>

definition stored_upload :: "string \<Rightarrow> string \<Rightarrow> int \<Rightarrow> int \<Rightarrow> string \<Rightarrow> gotime \<Rightarrow> wdb \<Rightarrow> relay_row result" where
  "stored_upload i uploadTokenHash plaintextBytes ciphertextBytes archiveSHA256 now d =
     (case sql_find (\<lambda>r. relay_upload_by i uploadTokenHash d r \<and>
             rt_State r \<in> {''stored'', ''downloading'', ''consumed''} \<and> now < rt_ExpiresAt r \<and>
             rt_PlaintextBytes r = Some plaintextBytes \<and> rt_CiphertextBytes r = Some ciphertextBytes \<and>
             rt_ArchiveSHA256 r = Some archiveSHA256) (w_relays d) of
        None \<Rightarrow> Inl ErrRelayTransferState
      | Some r \<Rightarrow> Inr r)"

definition claim_upload ::
    "(relay_row \<Rightarrow> gotime \<Rightarrow> bool) \<Rightarrow> gotime \<Rightarrow> string \<Rightarrow> string \<Rightarrow> int \<Rightarrow> int \<Rightarrow> string \<Rightarrow> gotime \<Rightarrow> duration \<Rightarrow>
     wdb \<Rightarrow> wdb \<times> relay_row result" where
  "claim_upload claimable clock i uploadTokenHash plaintextBytes ciphertextBytes archiveSHA256 now0 leaseTTL d =
     (if \<not> upload_args_ok i uploadTokenHash plaintextBytes ciphertextBytes archiveSHA256 leaseTTL
      then (d, Inl ErrInvalidRelayTransfer)
      else
        (let now = at_time clock now0 in
         case claim_relay (\<lambda>r. relay_upload_by i uploadTokenHash d r \<and> now < rt_ExpiresAt r \<and>
                ciphertextBytes \<le> rt_MaxCiphertextBytes r \<and> claimable r now \<and>
                null_or (rt_PlaintextBytes r) plaintextBytes \<and> null_or (rt_ArchiveSHA256 r) archiveSHA256)
              (begin_upload plaintextBytes archiveSHA256 now leaseTTL) d of
           Some (d', r) \<Rightarrow> (d', Inr r)
         | None \<Rightarrow> (d, stored_upload i uploadTokenHash plaintextBytes ciphertextBytes archiveSHA256 now d)))"

definition ClaimRelayUpload ::
    "gotime \<Rightarrow> string \<Rightarrow> string \<Rightarrow> int \<Rightarrow> int \<Rightarrow> string \<Rightarrow> gotime \<Rightarrow> duration \<Rightarrow> wdb \<Rightarrow> wdb \<times> relay_row result" where
  "ClaimRelayUpload = claim_upload (\<lambda>r now. rt_State r = ''prepared'' \<or>
     rt_State r = ''uploading'' \<and> col_le (rt_UploadLeaseUntil r) now)"

definition ClaimRelayMultipartUpload ::
    "gotime \<Rightarrow> string \<Rightarrow> string \<Rightarrow> int \<Rightarrow> int \<Rightarrow> string \<Rightarrow> gotime \<Rightarrow> duration \<Rightarrow> wdb \<Rightarrow> wdb \<times> relay_row result" where
  "ClaimRelayMultipartUpload = claim_upload (\<lambda>r now. rt_State r = ''prepared'' \<or> rt_State r = ''uploading'')"

definition CompleteRelayUpload ::
    "gotime \<Rightarrow> string \<Rightarrow> string \<Rightarrow> string \<Rightarrow> int \<Rightarrow> string \<Rightarrow> gotime \<Rightarrow> wdb \<Rightarrow> wdb \<times> unit result" where
  "CompleteRelayUpload clock i uploadTokenHash ciphertextSHA256 ciphertextBytes storagePath now0 d =
     (if i = [] \<or> length uploadTokenHash \<noteq> 32 \<or> length ciphertextSHA256 \<noteq> 32 \<or> ciphertextBytes \<le> 0 \<or> storagePath = []
      then (d, Inl ErrInvalidRelayTransfer)
      else
        (let now = at_time clock now0;
             P = (\<lambda>r. relay_upload_by i uploadTokenHash d r \<and> rt_State r = ''uploading'' \<and> now < rt_ExpiresAt r \<and>
               col_gt (rt_UploadLeaseUntil r) now \<and> rt_CiphertextBytes r = None) in
         (update_relays P (\<lambda>r. r\<lparr>rt_State := ''stored'', rt_CiphertextBytes := Some ciphertextBytes,
            rt_CiphertextSHA256 := Some ciphertextSHA256, rt_StoragePath := Some storagePath,
            rt_UploadLeaseUntil := None, rt_UpdatedAt := now\<rparr>) d,
          if sql_count P (w_relays d) \<noteq> 1 then Inl ErrRelayTransferState else Inr ())))"

definition ReleaseRelayUpload :: "gotime \<Rightarrow> string \<Rightarrow> string \<Rightarrow> gotime \<Rightarrow> wdb \<Rightarrow> wdb \<times> unit result" where
  "ReleaseRelayUpload clock i uploadTokenHash now0 d =
     (if i = [] \<or> length uploadTokenHash \<noteq> 32 then (d, Inl ErrInvalidRelayTransfer)
      else
        (update_relays (\<lambda>r. relay_upload_by i uploadTokenHash d r \<and> rt_State r = ''uploading'')
           (\<lambda>r. r\<lparr>rt_State := ''prepared'', rt_PlaintextBytes := None, rt_ArchiveSHA256 := None,
              rt_UploadLeaseUntil := None, rt_UpdatedAt := at_time clock now0\<rparr>) d,
         Inr ()))"

section \<open>Download\<close>

definition download_args_ok :: "string \<Rightarrow> string \<Rightarrow> duration \<Rightarrow> bool" where
  "download_args_ok i downloadTokenHash ttl \<longleftrightarrow> i \<noteq> [] \<and> length downloadTokenHash = 32 \<and> 0 < ttl"

definition ClaimRelayDownload :: "gotime \<Rightarrow> string \<Rightarrow> string \<Rightarrow> gotime \<Rightarrow> duration \<Rightarrow> wdb \<Rightarrow> wdb \<times> relay_row result" where
  "ClaimRelayDownload clock i downloadTokenHash now0 leaseTTL d =
     (if \<not> download_args_ok i downloadTokenHash leaseTTL then (d, Inl ErrInvalidRelayTransfer)
      else
        (let now = at_time clock now0 in
         case claim_relay (\<lambda>r. relay_download_by i downloadTokenHash d r \<and> now < rt_ExpiresAt r \<and>
                (rt_State r = ''stored'' \<or> rt_State r = ''downloading'' \<and> col_le (rt_DownloadLeaseUntil r) now))
              (\<lambda>r. r\<lparr>rt_State := ''downloading'', rt_DownloadLeaseUntil := Some (now + leaseTTL), rt_UpdatedAt := now\<rparr>) d of
           Some (d', r) \<Rightarrow> (d', Inr r)
         | None \<Rightarrow>
             (d, Inl (if sql_exists (\<lambda>r. rt_ID r = i \<and> rt_DownloadTokenHash r = downloadTokenHash \<and>
                    (rt_State r \<in> {''failed'', ''expired'', ''consumed''} \<or> rt_ExpiresAt r \<le> now)) (w_relays d)
                then ErrRelayTransferTerminal else ErrRelayTransferState))))"

definition download_running :: "string \<Rightarrow> string \<Rightarrow> gotime \<Rightarrow> wdb \<Rightarrow> relay_row \<Rightarrow> bool" where
  "download_running i downloadTokenHash now d r \<longleftrightarrow> relay_download_by i downloadTokenHash d r \<and>
     rt_State r = ''downloading'' \<and> now < rt_ExpiresAt r \<and> col_gt (rt_DownloadLeaseUntil r) now"

definition ContinueRelayDownload :: "gotime \<Rightarrow> string \<Rightarrow> string \<Rightarrow> gotime \<Rightarrow> duration \<Rightarrow> wdb \<Rightarrow> wdb \<times> relay_row result" where
  "ContinueRelayDownload clock i downloadTokenHash now0 leaseTTL d =
     (if \<not> download_args_ok i downloadTokenHash leaseTTL then (d, Inl ErrInvalidRelayTransfer)
      else
        (let now = at_time clock now0 in
         case claim_relay (download_running i downloadTokenHash now d)
              (\<lambda>r. r\<lparr>rt_DownloadLeaseUntil := Some (now + leaseTTL), rt_UpdatedAt := now\<rparr>) d of
           Some (d', r) \<Rightarrow> (d', Inr r)
         | None \<Rightarrow> (d, Inl ErrRelayTransferState)))"

definition ReleaseRelayDownload :: "gotime \<Rightarrow> string \<Rightarrow> string \<Rightarrow> gotime \<Rightarrow> wdb \<Rightarrow> wdb \<times> unit result" where
  "ReleaseRelayDownload clock i downloadTokenHash now0 d =
     (if i = [] \<or> length downloadTokenHash \<noteq> 32 then (d, Inl ErrInvalidRelayTransfer)
      else
        (update_relays (\<lambda>r. relay_download_by i downloadTokenHash d r \<and> rt_State r = ''downloading'')
           (\<lambda>r. r\<lparr>rt_State := ''stored'', rt_DownloadLeaseUntil := None, rt_UpdatedAt := at_time clock now0\<rparr>) d,
         Inr ()))"

definition ClampRelayDownloadLease :: "gotime \<Rightarrow> string \<Rightarrow> string \<Rightarrow> gotime \<Rightarrow> duration \<Rightarrow> wdb \<Rightarrow> wdb \<times> unit result" where
  "ClampRelayDownloadLease clock i downloadTokenHash now0 maxTTL d =
     (if \<not> download_args_ok i downloadTokenHash maxTTL then (d, Inl ErrInvalidRelayTransfer)
      else
        (let now = at_time clock now0 in
         (update_relays (\<lambda>r. relay_download_by i downloadTokenHash d r \<and> rt_State r = ''downloading'' \<and>
              col_gt (rt_DownloadLeaseUntil r) (now + maxTTL))
            (\<lambda>r. r\<lparr>rt_DownloadLeaseUntil := Some (now + maxTTL), rt_UpdatedAt := now\<rparr>) d,
          Inr ())))"

definition RenewRelayDownload :: "gotime \<Rightarrow> string \<Rightarrow> string \<Rightarrow> gotime \<Rightarrow> duration \<Rightarrow> wdb \<Rightarrow> wdb \<times> bool result" where
  "RenewRelayDownload clock i downloadTokenHash now0 leaseTTL d =
     (if \<not> download_args_ok i downloadTokenHash leaseTTL then (d, Inl ErrInvalidRelayTransfer)
      else
        (let now = at_time clock now0 in
         (update_relays (download_running i downloadTokenHash now d)
            (\<lambda>r. r\<lparr>rt_DownloadLeaseUntil := Some (now + leaseTTL), rt_UpdatedAt := now\<rparr>) d,
          Inr (sql_count (download_running i downloadTokenHash now d) (w_relays d) = 1))))"

text \<open>
  The update and the second branch of the union read one snapshot of the table, so a row that
  the update has just consumed is not seen twice. A path that is \<open>NULL\<close> fails the scan.
\<close>

definition CompleteRelayDownload :: "gotime \<Rightarrow> string \<Rightarrow> string \<Rightarrow> gotime \<Rightarrow> wdb \<Rightarrow> wdb \<times> string result" where
  "CompleteRelayDownload clock i downloadTokenHash now0 d =
     (if i = [] \<or> length downloadTokenHash \<noteq> 32 then (d, Inl ErrInvalidRelayTransfer)
      else
        (let now = at_time clock now0;
             P = (\<lambda>r. relay_download_by i downloadTokenHash d r \<and> rt_State r = ''downloading'');
             d' = update_relays P (\<lambda>r. r\<lparr>rt_State := ''consumed'', rt_DownloadLeaseUntil := None, rt_UpdatedAt := now,
                rt_ConsumedAt := (case rt_ConsumedAt r of None \<Rightarrow> Some now | Some t \<Rightarrow> Some t)\<rparr>) d
         in case sql_find (\<lambda>r. P r \<or> relay_download_by i downloadTokenHash d r \<and> rt_State r = ''consumed'') (w_relays d) of
              None \<Rightarrow> (d', Inl ErrRelayTransferState)
            | Some r \<Rightarrow> (case rt_StoragePath r of None \<Rightarrow> (d', Inl dbError) | Some path \<Rightarrow> (d', Inr path))))"

section \<open>Expiry\<close>

definition relay_done :: "string \<Rightarrow> bool" where
  "relay_done s \<longleftrightarrow> s \<in> {''consumed'', ''expired'', ''failed''}"

text \<open>\<open>ORDER BY expires_at FOR UPDATE SKIP LOCKED\<close>: \<open>skip\<close> tells which rows others hold.\<close>

definition expirable_relays :: "(string \<Rightarrow> bool) \<Rightarrow> gotime \<Rightarrow> nat \<Rightarrow> wdb \<Rightarrow> relay_row list" where
  "expirable_relays skip now limit d =
     take limit (sort_key rt_ExpiresAt (filter (\<lambda>r. rt_ExpiresAt r \<le> now \<and> \<not> relay_done (rt_State r) \<and> \<not> skip (rt_ID r)) (w_relays d)))"

definition ExpireRelayTransfers ::
    "gotime \<Rightarrow> tx_fault \<Rightarrow> (string \<Rightarrow> bool) \<Rightarrow> gotime \<Rightarrow> int \<Rightarrow> wdb \<Rightarrow> wdb \<times> (string \<times> string option) list result" where
  "ExpireRelayTransfers clock flt skip now0 limit0 d =
     (let limit = (if limit0 \<le> 0 \<or> 1000 < limit0 then 100 else limit0); now = at_time clock now0 in
      run_tx flt (\<lambda>d.
        let expired = map (\<lambda>r. (rt_ID r, rt_StoragePath r)) (expirable_relays skip now (nat limit) d) in
        Inr (update_relays (\<lambda>r. rt_ID r \<in> set (map fst expired))
          (\<lambda>r. r\<lparr>rt_State := ''expired'', rt_UploadLeaseUntil := None, rt_DownloadLeaseUntil := None, rt_UpdatedAt := now\<rparr>) d,
          expired)) d)"

end
