(* ===== verification/Store_Snapshots.thy ===== *)
theory Store_Snapshots
  imports Store_Relay Store_Leases "HOL-Library.List_Lexorder" "HOL-Library.Char_ord"
begin

text \<open>
  Snapshot workflows in the controller database (\<open>store/snapshots.go\<close>): creation, the lease of
  the worker that drives one, the progress reports of the two nodes, retries, recovery after a
  change of the controller generation, publication, failure and cancellation; and
  \<open>prepareWorkflowTargetAccount\<close> of \<open>store/restores.go\<close>, which creation calls. Random
  identifiers and the rows that another transaction holds locked are arguments. Texts are taken
  to be valid UTF-8 after they are cut to 512 bytes, as the short fixed texts of the callers are.
\<close>

definition ErrInvalidSnapshotWorkflow :: string where "ErrInvalidSnapshotWorkflow = ''invalid snapshot workflow input''"
definition ErrSnapshotUserActive :: string where "ErrSnapshotUserActive = ''snapshot user is active''"
definition ErrSnapshotStateConflict :: string where "ErrSnapshotStateConflict = ''snapshot workflow state conflict''"
definition ErrNodeRetirementState :: string where "ErrNodeRetirementState = ''node retirement state conflict''"
definition ErrIndependentReconciliationState :: string where "ErrIndependentReconciliationState = ''independent reconciliation state conflict''"
definition ErrRestoreUnavailable :: string where "ErrRestoreUnavailable = ''restore source or target unavailable''"
definition errNoRow :: string where "errNoRow = ''sql: no rows in result set''"

definition in_i32 :: "int \<Rightarrow> bool" where
  "in_i32 n \<longleftrightarrow> -2147483648 \<le> n \<and> n \<le> 2147483647"

definition summary_text :: "string \<Rightarrow> string option" where
  "summary_text s = nullIfEmpty (take 512 s)"

definition workflow_by_id :: "string \<Rightarrow> wdb \<Rightarrow> snapshot_workflow_row option" where
  "workflow_by_id i d = sql_find (\<lambda>w. sw_ID w = i) (w_workflows d)"

definition active_gen :: "wdb \<Rightarrow> int option" where
  "active_gen d = map_option ep_Generation (sql_find (\<lambda>e. ep_State e = ''active'') (w_epochs d))"

section \<open>Statements that several operations share\<close>

definition fence_relays :: "string \<Rightarrow> gotime \<Rightarrow> wdb \<Rightarrow> wdb" where
  "fence_relays workflowID now d =
     update_relays (\<lambda>r. rt_WorkflowID r = workflowID \<and> \<not> relay_done (rt_State r))
       (\<lambda>r. r\<lparr>rt_ExpiresAt := min (rt_ExpiresAt r) now, rt_UploadLeaseUntil := None, rt_DownloadLeaseUntil := None,
          rt_UpdatedAt := now\<rparr>) d"

definition cap_prepared :: "string \<Rightarrow> transfer_capability_row \<Rightarrow> bool" where
  "cap_prepared workflowID c \<longleftrightarrow> tc_WorkflowID c = workflowID \<and> tc_State c = ''prepared''"

definition revoke_caps :: "string \<Rightarrow> wdb \<Rightarrow> wdb" where
  "revoke_caps workflowID d =
     d\<lparr>w_caps := sql_update (cap_prepared workflowID) (\<lambda>c. c\<lparr>tc_State := ''revoked''\<rparr>) (w_caps d)\<rparr>"

definition set_steps :: "(workflow_step_row \<Rightarrow> bool) \<Rightarrow> (workflow_step_row \<Rightarrow> workflow_step_row) \<Rightarrow> wdb \<Rightarrow> wdb" where
  "set_steps P f d = d\<lparr>w_steps := sql_update P f (w_steps d)\<rparr>"

definition set_workflows :: "(snapshot_workflow_row \<Rightarrow> bool) \<Rightarrow> (snapshot_workflow_row \<Rightarrow> snapshot_workflow_row) \<Rightarrow> wdb \<Rightarrow> wdb" where
  "set_workflows P f d = d\<lparr>w_workflows := sql_update P f (w_workflows d)\<rparr>"

definition step_of :: "string \<Rightarrow> string \<Rightarrow> workflow_step_row \<Rightarrow> bool" where
  "step_of workflowID name s \<longleftrightarrow> st_WorkflowID s = workflowID \<and> st_Name s = name"

definition run_step :: "gotime \<Rightarrow> workflow_step_row \<Rightarrow> workflow_step_row" where
  "run_step now s = s\<lparr>st_State := ''running'',
     st_StartedAt := (case st_StartedAt s of None \<Rightarrow> Some now | Some t \<Rightarrow> Some t),
     st_FinishedAt := None, st_ErrorCode := None, st_UpdatedAt := now\<rparr>"

definition finish_step :: "gotime \<Rightarrow> workflow_step_row \<Rightarrow> workflow_step_row" where
  "finish_step now s = s\<lparr>st_State := ''succeeded'', st_FinishedAt := Some now, st_UpdatedAt := now\<rparr>"

definition retry_step :: "string \<Rightarrow> gotime \<Rightarrow> workflow_step_row \<Rightarrow> workflow_step_row" where
  "retry_step code now s = s\<lparr>st_State := ''retry_wait'', st_Attempt := st_Attempt s + 1, st_ErrorCode := Some code,
     st_StartedAt := None, st_FinishedAt := None, st_UpdatedAt := now\<rparr>"

text \<open>A snapshot workflow that is not finished and belongs to the active generation.\<close>

definition drivable :: "string \<Rightarrow> wdb \<Rightarrow> snapshot_workflow_row \<Rightarrow> bool" where
  "drivable workflowID d w \<longleftrightarrow> sw_ID w = workflowID \<and> sw_Type w = ''snapshot'' \<and> workflow_open (sw_State w) \<and>
     generation_active (sw_ControllerGeneration w) d"

section \<open>Worker lease\<close>

definition ClaimSnapshotWorkflow :: "tx_fault \<Rightarrow> string \<Rightarrow> string \<Rightarrow> gotime \<Rightarrow> duration \<Rightarrow> wdb \<Rightarrow> wdb \<times> bool result" where
  "ClaimSnapshotWorkflow flt workflowID workerID now ttl d =
     (if workflowID = [] \<or> workerID = [] \<or> ttl \<le> 0 then (d, Inl ErrInvalidSnapshotWorkflow)
      else run_tx flt (\<lambda>d.
        let P = (\<lambda>w. drivable workflowID d w \<and> (sw_LeaseUntil w = None \<or> col_le (sw_LeaseUntil w) now)) in
        Inr (set_workflows P (\<lambda>w. w\<lparr>sw_LeaseOwner := Some workerID, sw_LeaseUntil := Some (now + ttl), sw_UpdatedAt := now\<rparr>) d,
          sql_count P (w_workflows d) = 1)) d)"

definition RenewSnapshotWorkflow :: "tx_fault \<Rightarrow> string \<Rightarrow> string \<Rightarrow> gotime \<Rightarrow> duration \<Rightarrow> wdb \<Rightarrow> wdb \<times> unit result" where
  "RenewSnapshotWorkflow flt workflowID workerID now ttl d =
     (if workflowID = [] \<or> workerID = [] \<or> now = time_zero \<or> ttl \<le> 0 then (d, Inl ErrInvalidSnapshotWorkflow)
      else run_tx flt (\<lambda>d.
        let P = (\<lambda>w. drivable workflowID d w \<and> sw_LeaseOwner w = Some workerID \<and> col_gt (sw_LeaseUntil w) now) in
        if sql_count P (w_workflows d) = 1
        then Inr (set_workflows P (\<lambda>w. w\<lparr>sw_LeaseUntil := Some (now + ttl), sw_UpdatedAt := now\<rparr>) d, ())
        else
          (case sql_find (\<lambda>w. sw_ID w = workflowID \<and> sw_Type w = ''snapshot'') (w_workflows d) of
             None \<Rightarrow> Inl ErrSnapshotStateConflict
           | Some w \<Rightarrow> if sw_State w = ''succeeded'' then Inr (d, ()) else Inl ErrSnapshotStateConflict)) d)"

definition ReleaseSnapshotWorkflow :: "tx_fault \<Rightarrow> string \<Rightarrow> string \<Rightarrow> wdb \<Rightarrow> wdb \<times> unit result" where
  "ReleaseSnapshotWorkflow flt workflowID workerID d =
     (if workflowID = [] \<or> workerID = [] then (d, Inl ErrInvalidSnapshotWorkflow)
      else run_tx flt (\<lambda>d. Inr (set_workflows (\<lambda>w. sw_ID w = workflowID \<and> sw_LeaseOwner w = Some workerID)
        (\<lambda>w. w\<lparr>sw_LeaseOwner := None, sw_LeaseUntil := None\<rparr>) d, ())) d)"

definition ListResumableSnapshotWorkflowIDs :: "gotime \<Rightarrow> int \<Rightarrow> wdb \<Rightarrow> string list" where
  "ListResumableSnapshotWorkflowIDs dbNow limit0 d =
     (let limit = (if limit0 \<le> 0 \<or> 1000 < limit0 then 100 else limit0) in
      take (nat limit) (map sw_ID (sort_key sw_UpdatedAt (filter (\<lambda>w. generation_active (sw_ControllerGeneration w) d \<and>
        sw_Type w = ''snapshot'' \<and>
        sw_State w \<in> set [''scheduled'', ''quiescing'', ''drained'', ''snapshotting'', ''transferring'', ''verifying'', ''publishing'', ''retry_wait''] \<and>
        (sw_NextAttemptAt w = None \<or> col_le (sw_NextAttemptAt w) dbNow)) (w_workflows d)))))"

section \<open>Retries and deferral\<close>

text \<open>The state in which each kind of workflow resumes, and the steps that are done again.\<close>

definition retry_plan :: "string \<Rightarrow> (string \<times> string list) option" where
  "retry_plan t =
     (if t = ''snapshot'' then Some (''quiescing'', [''quiesce'', ''snapshot'', ''prepare_target'', ''transfer'', ''verify'', ''publish''])
      else if t = ''restore'' then Some (''scheduled'', [''prepare_target'', ''transfer'', ''verify'', ''publish''])
      else if t = ''conflict_resolution''
      then Some (''scheduled'', [''transfer_evidence'', ''prepare'', ''apply_decisions'', ''publish'', ''finalize''])
      else None)"

definition schedule_retry_tx :: "string \<Rightarrow> string \<Rightarrow> string \<Rightarrow> gotime \<Rightarrow> duration \<Rightarrow> (wdb, int) tx" where
  "schedule_retry_tx workflowID errorCode errorSummary now delay d =
     (case sql_find (\<lambda>w. sw_ID w = workflowID \<and> workflow_open (sw_State w) \<and> sw_State w \<noteq> ''retry_wait'') (w_workflows d) of
        None \<Rightarrow> Inl ErrSnapshotStateConflict
      | Some w \<Rightarrow>
          (case retry_plan (sw_Type w) of
             None \<Rightarrow> Inl ErrSnapshotStateConflict
           | Some (resumeState, steps) \<Rightarrow>
               if \<not> in_i32 (sw_Attempt w + 1) then Inl dbError
               else
                 (let d1 = set_workflows (\<lambda>x. sw_ID x = workflowID \<and> sw_Type x = sw_Type w)
                        (\<lambda>x. x\<lparr>sw_ResumeState := Some resumeState, sw_State := ''retry_wait'', sw_Attempt := sw_Attempt x + 1,
                           sw_NextAttemptAt := Some (now + delay), sw_ErrorCode := Some errorCode,
                           sw_ErrorSummary := summary_text errorSummary, sw_UpdatedAt := now, sw_LeaseOwner := None,
                           sw_LeaseUntil := None\<rparr>) d;
                      transfers = (sw_Type w = ''snapshot'' \<or> sw_Type w = ''restore'') in
                  if transfers \<and> sql_count (cap_prepared workflowID) (w_caps d1) \<noteq> 1 then Inl ErrSnapshotStateConflict
                  else
                    (let d2 = fence_relays workflowID now (if transfers then revoke_caps workflowID d1 else d1);
                         P = (\<lambda>s. st_WorkflowID s = workflowID \<and> st_Name s \<in> set steps) in
                     if sql_exists (\<lambda>s. P s \<and> \<not> in_i32 (st_Attempt s + 1)) (w_steps d2) then Inl dbError
                     else if sql_count P (w_steps d2) \<noteq> length steps then Inl ErrSnapshotStateConflict
                     else Inr (set_steps P (retry_step errorCode now) d2, sw_Attempt w + 1)))))"

definition ScheduleSnapshotRetry ::
    "tx_fault \<Rightarrow> string \<Rightarrow> string \<Rightarrow> string \<Rightarrow> gotime \<Rightarrow> duration \<Rightarrow> wdb \<Rightarrow> wdb \<times> int result" where
  "ScheduleSnapshotRetry flt workflowID errorCode errorSummary now delay d =
     (if workflowID = [] \<or> errorCode = [] \<or> delay \<le> 0 then (d, Inl ErrInvalidSnapshotWorkflow)
      else run_tx flt (schedule_retry_tx workflowID errorCode errorSummary now delay) d)"

text \<open>\<open>machineReasonCodePattern\<close>: a lower-case letter, then up to 63 of \<open>[a-z0-9_]\<close>.\<close>

definition lower_letter :: "char \<Rightarrow> bool" where
  "lower_letter c \<longleftrightarrow> 97 \<le> (of_char c :: nat) \<and> of_char c \<le> (122 :: nat)"

definition ValidMachineReasonCode :: "string \<Rightarrow> bool" where
  "ValidMachineReasonCode s = (case s of [] \<Rightarrow> False | c # cs \<Rightarrow> lower_letter c \<and> length cs \<le> 63 \<and>
     list_all (\<lambda>x. lower_letter x \<or> is_digit x \<or> x = CHR ''_'') cs)"

definition one_row :: "(snapshot_workflow_row \<Rightarrow> bool) \<Rightarrow> (snapshot_workflow_row \<Rightarrow> snapshot_workflow_row) \<Rightarrow> (wdb, unit) tx" where
  "one_row P f d = (if sql_count P (w_workflows d) \<noteq> 1 then Inl ErrSnapshotStateConflict else Inr (set_workflows P f d, ()))"

definition DeferSnapshotWorkflow ::
    "gotime \<Rightarrow> tx_fault \<Rightarrow> string \<Rightarrow> string \<Rightarrow> string \<Rightarrow> gotime \<Rightarrow> duration \<Rightarrow> wdb \<Rightarrow> wdb \<times> unit result" where
  "DeferSnapshotWorkflow clock flt workflowID errorCode errorSummary now0 delay d =
     (if workflowID = [] \<or> \<not> ValidMachineReasonCode errorCode \<or> delay \<le> 0 then (d, Inl ErrInvalidSnapshotWorkflow)
      else
        (let now = at_time clock now0 in
         run_tx flt (one_row (drivable workflowID d)
           (\<lambda>w. w\<lparr>sw_NextAttemptAt := Some (now + delay), sw_ErrorCode := Some errorCode,
              sw_ErrorSummary := summary_text errorSummary, sw_LeaseOwner := None, sw_LeaseUntil := None, sw_UpdatedAt := now\<rparr>)) d))"

definition ClearSnapshotWorkflowDeferral :: "gotime \<Rightarrow> tx_fault \<Rightarrow> string \<Rightarrow> gotime \<Rightarrow> wdb \<Rightarrow> wdb \<times> unit result" where
  "ClearSnapshotWorkflowDeferral clock flt workflowID now0 d =
     (if workflowID = [] then (d, Inl ErrInvalidSnapshotWorkflow)
      else run_tx flt (one_row (\<lambda>w. sw_ID w = workflowID \<and> sw_Type w = ''snapshot'' \<and>
             sw_ErrorCode w \<in> {Some ''source_not_ready'', Some ''target_not_ready''} \<and>
             generation_active (sw_ControllerGeneration w) d)
           (\<lambda>w. w\<lparr>sw_NextAttemptAt := None, sw_ErrorCode := None, sw_ErrorSummary := None,
              sw_UpdatedAt := at_time clock now0\<rparr>)) d)"

definition SwitchSnapshotWorkflowToRelay :: "gotime \<Rightarrow> tx_fault \<Rightarrow> string \<Rightarrow> gotime \<Rightarrow> wdb \<Rightarrow> wdb \<times> unit result" where
  "SwitchSnapshotWorkflowToRelay clock flt workflowID now0 d =
     (if workflowID = [] then (d, Inl ErrInvalidSnapshotWorkflow)
      else run_tx flt (one_row (\<lambda>w. drivable workflowID d w \<and> sw_TransferMode w \<in> {''direct'', ''relay''})
           (\<lambda>w. w\<lparr>sw_TransferMode := ''relay'', sw_UpdatedAt := at_time clock now0\<rparr>)) d)"

definition resume_retry_tx :: "string \<Rightarrow> gotime \<Rightarrow> (wdb, unit) tx" where
  "resume_retry_tx workflowID now d =
     (let P = (\<lambda>w. sw_ID w = workflowID \<and> sw_State w = ''retry_wait'' \<and> sw_ResumeState w \<noteq> None \<and>
            col_le (sw_NextAttemptAt w) now) in
      case sql_find P (w_workflows d) of
        None \<Rightarrow> Inl ErrSnapshotStateConflict
      | Some w \<Rightarrow>
          (case retry_plan (sw_Type w) of
             None \<Rightarrow> Inl ErrSnapshotStateConflict
           | Some (_, steps) \<Rightarrow>
               (let d1 = set_workflows P (\<lambda>w. w\<lparr>sw_State := the (sw_ResumeState w), sw_ResumeState := None,
                      sw_NextAttemptAt := None, sw_ErrorCode := None, sw_ErrorSummary := None, sw_UpdatedAt := now\<rparr>) d;
                    d2 = fence_relays workflowID now d1;
                    Q = (\<lambda>s. st_WorkflowID s = workflowID \<and> st_State s = ''retry_wait'') in
                if sql_count Q (w_steps d2) \<noteq> length steps then Inl ErrSnapshotStateConflict
                else Inr (set_steps Q (\<lambda>s. s\<lparr>st_State := ''pending'', st_ErrorCode := None, st_UpdatedAt := now\<rparr>) d2, ()))))"

definition ResumeSnapshotRetry :: "tx_fault \<Rightarrow> string \<Rightarrow> gotime \<Rightarrow> wdb \<Rightarrow> wdb \<times> unit result" where
  "ResumeSnapshotRetry flt workflowID now d =
     (if workflowID = [] \<or> now = time_zero then (d, Inl ErrInvalidSnapshotWorkflow)
      else run_tx flt (resume_retry_tx workflowID now) d)"

section \<open>Capabilities and progress\<close>

definition rotate_capability_tx :: "string \<Rightarrow> string \<Rightarrow> string \<Rightarrow> gotime \<Rightarrow> gotime \<Rightarrow> (wdb, unit) tx" where
  "rotate_capability_tx workflowID capabilityID tokenHash expiresAt now d =
     (case sql_find (\<lambda>w. sw_ID w = workflowID \<and> workflow_open (sw_State w) \<and>
             generation_active (sw_ControllerGeneration w) d) (w_workflows d) of
        None \<Rightarrow> Inl errNoRow
      | Some w \<Rightarrow>
          (case sql_find (\<lambda>m. sm_WorkflowID m = workflowID) (w_manifests d) of
             None \<Rightarrow> Inl errNoRow
           | Some m \<Rightarrow>
               if sql_exists (\<lambda>c. tc_ID c = capabilityID \<or> tc_TokenHash c = tokenHash) (w_caps d) then Inl dbError
               else
                 (let d1 = revoke_caps workflowID d in
                  Inr (d1\<lparr>w_caps := w_caps d1 @ [\<lparr>tc_ID = capabilityID, tc_WorkflowID = workflowID, tc_SnapshotID = sm_ID m,
                     tc_SourceNodeID = sw_SourceNodeID w, tc_TargetNodeID = sw_TargetNodeID w, tc_TokenHash = tokenHash,
                     tc_State = ''prepared'', tc_ControllerGeneration = sw_ControllerGeneration w, tc_ExpiresAt = expiresAt,
                     tc_ConsumedAt = None, tc_CreatedAt = now\<rparr>]\<rparr>, ()))))"

definition RotateSnapshotCapability ::
    "tx_fault \<Rightarrow> string \<Rightarrow> string \<Rightarrow> string \<Rightarrow> gotime \<Rightarrow> gotime \<Rightarrow> wdb \<Rightarrow> wdb \<times> unit result" where
  "RotateSnapshotCapability flt workflowID capabilityID tokenHash expiresAt now d =
     (if workflowID = [] \<or> capabilityID = [] \<or> length tokenHash \<noteq> 32 \<or> \<not> now < expiresAt
      then (d, Inl ErrInvalidSnapshotWorkflow)
      else run_tx flt (rotate_capability_tx workflowID capabilityID tokenHash expiresAt now) d)"

text \<open>The check constraint on the state of a workflow.\<close>

definition workflow_states :: "string list" where
  "workflow_states = [''scheduled'', ''quiescing'', ''drained'', ''snapshotting'', ''transferring'', ''verifying'',
     ''publishing'', ''retry_wait'', ''cancelled'', ''failed'', ''succeeded'']"

definition set_state_tx :: "string \<Rightarrow> string \<Rightarrow> string \<Rightarrow> gotime \<Rightarrow> (wdb, unit) tx" where
  "set_state_tx workflowID fromState toState now d =
     (let P = (\<lambda>w. sw_ID w = workflowID \<and> sw_State w = fromState \<and> generation_active (sw_ControllerGeneration w) d) in
      if sql_count P (w_workflows d) \<noteq> 1 then Inl ErrSnapshotStateConflict
      else if toState \<notin> set workflow_states then Inl dbError
      else
        (let d1 = set_workflows P (\<lambda>w. w\<lparr>sw_State := toState, sw_UpdatedAt := now\<rparr>) d;
             running = (if toState = ''quiescing'' then ''quiesce'' else if toState = ''transferring'' then ''transfer'' else []) in
         if running = [] then Inr (d1, ())
         else
           (let Q = (\<lambda>s. step_of workflowID running s \<and> st_State s \<in> {''pending'', ''retry_wait'', ''running''}) in
            if sql_count Q (w_steps d1) \<noteq> 1 then Inl ErrSnapshotStateConflict
            else Inr (set_steps Q (run_step now) d1, ()))))"

definition SetSnapshotWorkflowState :: "gotime \<Rightarrow> tx_fault \<Rightarrow> string \<Rightarrow> string \<Rightarrow> string \<Rightarrow> gotime \<Rightarrow> wdb \<Rightarrow> wdb \<times> unit result" where
  "SetSnapshotWorkflowState clock flt workflowID fromState toState now0 d =
     (if workflowID = [] \<or> fromState = [] \<or> toState = [] then (d, Inl ErrInvalidSnapshotWorkflow)
      else run_tx flt (set_state_tx workflowID fromState toState (at_time clock now0)) d)"

text \<open>Who may report which phase, and from which phase it is reached.\<close>

definition progress_rule :: "string \<Rightarrow> snapshot_workflow_row \<Rightarrow> (string \<times> int) option" where
  "progress_rule toState w =
     (if toState = ''drained'' then Some (''quiescing'', sw_SourceNodeID w)
      else if toState = ''snapshotting'' then Some (''drained'', sw_SourceNodeID w)
      else if toState = ''transferring'' then Some (''snapshotting'', sw_SourceNodeID w)
      else if toState = ''verifying'' then Some (''transferring'', sw_TargetNodeID w)
      else if toState = ''publishing'' then Some (''verifying'', sw_TargetNodeID w)
      else None)"

definition completed_step :: "string \<Rightarrow> string" where
  "completed_step toState =
     (if toState = ''drained'' then ''quiesce'' else if toState = ''transferring'' then ''snapshot''
      else if toState = ''verifying'' then ''transfer'' else if toState = ''publishing'' then ''verify'' else [])"

definition running_step :: "string \<Rightarrow> string" where
  "running_step toState =
     (if toState = ''snapshotting'' then ''snapshot'' else if toState = ''transferring'' then ''transfer''
      else if toState = ''verifying'' then ''verify'' else if toState = ''publishing'' then ''publish'' else [])"

definition update_step :: "string \<Rightarrow> string \<Rightarrow> (workflow_step_row \<Rightarrow> workflow_step_row) \<Rightarrow> wdb \<Rightarrow> wdb result" where
  "update_step workflowID name f d =
     (if name = [] then Inr d
      else if sql_count (step_of workflowID name) (w_steps d) \<noteq> 1 then Inl ErrSnapshotStateConflict
      else Inr (set_steps (step_of workflowID name) f d))"

definition progress_tx :: "string \<Rightarrow> string \<Rightarrow> int \<Rightarrow> string \<Rightarrow> gotime \<Rightarrow> (wdb, unit) tx" where
  "progress_tx workflowID snapshotID nodeID toState now d =
     (case sql_find (\<lambda>w. sw_ID w = workflowID \<and>
             sql_exists (\<lambda>m. sm_WorkflowID m = sw_ID w \<and> sm_ID m = snapshotID) (w_manifests d)) (w_workflows d) of
        None \<Rightarrow> Inl errNoRow
      | Some w \<Rightarrow>
          (case active_gen d of
             None \<Rightarrow> Inl errNoRow
           | Some g \<Rightarrow>
               if sw_ControllerGeneration w \<noteq> g then Inl ErrSnapshotStateConflict
               else
                 (case progress_rule toState w of
                    None \<Rightarrow> Inl ErrSnapshotStateConflict
                  | Some (from, actor) \<Rightarrow>
                      if actor \<noteq> nodeID then Inl ErrSnapshotStateConflict
                      else if sw_State w = toState then Inr (d, ())
                      else if from \<noteq> sw_State w then Inl ErrSnapshotStateConflict
                      else
                        (case update_step workflowID (completed_step toState) (finish_step now)
                                (set_workflows (\<lambda>x. sw_ID x = workflowID) (\<lambda>x. x\<lparr>sw_State := toState, sw_UpdatedAt := now\<rparr>) d) of
                           Inl e \<Rightarrow> Inl e
                         | Inr d1 \<Rightarrow>
                             (case update_step workflowID (running_step toState) (run_step now) d1 of
                                Inl e \<Rightarrow> Inl e
                              | Inr d2 \<Rightarrow> Inr (d2, ()))))))"

definition setSnapshotWorkflowProgressOnce ::
    "tx_fault \<Rightarrow> string \<Rightarrow> string \<Rightarrow> int \<Rightarrow> string \<Rightarrow> gotime \<Rightarrow> wdb \<Rightarrow> wdb \<times> unit result" where
  "setSnapshotWorkflowProgressOnce flt workflowID snapshotID nodeID toState now =
     run_tx flt (progress_tx workflowID snapshotID nodeID toState now)"

definition SetSnapshotWorkflowProgress ::
    "gotime \<Rightarrow> (tx_fault \<times> wdb wait) list \<Rightarrow> string \<Rightarrow> string \<Rightarrow> int \<Rightarrow> string \<Rightarrow> gotime \<Rightarrow> wdb \<Rightarrow> wdb \<times> unit result" where
  "SetSnapshotWorkflowProgress clock attempts workflowID snapshotID nodeID toState now0 d =
     (if workflowID = [] \<or> snapshotID = [] \<or> nodeID \<le> 0 then (d, Inl ErrInvalidSnapshotWorkflow)
      else retry_tx serializableRetryLimit attempts (progress_tx workflowID snapshotID nodeID toState (at_time clock now0)) d)"

definition CompleteSnapshotWorkflowStep :: "gotime \<Rightarrow> tx_fault \<Rightarrow> string \<Rightarrow> string \<Rightarrow> gotime \<Rightarrow> wdb \<Rightarrow> wdb \<times> unit result" where
  "CompleteSnapshotWorkflowStep clock flt workflowID stepName now0 d =
     (if workflowID = [] \<or> stepName = [] then (d, Inl ErrInvalidSnapshotWorkflow)
      else run_tx flt (\<lambda>d.
        let P = (\<lambda>s. step_of workflowID stepName s \<and> st_State s \<in> {''pending'', ''running'', ''retry_wait''}) in
        if sql_count P (w_steps d) = 1 then Inr (set_steps P (finish_step (at_time clock now0)) d, ())
        else
          (case sql_find (step_of workflowID stepName) (w_steps d) of
             None \<Rightarrow> Inl errNoRow
           | Some s \<Rightarrow> if st_State s = ''succeeded'' then Inr (d, ()) else Inl ErrSnapshotStateConflict)) d)"

section \<open>Ends\<close>

definition cancelSnapshotWorkflowTx :: "string \<Rightarrow> string option \<Rightarrow> gotime \<Rightarrow> wdb \<Rightarrow> wdb" where
  "cancelSnapshotWorkflowTx workflowID reason now d =
     revoke_caps workflowID
       (set_steps (\<lambda>s. st_WorkflowID s = workflowID \<and> workflow_open (st_State s))
          (\<lambda>s. s\<lparr>st_State := ''cancelled'', st_FinishedAt := Some now, st_UpdatedAt := now\<rparr>)
          (set_workflows (\<lambda>w. sw_ID w = workflowID \<and> workflow_open (sw_State w))
             (\<lambda>w. w\<lparr>sw_State := ''cancelled'', sw_ErrorCode := Some ''user_returned'', sw_ErrorSummary := reason,
                sw_CleanupState := ''pending'', sw_LeaseOwner := None, sw_LeaseUntil := None, sw_UpdatedAt := now,
                sw_FinishedAt := Some now\<rparr>) d))"

definition CancelSnapshotWorkflow :: "gotime \<Rightarrow> tx_fault \<Rightarrow> string \<Rightarrow> string \<Rightarrow> gotime \<Rightarrow> wdb \<Rightarrow> wdb \<times> unit result" where
  "CancelSnapshotWorkflow clock flt workflowID reason now0 d =
     (if workflowID = [] then (d, Inl ErrInvalidSnapshotWorkflow)
      else run_tx flt (\<lambda>d. Inr (cancelSnapshotWorkflowTx workflowID (summary_text reason) (at_time clock now0) d, ())) d)"

definition legacy_of :: "int \<Rightarrow> wdb \<Rightarrow> int option" where
  "legacy_of userID d = Option.bind (sql_find (\<lambda>u. gu_ID u = userID) (w_users d)) gu_LegacyUserID"

definition fail_replica :: "snapshot_workflow_row \<Rightarrow> gotime \<Rightarrow> wdb \<Rightarrow> wdb" where
  "fail_replica w now d =
     (if sql_exists (\<lambda>c. cp_UserID c = sw_UserID w \<and> cp_NodeID c = sw_TargetNodeID w \<and> cp_State c = ''ready'' \<and>
           cp_SnapshotID c \<noteq> None) (w_copies d)
      then d
      else d\<lparr>w_replicas := sql_update (\<lambda>r. legacy_of (sw_UserID w) d = Some (up_UserID r) \<and> up_NodeID r = sw_TargetNodeID w)
             (\<lambda>r. r\<lparr>up_State := ''error'', up_DataVersion := 0, up_Checksum := None, up_SizeBytes := Some 0,
                up_LastSyncAt := Some now\<rparr>) (w_replicas d)\<rparr>)"

definition fail_tx :: "string \<Rightarrow> string \<Rightarrow> string option \<Rightarrow> gotime \<Rightarrow> (wdb, unit) tx" where
  "fail_tx workflowID errorCode summary now d =
     (case workflow_by_id workflowID d of
        None \<Rightarrow> Inl errNoRow
      | Some w \<Rightarrow>
          if sw_State w = ''succeeded'' \<or> sw_State w = ''cancelled'' then Inl ErrSnapshotStateConflict
          else
            (let d1 = set_workflows (\<lambda>x. sw_ID x = workflowID \<and> workflow_open (sw_State x))
                   (\<lambda>x. x\<lparr>sw_State := ''failed'', sw_ErrorCode := Some errorCode, sw_ErrorSummary := summary,
                      sw_CleanupState := ''pending'', sw_LeaseOwner := None, sw_LeaseUntil := None, sw_UpdatedAt := now,
                      sw_FinishedAt := Some now\<rparr>) d;
                 d2 = set_steps (\<lambda>s. st_WorkflowID s = workflowID \<and> workflow_open (st_State s))
                   (\<lambda>s. s\<lparr>st_State := ''failed'', st_FinishedAt := Some now, st_UpdatedAt := now\<rparr>) d1;
                 d3 = revoke_caps workflowID d2;
                 d4 = d3\<lparr>w_jobs := sql_update (\<lambda>j. bj_WorkflowID j = Some workflowID \<and> bj_Status j \<notin> {''done'', ''aborted''})
                   (\<lambda>j. j\<lparr>bj_Status := ''failed'', bj_Error := summary, bj_FinishedAt := Some now\<rparr>) (w_jobs d3)\<rparr> in
             Inr (fail_replica w now d4, ())))"

definition FailSnapshotWorkflow :: "gotime \<Rightarrow> tx_fault \<Rightarrow> string \<Rightarrow> string \<Rightarrow> string \<Rightarrow> gotime \<Rightarrow> wdb \<Rightarrow> wdb \<times> unit result" where
  "FailSnapshotWorkflow clock flt workflowID errorCode errorSummary now0 d =
     (if workflowID = [] \<or> errorCode = [] then (d, Inl ErrInvalidSnapshotWorkflow)
      else run_tx flt (fail_tx workflowID errorCode (summary_text errorSummary) (at_time clock now0)) d)"

section \<open>Recovery after a change of generation\<close>

definition recovery_code :: string where "recovery_code = ''controller_generation_recovery''"

text \<open>
  The summaries of the two recovery statements are fixed texts of the source; they are kept by
  name.
\<close>

definition AdoptStaleSnapshotWorkflows ::
    "gotime \<Rightarrow> tx_fault \<Rightarrow> (string \<Rightarrow> bool) \<Rightarrow> string \<Rightarrow> gotime \<Rightarrow> int \<Rightarrow> wdb \<Rightarrow> wdb \<times> nat result" where
  "AdoptStaleSnapshotWorkflows clock flt skip summary now0 limit0 d =
     (let limit = (if limit0 \<le> 0 \<or> 1000 < limit0 then 100 else limit0); now = at_time clock now0 in
      run_tx flt (\<lambda>d.
        case active_gen d of
          None \<Rightarrow> Inr (d, 0)
        | Some g \<Rightarrow>
            let ids = take (nat limit) (map sw_ID (sort_key sw_UpdatedAt (sort_key sw_ID (filter (\<lambda>w. sw_Type w = ''snapshot'' \<and>
                  workflow_open (sw_State w) \<and> sw_ControllerGeneration w \<noteq> g \<and> \<not> skip (sw_ID w)) (w_workflows d))))) in
            Inr (set_workflows (\<lambda>w. sw_ID w \<in> set ids)
              (\<lambda>w. w\<lparr>sw_ControllerGeneration := g, sw_ErrorCode := Some recovery_code, sw_ErrorSummary := Some summary,
                 sw_NextAttemptAt := Some now, sw_LeaseOwner := None, sw_LeaseUntil := None, sw_UpdatedAt := now\<rparr>) d,
              length ids)) d)"

definition prepare_recovered_tx :: "string \<Rightarrow> int \<Rightarrow> gotime \<Rightarrow> (wdb, unit) tx" where
  "prepare_recovered_tx workflowID g now d =
     (let P = (\<lambda>w. sw_ID w = workflowID \<and> sw_Type w = ''snapshot'' \<and> sw_ControllerGeneration w = g \<and> generation_active g d \<and>
            sw_ErrorCode w = Some recovery_code \<and> sw_State w \<in> {''transferring'', ''verifying'', ''publishing''}) in
      if sql_count P (w_workflows d) \<noteq> 1 then Inl ErrSnapshotStateConflict
      else
        (let d1 = fence_relays workflowID now (set_workflows P (\<lambda>w. w\<lparr>sw_State := ''publishing'', sw_ErrorCode := None,
               sw_ErrorSummary := None, sw_NextAttemptAt := None, sw_UpdatedAt := now\<rparr>) d);
             d2 = set_steps (\<lambda>s. st_WorkflowID s = workflowID \<and>
                    st_Name s \<in> set [''quiesce'', ''snapshot'', ''prepare_target'', ''transfer'', ''verify''])
               (\<lambda>s. s\<lparr>st_State := ''succeeded'', st_FinishedAt := (case st_FinishedAt s of None \<Rightarrow> Some now | Some t \<Rightarrow> Some t),
                  st_ErrorCode := None, st_UpdatedAt := now\<rparr>) d1 in
         Inr (set_steps (step_of workflowID ''publish'') (run_step now) d2, ())))"

definition PrepareRecoveredSnapshotCompletion :: "gotime \<Rightarrow> tx_fault \<Rightarrow> string \<Rightarrow> int \<Rightarrow> gotime \<Rightarrow> wdb \<Rightarrow> wdb \<times> unit result" where
  "PrepareRecoveredSnapshotCompletion clock flt workflowID g now0 d =
     (if workflowID = [] \<or> g \<le> 0 then (d, Inl ErrInvalidSnapshotWorkflow)
      else run_tx flt (prepare_recovered_tx workflowID g (at_time clock now0)) d)"

definition reset_steps :: "string list" where
  "reset_steps = [''quiesce'', ''snapshot'', ''prepare_target'', ''transfer'', ''verify'', ''publish'']"

definition adopted :: "string \<Rightarrow> int \<Rightarrow> snapshot_workflow_row \<Rightarrow> bool" where
  "adopted workflowID g w \<longleftrightarrow> sw_ID w = workflowID \<and> sw_ControllerGeneration w = g \<and> sw_ErrorCode w = Some recovery_code"

definition reset_recovered_tx :: "string \<Rightarrow> string \<Rightarrow> string \<Rightarrow> int \<Rightarrow> gotime \<Rightarrow> (wdb, unit) tx" where
  "reset_recovered_tx cancelSummary retrySummary workflowID g now d =
     (case sql_find (\<lambda>w. drivable workflowID d w \<and> adopted workflowID g w) (w_workflows d) of
        None \<Rightarrow> Inl errNoRow
      | Some w \<Rightarrow>
          (case sql_find (\<lambda>j. bj_WorkflowID j = Some workflowID) (w_jobs d) of
             None \<Rightarrow> Inl errNoRow
           | Some j \<Rightarrow>
               (let d1 = fence_relays workflowID now d in
                if bj_Status j = ''aborted'' then Inr (cancelSnapshotWorkflowTx workflowID (Some cancelSummary) now d1, ())
                else if \<not> in_i32 (sw_Attempt w + 1) \<or> \<not> in_i32 (sw_GenerationRecoveries w + 1) \<or> sql_exists (\<lambda>s. st_WorkflowID s = workflowID \<and>
                     st_Name s \<in> set reset_steps \<and> \<not> in_i32 (st_Attempt s + 1)) (w_steps d) then Inl dbError
                else if sql_count (adopted workflowID g) (w_workflows d) \<noteq> 1 then Inl ErrSnapshotStateConflict
                else
                  (let d2 = set_workflows (adopted workflowID g)
                         (\<lambda>x. x\<lparr>sw_State := ''retry_wait'', sw_ResumeState := Some ''quiescing'', sw_Attempt := sw_Attempt x + 1,
                            sw_GenerationRecoveries := sw_GenerationRecoveries x + 1, sw_NextAttemptAt := Some now,
                            sw_ErrorCode := Some ''controller_generation_retry'', sw_ErrorSummary := Some retrySummary,
                            sw_LeaseOwner := None, sw_LeaseUntil := None, sw_UpdatedAt := now\<rparr>) (revoke_caps workflowID d1);
                       d3 = set_steps (\<lambda>s. st_WorkflowID s = workflowID \<and> st_Name s \<in> set reset_steps)
                         (retry_step ''controller_generation_retry'' now) d2 in
                   Inr (d3\<lparr>w_jobs := sql_update (\<lambda>j. bj_WorkflowID j = Some workflowID \<and> bj_Status j \<notin> {''done'', ''aborted''})
                      (\<lambda>j. j\<lparr>bj_Status := ''pending'', bj_Error := None, bj_FinishedAt := None\<rparr>) (w_jobs d3)\<rparr>, ())))))"

definition ResetRecoveredSnapshotWorkflow ::
    "gotime \<Rightarrow> tx_fault \<Rightarrow> string \<Rightarrow> string \<Rightarrow> string \<Rightarrow> int \<Rightarrow> gotime \<Rightarrow> wdb \<Rightarrow> wdb \<times> unit result" where
  "ResetRecoveredSnapshotWorkflow clock flt cancelSummary retrySummary workflowID g now0 d =
     (if workflowID = [] \<or> g \<le> 0 then (d, Inl ErrInvalidSnapshotWorkflow)
      else run_tx flt (reset_recovered_tx cancelSummary retrySummary workflowID g (at_time clock now0)) d)"

section \<open>Publication\<close>

record complete_params =
  cq_WorkflowID :: string
  cq_SnapshotID :: string
  cq_CapabilityHash :: string
  cq_TargetNodeID :: int
  cq_ReplicaKind :: string
  cq_ReplicaOrigin :: string
  cq_ManifestSHA256 :: string
  cq_ArchiveSHA256 :: string
  cq_FileCount :: int
  cq_TotalBytes :: int
  cq_Now :: gotime

definition complete_params_ok :: "complete_params \<Rightarrow> bool" where
  "complete_params_ok p \<longleftrightarrow> cq_WorkflowID p \<noteq> [] \<and> cq_SnapshotID p \<noteq> [] \<and> length (cq_CapabilityHash p) = 32 \<and>
     0 < cq_TargetNodeID p \<and> cq_ReplicaKind p \<in> {''archive'', ''hot_standby''} \<and> length (cq_ManifestSHA256 p) = 32 \<and>
     cq_ReplicaOrigin p \<in> {''configured'', ''temporary_failure_protection'', ''migration'', ''automatic_repair''} \<and>
     length (cq_ArchiveSHA256 p) = 32 \<and> 0 \<le> cq_FileCount p \<and> 0 \<le> cq_TotalBytes p"

definition building :: "complete_params \<Rightarrow> manifest_row \<Rightarrow> bool" where
  "building p m \<longleftrightarrow> sm_ID m = cq_SnapshotID p \<and> sm_WorkflowID m = cq_WorkflowID p \<and> sm_State m = ''building''"

definition seal_manifest :: "complete_params \<Rightarrow> manifest_row \<Rightarrow> manifest_row" where
  "seal_manifest p m = m\<lparr>sm_ManifestSHA256 := cq_ManifestSHA256 p, sm_ArchiveSHA256 := Some (cq_ArchiveSHA256 p),
     sm_FileCount := cq_FileCount p, sm_TotalBytes := cq_TotalBytes p, sm_State := ''immutable''\<rparr>"

definition next_data_version :: "int \<Rightarrow> wdb \<Rightarrow> int" where
  "next_data_version legacyUserID d =
     (case map up_DataVersion (filter (\<lambda>r. up_UserID r = legacyUserID) (w_replicas d)) of
        [] \<Rightarrow> 1 | v # vs \<Rightarrow> foldl max v vs + 1)"

definition replace_cleanups :: "int \<Rightarrow> int \<Rightarrow> gotime \<Rightarrow> wdb \<Rightarrow> wdb" where
  "replace_cleanups userID nodeID now d =
     d\<lparr>w_cleanups := sql_update (\<lambda>c. ck_UserID c = userID \<and> ck_NodeID c = nodeID \<and> ck_State c \<in> {''pending'', ''retry_wait''})
        (\<lambda>c. c\<lparr>ck_State := ''cancelled'', ck_ErrorCode := Some ''replica_replaced'', ck_UpdatedAt := now,
           ck_FinishedAt := Some now\<rparr>) (w_cleanups d)\<rparr>"

text \<open>
  The archives on other nodes go stale and are queued for deletion, unless the same deletion is
  queued already (\<open>ON CONFLICT (node_id, snapshot_id, replica_kind) DO NOTHING\<close>).
\<close>

definition stale_archive :: "int \<Rightarrow> int \<Rightarrow> copy_row \<Rightarrow> bool" where
  "stale_archive userID nodeID c \<longleftrightarrow> cp_UserID c = userID \<and> cp_NodeID c \<noteq> nodeID \<and> cp_Kind c = ''archive'' \<and> cp_State c = ''ready''"

definition archive_cleanup :: "int \<Rightarrow> string \<Rightarrow> gotime \<Rightarrow> copy_row \<Rightarrow> cleanup_row option" where
  "archive_cleanup legacyUserID handle now c =
     map_option (\<lambda>snapshot. \<lparr>ck_ReplicaID = cp_ID c, ck_UserID = cp_UserID c, ck_LegacyUserID = legacyUserID,
       ck_NodeID = cp_NodeID c, ck_SnapshotID = snapshot, ck_Handle = handle, ck_Kind = cp_Kind c,
       ck_ReasonCode = ''superseded_archive'', ck_State = ''pending'', ck_NextAttemptAt = now, ck_ErrorCode = None,
       ck_UpdatedAt = now, ck_FinishedAt = None\<rparr>) (cp_SnapshotID c)"

definition add_cleanup :: "cleanup_row \<Rightarrow> cleanup_row list \<Rightarrow> cleanup_row list" where
  "add_cleanup c t =
     (if sql_exists (\<lambda>x. ck_NodeID x = ck_NodeID c \<and> ck_SnapshotID x = ck_SnapshotID c \<and> ck_Kind x = ck_Kind c) t
      then t else t @ [c])"

definition stale_copies :: "int \<Rightarrow> int \<Rightarrow> gotime \<Rightarrow> copy_row list \<Rightarrow> copy_row list" where
  "stale_copies userID nodeID now t =
     sql_update (stale_archive userID nodeID) (\<lambda>c. c\<lparr>cp_State := ''stale'', cp_UpdatedAt := now\<rparr>) t"

definition supersede_archives :: "int \<Rightarrow> int \<Rightarrow> string option \<Rightarrow> int \<Rightarrow> gotime \<Rightarrow> wdb \<Rightarrow> wdb" where
  "supersede_archives userID legacyUserID handle nodeID now d =
     (let stale = filter (stale_archive userID nodeID) (w_copies d);
          tasks = (case handle of None \<Rightarrow> [] | Some h \<Rightarrow> List.map_filter (archive_cleanup legacyUserID h now) stale) in
      d\<lparr>w_copies := stale_copies userID nodeID now (w_copies d),
        w_cleanups := foldl (\<lambda>t c. add_cleanup c t) (w_cleanups d) tasks,
        w_replicas := sql_update (\<lambda>r. up_UserID r = legacyUserID \<and> up_NodeID r \<noteq> nodeID \<and> up_Kind r = ''archive'' \<and> up_State r = ''ready'')
          (\<lambda>r. r\<lparr>up_State := ''stale''\<rparr>) (w_replicas d)\<rparr>)"

definition published_copy :: "complete_params \<Rightarrow> gotime \<Rightarrow> copy_row \<Rightarrow> copy_row" where
  "published_copy p now c = c\<lparr>cp_SnapshotID := Some (cq_SnapshotID p), cp_Kind := cq_ReplicaKind p, cp_State := ''ready'',
     cp_Origin := cq_ReplicaOrigin p, cp_Compatibility := ''compatible'', cp_PublishedAt := Some now, cp_VerifiedAt := Some now,
     cp_IntegrityState := ''verified'', cp_IntegrityNextCheckAt := now + 24 * hour, cp_IntegrityDeepCheckAt := now + 30 * 24 * hour,
     cp_UpdatedAt := now\<rparr>"

definition new_copy :: "string \<Rightarrow> int \<Rightarrow> complete_params \<Rightarrow> gotime \<Rightarrow> copy_row" where
  "new_copy replicaID userID p now = published_copy p now \<lparr>cp_ID = replicaID, cp_UserID = userID, cp_NodeID = cq_TargetNodeID p,
     cp_SnapshotID = None, cp_Kind = [], cp_State = [], cp_Origin = [], cp_IsAuthoritative = False, cp_Compatibility = [],
     cp_PublishedAt = None, cp_VerifiedAt = None, cp_IntegrityState = [], cp_IntegrityNextCheckAt = now,
     cp_IntegrityDeepCheckAt = now, cp_UpdatedAt = now\<rparr>"

definition copy_at :: "int \<Rightarrow> int \<Rightarrow> copy_row \<Rightarrow> bool" where
  "copy_at userID nodeID c \<longleftrightarrow> cp_UserID c = userID \<and> cp_NodeID c = nodeID"

definition put_copy :: "string \<Rightarrow> int \<Rightarrow> complete_params \<Rightarrow> gotime \<Rightarrow> copy_row list \<Rightarrow> copy_row list" where
  "put_copy replicaID userID p now t =
     (let at = copy_at userID (cq_TargetNodeID p) in
      if sql_exists at t then sql_update at (published_copy p now) t else t @ [new_copy replicaID userID p now])"

definition publish_copy :: "string \<Rightarrow> int \<Rightarrow> complete_params \<Rightarrow> gotime \<Rightarrow> wdb \<Rightarrow> wdb" where
  "publish_copy replicaID userID p now d =
     (let copies = put_copy replicaID userID p now (w_copies d);
          dedup = (case sql_find (copy_at userID (cq_TargetNodeID p)) copies of None \<Rightarrow> [] | Some c \<Rightarrow> ''replica-integrity:'' @ cp_ID c) in
      d\<lparr>w_copies := copies,
        w_alerts := sql_update (\<lambda>a. at_DeduplicationKey a = dedup \<and> at_State a \<in> {''open'', ''acknowledged''})
          (\<lambda>a. a\<lparr>at_State := ''resolved'', at_ResolvedAt := Some now, at_LastSeenAt := now\<rparr>) (w_alerts d)\<rparr>)"

definition cap_of_hash :: "complete_params \<Rightarrow> transfer_capability_row \<Rightarrow> bool" where
  "cap_of_hash p c \<longleftrightarrow> tc_WorkflowID c = cq_WorkflowID p \<and> tc_TokenHash c = cq_CapabilityHash p \<and> tc_State c = ''prepared''"

text \<open>The last statements: capability, job, replica, workflow and steps.\<close>

definition finish_tx :: "int \<Rightarrow> int \<Rightarrow> complete_params \<Rightarrow> gotime \<Rightarrow> (wdb, int) tx" where
  "finish_tx legacyUserID dataVersion p now d =
     (let job = (\<lambda>j. bj_WorkflowID j = Some (cq_WorkflowID p));
          rep = (\<lambda>r. up_UserID r = legacyUserID \<and> up_NodeID r = cq_TargetNodeID p) in
      if sql_count (cap_of_hash p) (w_caps d) \<noteq> 1 then Inl ErrSnapshotStateConflict
      else if \<not> in_i32 (cq_FileCount p) then Inl dbError
      else if sql_count job (w_jobs d) \<noteq> 1 \<or> sql_count rep (w_replicas d) \<noteq> 1 then Inl ErrSnapshotStateConflict
      else
        (let d1 = d\<lparr>w_caps := sql_update (cap_of_hash p) (\<lambda>c. c\<lparr>tc_State := ''consumed'', tc_ConsumedAt := Some now\<rparr>) (w_caps d),
               w_jobs := sql_update job (\<lambda>j. j\<lparr>bj_Status := ''done'', bj_DataVersion := Some dataVersion,
                 bj_Bytes := Some (cq_TotalBytes p), bj_FileCount := Some (cq_FileCount p), bj_Error := None,
                 bj_FinishedAt := Some now\<rparr>) (w_jobs d),
               w_replicas := sql_update rep (\<lambda>r. r\<lparr>up_State := ''ready'', up_DataVersion := dataVersion,
                 up_Checksum := Some (hex_encode (cq_ManifestSHA256 p)), up_SizeBytes := Some (cq_TotalBytes p),
                 up_LastSyncAt := Some now\<rparr>) (w_replicas d)\<rparr>;
             d2 = set_workflows (\<lambda>w. sw_ID w = cq_WorkflowID p) (\<lambda>w. w\<lparr>sw_State := ''succeeded'', sw_CleanupState := ''succeeded'',
                    sw_UpdatedAt := now, sw_FinishedAt := Some now\<rparr>) d1 in
         Inr (set_steps (\<lambda>s. st_WorkflowID s = cq_WorkflowID p) (finish_step now) d2, dataVersion)))"

definition drop_manifest :: "string option \<Rightarrow> complete_params \<Rightarrow> manifest_row list \<Rightarrow> manifest_row list" where
  "drop_manifest old p t =
     sql_update (\<lambda>m. old = Some (sm_ID m) \<and> sm_ID m \<noteq> cq_SnapshotID p) (\<lambda>m. m\<lparr>sm_State := ''deleted''\<rparr>) t"

definition publish_tx :: "string \<Rightarrow> int \<Rightarrow> int \<Rightarrow> complete_params \<Rightarrow> gotime \<Rightarrow> (wdb, int) tx" where
  "publish_tx replicaID userID legacyUserID p now d =
     (if sql_count (building p) (w_manifests d) \<noteq> 1 then Inl ErrSnapshotStateConflict
      else
        (let d1 = d\<lparr>w_manifests := sql_update (building p) (seal_manifest p) (w_manifests d)\<rparr>;
             old = Option.bind (sql_find (copy_at userID (cq_TargetNodeID p)) (w_copies d1)) cp_SnapshotID;
             dataVersion = next_data_version legacyUserID d1;
             d2 = replace_cleanups userID (cq_TargetNodeID p) now d1;
             handle = map_option us_Username (sql_find (\<lambda>u. us_ID u = legacyUserID) (w_legacy_users d)) in
         if \<not> in_i64 dataVersion then Inl dbError
         else if sql_exists (\<lambda>c. ck_UserID c = userID \<and> ck_NodeID c = cq_TargetNodeID p \<and> ck_State c = ''running'') (w_cleanups d2)
         then Inl ErrSnapshotStateConflict
         else
           (let d3 = (if cq_ReplicaKind p = ''archive''
                  then supersede_archives userID legacyUserID handle (cq_TargetNodeID p) now d2 else d2);
                d4 = publish_copy replicaID userID p now d3;
                d5 = d4\<lparr>w_manifests := drop_manifest old p (w_manifests d4)\<rparr> in
            finish_tx legacyUserID dataVersion p now d5)))"

definition complete_tx :: "string \<Rightarrow> complete_params \<Rightarrow> gotime \<Rightarrow> (wdb, int) tx" where
  "complete_tx replicaID p now d =
     (case workflow_by_id (cq_WorkflowID p) d of
        None \<Rightarrow> Inl errNoRow
      | Some w \<Rightarrow>
          (case sql_find (\<lambda>u. gu_ID u = sw_UserID w) (w_users d) of
             None \<Rightarrow> Inl errNoRow
           | Some u \<Rightarrow>
               (case gu_LegacyUserID u of
                  None \<Rightarrow> Inl dbError
                | Some legacyUserID \<Rightarrow>
                    if sw_State w = ''succeeded'' then
                      (case sql_find (\<lambda>j. bj_WorkflowID j = Some (cq_WorkflowID p)) (w_jobs d) of
                         None \<Rightarrow> Inl errNoRow
                       | Some j \<Rightarrow> (case bj_DataVersion j of None \<Rightarrow> Inl ErrSnapshotStateConflict | Some v \<Rightarrow> Inr (d, v)))
                    else if sw_State w \<noteq> ''publishing'' then Inl ErrSnapshotStateConflict
                    else
                      (case active_gen d of
                         None \<Rightarrow> Inl errNoRow
                       | Some g \<Rightarrow>
                           if sw_ControllerGeneration w \<noteq> g then Inl ErrSnapshotStateConflict
                           else publish_tx replicaID (sw_UserID w) legacyUserID p now d))))"

definition CompleteSnapshotWorkflow :: "gotime \<Rightarrow> tx_fault \<Rightarrow> string \<Rightarrow> complete_params \<Rightarrow> wdb \<Rightarrow> wdb \<times> int result" where
  "CompleteSnapshotWorkflow clock flt replicaID p d =
     (if \<not> complete_params_ok p then (d, Inl ErrInvalidSnapshotWorkflow)
      else run_tx flt (complete_tx replicaID p (at_time clock (cq_Now p))) d)"

section \<open>Target account\<close>

definition best_password :: "int \<Rightarrow> wdb \<Rightarrow> account_material_row option" where
  "best_password userID d =
     (case filter (\<lambda>a. am_UserID a = userID \<and> am_PasswordHash a \<noteq> None \<and> am_PasswordSalt a \<noteq> None) (w_accounts d) of
        [] \<Rightarrow> None
      | a # as \<Rightarrow> Some (foldl (\<lambda>b x. if am_PasswordVersion b < am_PasswordVersion x \<or>
            am_PasswordVersion b = am_PasswordVersion x \<and> am_UpdatedAt b < am_UpdatedAt x then x else b) a as))"

definition oauth_identity :: "int \<Rightarrow> wdb \<Rightarrow> auth_identity_row option" where
  "oauth_identity userID d =
     (let live = (\<lambda>provider i. ai_UserID i = userID \<and> ai_Status i = ''active'' \<and> ai_Provider i = provider) in
      case sql_find (live ''discord'') (w_identities d) of
        Some i \<Rightarrow> Some i
      | None \<Rightarrow> sql_find (live ''linuxdo'') (w_identities d))"

text \<open>The material of the account that is to be created: a password, or else an identity.\<close>

definition account_material :: "int \<Rightarrow> wdb \<Rightarrow> (int \<times> string option \<times> string option \<times> (string \<times> string) list) result" where
  "account_material userID d =
     (case best_password userID d of
        Some a \<Rightarrow> Inr (am_PasswordVersion a, Option.bind (am_PasswordHash a) nullIfEmpty, Option.bind (am_PasswordSalt a) nullIfEmpty, [])
      | None \<Rightarrow>
          (case oauth_identity userID d of
             None \<Rightarrow> Inl ErrRestoreUnavailable
           | Some i \<Rightarrow> Inr (0, None, None, [(ai_Provider i, ai_Subject i)])))"

definition prepareWorkflowTargetAccount :: "string \<Rightarrow> int \<Rightarrow> int \<Rightarrow> string \<Rightarrow> gotime \<Rightarrow> (wdb, bool) tx" where
  "prepareWorkflowTargetAccount workflowID userID targetNodeID handle now d =
     (let at = (\<lambda>a. am_UserID a = userID \<and> am_NodeID a = targetNodeID);
          status = (case sql_find at (w_accounts d) of None \<Rightarrow> [] | Some a \<Rightarrow> am_Status a) in
      if status = ''active'' then Inr (d, False)
      else if status = ''disabled'' \<or> status = ''conflict'' then Inl ErrRestoreUnavailable
      else
        (case account_material userID d of
           Inl e \<Rightarrow> Inl e
         | Inr (version, hash, salt, subjects) \<Rightarrow>
             (let fill = (\<lambda>a. a\<lparr>am_LocalHandle := handle, am_Status := ''pending'', am_PasswordVersion := version,
                    am_PasswordHash := hash, am_PasswordSalt := salt, am_OauthSubjects := subjects,
                    am_ProvisioningWorkflowID := Some workflowID, am_UpdatedAt := now\<rparr>);
                  fresh = \<lparr>am_UserID = userID, am_NodeID = targetNodeID, am_LocalHandle = handle, am_Status = ''pending'',
                    am_AccountVersion = 1, am_PasswordVersion = version, am_PasswordHash = hash, am_PasswordSalt = salt,
                    am_OauthSubjects = subjects, am_ProvisioningWorkflowID = Some workflowID, am_UpdatedAt = now\<rparr> in
              if sql_exists at (w_accounts d)
              then if sql_exists (\<lambda>a. at a \<and> \<not> in_i64 (am_AccountVersion a + 1)) (w_accounts d) then Inl dbError
                else Inr (d\<lparr>w_accounts := sql_update at (\<lambda>a. fill (a\<lparr>am_AccountVersion := am_AccountVersion a + 1\<rparr>)) (w_accounts d)\<rparr>, True)
              else Inr (d\<lparr>w_accounts := w_accounts d @ [fresh]\<rparr>, True))))"

section \<open>Creation\<close>

record create_params =
  sq_WorkflowID :: string
  sq_OperationID :: string
  sq_SnapshotID :: string
  sq_CapabilityID :: string
  sq_CapabilityHash :: string
  sq_LegacyBackupJobID :: int
  sq_LegacyUserID :: int
  sq_GlobalUserID :: int
  sq_SourceNodeID :: int
  sq_TargetNodeID :: int
  sq_DestinationKind :: string
  sq_TransferMode :: string
  sq_ReconciliationID :: string
  sq_Marker :: string
  sq_RetirementItemID :: string
  sq_RetirementTrigger :: string
  sq_CapabilityExpires :: gotime
  sq_Now :: gotime

record snapshot_workflow =
  sf_WorkflowID :: string
  sf_SnapshotID :: string
  sf_ActivityEpoch :: int
  sf_ControllerGeneration :: int

definition transfer_mode :: "create_params \<Rightarrow> string" where
  "transfer_mode p = (if sq_TransferMode p = [] then ''direct'' else sq_TransferMode p)"

definition for_retirement :: "create_params \<Rightarrow> bool" where
  "for_retirement p \<longleftrightarrow> sq_RetirementItemID p \<noteq> [] \<or> sq_RetirementTrigger p \<noteq> []"

definition for_reconciliation :: "create_params \<Rightarrow> bool" where
  "for_reconciliation p \<longleftrightarrow> sq_ReconciliationID p \<noteq> [] \<or> sq_Marker p \<noteq> []"

definition create_params_ok :: "create_params \<Rightarrow> bool" where
  "create_params_ok p \<longleftrightarrow>
     sq_WorkflowID p \<noteq> [] \<and> sq_OperationID p \<noteq> [] \<and> sq_SnapshotID p \<noteq> [] \<and> sq_CapabilityID p \<noteq> [] \<and>
     length (sq_CapabilityHash p) = 32 \<and> (for_retirement p \<or> 0 < sq_LegacyBackupJobID p) \<and> 0 < sq_LegacyUserID p \<and>
     0 < sq_GlobalUserID p \<and> 0 < sq_SourceNodeID p \<and> 0 < sq_TargetNodeID p \<and> sq_SourceNodeID p \<noteq> sq_TargetNodeID p \<and>
     sq_DestinationKind p \<in> {''archive'', ''hot_standby''} \<and> transfer_mode p \<in> {''direct'', ''relay''} \<and>
     (for_retirement p \<longrightarrow> validUUIDText (sq_RetirementItemID p) \<and> sq_LegacyBackupJobID p = 0 \<and>
        sq_RetirementTrigger p \<in> {''node_retirement'', ''node_retirement_storage''}) \<and>
     (for_reconciliation p \<longrightarrow> sq_ReconciliationID p \<noteq> [] \<and> sq_Marker p \<noteq> [] \<and> sq_DestinationKind p = ''archive'')"

text \<open>Columns of a node that placement reads.\<close>

definition node_at :: "int \<Rightarrow> wdb \<Rightarrow> placement_row option" where
  "node_at i d = sql_find (\<lambda>n. pn_ID n = i) (w_nodes d)"

definition transfer_reachable :: "create_params \<Rightarrow> placement_row \<Rightarrow> bool" where
  "transfer_reachable p n \<longleftrightarrow> transfer_mode p = ''relay'' \<or> pn_TransferURL n \<noteq> []"

definition node_managed :: "placement_row \<Rightarrow> bool" where
  "node_managed n \<longleftrightarrow> pn_ControlMode n = ''managed'' \<and> pn_DesiredMode n = ''managed''"

definition open_capacity :: "placement_row \<Rightarrow> bool" where
  "open_capacity n \<longleftrightarrow> pn_CapacityState n = ''open'' \<or> pn_CapacityState n = ''busy''"

definition online_compatible :: "placement_row \<Rightarrow> bool" where
  "online_compatible n \<longleftrightarrow> pn_Connectivity n = ''online'' \<and> pn_Compatibility n = ''compatible''"

definition cleanup_open :: "cleanup_row \<Rightarrow> bool" where
  "cleanup_open c \<longleftrightarrow> ck_State c \<in> {''pending'', ''running'', ''retry_wait''}"

definition plain_placement :: "create_params \<Rightarrow> wdb \<Rightarrow> unit result" where
  "plain_placement p d =
     (case (node_at (sq_SourceNodeID p) d, node_at (sq_TargetNodeID p) d) of
        (Some s, Some t) \<Rightarrow>
          if pn_Role s = ''compute'' \<and> online_compatible s \<and> pn_Operational s = ''active'' \<and> node_managed s \<and>
             pn_Role t = (if sq_DestinationKind p = ''archive'' then ''storage'' else ''compute'') \<and> online_compatible t \<and>
             pn_Operational t = ''active'' \<and> node_managed t \<and> open_capacity t \<and> transfer_reachable p t \<and>
             (sq_DestinationKind p \<noteq> ''archive'' \<or> pn_IsBackupTarget t) \<and>
             \<not> sql_exists (\<lambda>c. ck_UserID c = sq_GlobalUserID p \<and> ck_NodeID c = pn_ID t \<and> cleanup_open c) (w_cleanups d)
          then Inr () else Inl ErrInvalidSnapshotWorkflow
      | _ \<Rightarrow> Inl errNoRow)"

definition item_ready :: "create_params \<Rightarrow> int \<Rightarrow> retirement_row \<Rightarrow> retirement_item_row \<Rightarrow> int \<Rightarrow> bool" where
  "item_ready p g op item home \<longleftrightarrow>
     ri_UserID item = sq_GlobalUserID p \<and> (case ri_LegacyUserID item of None \<Rightarrow> 0 | Some u \<Rightarrow> u) = sq_LegacyUserID p \<and>
     re_State op = ''migrating'' \<and> re_ControllerGeneration op = g \<and>
     ri_State item \<in> set [''pending'', ''waiting_offline'', ''retry_wait'', ''provisioning''] \<and>
     (ri_Kind item = ''authoritative_home'' \<and> re_NodeID op = sq_SourceNodeID p \<and> sq_DestinationKind p = ''hot_standby'' \<or>
      ri_Kind item = ''archive_replica'' \<and> re_NodeID op \<noteq> sq_SourceNodeID p \<and> home = sq_SourceNodeID p \<and>
        re_NodeID op \<noteq> sq_TargetNodeID p \<and> sq_DestinationKind p = ''archive'')"

definition retirement_nodes_ok :: "create_params \<Rightarrow> string \<Rightarrow> placement_row \<Rightarrow> placement_row \<Rightarrow> bool" where
  "retirement_nodes_ok p kind s t \<longleftrightarrow>
     pn_Role s = ''compute'' \<and> online_compatible s \<and> node_managed s \<and>
     pn_Operational s = (if kind = ''authoritative_home'' then ''retiring'' else ''active'') \<and>
     pn_Role t = (if kind = ''authoritative_home'' then ''compute'' else ''storage'') \<and> online_compatible t \<and>
     pn_Operational t = ''active'' \<and> node_managed t \<and> open_capacity t \<and> transfer_reachable p t \<and>
     (kind = ''authoritative_home'' \<or> pn_IsBackupTarget t)"

definition retirement_check :: "create_params \<Rightarrow> int \<Rightarrow> wdb \<Rightarrow> unit result" where
  "retirement_check p g d =
     (case sql_find (\<lambda>i. ri_ID i = sq_RetirementItemID p \<and> ri_WorkflowID i = None) (w_retirement_items d) of
        None \<Rightarrow> Inl errNoRow
      | Some item \<Rightarrow>
          (case sql_find (\<lambda>r. re_ID r = ri_RetirementID item) (w_retirements d) of
             None \<Rightarrow> Inl errNoRow
           | Some op \<Rightarrow>
               (let home = (case Option.bind (ri_LegacyUserID item) (\<lambda>u. Option.bind (sql_find (\<lambda>l. us_ID l = u) (w_legacy_users d)) us_HomeNodeID) of
                       None \<Rightarrow> 0 | Some h \<Rightarrow> h) in
                if \<not> item_ready p g op item home then Inl ErrNodeRetirementState
                else
                  (case (node_at (sq_SourceNodeID p) d, node_at (sq_TargetNodeID p) d) of
                     (Some s, Some t) \<Rightarrow> if retirement_nodes_ok p (ri_Kind item) s t then Inr () else Inl ErrNodeRetirementState
                   | _ \<Rightarrow> Inl errNoRow))))"

definition reconciliation_open :: "reconciliation_row \<Rightarrow> bool" where
  "reconciliation_open r \<longleftrightarrow> ir_State r \<in> {''pending'', ''retry_wait''} \<and> ir_WorkflowID r = None"

definition reconciliation_check :: "create_params \<Rightarrow> int \<Rightarrow> wdb \<Rightarrow> unit result" where
  "reconciliation_check p g d =
     (case sql_find (\<lambda>r. ir_ID r = sq_ReconciliationID p \<and> reconciliation_open r \<and> ir_UserID r \<noteq> None) (w_reconciliations d) of
        None \<Rightarrow> Inl ErrIndependentReconciliationState
      | Some r \<Rightarrow>
          (case (node_at (ir_NodeID r) d, node_at (sq_TargetNodeID p) d) of
             (Some n, Some t) \<Rightarrow>
               if ir_UserID r = Some (sq_GlobalUserID p) \<and> ir_NodeID r = sq_SourceNodeID p \<and> ir_Marker r = sq_Marker p \<and>
                  ir_ControllerGeneration r = g \<and> pn_ControlMode n = NodeModeIndependentDraining \<and> pn_ActiveSessions n = 0 \<and>
                  pn_Role t = ''storage'' \<and> pn_IsBackupTarget t \<and> online_compatible t \<and> pn_Operational t = ''active'' \<and>
                  open_capacity t \<and> transfer_reachable p t
               then Inr () else Inl ErrIndependentReconciliationState
           | _ \<Rightarrow> Inl ErrIndependentReconciliationState))"

text \<open>
  The job that a retirement adds; \<open>jobID\<close> is the value that the sequence of the table gives.
\<close>

definition retirement_job :: "int \<Rightarrow> create_params \<Rightarrow> backup_job_row" where
  "retirement_job jobID p = \<lparr>bj_ID = jobID, bj_UserID = sq_LegacyUserID p, bj_SrcNodeID = sq_SourceNodeID p,
     bj_DstNodeID = sq_TargetNodeID p, bj_Trigger = sq_RetirementTrigger p, bj_Status = ''pending'', bj_DataVersion = None,
     bj_Bytes = None, bj_FileCount = None, bj_Error = None, bj_FinishedAt = None, bj_WorkflowID = None,
     bj_SnapshotID = None, bj_ActivityEpoch = None\<rparr>"

definition eligibility :: "int \<Rightarrow> create_params \<Rightarrow> int \<Rightarrow> (wdb, int) tx" where
  "eligibility jobID p g d =
     (let first = (if for_retirement p
            then (case retirement_check p g d of
                    Inl e \<Rightarrow> Inl e
                  | Inr _ \<Rightarrow> if sql_exists (\<lambda>j. bj_ID j = jobID) (w_jobs d) then Inl dbError
                      else Inr (d\<lparr>w_jobs := w_jobs d @ [retirement_job jobID p]\<rparr>, jobID))
            else Inr (d, sq_LegacyBackupJobID p)) in
      case first of
        Inl e \<Rightarrow> Inl e
      | Inr (d1, job) \<Rightarrow>
          (case if for_reconciliation p then reconciliation_check p g d1 else Inr () of
             Inl e \<Rightarrow> Inl e
           | Inr _ \<Rightarrow>
               (case if \<not> for_retirement p \<and> \<not> for_reconciliation p then plain_placement p d1 else Inr () of
                  Inl e \<Rightarrow> Inl e
                | Inr _ \<Rightarrow>
                    if sql_exists (\<lambda>c. ck_UserID c = sq_GlobalUserID p \<and> ck_NodeID c \<in> {sq_SourceNodeID p, sq_TargetNodeID p} \<and>
                         cleanup_open c) (w_cleanups d1)
                    then Inl ErrSnapshotStateConflict else Inr (d1, job))))"

text \<open>The user must be idle on the source node; the epoch of the snapshot is that of the lease.\<close>

definition settle_lease :: "create_params \<Rightarrow> gotime \<Rightarrow> (wdb, int) tx" where
  "settle_lease p now d =
     (case sql_find (\<lambda>l. al_UserID l = sq_GlobalUserID p) (w_leases d) of
        None \<Rightarrow> Inr (d, 1)
      | Some l \<Rightarrow>
          (let busy = (al_WriterNodeID l \<noteq> sq_SourceNodeID p \<or> al_InFlightReads l \<noteq> 0 \<or> al_InFlightWrites l \<noteq> 0 \<or>
                 al_State l = ''quiescing'') in
           if for_reconciliation p
           then if busy \<or> now < al_LeaseExpiresAt l \<and> al_State l \<noteq> ''independent'' then Inl ErrSnapshotUserActive
             else Inr (d\<lparr>w_leases := sql_update (\<lambda>l. al_UserID l = sq_GlobalUserID p)
                 (\<lambda>l. l\<lparr>al_State := ''ended'', al_LeaseExpiresAt := now, al_InFlightReads := 0, al_InFlightWrites := 0,
                    al_UpdatedAt := now\<rparr>) (w_leases d)\<rparr>, al_ActivityEpoch l)
           else if busy \<or> now < al_LeaseExpiresAt l \<or> al_State l = ''independent'' then Inl ErrSnapshotUserActive
           else Inr (d, al_ActivityEpoch l)))"

text \<open>
  The partial index \<open>idx_workflows_one_user_snapshot\<close>: one unfinished workflow that moves the
  data of a user.
\<close>

definition moves_data :: "snapshot_workflow_row \<Rightarrow> bool" where
  "moves_data w \<longleftrightarrow> sw_Type w \<in> {''snapshot'', ''restore'', ''conflict_resolution''} \<and> workflow_open (sw_State w)"

definition new_workflow :: "create_params \<Rightarrow> int \<Rightarrow> int \<Rightarrow> gotime \<Rightarrow> snapshot_workflow_row" where
  "new_workflow p g epoch now = \<lparr>sw_ID = sq_WorkflowID p, sw_OperationID = sq_OperationID p,
     sw_Type = ''snapshot'', sw_State = ''scheduled'', sw_UserID = sq_GlobalUserID p, sw_SourceNodeID = sq_SourceNodeID p,
     sw_TargetNodeID = sq_TargetNodeID p, sw_ActivityEpoch = epoch, sw_ControllerGeneration = g, sw_Attempt = 0,
     sw_GenerationRecoveries = 0, sw_NextAttemptAt = None, sw_ErrorCode = None, sw_ErrorSummary = None,
     sw_CleanupState = ''not_required'', sw_LeaseOwner = None, sw_LeaseUntil = None, sw_ResumeState = None,
     sw_TransferMode = transfer_mode p, sw_UpdatedAt = now, sw_FinishedAt = None\<rparr>"

definition insert_workflow :: "create_params \<Rightarrow> int \<Rightarrow> int \<Rightarrow> gotime \<Rightarrow> wdb \<Rightarrow> wdb result" where
  "insert_workflow p g epoch now d =
     (if sql_exists (\<lambda>w. sw_ID w = sq_WorkflowID p \<or> sw_OperationID w = sq_OperationID p \<or>
           moves_data w \<and> sw_UserID w = sq_GlobalUserID p) (w_workflows d) then Inl dbError
      else Inr (d\<lparr>w_workflows := w_workflows d @ [new_workflow p g epoch now]\<rparr>))"

definition standby_account :: "create_params \<Rightarrow> gotime \<Rightarrow> (wdb, bool) tx" where
  "standby_account p now d =
     (if sq_DestinationKind p \<noteq> ''hot_standby'' then Inr (d, False)
      else
        (case (legacy_of (sq_GlobalUserID p) d, sql_find (\<lambda>u. us_ID u = sq_LegacyUserID p) (w_legacy_users d)) of
           (Some legacy, Some u) \<Rightarrow>
             if legacy \<noteq> sq_LegacyUserID p then Inl ErrInvalidSnapshotWorkflow
             else prepareWorkflowTargetAccount (sq_WorkflowID p) (sq_GlobalUserID p) (sq_TargetNodeID p) (us_Username u) now d
         | _ \<Rightarrow> Inl ErrInvalidSnapshotWorkflow))"

definition step_names :: "create_params \<Rightarrow> string list" where
  "step_names p = (if sq_DestinationKind p = ''hot_standby'' then [''provision_account''] else []) @
     [''quiesce'', ''snapshot'', ''prepare_target'', ''transfer'', ''verify'', ''publish'', ''cleanup'']"

definition new_step :: "create_params \<Rightarrow> bool \<Rightarrow> gotime \<Rightarrow> string \<Rightarrow> workflow_step_row" where
  "new_step p provision now name = \<lparr>st_WorkflowID = sq_WorkflowID p, st_Name = name,
     st_State = (if name = ''provision_account'' \<and> \<not> provision then ''succeeded'' else ''pending''), st_Attempt = 0,
     st_ErrorCode = None, st_StartedAt = None, st_FinishedAt = None, st_UpdatedAt = now\<rparr>"

definition new_manifest :: "create_params \<Rightarrow> int \<Rightarrow> manifest_row" where
  "new_manifest p epoch = \<lparr>sm_ID = sq_SnapshotID p, sm_WorkflowID = sq_WorkflowID p, sm_UserID = sq_GlobalUserID p,
     sm_SourceNodeID = sq_SourceNodeID p, sm_ActivityEpoch = epoch, sm_ManifestSHA256 = replicate 32 (CHR 0x00),
     sm_ArchiveSHA256 = None, sm_FileCount = 0, sm_TotalBytes = 0, sm_State = ''building''\<rparr>"

definition new_cap :: "create_params \<Rightarrow> int \<Rightarrow> gotime \<Rightarrow> transfer_capability_row" where
  "new_cap p g now = \<lparr>tc_ID = sq_CapabilityID p, tc_WorkflowID = sq_WorkflowID p, tc_SnapshotID = sq_SnapshotID p,
     tc_SourceNodeID = sq_SourceNodeID p, tc_TargetNodeID = sq_TargetNodeID p, tc_TokenHash = sq_CapabilityHash p,
     tc_State = ''prepared'', tc_ControllerGeneration = g, tc_ExpiresAt = sq_CapabilityExpires p, tc_ConsumedAt = None,
     tc_CreatedAt = now\<rparr>"

text \<open>Steps, manifest and capability; a duplicate key fails the statement.\<close>

definition insert_parts :: "create_params \<Rightarrow> int \<Rightarrow> int \<Rightarrow> bool \<Rightarrow> gotime \<Rightarrow> wdb \<Rightarrow> wdb result" where
  "insert_parts p g epoch provision now d =
     (if sql_exists (\<lambda>s. st_WorkflowID s = sq_WorkflowID p \<and> st_Name s \<in> set (step_names p)) (w_steps d) \<or>
         sql_exists (\<lambda>m. sm_ID m = sq_SnapshotID p \<or> sm_WorkflowID m = sq_WorkflowID p) (w_manifests d) \<or>
         sql_exists (\<lambda>c. tc_ID c = sq_CapabilityID p \<or> tc_TokenHash c = sq_CapabilityHash p \<or> cap_prepared (sq_WorkflowID p) c) (w_caps d)
      then Inl dbError
      else Inr (d\<lparr>w_steps := w_steps d @ map (new_step p provision now) (step_names p),
         w_manifests := w_manifests d @ [new_manifest p epoch], w_caps := w_caps d @ [new_cap p g now]\<rparr>))"

definition link_job :: "create_params \<Rightarrow> int \<Rightarrow> int \<Rightarrow> wdb \<Rightarrow> wdb result" where
  "link_job p job epoch d =
     (let P = (\<lambda>j. bj_ID j = job \<and> bj_UserID j = sq_LegacyUserID p \<and> bj_SrcNodeID j = sq_SourceNodeID p \<and>
            bj_DstNodeID j = sq_TargetNodeID p) in
      if sql_count P (w_jobs d) \<noteq> 1 then Inl ErrInvalidSnapshotWorkflow
      else Inr (d\<lparr>w_jobs := sql_update P (\<lambda>j. j\<lparr>bj_WorkflowID := Some (sq_WorkflowID p), bj_SnapshotID := Some (sq_SnapshotID p),
         bj_ActivityEpoch := Some epoch\<rparr>) (w_jobs d)\<rparr>))"

definition start_replica :: "create_params \<Rightarrow> wdb \<Rightarrow> wdb" where
  "start_replica p d =
     (let at = (\<lambda>r. up_UserID r = sq_LegacyUserID p \<and> up_NodeID r = sq_TargetNodeID p) in
      d\<lparr>w_replicas := (if sql_exists at (w_replicas d)
         then sql_update at (\<lambda>r. if up_State r = ''ready'' then r
                else r\<lparr>up_Kind := sq_DestinationKind p, up_State := ''syncing''\<rparr>) (w_replicas d)
         else w_replicas d @ [\<lparr>up_UserID = sq_LegacyUserID p, up_NodeID = sq_TargetNodeID p, up_Kind = sq_DestinationKind p,
                up_DataVersion = 0, up_State = ''syncing'', up_Checksum = None, up_SizeBytes = None, up_LastSyncAt = None\<rparr>])\<rparr>)"

definition link_reconciliation :: "create_params \<Rightarrow> gotime \<Rightarrow> wdb \<Rightarrow> wdb result" where
  "link_reconciliation p now d =
     (let P = (\<lambda>r. ir_ID r = sq_ReconciliationID p \<and> reconciliation_open r) in
      if \<not> for_reconciliation p then Inr d
      else if sql_count P (w_reconciliations d) \<noteq> 1 then Inl ErrIndependentReconciliationState
      else Inr (d\<lparr>w_reconciliations := sql_update P (\<lambda>r. r\<lparr>ir_State := ''snapshotting'', ir_WorkflowID := Some (sq_WorkflowID p),
         ir_NextAttemptAt := None, ir_ErrorCode := None, ir_UpdatedAt := now\<rparr>) (w_reconciliations d)\<rparr>))"

definition link_retirement :: "create_params \<Rightarrow> gotime \<Rightarrow> wdb \<Rightarrow> wdb result" where
  "link_retirement p now d =
     (let P = (\<lambda>i. ri_ID i = sq_RetirementItemID p \<and> ri_WorkflowID i = None \<and>
            ri_State i \<in> set [''pending'', ''waiting_offline'', ''retry_wait'', ''provisioning'']) in
      if \<not> for_retirement p then Inr d
      else if sql_count P (w_retirement_items d) \<noteq> 1 then Inl ErrNodeRetirementState
      else Inr (d\<lparr>w_retirement_items := sql_update P (\<lambda>i. i\<lparr>ri_TargetNodeID := Some (sq_TargetNodeID p),
         ri_WorkflowID := Some (sq_WorkflowID p), ri_State := ''snapshotting'', ri_NextAttemptAt := None,
         ri_ErrorCode := None, ri_UpdatedAt := now\<rparr>) (w_retirement_items d)\<rparr>))"

definition link_all :: "create_params \<Rightarrow> int \<Rightarrow> int \<Rightarrow> gotime \<Rightarrow> wdb \<Rightarrow> wdb result" where
  "link_all p job epoch now d =
     (case link_job p job epoch d of
        Inl e \<Rightarrow> Inl e
      | Inr d1 \<Rightarrow>
          (case link_reconciliation p now (start_replica p d1) of
             Inl e \<Rightarrow> Inl e
           | Inr d2 \<Rightarrow> link_retirement p now d2))"

definition create_tx :: "int \<Rightarrow> create_params \<Rightarrow> gotime \<Rightarrow> (wdb, snapshot_workflow) tx" where
  "create_tx jobID p now d =
     (if \<not> sql_exists (\<lambda>u. gu_ID u = sq_GlobalUserID p) (w_users d) then Inl ErrInvalidSnapshotWorkflow
      else
        (case active_gen d of
           None \<Rightarrow> Inl ErrNoActiveController
         | Some g \<Rightarrow>
             (case eligibility jobID p g d of
                Inl e \<Rightarrow> Inl e
              | Inr (d1, job) \<Rightarrow>
                  (case settle_lease p now d1 of
                     Inl e \<Rightarrow> Inl e
                   | Inr (d2, epoch) \<Rightarrow>
                       (case insert_workflow p g epoch now d2 of
                          Inl e \<Rightarrow> Inl e
                        | Inr d3 \<Rightarrow>
                            (case standby_account p now d3 of
                               Inl e \<Rightarrow> Inl e
                             | Inr (d4, provision) \<Rightarrow>
                                 (case insert_parts p g epoch provision now d4 of
                                    Inl e \<Rightarrow> Inl e
                                  | Inr d5 \<Rightarrow>
                                      (case link_all p job epoch now d5 of
                                         Inl e \<Rightarrow> Inl e
                                       | Inr d6 \<Rightarrow> Inr (d6, \<lparr>sf_WorkflowID = sq_WorkflowID p, sf_SnapshotID = sq_SnapshotID p,
                                           sf_ActivityEpoch = epoch, sf_ControllerGeneration = g\<rparr>)))))))))"

definition CreateSnapshotWorkflow ::
    "gotime \<Rightarrow> tx_fault \<Rightarrow> int \<Rightarrow> create_params \<Rightarrow> wdb \<Rightarrow> wdb \<times> snapshot_workflow result" where
  "CreateSnapshotWorkflow clock flt jobID p d =
     (let now = at_time clock (sq_Now p) in
      if \<not> create_params_ok p \<or> \<not> now < sq_CapabilityExpires p then (d, Inl ErrInvalidSnapshotWorkflow)
      else run_tx flt (create_tx jobID p now) d)"

section \<open>Execution\<close>

record snapshot_execution =
  ex_Workflow :: snapshot_workflow_row
  ex_SnapshotID :: string
  ex_LegacyUserID :: int
  ex_Handle :: string
  ex_Capability :: transfer_capability_row
  ex_LegacyBackupJobID :: int
  ex_Trigger :: string
  ex_DestinationKind :: string

text \<open>\<open>ORDER BY created_at DESC, expires_at DESC, id DESC LIMIT 1\<close>.\<close>

definition latest_cap :: "string \<Rightarrow> wdb \<Rightarrow> transfer_capability_row option" where
  "latest_cap workflowID d =
     (case rev (sort_key tc_CreatedAt (sort_key tc_ExpiresAt (sort_key tc_ID
             (filter (\<lambda>c. tc_WorkflowID c = workflowID) (w_caps d))))) of
        [] \<Rightarrow> None | c # _ \<Rightarrow> Some c)"

definition GetSnapshotWorkflowExecution :: "string \<Rightarrow> wdb \<Rightarrow> snapshot_execution option result" where
  "GetSnapshotWorkflowExecution workflowID d =
     (if workflowID = [] then Inl ErrInvalidSnapshotWorkflow
      else Inr
        (case workflow_by_id workflowID d of
           None \<Rightarrow> None
         | Some w \<Rightarrow>
             (case (sql_find (\<lambda>m. sm_WorkflowID m = workflowID) (w_manifests d), legacy_of (sw_UserID w) d,
                    node_at (sw_TargetNodeID w) d, sql_find (\<lambda>j. bj_WorkflowID j = Some workflowID) (w_jobs d),
                    latest_cap workflowID d) of
                (Some m, Some legacy, Some t, Some j, Some c) \<Rightarrow>
                  map_option (\<lambda>u. \<lparr>ex_Workflow = w, ex_SnapshotID = sm_ID m, ex_LegacyUserID = legacy, ex_Handle = us_Username u,
                      ex_Capability = c, ex_LegacyBackupJobID = bj_ID j, ex_Trigger = bj_Trigger j,
                      ex_DestinationKind = (case sql_find (\<lambda>r. up_UserID r = legacy \<and> up_NodeID r = sw_TargetNodeID w) (w_replicas d) of
                          Some r \<Rightarrow> up_Kind r | None \<Rightarrow> if pn_Role t = ''storage'' then ''archive'' else ''hot_standby'')\<rparr>)
                    (sql_find (\<lambda>u. us_ID u = legacy) (w_legacy_users d))
              | _ \<Rightarrow> None)))"

end
