(* ===== verification/Snapshot_Events.thy ===== *)
theory Snapshot_Events
  imports Store_Snapshots Store_Contracts
begin

text \<open>
  What happens to the snapshot and relay tables: every operation of \<open>store/relay.go\<close> and
  \<open>store/snapshots.go\<close> that writes, as an event on the database. A serializable operation that
  is retried is one event per attempt, since an aborted attempt leaves no trace.
  \<open>SetSnapshotWorkflowState\<close> has two callers with fixed states, \<open>executeSnapshotWorkflow\<close>
  (\<open>controller/backup.go\<close>) and \<open>executeRestoreWorkflow\<close> (\<open>controller/restores.go\<close>), which are
  two events.
\<close>

datatype relay_event =
  NewRelay gotime relay_params
| NewConflictRelay gotime relay_params string
| ClaimUpload gotime string string int int string gotime duration
| ClaimMultipart gotime string string int int string gotime duration
| FinishUpload gotime string string string int string gotime
| ReleaseUpload gotime string string gotime
| ClaimDownload gotime string string gotime duration
| ContinueDownload gotime string string gotime duration
| ReleaseDownload gotime string string gotime
| ClampDownload gotime string string gotime duration
| RenewDownload gotime string string gotime duration
| FinishDownload gotime string string gotime
| ExpireRelays gotime tx_fault "string \<Rightarrow> bool" gotime int

primrec relay_step :: "relay_event \<Rightarrow> wdb \<Rightarrow> wdb" where
  "relay_step (NewRelay clock p) d = fst (CreateRelayTransfer clock p d)"
| "relay_step (NewConflictRelay clock p op) d = fst (CreateConflictRelayTransfer clock p op d)"
| "relay_step (ClaimUpload clock i h plain ciph sha now ttl) d = fst (ClaimRelayUpload clock i h plain ciph sha now ttl d)"
| "relay_step (ClaimMultipart clock i h plain ciph sha now ttl) d = fst (ClaimRelayMultipartUpload clock i h plain ciph sha now ttl d)"
| "relay_step (FinishUpload clock i h sha ciph path now) d = fst (CompleteRelayUpload clock i h sha ciph path now d)"
| "relay_step (ReleaseUpload clock i h now) d = fst (ReleaseRelayUpload clock i h now d)"
| "relay_step (ClaimDownload clock i h now ttl) d = fst (ClaimRelayDownload clock i h now ttl d)"
| "relay_step (ContinueDownload clock i h now ttl) d = fst (ContinueRelayDownload clock i h now ttl d)"
| "relay_step (ReleaseDownload clock i h now) d = fst (ReleaseRelayDownload clock i h now d)"
| "relay_step (ClampDownload clock i h now ttl) d = fst (ClampRelayDownloadLease clock i h now ttl d)"
| "relay_step (RenewDownload clock i h now ttl) d = fst (RenewRelayDownload clock i h now ttl d)"
| "relay_step (FinishDownload clock i h now) d = fst (CompleteRelayDownload clock i h now d)"
| "relay_step (ExpireRelays clock flt skip now limit) d = fst (ExpireRelayTransfers clock flt skip now limit d)"

datatype snapshot_event =
  CreateWorkflow gotime tx_fault int create_params
| ClaimWorkflow tx_fault string string gotime duration
| RenewWorkflow tx_fault string string gotime duration
| ReleaseWorkflow tx_fault string string
| ScheduleRetry tx_fault string string string gotime duration
| DeferWorkflow gotime tx_fault string string string gotime duration
| ClearDeferral gotime tx_fault string gotime
| SwitchToRelay gotime tx_fault string gotime
| ResumeRetry tx_fault string gotime
| RotateCapability tx_fault string string string gotime gotime
| StartQuiescing gotime tx_fault string gotime
| StartTransferring gotime tx_fault string gotime
| ReportProgress tx_fault string string int string gotime
| CompleteStep gotime tx_fault string string gotime
| CancelWorkflow gotime tx_fault string string gotime
| FailWorkflow gotime tx_fault string string string gotime
| AdoptStale gotime tx_fault "string \<Rightarrow> bool" string gotime int
| PrepareRecovered gotime tx_fault string int gotime
| ResetRecovered gotime tx_fault string string string int gotime
| PublishSnapshot gotime tx_fault string complete_params

primrec snapshot_step :: "snapshot_event \<Rightarrow> wdb \<Rightarrow> wdb" where
  "snapshot_step (CreateWorkflow clock flt jobID p) d = fst (CreateSnapshotWorkflow clock flt jobID p d)"
| "snapshot_step (ClaimWorkflow flt w worker now ttl) d = fst (ClaimSnapshotWorkflow flt w worker now ttl d)"
| "snapshot_step (RenewWorkflow flt w worker now ttl) d = fst (RenewSnapshotWorkflow flt w worker now ttl d)"
| "snapshot_step (ReleaseWorkflow flt w worker) d = fst (ReleaseSnapshotWorkflow flt w worker d)"
| "snapshot_step (ScheduleRetry flt w code summary now delay) d = fst (ScheduleSnapshotRetry flt w code summary now delay d)"
| "snapshot_step (DeferWorkflow clock flt w code summary now delay) d = fst (DeferSnapshotWorkflow clock flt w code summary now delay d)"
| "snapshot_step (ClearDeferral clock flt w now) d = fst (ClearSnapshotWorkflowDeferral clock flt w now d)"
| "snapshot_step (SwitchToRelay clock flt w now) d = fst (SwitchSnapshotWorkflowToRelay clock flt w now d)"
| "snapshot_step (ResumeRetry flt w now) d = fst (ResumeSnapshotRetry flt w now d)"
| "snapshot_step (RotateCapability flt w c h expires now) d = fst (RotateSnapshotCapability flt w c h expires now d)"
| "snapshot_step (StartQuiescing clock flt w now) d = fst (SetSnapshotWorkflowState clock flt w ''scheduled'' ''quiescing'' now d)"
| "snapshot_step (StartTransferring clock flt w now) d = fst (SetSnapshotWorkflowState clock flt w ''scheduled'' ''transferring'' now d)"
| "snapshot_step (ReportProgress flt w s n st now) d = fst (setSnapshotWorkflowProgressOnce flt w s n st now d)"
| "snapshot_step (CompleteStep clock flt w name now) d = fst (CompleteSnapshotWorkflowStep clock flt w name now d)"
| "snapshot_step (CancelWorkflow clock flt w reason now) d = fst (CancelSnapshotWorkflow clock flt w reason now d)"
| "snapshot_step (FailWorkflow clock flt w code summary now) d = fst (FailSnapshotWorkflow clock flt w code summary now d)"
| "snapshot_step (AdoptStale clock flt skip summary now limit) d = fst (AdoptStaleSnapshotWorkflows clock flt skip summary now limit d)"
| "snapshot_step (PrepareRecovered clock flt w g now) d = fst (PrepareRecoveredSnapshotCompletion clock flt w g now d)"
| "snapshot_step (ResetRecovered clock flt cs rs w g now) d = fst (ResetRecoveredSnapshotWorkflow clock flt cs rs w g now d)"
| "snapshot_step (PublishSnapshot clock flt replicaID p) d = fst (CompleteSnapshotWorkflow clock flt replicaID p d)"

datatype wevent = Relay relay_event | Snapshot snapshot_event

primrec wstep :: "wevent \<Rightarrow> wdb \<Rightarrow> wdb" where
  "wstep (Relay e) d = relay_step e d"
| "wstep (Snapshot e) d = snapshot_step e d"

section \<open>Frames\<close>

lemmas table_defs = set_workflows_def set_steps_def update_relays_def fence_relays_def revoke_caps_def

lemma frame_set_workflows [simp]:
  "w_relays (set_workflows P f d) = w_relays d" "w_caps (set_workflows P f d) = w_caps d"
  "w_manifests (set_workflows P f d) = w_manifests d" "w_copies (set_workflows P f d) = w_copies d"
  "w_steps (set_workflows P f d) = w_steps d" "w_jobs (set_workflows P f d) = w_jobs d"
  "w_workflows (set_workflows P f d) = sql_update P f (w_workflows d)"
  by (simp_all add: set_workflows_def)

lemma frame_set_steps [simp]:
  "w_relays (set_steps P f d) = w_relays d" "w_caps (set_steps P f d) = w_caps d"
  "w_manifests (set_steps P f d) = w_manifests d" "w_copies (set_steps P f d) = w_copies d"
  "w_workflows (set_steps P f d) = w_workflows d" "w_jobs (set_steps P f d) = w_jobs d"
  "w_steps (set_steps P f d) = sql_update P f (w_steps d)"
  by (simp_all add: set_steps_def)

lemma frame_fence_relays [simp]:
  "w_workflows (fence_relays w now d) = w_workflows d" "w_caps (fence_relays w now d) = w_caps d"
  "w_manifests (fence_relays w now d) = w_manifests d" "w_copies (fence_relays w now d) = w_copies d"
  "w_steps (fence_relays w now d) = w_steps d" "w_jobs (fence_relays w now d) = w_jobs d"
  by (simp_all add: fence_relays_def update_relays_def)

lemma frame_revoke_caps [simp]:
  "w_workflows (revoke_caps w d) = w_workflows d" "w_relays (revoke_caps w d) = w_relays d"
  "w_manifests (revoke_caps w d) = w_manifests d" "w_copies (revoke_caps w d) = w_copies d"
  "w_steps (revoke_caps w d) = w_steps d" "w_jobs (revoke_caps w d) = w_jobs d"
  "w_caps (revoke_caps w d) = sql_update (cap_prepared w) (\<lambda>c. c\<lparr>tc_State := ''revoked''\<rparr>) (w_caps d)"
  by (simp_all add: revoke_caps_def)

lemma fst_run_tx:
  assumes "Q d" and "\<And>d' x. t d = Inr (d', x) \<Longrightarrow> Q d'"
  shows "Q (fst (run_tx flt t d))"
proof -
  obtain d' r where r: "run_tx flt t d = (d', r)" by (cases "run_tx flt t d")
  then have "Q d'" using run_tx_inv [of flt t d d' r Q] assms by blast
  then show ?thesis using r by simp
qed

section \<open>Effect of creation\<close>

lemma eligibility_frame: "eligibility jobID p g d = Inr (d1, job) \<Longrightarrow> \<exists>jobs. d1 = d\<lparr>w_jobs := jobs\<rparr>"
proof -
  assume "eligibility jobID p g d = Inr (d1, job)"
  then have "d1 = d \<or> d1 = d\<lparr>w_jobs := w_jobs d @ [retirement_job jobID p]\<rparr>"
    by (auto simp: eligibility_def Let_def split: if_splits sum.splits)
  moreover have "d = d\<lparr>w_jobs := w_jobs d\<rparr>" by simp
  ultimately show ?thesis by metis
qed

lemma settle_lease_frame: "settle_lease p now d = Inr (d1, epoch) \<Longrightarrow> \<exists>ls. d1 = d\<lparr>w_leases := ls\<rparr>"
proof -
  assume "settle_lease p now d = Inr (d1, epoch)"
  then consider "d1 = d" | ls where "d1 = d\<lparr>w_leases := ls\<rparr>"
    by (auto simp: settle_lease_def Let_def split: if_splits option.splits)
  moreover have "d = d\<lparr>w_leases := w_leases d\<rparr>" by simp
  ultimately show ?thesis by metis
qed

lemma target_account_frame:
  "prepareWorkflowTargetAccount w u t h now d = Inr (d1, b) \<Longrightarrow> \<exists>as. d1 = d\<lparr>w_accounts := as\<rparr>"
proof -
  assume "prepareWorkflowTargetAccount w u t h now d = Inr (d1, b)"
  then consider "d1 = d" | as where "d1 = d\<lparr>w_accounts := as\<rparr>"
    by (auto simp: prepareWorkflowTargetAccount_def Let_def split: if_splits sum.splits prod.splits)
  moreover have "d = d\<lparr>w_accounts := w_accounts d\<rparr>" by simp
  ultimately show ?thesis by metis
qed

lemma standby_account_frame: "standby_account p now d = Inr (d1, b) \<Longrightarrow> \<exists>as. d1 = d\<lparr>w_accounts := as\<rparr>"
proof -
  assume "standby_account p now d = Inr (d1, b)"
  then consider "d1 = d" | w u t h where "prepareWorkflowTargetAccount w u t h now d = Inr (d1, b)"
    by (auto simp: standby_account_def split: if_splits option.splits)
  moreover have "d = d\<lparr>w_accounts := w_accounts d\<rparr>" by simp
  ultimately show ?thesis using target_account_frame by metis
qed

definition link_fields :: "wdb \<Rightarrow> wdb \<Rightarrow> bool" where
  "link_fields d d1 \<longleftrightarrow> w_workflows d1 = w_workflows d \<and> w_manifests d1 = w_manifests d \<and> w_caps d1 = w_caps d \<and>
     w_relays d1 = w_relays d \<and> w_copies d1 = w_copies d \<and> w_steps d1 = w_steps d"

lemma link_all_frame: "link_all p job epoch now d = Inr d1 \<Longrightarrow> link_fields d d1"
  by (auto simp: link_all_def link_job_def link_reconciliation_def link_retirement_def start_replica_def link_fields_def Let_def
      split: if_splits sum.splits)

text \<open>What a successful creation adds.\<close>

definition created :: "create_params \<Rightarrow> wdb \<Rightarrow> wdb \<Rightarrow> int \<Rightarrow> int \<Rightarrow> gotime \<Rightarrow> bool" where
  "created p d d' g epoch now \<longleftrightarrow>
     w_workflows d' = w_workflows d @ [new_workflow p g epoch now] \<and> w_manifests d' = w_manifests d @ [new_manifest p epoch] \<and>
     w_caps d' = w_caps d @ [new_cap p g now] \<and> w_relays d' = w_relays d \<and> w_copies d' = w_copies d \<and>
     (\<forall>x \<in> set (w_workflows d). sw_ID x \<noteq> sq_WorkflowID p \<and> \<not> (moves_data x \<and> sw_UserID x = sq_GlobalUserID p)) \<and>
     (\<forall>x \<in> set (w_manifests d). sm_ID x \<noteq> sq_SnapshotID p \<and> sm_WorkflowID x \<noteq> sq_WorkflowID p) \<and>
     (\<forall>x \<in> set (w_caps d). \<not> cap_prepared (sq_WorkflowID p) x)"

lemma create_tx_created:
  assumes "create_tx jobID p now d = Inr (d', r)"
  shows "\<exists>g epoch. created p d d' g epoch now"
proof -
  obtain g d1 job d2 epoch d3 d4 provision d5 where
    1: "eligibility jobID p g d = Inr (d1, job)" and 2: "settle_lease p now d1 = Inr (d2, epoch)" and
    3: "insert_workflow p g epoch now d2 = Inr d3" and 4: "standby_account p now d3 = Inr (d4, provision)" and
    5: "insert_parts p g epoch provision now d4 = Inr d5" and 6: "link_all p job epoch now d5 = Inr d'"
    using assms by (auto simp: create_tx_def split: if_splits option.splits sum.splits prod.splits)
  obtain jobs ls as where d: "d1 = d\<lparr>w_jobs := jobs\<rparr>" "d2 = d1\<lparr>w_leases := ls\<rparr>" "d4 = d3\<lparr>w_accounts := as\<rparr>"
    using eligibility_frame [OF 1] settle_lease_frame [OF 2] standby_account_frame [OF 4] by blast
  have d2: "w_workflows d2 = w_workflows d" "w_manifests d2 = w_manifests d" "w_caps d2 = w_caps d"
    "w_relays d2 = w_relays d" "w_copies d2 = w_copies d" using d by simp_all
  have d3: "d3 = d2\<lparr>w_workflows := w_workflows d2 @ [new_workflow p g epoch now]\<rparr>"
    and freew: "\<forall>x \<in> set (w_workflows d2). sw_ID x \<noteq> sq_WorkflowID p \<and> \<not> (moves_data x \<and> sw_UserID x = sq_GlobalUserID p)"
    using 3 by (simp_all add: insert_workflow_def sql_exists_iff split: if_splits)
  have d5: "d5 = d4\<lparr>w_steps := w_steps d4 @ map (new_step p provision now) (step_names p),
         w_manifests := w_manifests d4 @ [new_manifest p epoch], w_caps := w_caps d4 @ [new_cap p g now]\<rparr>"
    and freem: "\<forall>x \<in> set (w_manifests d4). sm_ID x \<noteq> sq_SnapshotID p \<and> sm_WorkflowID x \<noteq> sq_WorkflowID p"
    and freec: "\<forall>x \<in> set (w_caps d4). \<not> cap_prepared (sq_WorkflowID p) x"
    using 5 by (simp_all add: insert_parts_def sql_exists_iff split: if_splits)
  have "created p d d' g epoch now"
    using link_all_frame [OF 6] freew freem freec d2 d(3) d3 d5 by (simp add: created_def link_fields_def)
  then show ?thesis by blast
qed

section \<open>Effect of publication\<close>

definition archives_staled :: "int \<Rightarrow> complete_params \<Rightarrow> gotime \<Rightarrow> copy_row list \<Rightarrow> copy_row list" where
  "archives_staled userID p now t = (if cq_ReplicaKind p = ''archive'' then stale_copies userID (cq_TargetNodeID p) now t else t)"

definition replaced_snapshot :: "int \<Rightarrow> complete_params \<Rightarrow> wdb \<Rightarrow> string option" where
  "replaced_snapshot userID p d = Option.bind (sql_find (copy_at userID (cq_TargetNodeID p)) (w_copies d)) cp_SnapshotID"

definition succeed_workflow :: "gotime \<Rightarrow> snapshot_workflow_row \<Rightarrow> snapshot_workflow_row" where
  "succeed_workflow now w = w\<lparr>sw_State := ''succeeded'', sw_CleanupState := ''succeeded'', sw_UpdatedAt := now, sw_FinishedAt := Some now\<rparr>"

definition published :: "string \<Rightarrow> int \<Rightarrow> complete_params \<Rightarrow> gotime \<Rightarrow> wdb \<Rightarrow> wdb \<Rightarrow> bool" where
  "published replicaID userID p now d d' \<longleftrightarrow>
     sql_count (building p) (w_manifests d) = 1 \<and> sql_count (cap_of_hash p) (w_caps d) = 1 \<and>
     w_relays d' = w_relays d \<and>
     w_workflows d' = sql_update (\<lambda>w. sw_ID w = cq_WorkflowID p) (succeed_workflow now) (w_workflows d) \<and>
     w_steps d' = sql_update (\<lambda>s. st_WorkflowID s = cq_WorkflowID p) (finish_step now) (w_steps d) \<and>
     w_caps d' = sql_update (cap_of_hash p) (\<lambda>c. c\<lparr>tc_State := ''consumed'', tc_ConsumedAt := Some now\<rparr>) (w_caps d) \<and>
     w_manifests d' = drop_manifest (replaced_snapshot userID p d) p (sql_update (building p) (seal_manifest p) (w_manifests d)) \<and>
     w_copies d' = put_copy replicaID userID p now (archives_staled userID p now (w_copies d))"

lemma finish_tx_effect:
  assumes "finish_tx l v p now d = Inr (d', v')"
  shows "sql_count (cap_of_hash p) (w_caps d) = 1 \<and> w_relays d' = w_relays d \<and>
     w_workflows d' = sql_update (\<lambda>w. sw_ID w = cq_WorkflowID p) (succeed_workflow now) (w_workflows d) \<and>
     w_steps d' = sql_update (\<lambda>s. st_WorkflowID s = cq_WorkflowID p) (finish_step now) (w_steps d) \<and>
     w_caps d' = sql_update (cap_of_hash p) (\<lambda>c. c\<lparr>tc_State := ''consumed'', tc_ConsumedAt := Some now\<rparr>) (w_caps d) \<and>
     w_manifests d' = w_manifests d \<and> w_copies d' = w_copies d \<and> v' = v"
  using assms unfolding finish_tx_def succeed_workflow_def Let_def by (simp split: if_splits) auto

lemma publish_tx_published:
  assumes "publish_tx replicaID u l p now d = Inr (d', v)"
  shows "published replicaID u p now d d'"
proof -
  have b: "sql_count (building p) (w_manifests d) = 1"
    using assms by (simp add: publish_tx_def split: if_splits)
  define d0 where "d0 = replace_cleanups u (cq_TargetNodeID p) now (d\<lparr>w_manifests := sql_update (building p) (seal_manifest p) (w_manifests d)\<rparr>)"
  define h where "h = map_option us_Username (sql_find (\<lambda>u. us_ID u = l) (w_legacy_users d))"
  define d3 where "d3 = (if cq_ReplicaKind p = ''archive'' then supersede_archives u l h (cq_TargetNodeID p) now d0 else d0)"
  define d4 where "d4 = publish_copy replicaID u p now d3"
  define d5 where "d5 = d4\<lparr>w_manifests := drop_manifest (replaced_snapshot u p d) p (w_manifests d4)\<rparr>"
  obtain v0 where f: "finish_tx l v0 p now d5 = Inr (d', v)"
    using assms unfolding publish_tx_def Let_def d5_def d4_def d3_def d0_def h_def replaced_snapshot_def
    by (simp split: if_splits)
  have d0: "w_relays d0 = w_relays d" "w_workflows d0 = w_workflows d" "w_steps d0 = w_steps d" "w_caps d0 = w_caps d"
    "w_manifests d0 = sql_update (building p) (seal_manifest p) (w_manifests d)" "w_copies d0 = w_copies d"
    by (simp_all add: d0_def replace_cleanups_def)
  have d3: "w_relays d3 = w_relays d0" "w_workflows d3 = w_workflows d0" "w_steps d3 = w_steps d0" "w_caps d3 = w_caps d0"
    "w_manifests d3 = w_manifests d0" "w_copies d3 = archives_staled u p now (w_copies d0)"
    by (simp_all add: d3_def supersede_archives_def Let_def archives_staled_def)
  have d5: "w_relays d5 = w_relays d3" "w_workflows d5 = w_workflows d3" "w_steps d5 = w_steps d3" "w_caps d5 = w_caps d3"
    "w_manifests d5 = drop_manifest (replaced_snapshot u p d) p (w_manifests d3)"
    "w_copies d5 = put_copy replicaID u p now (w_copies d3)"
    by (simp_all add: d5_def d4_def publish_copy_def Let_def)
  show ?thesis using b finish_tx_effect [OF f] by (simp add: published_def d0 d3 d5)
qed

text \<open>A publication changes nothing, when it repeats one that succeeded, or publishes.\<close>

lemma complete_tx_cases:
  assumes "complete_tx replicaID p now d = Inr (d', v)"
  obtains "d' = d"
  | w where "workflow_by_id (cq_WorkflowID p) d = Some w" "sw_State w = ''publishing''" "published replicaID (sw_UserID w) p now d d'"
proof -
  obtain w where w: "workflow_by_id (cq_WorkflowID p) d = Some w"
    using assms by (auto simp: complete_tx_def split: option.splits)
  then consider "d' = d" | l where "sw_State w = ''publishing''" "publish_tx replicaID (sw_UserID w) l p now d = Inr (d', v)"
    using assms unfolding complete_tx_def by (simp split: option.splits if_splits)
  then show ?thesis using that w publish_tx_published by cases blast+
qed

section \<open>The cases of a step\<close>

text \<open>A workflow row in which an operation has touched leases, times, errors or generation only.\<close>

definition keeps_phase :: "(snapshot_workflow_row \<Rightarrow> snapshot_workflow_row) \<Rightarrow> bool" where
  "keeps_phase f \<longleftrightarrow> (\<forall>w. sw_ID (f w) = sw_ID w \<and> sw_Type (f w) = sw_Type w \<and> sw_State (f w) = sw_State w \<and>
     sw_UserID (f w) = sw_UserID w \<and> sw_ResumeState (f w) = sw_ResumeState w)"

inductive snapshot_effect :: "wdb \<Rightarrow> wdb \<Rightarrow> bool" where
  same: "snapshot_effect d d"
| create: "create_tx j p now d = Inr (d', r) \<Longrightarrow> snapshot_effect d d'"
| bookkeeping: "keeps_phase f \<Longrightarrow> snapshot_effect d (set_workflows P f d)"
| steps: "snapshot_effect d (set_steps Q g d)"
| schedule: "schedule_retry_tx w code summary now delay d = Inr (d', n) \<Longrightarrow> snapshot_effect d d'"
| resume: "resume_retry_tx w now d = Inr (d', u) \<Longrightarrow> snapshot_effect d d'"
| rotate: "rotate_capability_tx w c h expires now d = Inr (d', u) \<Longrightarrow> snapshot_effect d d'"
| start: "set_state_tx w ''scheduled'' st now d = Inr (d', u) \<Longrightarrow> st \<in> {''quiescing'', ''transferring''} \<Longrightarrow> snapshot_effect d d'"
| progress: "progress_tx w i n st now d = Inr (d', u) \<Longrightarrow> snapshot_effect d d'"
| cancel: "snapshot_effect d (cancelSnapshotWorkflowTx w reason now d)"
| fail: "fail_tx w code note now d = Inr (d', u) \<Longrightarrow> snapshot_effect d d'"
| prepare: "prepare_recovered_tx w g now d = Inr (d', u) \<Longrightarrow> snapshot_effect d d'"
| reset: "reset_recovered_tx cs rs w g now d = Inr (d', u) \<Longrightarrow> snapshot_effect d d'"
| complete: "complete_tx replicaID cp now d = Inr (d', v) \<Longrightarrow> snapshot_effect d d'"

lemma tx_effect:
  assumes "\<And>d' x. t d = Inr (d', x) \<Longrightarrow> snapshot_effect d d'"
  shows "snapshot_effect d (fst (run_tx flt t d))" and "snapshot_effect d (fst (if b then (d, r) else run_tx flt t d))"
  using fst_run_tx [of "snapshot_effect d", OF snapshot_effect.same, of t flt] assms snapshot_effect.same by simp_all

lemma one_row_effect: "one_row P f d = Inr (d', x) \<Longrightarrow> keeps_phase f \<Longrightarrow> snapshot_effect d d'"
  by (auto simp: one_row_def split: if_splits intro: snapshot_effect.bookkeeping)

lemma lease_effects:
  "snapshot_effect d (fst (ClaimSnapshotWorkflow flt w worker now ttl d))"
  "snapshot_effect d (fst (RenewSnapshotWorkflow flt w worker now ttl d))"
  "snapshot_effect d (fst (ReleaseSnapshotWorkflow flt w worker d))"
  unfolding ClaimSnapshotWorkflow_def RenewSnapshotWorkflow_def ReleaseSnapshotWorkflow_def Let_def
  by (rule tx_effect; auto simp: keeps_phase_def intro: snapshot_effect.same snapshot_effect.bookkeeping split: if_splits option.splits)+

lemma deferral_effects:
  "snapshot_effect d (fst (DeferSnapshotWorkflow clock flt w code summary now delay d))"
  "snapshot_effect d (fst (ClearSnapshotWorkflowDeferral clock flt w now d))"
  "snapshot_effect d (fst (SwitchSnapshotWorkflowToRelay clock flt w now d))"
  unfolding DeferSnapshotWorkflow_def ClearSnapshotWorkflowDeferral_def SwitchSnapshotWorkflowToRelay_def Let_def
  by (rule tx_effect, erule one_row_effect, simp add: keeps_phase_def)+

lemma adopt_effect: "snapshot_effect d (fst (AdoptStaleSnapshotWorkflows clock flt skip summary now limit d))"
  unfolding AdoptStaleSnapshotWorkflows_def Let_def
  by (rule tx_effect) (auto simp: keeps_phase_def intro: snapshot_effect.same snapshot_effect.bookkeeping split: option.splits)

lemma complete_step_effect: "snapshot_effect d (fst (CompleteSnapshotWorkflowStep clock flt w name now d))"
  unfolding CompleteSnapshotWorkflowStep_def Let_def
  by (rule tx_effect) (auto intro: snapshot_effect.same snapshot_effect.steps split: option.splits if_splits)

lemmas guarded_ops = CreateSnapshotWorkflow_def ScheduleSnapshotRetry_def ResumeSnapshotRetry_def RotateSnapshotCapability_def setSnapshotWorkflowProgressOnce_def FailSnapshotWorkflow_def PrepareRecoveredSnapshotCompletion_def ResetRecoveredSnapshotWorkflow_def CompleteSnapshotWorkflow_def SetSnapshotWorkflowState_def CancelSnapshotWorkflow_def

lemma snapshot_step_effect: "snapshot_effect d (snapshot_step e d)"
proof (cases e)
  case (CreateWorkflow clock flt jobID p)
  show ?thesis unfolding CreateWorkflow snapshot_step.simps guarded_ops Let_def
    by (rule tx_effect, erule snapshot_effect.create)
next
  case (ScheduleRetry flt w code summary now delay)
  show ?thesis unfolding ScheduleRetry snapshot_step.simps guarded_ops Let_def
    by (rule tx_effect, erule snapshot_effect.schedule)
next
  case (ResumeRetry flt w now)
  show ?thesis unfolding ResumeRetry snapshot_step.simps guarded_ops Let_def
    by (rule tx_effect, erule snapshot_effect.resume)
next
  case (RotateCapability flt w c h expires now)
  show ?thesis unfolding RotateCapability snapshot_step.simps guarded_ops Let_def
    by (rule tx_effect, erule snapshot_effect.rotate)
next
  case (ReportProgress flt w i n st now)
  show ?thesis unfolding ReportProgress snapshot_step.simps guarded_ops Let_def
    by (rule tx_effect, erule snapshot_effect.progress)
next
  case (FailWorkflow clock flt w code summary now)
  show ?thesis unfolding FailWorkflow snapshot_step.simps guarded_ops Let_def
    by (rule tx_effect, erule snapshot_effect.fail)
next
  case (PrepareRecovered clock flt w g now)
  show ?thesis unfolding PrepareRecovered snapshot_step.simps guarded_ops Let_def
    by (rule tx_effect, erule snapshot_effect.prepare)
next
  case (ResetRecovered clock flt cs rs w g now)
  show ?thesis unfolding ResetRecovered snapshot_step.simps guarded_ops Let_def
    by (rule tx_effect, erule snapshot_effect.reset)
next
  case (PublishSnapshot clock flt replicaID p)
  show ?thesis unfolding PublishSnapshot snapshot_step.simps guarded_ops Let_def
    by (rule tx_effect, erule snapshot_effect.complete)
next
  case (StartQuiescing clock flt w now)
  show ?thesis unfolding StartQuiescing snapshot_step.simps guarded_ops Let_def
    by (rule tx_effect, erule snapshot_effect.start, simp)
next
  case (StartTransferring clock flt w now)
  show ?thesis unfolding StartTransferring snapshot_step.simps guarded_ops Let_def
    by (rule tx_effect, erule snapshot_effect.start, simp)
next
  case (CancelWorkflow clock flt w reason now)
  show ?thesis unfolding CancelWorkflow snapshot_step.simps guarded_ops Let_def
    by (rule tx_effect) (auto intro: snapshot_effect.cancel)
qed (simp_all only: snapshot_step.simps lease_effects deferral_effects adopt_effect complete_step_effect)

section \<open>An example\<close>

text \<open>One user, a compute node and a storage node, and a backup job; the examples start here.\<close>

definition demo_node :: "int \<Rightarrow> string \<Rightarrow> placement_row" where
  "demo_node i role = \<lparr>pn_ID = i, pn_Role = role, pn_Connectivity = ''online'', pn_Operational = ''active'',
     pn_Compatibility = ''compatible'', pn_ControlMode = ''managed'', pn_DesiredMode = ''managed'', pn_CapacityState = ''open'',
     pn_TransferURL = ''https://n'', pn_IsBackupTarget = True, pn_ActiveSessions = 0\<rparr>"

definition demo_db :: wdb where
  "demo_db = empty_wdb\<lparr>
     w_epochs := [\<lparr>ep_Generation = 1, ep_OperationID = ''e'', ep_Source = ''bootstrap'', ep_State = ''active'',
       ep_SigningKeyVersion = 1, ep_ActivatedAt = 1, ep_RevokedAt = None, ep_CleanShutdownAt = None\<rparr>],
     w_users := [\<lparr>gu_ID = 1, gu_UUID = ''u'', gu_LegacyUserID = Some 1, gu_Status = ''active''\<rparr>],
     w_legacy_users := [\<lparr>us_ID = 1, us_Username = ''ann'', us_HomeNodeID = Some 2, us_Status = ''active''\<rparr>],
     w_nodes := [demo_node 2 ''compute'', demo_node 3 ''storage''],
     w_jobs := [\<lparr>bj_ID = 7, bj_UserID = 1, bj_SrcNodeID = 2, bj_DstNodeID = 3, bj_Trigger = ''offline'', bj_Status = ''pending'',
       bj_DataVersion = None, bj_Bytes = None, bj_FileCount = None, bj_Error = None, bj_FinishedAt = None, bj_WorkflowID = None,
       bj_SnapshotID = None, bj_ActivityEpoch = None\<rparr>]\<rparr>"

definition demo_create :: "string \<Rightarrow> create_params" where
  "demo_create mode = \<lparr>sq_WorkflowID = ''w'', sq_OperationID = ''o'', sq_SnapshotID = ''m'', sq_CapabilityID = ''c'',
     sq_CapabilityHash = replicate 32 (CHR ''c''), sq_LegacyBackupJobID = 7, sq_LegacyUserID = 1, sq_GlobalUserID = 1,
     sq_SourceNodeID = 2, sq_TargetNodeID = 3, sq_DestinationKind = ''archive'', sq_TransferMode = mode,
     sq_ReconciliationID = [], sq_Marker = [], sq_RetirementItemID = [], sq_RetirementTrigger = [],
     sq_CapabilityExpires = 1000, sq_Now = 1\<rparr>"

definition demo_complete :: complete_params where
  "demo_complete = \<lparr>cq_WorkflowID = ''w'', cq_SnapshotID = ''m'', cq_CapabilityHash = replicate 32 (CHR ''c''), cq_TargetNodeID = 3,
     cq_ReplicaKind = ''archive'', cq_ReplicaOrigin = ''configured'', cq_ManifestSHA256 = replicate 32 (CHR ''1''),
     cq_ArchiveSHA256 = replicate 32 (CHR ''2''), cq_FileCount = 5, cq_TotalBytes = 500, cq_Now = 9\<rparr>"

definition demo_reports :: "snapshot_event list" where
  "demo_reports = [StartQuiescing 1 TxOk ''w'' 2, ReportProgress TxOk ''w'' ''m'' 2 ''drained'' 3,
     ReportProgress TxOk ''w'' ''m'' 2 ''snapshotting'' 4, ReportProgress TxOk ''w'' ''m'' 2 ''transferring'' 5,
     ReportProgress TxOk ''w'' ''m'' 3 ''verifying'' 6, ReportProgress TxOk ''w'' ''m'' 3 ''publishing'' 7]"

end
