(* ===== verification/Relay_Safety.thy ===== *)
theory Relay_Safety
  imports Snapshot_Events
begin

text \<open>
  The relay as a protocol: an abstract transfer that moves from waiting over uploading and
  stored to downloading and consumed, or expires, and the proof that every operation of
  \<open>store/relay.go\<close> and \<open>store/snapshots.go\<close> moves every row along it, with the token that the
  move needs.
\<close>

section \<open>The abstract transfer\<close>

record relay_blob =
  bl_Plaintext :: int
  bl_Archive :: string
  bl_Ciphertext :: int
  bl_Digest :: string
  bl_Path :: string

datatype relay_phase =
  Waiting
| Uploading int string
| Stored relay_blob
| Downloading relay_blob
| Consumed relay_blob
| Expired

text \<open>Who moves a transfer: its creator, a holder of a token, or the controller.\<close>

datatype relay_actor = Creator | Holder string | Housekeeper

text \<open>A transfer is absent, or has the hashes of its two tokens and a phase.\<close>

type_synonym relay_spec = "(string \<times> string \<times> relay_phase) option"

definition live_phase :: "relay_phase \<Rightarrow> bool" where
  "live_phase s \<longleftrightarrow> (case s of Consumed _ \<Rightarrow> False | Expired \<Rightarrow> False | _ \<Rightarrow> True)"

inductive relay_moves :: "relay_actor \<Rightarrow> relay_spec \<Rightarrow> relay_spec \<Rightarrow> bool" where
  create: "relay_moves Creator None (Some (u, v, Waiting))"
| begin_up: "relay_moves (Holder u) (Some (u, v, Waiting)) (Some (u, v, Uploading n a))"
| release_up: "relay_moves (Holder u) (Some (u, v, Uploading n a)) (Some (u, v, Waiting))"
| store: "bl_Plaintext b = n \<Longrightarrow> bl_Archive b = a \<Longrightarrow>
    relay_moves (Holder u) (Some (u, v, Uploading n a)) (Some (u, v, Stored b))"
| begin_down: "relay_moves (Holder v) (Some (u, v, Stored b)) (Some (u, v, Downloading b))"
| release_down: "relay_moves (Holder v) (Some (u, v, Downloading b)) (Some (u, v, Stored b))"
| consume: "relay_moves (Holder v) (Some (u, v, Downloading b)) (Some (u, v, Consumed b))"
| expire: "live_phase s \<Longrightarrow> relay_moves Housekeeper (Some (u, v, s)) (Some (u, v, Expired))"

definition relay_stutter :: "relay_actor \<Rightarrow> relay_spec \<Rightarrow> relay_spec \<Rightarrow> bool" where
  "relay_stutter a s t \<longleftrightarrow> t = s \<or> relay_moves a s t"

text \<open>What the protocol promises, once and for all operations that follow it.\<close>

lemma stored_is_kept:
  assumes "relay_stutter a (Some (u, v, s)) t" and "s \<in> {Stored b, Downloading b, Consumed b, Expired}"
  shows "\<exists>s' \<in> {Stored b, Downloading b, Consumed b, Expired}. t = Some (u, v, s')"
  using assms by (auto simp: relay_stutter_def elim: relay_moves.cases)

lemma finished_is_final:
  "relay_stutter a (Some (u, v, s)) t \<Longrightarrow> \<not> live_phase s \<Longrightarrow> t = Some (u, v, s)"
  by (auto simp: relay_stutter_def live_phase_def elim: relay_moves.cases)

section \<open>Abstraction\<close>

definition row_blob :: "relay_row \<Rightarrow> relay_blob" where
  "row_blob r = \<lparr>bl_Plaintext = the (rt_PlaintextBytes r), bl_Archive = the (rt_ArchiveSHA256 r),
     bl_Ciphertext = the (rt_CiphertextBytes r), bl_Digest = the (rt_CiphertextSHA256 r), bl_Path = the (rt_StoragePath r)\<rparr>"

definition row_phase :: "relay_row \<Rightarrow> relay_phase" where
  "row_phase r =
     (if rt_State r = ''prepared'' then Waiting
      else if rt_State r = ''uploading'' then Uploading (the (rt_PlaintextBytes r)) (the (rt_ArchiveSHA256 r))
      else if rt_State r = ''stored'' then Stored (row_blob r)
      else if rt_State r = ''downloading'' then Downloading (row_blob r)
      else if rt_State r = ''consumed'' then Consumed (row_blob r)
      else Expired)"

definition row_spec :: "relay_row \<Rightarrow> string \<times> string \<times> relay_phase" where
  "row_spec r = (rt_UploadTokenHash r, rt_DownloadTokenHash r, row_phase r)"

definition relay_abs :: "string \<Rightarrow> wdb \<Rightarrow> relay_spec" where
  "relay_abs i d = map_option row_spec (sql_find (\<lambda>r. rt_ID r = i) (w_relays d))"

text \<open>The rows that the operations make: the columns that belong to the state, and only those.\<close>

definition row_ok :: "relay_row \<Rightarrow> bool" where
  "row_ok r \<longleftrightarrow>
     rt_State r \<in> {''prepared'', ''uploading'', ''stored'', ''downloading'', ''consumed'', ''expired''} \<and>
     (rt_State r = ''prepared'' \<longrightarrow> rt_PlaintextBytes r = None \<and> rt_ArchiveSHA256 r = None) \<and>
     (rt_State r \<in> {''prepared'', ''uploading''} \<longrightarrow> rt_CiphertextBytes r = None \<and> rt_StoragePath r = None) \<and>
     (rt_State r \<in> {''uploading'', ''stored'', ''downloading'', ''consumed''} \<longrightarrow>
        rt_PlaintextBytes r \<noteq> None \<and> rt_ArchiveSHA256 r \<noteq> None) \<and>
     (rt_State r \<in> {''stored'', ''downloading'', ''consumed''} \<longrightarrow>
        rt_CiphertextBytes r \<noteq> None \<and> rt_CiphertextSHA256 r \<noteq> None \<and> rt_StoragePath r \<noteq> None)"

definition relay_inv :: "wdb \<Rightarrow> bool" where
  "relay_inv d \<longleftrightarrow> keyed rt_ID (w_relays d) \<and> list_all row_ok (w_relays d)"

section \<open>Statements refine moves\<close>

text \<open>A statement that moves each row it touches as \<open>a\<close> may.\<close>

definition row_moves :: "relay_actor \<Rightarrow> relay_row \<Rightarrow> relay_row \<Rightarrow> bool" where
  "row_moves a r r' \<longleftrightarrow> rt_ID r' = rt_ID r \<and> row_ok r' \<and> relay_stutter a (Some (row_spec r)) (Some (row_spec r'))"

definition follows :: "relay_actor \<Rightarrow> wdb \<Rightarrow> wdb \<Rightarrow> bool" where
  "follows a d d' \<longleftrightarrow> relay_inv d' \<and> (\<forall>i. relay_stutter a (relay_abs i d) (relay_abs i d'))"

lemma follows_same: "relay_inv d \<Longrightarrow> w_relays d' = w_relays d \<Longrightarrow> follows a d d'"
  by (simp add: follows_def relay_inv_def relay_abs_def relay_stutter_def)

lemma follows_update:
  assumes "relay_inv d" and "w_relays d' = sql_update P f (w_relays d)"
    and "\<And>r. row_ok r \<Longrightarrow> P r \<Longrightarrow> row_moves a r (f r)"
  shows "follows a d d'"
proof -
  have ok: "row_ok r" if "r \<in> set (w_relays d)" for r
    using assms(1) that by (simp add: relay_inv_def list_all_iff)
  have all: "list_all row_ok (w_relays d')"
    using ok assms(3) unfolding assms(2) by (auto simp: list_all_iff set_sql_update row_moves_def)
  have id: "rt_ID (if P r then f r else r) = rt_ID r" if "r \<in> set (w_relays d)" for r
    using that ok assms(3) by (simp add: row_moves_def)
  then have ids: "map rt_ID (w_relays d') = map rt_ID (w_relays d)"
    unfolding assms(2) by (simp add: sql_update_def)
  have "relay_stutter a (relay_abs i d) (relay_abs i d')" for i
  proof -
    have find: "sql_find (\<lambda>r. rt_ID r = i) (sql_update P f t) = map_option (\<lambda>r. if P r then f r else r) (sql_find (\<lambda>r. rt_ID r = i) t)"
      if "set t \<subseteq> set (w_relays d)" for t
      using that
    proof (induction t)
      case (Cons r t)
      then show ?case using id [of r] by (simp add: sql sql_update_def)
    qed (simp add: sql sql_update_def)
    show ?thesis
    proof (cases "sql_find (\<lambda>r. rt_ID r = i) (w_relays d)")
      case None
      then show ?thesis using find [of "w_relays d"] by (simp add: relay_abs_def assms(2) relay_stutter_def)
    next
      case (Some r)
      then have "row_ok r" using sql_find_Some [OF Some] ok by blast
      then show ?thesis using Some find [of "w_relays d"] assms(3) [of r]
        by (simp add: relay_abs_def assms(2) row_moves_def relay_stutter_def)
    qed
  qed
  then show ?thesis using all ids assms(1) by (simp add: follows_def relay_inv_def keyed_def)
qed

lemma follows_insert:
  assumes "relay_inv d" and "w_relays d' = w_relays d @ [r]" and "\<forall>q \<in> set (w_relays d). rt_ID q \<noteq> rt_ID r"
    and "row_ok r" and "row_phase r = Waiting"
  shows "follows Creator d d'"
proof -
  have "relay_inv d'" using assms by (auto simp: relay_inv_def keyed_append)
  moreover have "relay_stutter Creator (relay_abs i d) (relay_abs i d')" for i
  proof (cases "sql_find (\<lambda>r. rt_ID r = i) (w_relays d)")
    case None
    then show ?thesis using assms(2,5)
      by (simp add: relay_abs_def sql_find_append sql relay_stutter_def row_spec_def relay_moves.create)
  next
    case (Some q)
    then show ?thesis using assms(2) by (simp add: relay_abs_def sql_find_append relay_stutter_def)
  qed
  ultimately show ?thesis by (simp add: follows_def)
qed

section \<open>Every operation follows the protocol\<close>

lemmas row_defs = row_moves_def row_ok_def row_spec_def row_phase_def row_blob_def relay_stutter_def

text \<open>An update of leases and times only.\<close>

lemma row_moves_same:
  assumes "row_ok r" and "rt_ID r' = rt_ID r" "rt_State r' = rt_State r" "rt_UploadTokenHash r' = rt_UploadTokenHash r"
    "rt_DownloadTokenHash r' = rt_DownloadTokenHash r" "rt_PlaintextBytes r' = rt_PlaintextBytes r"
    "rt_ArchiveSHA256 r' = rt_ArchiveSHA256 r" "rt_CiphertextBytes r' = rt_CiphertextBytes r"
    "rt_CiphertextSHA256 r' = rt_CiphertextSHA256 r" "rt_StoragePath r' = rt_StoragePath r"
  shows "row_moves a r r'"
  using assms by (simp add: row_defs)

lemma row_moves_upload:
  assumes "row_ok r" and "rt_State r = ''prepared'' \<or> rt_State r = ''uploading''"
    and "null_or (rt_PlaintextBytes r) n" and "null_or (rt_ArchiveSHA256 r) a"
  shows "row_moves (Holder (rt_UploadTokenHash r)) r (begin_upload n a now ttl r)"
  using assms(2)
proof
  assume "rt_State r = ''prepared''"
  then show ?thesis using assms(1) by (simp add: row_defs begin_upload_def relay_moves.begin_up)
next
  assume "rt_State r = ''uploading''"
  then show ?thesis using assms(1,3,4) by (auto simp: row_defs begin_upload_def null_or_def)
qed

lemma row_moves_store:
  "row_ok r \<Longrightarrow> rt_State r = ''uploading'' \<Longrightarrow> row_moves (Holder (rt_UploadTokenHash r)) r
     (r\<lparr>rt_State := ''stored'', rt_CiphertextBytes := Some c, rt_CiphertextSHA256 := Some sha, rt_StoragePath := Some path,
        rt_UploadLeaseUntil := l, rt_UpdatedAt := now\<rparr>)"
  by (simp add: row_defs relay_moves.store)

lemma row_moves_release_up:
  "row_ok r \<Longrightarrow> rt_State r = ''uploading'' \<Longrightarrow> row_moves (Holder (rt_UploadTokenHash r)) r
     (r\<lparr>rt_State := ''prepared'', rt_PlaintextBytes := None, rt_ArchiveSHA256 := None, rt_UploadLeaseUntil := None, rt_UpdatedAt := now\<rparr>)"
  by (simp add: row_defs relay_moves.release_up)

lemma row_moves_download:
  assumes "row_ok r" and "rt_State r = ''stored'' \<or> rt_State r = ''downloading''"
  shows "row_moves (Holder (rt_DownloadTokenHash r)) r
     (r\<lparr>rt_State := ''downloading'', rt_DownloadLeaseUntil := l, rt_UpdatedAt := now\<rparr>)"
  using assms(2)
proof
  assume "rt_State r = ''stored''"
  then show ?thesis using assms(1) by (simp add: row_defs relay_moves.begin_down)
next
  assume "rt_State r = ''downloading''"
  then show ?thesis using assms(1) by (simp add: row_defs)
qed

lemma row_moves_release_down:
  "row_ok r \<Longrightarrow> rt_State r = ''downloading'' \<Longrightarrow> row_moves (Holder (rt_DownloadTokenHash r)) r
     (r\<lparr>rt_State := ''stored'', rt_DownloadLeaseUntil := None, rt_UpdatedAt := now\<rparr>)"
  by (simp add: row_defs relay_moves.release_down)

lemma row_moves_consume:
  "row_ok r \<Longrightarrow> rt_State r = ''downloading'' \<Longrightarrow> row_moves (Holder (rt_DownloadTokenHash r)) r
     (r\<lparr>rt_State := ''consumed'', rt_DownloadLeaseUntil := None, rt_UpdatedAt := now, rt_ConsumedAt := t\<rparr>)"
  by (simp add: row_defs relay_moves.consume)

lemma follows_update_relays:
  "relay_inv d \<Longrightarrow> (\<And>r. row_ok r \<Longrightarrow> P r \<Longrightarrow> row_moves a r (f r)) \<Longrightarrow> follows a d (update_relays P f d)"
  by (rule follows_update [of d _ P f]) (simp_all add: update_relays_def)

lemma claim_relay_follows:
  assumes "relay_inv d" and "\<And>r. row_ok r \<Longrightarrow> P r \<Longrightarrow> row_moves a r (f r)"
  shows "follows a d (case claim_relay P f d of Some (d', r) \<Rightarrow> d' | None \<Rightarrow> d)"
  using follows_update_relays [OF assms] follows_same [OF assms(1) refl]
  by (simp add: claim_relay_def split: option.split)

lemma claim_upload_follows:
  assumes "relay_inv d" and "\<And>r now. claimable r now \<Longrightarrow> rt_State r = ''prepared'' \<or> rt_State r = ''uploading''"
  shows "follows (Holder h) d (fst (claim_upload claimable clock i h n c a now0 ttl d))"
proof (cases "upload_args_ok i h n c a ttl")
  case True
  define now where "now = at_time clock now0"
  define P where "P = (\<lambda>r. relay_upload_by i h d r \<and> now < rt_ExpiresAt r \<and> c \<le> rt_MaxCiphertextBytes r \<and> claimable r now \<and>
    null_or (rt_PlaintextBytes r) n \<and> null_or (rt_ArchiveSHA256 r) a)"
  have "fst (claim_upload claimable clock i h n c a now0 ttl d) =
      (case claim_relay P (begin_upload n a now ttl) d of Some (d', r) \<Rightarrow> d' | None \<Rightarrow> d)"
    using True by (simp add: claim_upload_def Let_def P_def now_def split: option.splits prod.splits)
  moreover have "follows (Holder h) d (case claim_relay P (begin_upload n a now ttl) d of Some (d', r) \<Rightarrow> d' | None \<Rightarrow> d)"
  proof (rule claim_relay_follows [OF assms(1)])
    show "row_moves (Holder h) r (begin_upload n a now ttl r)" if "row_ok r" "P r" for r
      using row_moves_upload [of r n a now ttl] that assms(2) [of r now] by (simp add: P_def relay_upload_by_def)
  qed
  ultimately show ?thesis by simp
next
  case False
  then show ?thesis using follows_same [OF assms(1) refl] by (simp add: claim_upload_def)
qed

lemma CompleteRelayUpload_follows:
  assumes "relay_inv d"
  shows "follows (Holder h) d (fst (CompleteRelayUpload clock i h sha c path now d))"
proof (cases "i = [] \<or> length h \<noteq> 32 \<or> length sha \<noteq> 32 \<or> c \<le> 0 \<or> path = []")
  case True
  then show ?thesis using follows_same [OF assms refl] by (auto simp: CompleteRelayUpload_def)
next
  case False
  then show ?thesis
    by (simp add: CompleteRelayUpload_def Let_def)
      (rule follows_update_relays [OF assms], use row_moves_store in \<open>auto simp: relay_upload_by_def\<close>)
qed

lemma ReleaseRelayUpload_follows: 
  assumes "relay_inv d"
  shows "follows (Holder h) d (fst (ReleaseRelayUpload clock i h now d))"
  using follows_same [OF assms refl]
  by (simp add: ReleaseRelayUpload_def)
    (intro impI follows_update_relays [OF assms], use row_moves_release_up in \<open>auto simp: relay_upload_by_def\<close>)

lemma ClaimRelayDownload_follows:
  assumes "relay_inv d"
  shows "follows (Holder h) d (fst (ClaimRelayDownload clock i h now0 ttl d))"
proof (cases "download_args_ok i h ttl")
  case True
  define now where "now = at_time clock now0"
  define P where "P = (\<lambda>r. relay_download_by i h d r \<and> now < rt_ExpiresAt r \<and>
     (rt_State r = ''stored'' \<or> rt_State r = ''downloading'' \<and> col_le (rt_DownloadLeaseUntil r) now))"
  define f where "f = (\<lambda>r :: relay_row. r\<lparr>rt_State := ''downloading'', rt_DownloadLeaseUntil := Some (now + ttl), rt_UpdatedAt := now\<rparr>)"
  have "fst (ClaimRelayDownload clock i h now0 ttl d) = (case claim_relay P f d of Some (d', r) \<Rightarrow> d' | None \<Rightarrow> d)"
    using True by (simp add: ClaimRelayDownload_def Let_def P_def f_def now_def split: option.splits prod.splits)
  moreover have "follows (Holder h) d (case claim_relay P f d of Some (d', r) \<Rightarrow> d' | None \<Rightarrow> d)"
  proof (rule claim_relay_follows [OF assms])
    show "row_moves (Holder h) r (f r)" if "row_ok r" "P r" for r
      using that row_moves_download [of r] by (auto simp: P_def f_def relay_download_by_def)
  qed
  ultimately show ?thesis by simp
next
  case False
  then show ?thesis using follows_same [OF assms refl] by (simp add: ClaimRelayDownload_def)
qed

lemma ContinueRelayDownload_follows:
  assumes "relay_inv d"
  shows "follows (Holder h) d (fst (ContinueRelayDownload clock i h now0 ttl d))"
proof (cases "download_args_ok i h ttl")
  case True
  define now where "now = at_time clock now0"
  define f where "f = (\<lambda>r :: relay_row. r\<lparr>rt_DownloadLeaseUntil := Some (now + ttl), rt_UpdatedAt := now\<rparr>)"
  have "fst (ContinueRelayDownload clock i h now0 ttl d) =
      (case claim_relay (download_running i h now d) f d of Some (d', r) \<Rightarrow> d' | None \<Rightarrow> d)"
    using True by (simp add: ContinueRelayDownload_def Let_def f_def now_def split: option.splits prod.splits)
  moreover have "follows (Holder h) d (case claim_relay (download_running i h now d) f d of Some (d', r) \<Rightarrow> d' | None \<Rightarrow> d)"
    by (rule claim_relay_follows [OF assms], rule row_moves_same) (simp_all add: f_def)
  ultimately show ?thesis by simp
next
  case False
  then show ?thesis using follows_same [OF assms refl] by (simp add: ContinueRelayDownload_def)
qed

lemma ReleaseRelayDownload_follows:
  assumes "relay_inv d"
  shows "follows (Holder h) d (fst (ReleaseRelayDownload clock i h now d))"
  using follows_same [OF assms refl]
  by (simp add: ReleaseRelayDownload_def)
    (intro impI follows_update_relays [OF assms], use row_moves_release_down in \<open>auto simp: relay_download_by_def\<close>)

lemma ClampRelayDownloadLease_follows:
  assumes "relay_inv d"
  shows "follows (Holder h) d (fst (ClampRelayDownloadLease clock i h now ttl d))"
  using follows_same [OF assms refl]
  by (simp add: ClampRelayDownloadLease_def Let_def) (intro impI follows_update_relays [OF assms] row_moves_same, simp_all)

lemma RenewRelayDownload_follows:
  assumes "relay_inv d"
  shows "follows (Holder h) d (fst (RenewRelayDownload clock i h now ttl d))"
  using follows_same [OF assms refl]
  by (simp add: RenewRelayDownload_def Let_def) (intro impI follows_update_relays [OF assms] row_moves_same, simp_all)

lemma CompleteRelayDownload_follows:
  assumes "relay_inv d"
  shows "follows (Holder h) d (fst (CompleteRelayDownload clock i h now0 d))"
proof (cases "i = [] \<or> length h \<noteq> 32")
  case True
  then show ?thesis using follows_same [OF assms refl] by (auto simp: CompleteRelayDownload_def)
next
  case False
  define now where "now = at_time clock now0"
  define P where "P = (\<lambda>r. relay_download_by i h d r \<and> rt_State r = ''downloading'')"
  define f where "f = (\<lambda>r :: relay_row. r\<lparr>rt_State := ''consumed'', rt_DownloadLeaseUntil := None, rt_UpdatedAt := now,
                rt_ConsumedAt := (case rt_ConsumedAt r of None \<Rightarrow> Some now | Some t \<Rightarrow> Some t)\<rparr>)"
  have "fst (CompleteRelayDownload clock i h now0 d) = update_relays P f d"
    using False unfolding CompleteRelayDownload_def Let_def P_def f_def now_def by (simp split: option.split)
  moreover have "follows (Holder h) d (update_relays P f d)"
    by (rule follows_update_relays [OF assms]) (use row_moves_consume in \<open>auto simp: P_def f_def relay_download_by_def\<close>)
  ultimately show ?thesis by simp
qed

lemma row_moves_expire:
  assumes "row_ok r" and "\<not> relay_done (rt_State r)"
  shows "row_moves Housekeeper r (r\<lparr>rt_State := ''expired'', rt_UploadLeaseUntil := None, rt_DownloadLeaseUntil := None, rt_UpdatedAt := now\<rparr>)"
proof -
  have "live_phase (row_phase r)" using assms by (auto simp: row_ok_def relay_done_def row_phase_def live_phase_def)
  from relay_moves.expire [OF this] show ?thesis
    using assms by (simp add: row_moves_def row_ok_def row_spec_def relay_stutter_def row_phase_def)
qed

lemma ExpireRelayTransfers_follows:
  assumes "relay_inv d"
  shows "follows Housekeeper d (fst (ExpireRelayTransfers clock flt skip now limit d))"
proof -
  have key: "keyed rt_ID (w_relays d)" using assms by (simp add: relay_inv_def)
  have undone: "\<not> relay_done (rt_State r)"
    if r: "r \<in> set (w_relays d)" "rt_ID r \<in> rt_ID ` set (expirable_relays skip t n d)" for r t n
  proof -
    obtain q where q: "q \<in> set (expirable_relays skip t n d)" "rt_ID r = rt_ID q" using r(2) by blast
    then have "q \<in> set (w_relays d)" "\<not> relay_done (rt_State q)"
      using set_take_subset [of n "sort_key rt_ExpiresAt (filter (\<lambda>r. rt_ExpiresAt r \<le> t \<and> \<not> relay_done (rt_State r) \<and> \<not> skip (rt_ID r)) (w_relays d))"]
      by (auto simp: expirable_relays_def)
    then show ?thesis using keyed_unique [OF key r(1) _ q(2)] by simp
  qed
  have *: "follows Housekeeper d (update_relays (\<lambda>r. rt_ID r \<in> rt_ID ` set (expirable_relays skip t n d))
      (\<lambda>r. r\<lparr>rt_State := ''expired'', rt_UploadLeaseUntil := None, rt_DownloadLeaseUntil := None, rt_UpdatedAt := t\<rparr>) d)" for t n
  proof -
    define gone where "gone = rt_ID ` set (expirable_relays skip t n d)"
    define f where "f = (\<lambda>r :: relay_row. r\<lparr>rt_State := ''expired'', rt_UploadLeaseUntil := None, rt_DownloadLeaseUntil := None, rt_UpdatedAt := t\<rparr>)"
    have "update_relays (\<lambda>r. rt_ID r \<in> gone) f d = update_relays (\<lambda>r. rt_ID r \<in> gone \<and> r \<in> set (w_relays d)) f d"
      unfolding update_relays_def sql_update_def by (simp cong: map_cong)
    moreover have "follows Housekeeper d (update_relays (\<lambda>r. rt_ID r \<in> gone \<and> r \<in> set (w_relays d)) f d)"
    proof (rule follows_update_relays [OF assms])
      fix r assume r: "row_ok r" "rt_ID r \<in> gone \<and> r \<in> set (w_relays d)"
      have "\<not> relay_done (rt_State r)" using undone r(2) unfolding gone_def by blast
      then show "row_moves Housekeeper r (f r)" unfolding f_def by (rule row_moves_expire [OF r(1)])
    qed
    ultimately show ?thesis unfolding gone_def f_def by simp
  qed
  have ids: "set (map fst (map (\<lambda>r. (rt_ID r, rt_StoragePath r)) rows)) = rt_ID ` set rows" for rows
    by (simp add: image_image)
  show ?thesis
    unfolding ExpireRelayTransfers_def Let_def ids
    by (rule fst_run_tx, rule follows_same [OF assms refl], simp only: sum.inject prod.inject, elim conjE, hypsubst, rule *)
qed

lemma insert_relay_follows:
  assumes "relay_inv d"
  shows "follows Creator d (fst (insert_relay p now sel d))"
proof (cases "sel = None \<or> sql_find (same_relay_task p) (w_relays d) \<noteq> None \<or> sql_exists (\<lambda>r. rt_ID r = rq_ID p) (w_relays d)")
  case True
  then have "fst (insert_relay p now sel d) = d" by (auto simp: insert_relay_def Let_def split: option.split)
  then show ?thesis using follows_same [OF assms refl] by simp
next
  case False
  then obtain scope g where s: "sel = Some (scope, g)" by auto
  have "fst (insert_relay p now sel d) = d\<lparr>w_relays := w_relays d @ [new_relay p now scope g]\<rparr>"
    using False s by (simp add: insert_relay_def Let_def)
  then show ?thesis
    using False by (intro follows_insert [OF assms, where r = "new_relay p now scope g"])
      (auto simp: new_relay_def row_ok_def row_phase_def sql_exists_iff)
qed

section \<open>Workflow operations only fence\<close>

definition fence_rows :: "string \<Rightarrow> gotime \<Rightarrow> relay_row list \<Rightarrow> relay_row list" where
  "fence_rows w now t = sql_update (\<lambda>r. rt_WorkflowID r = w \<and> \<not> relay_done (rt_State r))
       (\<lambda>r. r\<lparr>rt_ExpiresAt := min (rt_ExpiresAt r) now, rt_UploadLeaseUntil := None, rt_DownloadLeaseUntil := None,
          rt_UpdatedAt := now\<rparr>) t"

lemma relays_fence [simp]: "w_relays (fence_relays w now d) = fence_rows w now (w_relays d)"
  by (simp add: fence_relays_def update_relays_def fence_rows_def)

definition only_fences :: "wdb \<Rightarrow> wdb \<Rightarrow> bool" where
  "only_fences d d' \<longleftrightarrow> w_relays d' = w_relays d \<or> (\<exists>w now. w_relays d' = fence_rows w now (w_relays d))"

lemma only_fences_same: "w_relays d' = w_relays d \<Longrightarrow> only_fences d d'"
  by (simp add: only_fences_def)

lemma only_fences_fence: "w_relays d' = fence_rows w now (w_relays d) \<Longrightarrow> only_fences d d'"
  by (auto simp: only_fences_def)

lemma only_fences_follows:
  assumes "relay_inv d" and "only_fences d d'"
  shows "follows a d d'"
  using assms(2) unfolding only_fences_def
proof (elim disjE exE)
  fix w now assume "w_relays d' = fence_rows w now (w_relays d)"
  then show ?thesis unfolding fence_rows_def by (rule follows_update [OF assms(1)]) (rule row_moves_same, simp_all)
qed (rule follows_same [OF assms(1)])

lemma schedule_retry_fences: "schedule_retry_tx w code summary now delay d = Inr (d', x) \<Longrightarrow> only_fences d d'"
  by (rule only_fences_fence [where w = w and now = now])
    (auto simp: schedule_retry_tx_def Let_def split: option.splits if_splits prod.splits)

lemma resume_retry_fences: "resume_retry_tx w now d = Inr (d', x) \<Longrightarrow> only_fences d d'"
  by (rule only_fences_fence [where w = w and now = now])
    (auto simp: resume_retry_tx_def Let_def split: option.splits if_splits prod.splits)

lemma rotate_capability_fences: "rotate_capability_tx w c h e now d = Inr (d', x) \<Longrightarrow> only_fences d d'"
  by (rule only_fences_same) (auto simp: rotate_capability_tx_def Let_def split: option.splits if_splits)

lemma set_state_fences: "set_state_tx w a b now d = Inr (d', x) \<Longrightarrow> only_fences d d'"
  by (rule only_fences_same) (auto simp: set_state_tx_def Let_def split: if_splits)

lemma update_step_relays: "update_step w n f d = Inr d' \<Longrightarrow> w_relays d' = w_relays d"
  by (auto simp: update_step_def split: if_splits)

lemma progress_fences: "progress_tx w s n st now d = Inr (d', x) \<Longrightarrow> only_fences d d'"
  by (rule only_fences_same) (auto simp: progress_tx_def dest!: update_step_relays split: option.splits if_splits sum.splits)

lemma cancel_relays [simp]: "w_relays (cancelSnapshotWorkflowTx w reason now d) = w_relays d"
  by (simp add: cancelSnapshotWorkflowTx_def)

lemma fail_fences: "fail_tx w code summary now d = Inr (d', x) \<Longrightarrow> only_fences d d'"
  by (rule only_fences_same) (auto simp: fail_tx_def fail_replica_def Let_def split: option.splits if_splits)

lemma prepare_recovered_fences: "prepare_recovered_tx w g now d = Inr (d', x) \<Longrightarrow> only_fences d d'"
  by (rule only_fences_fence [where w = w and now = now]) (auto simp: prepare_recovered_tx_def Let_def split: if_splits)

lemma reset_recovered_fences: "reset_recovered_tx cs rs w g now d = Inr (d', x) \<Longrightarrow> only_fences d d'"
  by (rule only_fences_fence [where w = w and now = now])
    (auto simp: reset_recovered_tx_def Let_def split: option.splits if_splits)

lemma complete_fences: "complete_tx i p now d = Inr (d', x) \<Longrightarrow> only_fences d d'"
  by (erule complete_tx_cases) (simp_all add: only_fences_same published_def)

lemma create_fences: "create_tx j p now d = Inr (d', x) \<Longrightarrow> only_fences d d'"
  using create_tx_created [of j p now d d' x] by (auto simp: created_def intro: only_fences_same)

lemma effect_fences: "snapshot_effect d d' \<Longrightarrow> only_fences d d'"
  by (erule snapshot_effect.cases)
    (simp_all add: only_fences_same schedule_retry_fences resume_retry_fences rotate_capability_fences set_state_fences
      progress_fences fail_fences prepare_recovered_fences reset_recovered_fences complete_fences create_fences)

section \<open>Refinement\<close>

primrec relay_actor_of :: "relay_event \<Rightarrow> relay_actor" where
  "relay_actor_of (NewRelay clock p) = Creator"
| "relay_actor_of (NewConflictRelay clock p op) = Creator"
| "relay_actor_of (ClaimUpload clock i h plain ciph sha now ttl) = Holder h"
| "relay_actor_of (ClaimMultipart clock i h plain ciph sha now ttl) = Holder h"
| "relay_actor_of (FinishUpload clock i h sha ciph path now) = Holder h"
| "relay_actor_of (ReleaseUpload clock i h now) = Holder h"
| "relay_actor_of (ClaimDownload clock i h now ttl) = Holder h"
| "relay_actor_of (ContinueDownload clock i h now ttl) = Holder h"
| "relay_actor_of (ReleaseDownload clock i h now) = Holder h"
| "relay_actor_of (ClampDownload clock i h now ttl) = Holder h"
| "relay_actor_of (RenewDownload clock i h now ttl) = Holder h"
| "relay_actor_of (FinishDownload clock i h now) = Holder h"
| "relay_actor_of (ExpireRelays clock flt skip now limit) = Housekeeper"

primrec actor_of :: "wevent \<Rightarrow> relay_actor" where
  "actor_of (Relay e) = relay_actor_of e"
| "actor_of (Snapshot e) = Housekeeper"

lemma create_relay_follows:
  assumes "relay_inv d"
  shows "follows Creator d (fst (CreateRelayTransfer clock p d))"
    and "follows Creator d (fst (CreateConflictRelayTransfer clock p op d))"
  using follows_same [OF assms refl] insert_relay_follows [OF assms]
  by (simp_all add: CreateRelayTransfer_def CreateConflictRelayTransfer_def Let_def)

lemma relay_step_follows: "relay_inv d \<Longrightarrow> follows (relay_actor_of e) d (relay_step e d)"
proof (cases e)
  case (ClaimUpload clock i h plain ciph sha now ttl)
  assume "relay_inv d"
  then show ?thesis unfolding ClaimUpload relay_step.simps relay_actor_of.simps ClaimRelayUpload_def
    by (rule claim_upload_follows) auto
next
  case (ClaimMultipart clock i h plain ciph sha now ttl)
  assume "relay_inv d"
  then show ?thesis unfolding ClaimMultipart relay_step.simps relay_actor_of.simps ClaimRelayMultipartUpload_def
    by (rule claim_upload_follows) auto
qed (simp_all add: create_relay_follows CompleteRelayUpload_follows ReleaseRelayUpload_follows ClaimRelayDownload_follows
    ContinueRelayDownload_follows ReleaseRelayDownload_follows ClampRelayDownloadLease_follows RenewRelayDownload_follows
    CompleteRelayDownload_follows ExpireRelayTransfers_follows)

lemma wstep_follows: "relay_inv d \<Longrightarrow> follows (actor_of e) d (wstep e d)"
  by (cases e) (simp_all add: relay_step_follows only_fences_follows effect_fences snapshot_step_effect)

interpretation relay: transitions wstep relay_inv
  by unfold_locales (use wstep_follows in \<open>auto simp: follows_def\<close>)

text \<open>What a move shows of its actor and of the data, over a whole run.\<close>

lemma relay_run_kept:
  assumes "relay_inv d" and "relay_abs i d = Some (u, v, s)" and "s \<in> {Stored b, Downloading b, Consumed b, Expired}"
  shows "\<exists>s' \<in> {Stored b, Downloading b, Consumed b, Expired}. relay_abs i (relay.run evs d) = Some (u, v, s')"
proof -
  have "\<exists>s' \<in> {Stored b, Downloading b, Consumed b, Expired}. relay_abs i (wstep e d) = Some (u, v, s')"
    if "relay_inv d" "\<exists>s' \<in> {Stored b, Downloading b, Consumed b, Expired}. relay_abs i d = Some (u, v, s')" for d e
    using that wstep_follows [of d e] stored_is_kept unfolding follows_def by metis
  then show ?thesis
    using relay.run_stable [of "\<lambda>d. \<exists>s' \<in> {Stored b, Downloading b, Consumed b, Expired}. relay_abs i d = Some (u, v, s')" d evs]
      assms by blast
qed

lemma relay_run_final:
  assumes "relay_inv d" and "relay_abs i d = Some (u, v, s)" and "\<not> live_phase s"
  shows "relay_abs i (relay.run evs d) = Some (u, v, s)"
proof -
  have "relay_abs i (wstep e d) = Some (u, v, s)" if "relay_inv d" "relay_abs i d = Some (u, v, s)" for d e
    using that wstep_follows [of d e] finished_is_final [OF _ assms(3)] unfolding follows_def by metis
  then show ?thesis using relay.run_stable [of "\<lambda>d. relay_abs i d = Some (u, v, s)" d evs] assms by blast
qed

text \<open>
  C34. \<open>store/relay.go\<close> implements the relay protocol. In every sequence of operations on the
  relay and workflow tables, each operation leaves every transfer where it is or makes one move
  of the protocol with the token the move needs: only the holder of the upload token begins,
  gives up or stores an upload, only the holder of the download token begins, gives up or
  consumes a download, and only the controller expires a transfer. A stored ciphertext keeps its
  sizes, digests and path until the transfer is consumed or expires, and a consumed or expired
  transfer never changes again.
\<close>

theorem relay_refines_protocol:
  assumes "relay_inv d"
  shows "(\<forall>k < length evs. relay_stutter (actor_of (evs ! k)) (relay_abs i (relay.run (take k evs) d))
      (relay_abs i (relay.run (take (Suc k) evs) d))) \<and>
    (relay_abs i d = Some (u, v, Stored b) \<longrightarrow>
      relay_abs i (relay.run evs d) \<in> (\<lambda>s. Some (u, v, s)) ` {Stored b, Downloading b, Consumed b, Expired}) \<and>
    (relay_abs i d = Some (u, v, s) \<and> \<not> live_phase s \<longrightarrow> relay_abs i (relay.run evs d) = Some (u, v, s))"
proof (intro conjI allI impI)
  fix k assume "k < length evs"
  then have "relay.run (take (Suc k) evs) d = wstep (evs ! k) (relay.run (take k evs) d)"
    by (simp add: take_Suc_conv_app_nth relay.run_append)
  then show "relay_stutter (actor_of (evs ! k)) (relay_abs i (relay.run (take k evs) d)) (relay_abs i (relay.run (take (Suc k) evs) d))"
    using wstep_follows [OF relay.run_inv [OF assms], of "evs ! k" "take k evs"] by (simp add: follows_def)
next
  show "relay_abs i (relay.run evs d) \<in> (\<lambda>s. Some (u, v, s)) ` {Stored b, Downloading b, Consumed b, Expired}"
    if "relay_abs i d = Some (u, v, Stored b)"
    using relay_run_kept [OF assms that, of b evs] by blast
next
  show "relay_abs i (relay.run evs d) = Some (u, v, s)" if "relay_abs i d = Some (u, v, s) \<and> \<not> live_phase s"
    using relay_run_final [OF assms] that by blast
qed

text \<open>A transfer that is created, uploaded, downloaded and consumed.\<close>

definition demo_relay :: relay_params where
  "demo_relay = \<lparr>rq_ID = ''r'', rq_WorkflowID = ''w'', rq_SnapshotID = ''m'', rq_SourceNodeID = 2, rq_TargetNodeID = 3,
     rq_Attempt = 0, rq_UploadTokenHash = replicate 32 (CHR ''u''), rq_DownloadTokenHash = replicate 32 (CHR ''v''),
     rq_MaxCiphertextBytes = 600, rq_ExpiresAt = 900, rq_Now = 2\<rparr>"

definition demo_upload :: "wevent list" where
  "demo_upload = [Snapshot (CreateWorkflow 1 TxOk 0 (demo_create ''relay'')), Relay (NewRelay 1 demo_relay),
     Relay (ClaimUpload 1 ''r'' (replicate 32 (CHR ''u'')) 500 520 (replicate 32 (CHR ''2'')) 3 60),
     Relay (FinishUpload 1 ''r'' (replicate 32 (CHR ''u'')) (replicate 32 (CHR ''4'')) 520 ''spool/r'' 4)]"

definition demo_download :: "wevent list" where
  "demo_download = [Relay (ClaimDownload 1 ''r'' (replicate 32 (CHR ''v'')) 5 60),
     Relay (FinishDownload 1 ''r'' (replicate 32 (CHR ''v'')) 6)]"

definition demo_blob :: relay_blob where
  "demo_blob = \<lparr>bl_Plaintext = 500, bl_Archive = replicate 32 (CHR ''2''), bl_Ciphertext = 520,
     bl_Digest = replicate 32 (CHR ''4''), bl_Path = ''spool/r''\<rparr>"

theorem relay_refines_protocol_witness:
  "\<exists>stored u v. stored = relay.run demo_upload demo_db \<and> relay_inv stored \<and> relay_abs ''r'' stored = Some (u, v, Stored demo_blob) \<and>
     relay_moves (Holder v) (relay_abs ''r'' stored) (relay_abs ''r'' (relay.run (take 1 demo_download) stored)) \<and>
     relay_abs ''r'' (relay.run demo_download stored) = Some (u, v, Consumed demo_blob)"
proof -
  define stored where "stored = fold wstep demo_upload demo_db"
  define u v where "u = replicate 32 (CHR ''u'')" and "v = replicate 32 (CHR ''v'')"
  have s: "relay_inv stored" unfolding stored_def by code_simp
  have abs: "relay_abs ''r'' stored = Some (u, v, Stored demo_blob)" unfolding stored_def u_def v_def by code_simp
  have down: "relay_abs ''r'' (relay.run (take 1 demo_download) stored) = Some (u, v, Downloading demo_blob)"
    unfolding stored_def u_def v_def relay.run_def by code_simp
  have fin: "relay_abs ''r'' (relay.run demo_download stored) = Some (u, v, Consumed demo_blob)"
    unfolding stored_def u_def v_def relay.run_def by code_simp
  have 0: "actor_of (demo_download ! 0) = Holder v" "0 < length demo_download"
    unfolding v_def by (simp_all add: demo_download_def)
  have "relay_stutter (actor_of (demo_download ! 0)) (relay_abs ''r'' (relay.run (take 0 demo_download) stored))
      (relay_abs ''r'' (relay.run (take (Suc 0) demo_download) stored))"
    using relay_refines_protocol [OF s] 0(2) by blast
  then have "relay_moves (Holder v) (relay_abs ''r'' stored) (relay_abs ''r'' (relay.run (take 1 demo_download) stored))"
    using 0(1) abs down by (simp add: relay_stutter_def)
  then show ?thesis using s abs down fin unfolding stored_def relay.run_def by blast
qed

end
