(* ===== verification/Snapshot_Safety.thy ===== *)
theory Snapshot_Safety
  imports Snapshot_Events
begin

text \<open>
  What the snapshot workflows promise: a life cycle that every operation follows, one unfinished
  workflow and one usable transfer capability at a time, and replicas whose published snapshot
  stays as it was sealed.
\<close>

section \<open>Life cycle\<close>

inductive wf_step :: "string \<Rightarrow> string \<Rightarrow> bool" where
  quiesce: "wf_step ''scheduled'' ''quiescing''"
| restore: "wf_step ''scheduled'' ''transferring''"
| drain: "wf_step ''quiescing'' ''drained''"
| snapshot: "wf_step ''drained'' ''snapshotting''"
| transfer: "wf_step ''snapshotting'' ''transferring''"
| verify: "wf_step ''transferring'' ''verifying''"
| publish: "wf_step ''verifying'' ''publishing''"
| recover: "wf_step ''transferring'' ''publishing''"
| succeed: "wf_step ''publishing'' ''succeeded''"
| retry: "workflow_open s \<Longrightarrow> wf_step s ''retry_wait''"
| resume: "wf_step ''retry_wait'' ''quiescing''"
| reschedule: "wf_step ''retry_wait'' ''scheduled''"
| fail: "workflow_open s \<Longrightarrow> wf_step s ''failed''"
| cancel: "workflow_open s \<Longrightarrow> wf_step s ''cancelled''"

inductive_cases wf_stepE: "wf_step s s'"

lemma workflow_open_simps [simp]:
  "workflow_open ''scheduled''" "workflow_open ''quiescing''" "workflow_open ''drained''" "workflow_open ''snapshotting''"
  "workflow_open ''transferring''" "workflow_open ''verifying''" "workflow_open ''publishing''" "workflow_open ''retry_wait''"
  "\<not> workflow_open ''succeeded''" "\<not> workflow_open ''failed''" "\<not> workflow_open ''cancelled''"
  by (simp_all add: workflow_open_def terminal_states_def)

lemma wf_step_open: "wf_step s s' \<Longrightarrow> workflow_open s"
  by (erule wf_step.cases) simp_all

text \<open>The life cycle of a run, and that it ends.\<close>

definition wf_path :: "string \<Rightarrow> string \<Rightarrow> bool" where
  "wf_path s s' \<longleftrightarrow> wf_step\<^sup>*\<^sup>* s s'"

lemma wf_path_closed: "wf_path s s' \<Longrightarrow> \<not> workflow_open s \<Longrightarrow> s' = s"
  unfolding wf_path_def by (erule converse_rtranclpE) (auto dest: wf_step_open)

definition resume_ok :: "snapshot_workflow_row \<Rightarrow> bool" where
  "resume_ok w \<longleftrightarrow> sw_ResumeState w \<in> {None, Some ''quiescing'', Some ''scheduled''}"

definition wf_move :: "snapshot_workflow_row \<Rightarrow> snapshot_workflow_row \<Rightarrow> bool" where
  "wf_move w w' \<longleftrightarrow> sw_ID w' = sw_ID w \<and> sw_Type w' = sw_Type w \<and> sw_UserID w' = sw_UserID w \<and> resume_ok w' \<and>
     (sw_State w' = sw_State w \<or> wf_step (sw_State w) (sw_State w'))"

definition wf_inv :: "wdb \<Rightarrow> bool" where
  "wf_inv d \<longleftrightarrow> keyed sw_ID (w_workflows d) \<and> list_all resume_ok (w_workflows d) \<and>
     unique_where moves_data sw_UserID (w_workflows d)"

definition wf_evolves :: "wdb \<Rightarrow> wdb \<Rightarrow> bool" where
  "wf_evolves d d' \<longleftrightarrow> list_all2 wf_move (w_workflows d) (w_workflows d')"

lemma wf_move_refl: "resume_ok w \<Longrightarrow> wf_move w w"
  by (simp add: wf_move_def)

lemma wf_evolves_update:
  assumes "wf_inv d" and "w_workflows d' = sql_update P f (w_workflows d)"
    and "\<And>w. w \<in> set (w_workflows d) \<Longrightarrow> P w \<Longrightarrow> wf_move w (f w)"
  shows "wf_evolves d d'"
proof -
  have "wf_move w (if P w then f w else w)" if "w \<in> set (w_workflows d)" for w
    using that assms(1,3) by (simp add: wf_inv_def list_all_iff wf_move_refl)
  then show ?thesis
    unfolding wf_evolves_def assms(2) sql_update_def by (simp add: list_all2_map2 list_all2_same)
qed

lemma wf_evolves_same: "wf_inv d \<Longrightarrow> w_workflows d' = w_workflows d \<Longrightarrow> wf_evolves d d'"
  by (rule wf_evolves_update [where P = "\<lambda>_. False"]) (simp_all add: sql_update_def)

lemma moved_from: "list_all2 R t t' \<Longrightarrow> q' \<in> set t' \<Longrightarrow> \<exists>q \<in> set t. R q q'"
  by (induction rule: list_all2_induct) auto

lemma moved_to: "list_all2 R t t' \<Longrightarrow> q \<in> set t \<Longrightarrow> \<exists>q' \<in> set t'. R q q'"
  by (induction rule: list_all2_induct) auto

text \<open>A table whose rows move one by one keeps its keys and its partial indices.\<close>

lemma keyed_moves: "list_all2 R t t' \<Longrightarrow> (\<And>r r'. R r r' \<Longrightarrow> k r' = k r) \<Longrightarrow> keyed k t' = keyed k t"
proof -
  assume a: "list_all2 R t t'" and b: "\<And>r r'. R r r' \<Longrightarrow> k r' = k r"
  have "map k t' = map k t" using a by (induction rule: list_all2_induct) (simp_all add: b)
  then show ?thesis by (simp add: keyed_def)
qed

lemma unique_where_moves:
  assumes "list_all2 R t t'" and R: "\<And>r r'. R r r' \<Longrightarrow> P r' \<Longrightarrow> P r \<and> k r' = k r"
  shows "unique_where P k t \<Longrightarrow> unique_where P k t'"
  using assms(1)
proof (induction rule: list_all2_induct)
  case (Cons r t r' t')
  have t: "unique_where P k t'"
    using Cons by (auto simp: unique_where_def keyed_Cons split: if_splits)
  show ?case
  proof (cases "P r'")
    case True
    then have r: "P r" "k r' = k r" using R Cons by auto
    have "k r' \<notin> k ` set (filter P t')"
    proof
      assume "k r' \<in> k ` set (filter P t')"
      then obtain q' where q': "q' \<in> set t'" "P q'" "k r' = k q'" by auto
      then obtain q where "q \<in> set t" "R q q'"
        using moved_from [OF \<open>list_all2 R t t'\<close>] by blast
      then have "q \<in> set t" "P q" "k q = k r" using R q' r by auto
      then show False using Cons.prems r(1) by (auto simp: unique_where_def keyed_Cons image_iff)
    qed
    then show ?thesis using t True by (simp add: unique_where_def keyed_Cons)
  next
    case False
    then show ?thesis using t by (simp add: unique_where_def)
  qed
qed simp

lemma wf_inv_evolves:
  assumes "wf_inv d" and "wf_evolves d d'"
  shows "wf_inv d'"
proof -
  have m: "list_all2 wf_move (w_workflows d) (w_workflows d')" using assms(2) by (simp add: wf_evolves_def)
  have "list_all resume_ok (w_workflows d')"
    using m by (induction rule: list_all2_induct) (simp_all add: wf_move_def)
  moreover have "unique_where moves_data sw_UserID (w_workflows d')"
    by (rule unique_where_moves [OF m]) (use assms(1) wf_step_open in \<open>auto simp: wf_inv_def wf_move_def moves_data_def\<close>)
  moreover have "keyed sw_ID (w_workflows d')"
    using keyed_moves [OF m, of sw_ID] assms(1) by (simp add: wf_inv_def wf_move_def)
  ultimately show ?thesis by (simp add: wf_inv_def)
qed

lemma wf_inv_created:
  assumes "wf_inv d" and "created p d d' g epoch now"
  shows "wf_inv d'"
proof -
  have w: "w_workflows d' = w_workflows d @ [new_workflow p g epoch now]"
    and f: "\<forall>x \<in> set (w_workflows d). sw_ID x \<noteq> sq_WorkflowID p \<and> \<not> (moves_data x \<and> sw_UserID x = sq_GlobalUserID p)"
    using assms(2) by (simp_all add: created_def)
  have "unique_where moves_data sw_UserID (w_workflows d')"
    unfolding w by (rule unique_where_insert) (use f assms(1) in \<open>auto simp: wf_inv_def new_workflow_def\<close>)
  then show ?thesis
    using w f assms(1) by (auto simp: wf_inv_def keyed_append new_workflow_def resume_ok_def)
qed

section \<open>Every operation follows the life cycle\<close>

lemma same_workflow: "wf_inv d \<Longrightarrow> x \<in> set (w_workflows d) \<Longrightarrow> y \<in> set (w_workflows d) \<Longrightarrow> sw_ID x = sw_ID y \<Longrightarrow> x = y"
  unfolding wf_inv_def by (blast intro: keyed_unique)

lemma retry_plan_resume: "retry_plan t = Some (st, names) \<Longrightarrow> st \<in> {''quiescing'', ''scheduled''}"
  by (auto simp: retry_plan_def split: if_splits)

lemma schedule_evolves:
  assumes "schedule_retry_tx w code summary now delay d = Inr (d', n)" and "wf_inv d"
  shows "wf_evolves d d'"
proof -
  let ?Q = "\<lambda>x. sw_ID x = w \<and> workflow_open (sw_State x) \<and> sw_State x \<noteq> ''retry_wait''"
  obtain r st names where r: "sql_find ?Q (w_workflows d) = Some r" and plan: "retry_plan (sw_Type r) = Some (st, names)"
    using assms(1) unfolding schedule_retry_tx_def by (auto split: option.splits)
  have rr: "r \<in> set (w_workflows d)" "?Q r" using sql_find_Some [OF r] by simp_all
  define f where "f = (\<lambda>x :: snapshot_workflow_row. x\<lparr>sw_ResumeState := Some st, sw_State := ''retry_wait'', sw_Attempt := sw_Attempt x + 1,
     sw_NextAttemptAt := Some (now + delay), sw_ErrorCode := Some code, sw_ErrorSummary := summary_text summary, sw_UpdatedAt := now,
     sw_LeaseOwner := None, sw_LeaseUntil := None\<rparr>)"
  have "w_workflows d' = sql_update (\<lambda>x. sw_ID x = w \<and> sw_Type x = sw_Type r) f (w_workflows d)"
    using assms(1) r plan unfolding schedule_retry_tx_def Let_def f_def by (auto split: if_splits)
  then show ?thesis
  proof (rule wf_evolves_update [OF assms(2)])
    fix x assume x: "x \<in> set (w_workflows d)" "sw_ID x = w \<and> sw_Type x = sw_Type r"
    then have "x = r" using same_workflow [OF assms(2) x(1) rr(1)] rr(2) by simp
    then show "wf_move x (f x)"
      using rr(2) retry_plan_resume [OF plan] by (auto simp: wf_move_def f_def resume_ok_def intro: wf_step.retry)
  qed
qed

lemma resume_evolves:
  assumes "resume_retry_tx w now d = Inr (d', u)" and "wf_inv d"
  shows "wf_evolves d d'"
proof -
  define P where "P = (\<lambda>x :: snapshot_workflow_row. sw_ID x = w \<and> sw_State x = ''retry_wait'' \<and> sw_ResumeState x \<noteq> None \<and> col_le (sw_NextAttemptAt x) now)"
  define f where "f = (\<lambda>x :: snapshot_workflow_row. x\<lparr>sw_State := the (sw_ResumeState x), sw_ResumeState := None,
    sw_NextAttemptAt := None, sw_ErrorCode := None, sw_ErrorSummary := None, sw_UpdatedAt := now\<rparr>)"
  have "w_workflows d' = sql_update P f (w_workflows d)"
    using assms(1) unfolding resume_retry_tx_def Let_def P_def f_def by (auto split: option.splits if_splits)
  then show ?thesis
  proof (rule wf_evolves_update [OF assms(2)])
    fix x assume x: "x \<in> set (w_workflows d)" "P x"
    have "resume_ok x" using x(1) assms(2) by (simp add: wf_inv_def list_all_iff)
    then have "the (sw_ResumeState x) = ''quiescing'' \<or> the (sw_ResumeState x) = ''scheduled''"
      using x(2) by (auto simp: resume_ok_def P_def)
    then show "wf_move x (f x)"
      using x(2) wf_step.resume wf_step.reschedule by (auto simp: wf_move_def f_def resume_ok_def P_def)
  qed
qed

lemma rotate_evolves: "rotate_capability_tx w c h e now d = Inr (d', u) \<Longrightarrow> wf_inv d \<Longrightarrow> wf_evolves d d'"
  by (rule wf_evolves_same) (auto simp: rotate_capability_tx_def Let_def split: option.splits if_splits)

lemma start_evolves:
  assumes "set_state_tx w ''scheduled'' st now d = Inr (d', u)" and "st \<in> {''quiescing'', ''transferring''}" and "wf_inv d"
  shows "wf_evolves d d'"
proof -
  define P where "P = (\<lambda>x :: snapshot_workflow_row. sw_ID x = w \<and> sw_State x = ''scheduled'' \<and> generation_active (sw_ControllerGeneration x) d)"
  have "w_workflows d' = sql_update P (\<lambda>x. x\<lparr>sw_State := st, sw_UpdatedAt := now\<rparr>) (w_workflows d)"
    using assms(1) unfolding set_state_tx_def Let_def P_def by (auto split: if_splits)
  then show ?thesis
    by (rule wf_evolves_update [OF assms(3)])
      (use assms(2,3) wf_step.quiesce wf_step.restore in \<open>auto simp: wf_move_def P_def wf_inv_def list_all_iff resume_ok_def\<close>)
qed

lemma update_step_frame: "update_step w n f d = Inr d' \<Longrightarrow>
   w_workflows d' = w_workflows d \<and> w_caps d' = w_caps d \<and> w_manifests d' = w_manifests d \<and> w_copies d' = w_copies d"
  by (auto simp: update_step_def split: if_splits)

lemma progress_rule_step: "progress_rule st r = Some (from, actor) \<Longrightarrow> wf_step from st \<and> workflow_open st"
  by (auto simp: progress_rule_def intro: wf_step.intros split: if_splits)

text \<open>A report that is not a repetition moves one workflow from the state that the report follows.\<close>

lemma progress_cases:
  assumes "progress_tx w i n st now d = Inr (d', u)"
  obtains "d' = d"
  | r where "r \<in> set (w_workflows d)" "sw_ID r = w" "wf_step (sw_State r) st" "workflow_open st"
      "w_workflows d' = sql_update (\<lambda>x. sw_ID x = w) (\<lambda>x. x\<lparr>sw_State := st, sw_UpdatedAt := now\<rparr>) (w_workflows d)"
      "w_caps d' = w_caps d" "w_manifests d' = w_manifests d" "w_copies d' = w_copies d"
proof -
  obtain r where f: "sql_find (\<lambda>x. sw_ID x = w \<and> sql_exists (\<lambda>m. sm_WorkflowID m = sw_ID x \<and> sm_ID m = i) (w_manifests d)) (w_workflows d) = Some r"
    using assms unfolding progress_tx_def by (auto split: option.splits)
  then have r: "r \<in> set (w_workflows d)" "sw_ID r = w" using sql_find_Some [OF f] by simp_all
  define d0 where "d0 = set_workflows (\<lambda>x. sw_ID x = w) (\<lambda>x. x\<lparr>sw_State := st, sw_UpdatedAt := now\<rparr>) d"
  consider "d' = d" | st0 actor d1 where "progress_rule st r = Some (st0, actor)" "sw_State r = st0"
      "update_step w (completed_step st) (finish_step now) d0 = Inr d1" "update_step w (running_step st) (run_step now) d1 = Inr d'"
    using assms f unfolding progress_tx_def d0_def by (auto split: option.splits if_splits sum.splits)
  then show ?thesis
  proof cases
    case 1
    then show ?thesis by (rule that(1))
  next
    case 2
    then show ?thesis
      using update_step_frame [OF 2(3)] update_step_frame [OF 2(4)] progress_rule_step [OF 2(1)] r
      by (intro that(2) [of r]) (simp_all add: d0_def)
  qed
qed

lemma progress_evolves:
  assumes "progress_tx w i n st now d = Inr (d', u)" and "wf_inv d"
  shows "wf_evolves d d'"
  using assms(1)
proof (cases rule: progress_cases)
  case 1
  then show ?thesis using wf_evolves_same [OF assms(2)] by simp
next
  case (2 r)
  from 2(5) show ?thesis
  proof (rule wf_evolves_update [OF assms(2)])
    fix x assume x: "x \<in> set (w_workflows d)" "sw_ID x = w"
    then have "x = r" using same_workflow [OF assms(2) x(1) 2(1)] 2(2) by simp
    moreover have "resume_ok x" using x(1) assms(2) by (simp add: wf_inv_def list_all_iff)
    ultimately show "wf_move x (x\<lparr>sw_State := st, sw_UpdatedAt := now\<rparr>)"
      using 2(3) by (simp add: wf_move_def resume_ok_def)
  qed
qed

lemma closing_evolves:
  assumes "wf_inv d" and "w_workflows d' = sql_update (\<lambda>x. sw_ID x = w \<and> workflow_open (sw_State x)) f (w_workflows d)"
    and "\<And>x. sw_ID (f x) = sw_ID x \<and> sw_Type (f x) = sw_Type x \<and> sw_UserID (f x) = sw_UserID x \<and> sw_ResumeState (f x) = sw_ResumeState x"
    and "(\<forall>x. sw_State (f x) = ''failed'') \<or> (\<forall>x. sw_State (f x) = ''cancelled'')"
  shows "wf_evolves d d'"
  by (rule wf_evolves_update [OF assms(1,2)])
    (use assms(1,3,4) in \<open>auto simp: wf_move_def wf_inv_def list_all_iff resume_ok_def intro: wf_step.fail wf_step.cancel\<close>)

lemma cancel_evolves: "wf_inv d \<Longrightarrow> w_workflows d0 = w_workflows d \<Longrightarrow> wf_evolves d (cancelSnapshotWorkflowTx w reason now d0)"
  by (rule closing_evolves [where w = w and f = "\<lambda>x. x\<lparr>sw_State := ''cancelled'', sw_ErrorCode := Some ''user_returned'',
      sw_ErrorSummary := reason, sw_CleanupState := ''pending'', sw_LeaseOwner := None, sw_LeaseUntil := None, sw_UpdatedAt := now,
      sw_FinishedAt := Some now\<rparr>"]) (simp_all add: cancelSnapshotWorkflowTx_def)

definition fail_row :: "string \<Rightarrow> string option \<Rightarrow> gotime \<Rightarrow> snapshot_workflow_row \<Rightarrow> snapshot_workflow_row" where
  "fail_row code note now x = x\<lparr>sw_State := ''failed'', sw_ErrorCode := Some code, sw_ErrorSummary := note,
     sw_CleanupState := ''pending'', sw_LeaseOwner := None, sw_LeaseUntil := None, sw_UpdatedAt := now, sw_FinishedAt := Some now\<rparr>"

lemma fail_effect:
  assumes "fail_tx w code note now d = Inr (d', u)"
  shows "w_workflows d' = sql_update (\<lambda>x. sw_ID x = w \<and> workflow_open (sw_State x)) (fail_row code note now) (w_workflows d)"
    and "w_caps d' = w_caps (revoke_caps w d)" "w_manifests d' = w_manifests d" "w_copies d' = w_copies d"
  using assms unfolding fail_tx_def fail_replica_def fail_row_def [abs_def] Let_def by (auto split: option.splits if_splits)

lemma fail_evolves: "fail_tx w code note now d = Inr (d', u) \<Longrightarrow> wf_inv d \<Longrightarrow> wf_evolves d d'"
  by (rule closing_evolves [where w = w and f = "fail_row code note now"]) (simp_all add: fail_effect fail_row_def)

definition recovering :: "string \<Rightarrow> int \<Rightarrow> wdb \<Rightarrow> snapshot_workflow_row \<Rightarrow> bool" where
  "recovering w g d x \<longleftrightarrow> sw_ID x = w \<and> sw_Type x = ''snapshot'' \<and> sw_ControllerGeneration x = g \<and> generation_active g d \<and>
     sw_ErrorCode x = Some recovery_code \<and> sw_State x \<in> {''transferring'', ''verifying'', ''publishing''}"

definition recover_row :: "gotime \<Rightarrow> snapshot_workflow_row \<Rightarrow> snapshot_workflow_row" where
  "recover_row now x = x\<lparr>sw_State := ''publishing'', sw_ErrorCode := None, sw_ErrorSummary := None,
     sw_NextAttemptAt := None, sw_UpdatedAt := now\<rparr>"

lemma prepare_effect:
  assumes "prepare_recovered_tx w g now d = Inr (d', u)"
  shows "w_workflows d' = sql_update (recovering w g d) (recover_row now) (w_workflows d)"
    and "w_caps d' = w_caps d" "w_manifests d' = w_manifests d" "w_copies d' = w_copies d"
  using assms unfolding prepare_recovered_tx_def recovering_def [abs_def] recover_row_def [abs_def] Let_def
  by (auto split: if_splits)

lemma prepare_evolves:
  assumes "prepare_recovered_tx w g now d = Inr (d', u)" and "wf_inv d"
  shows "wf_evolves d d'"
  using prepare_effect(1) [OF assms(1)]
proof (rule wf_evolves_update [OF assms(2)])
  fix x assume x: "x \<in> set (w_workflows d)" "recovering w g d x"
  have "resume_ok x" using x(1) assms(2) by (simp add: wf_inv_def list_all_iff)
  then show "wf_move x (recover_row now x)"
    using x(2) wf_step.recover wf_step.publish by (auto simp: wf_move_def recover_row_def recovering_def resume_ok_def)
qed

definition reset_row :: "string \<Rightarrow> gotime \<Rightarrow> snapshot_workflow_row \<Rightarrow> snapshot_workflow_row" where
  "reset_row note now x = x\<lparr>sw_State := ''retry_wait'', sw_ResumeState := Some ''quiescing'', sw_Attempt := sw_Attempt x + 1,
     sw_GenerationRecoveries := sw_GenerationRecoveries x + 1, sw_NextAttemptAt := Some now,
     sw_ErrorCode := Some ''controller_generation_retry'', sw_ErrorSummary := Some note,
     sw_LeaseOwner := None, sw_LeaseUntil := None, sw_UpdatedAt := now\<rparr>"

lemma reset_cases:
  assumes "reset_recovered_tx cs rs w g now d = Inr (d', u)"
  obtains "d' = cancelSnapshotWorkflowTx w (Some cs) now (fence_relays w now d)"
  | r where "r \<in> set (w_workflows d)" "sw_ID r = w" "workflow_open (sw_State r)"
      "w_workflows d' = sql_update (adopted w g) (reset_row rs now) (w_workflows d)"
      "w_caps d' = w_caps (revoke_caps w d)" "w_manifests d' = w_manifests d" "w_copies d' = w_copies d"
proof -
  obtain r where f: "sql_find (\<lambda>x. drivable w d x \<and> adopted w g x) (w_workflows d) = Some r"
    using assms unfolding reset_recovered_tx_def by (auto split: option.splits)
  then have r: "r \<in> set (w_workflows d)" "sw_ID r = w" "workflow_open (sw_State r)"
    using sql_find_Some [OF f] by (simp_all add: drivable_def)
  consider "d' = cancelSnapshotWorkflowTx w (Some cs) now (fence_relays w now d)"
    | "w_workflows d' = sql_update (adopted w g) (reset_row rs now) (w_workflows d)"
      "w_caps d' = w_caps (revoke_caps w d)" "w_manifests d' = w_manifests d" "w_copies d' = w_copies d"
    using assms f unfolding reset_recovered_tx_def Let_def reset_row_def [abs_def] by (auto split: option.splits if_splits)
  then show ?thesis using that r by cases blast+
qed

lemma reset_evolves:
  assumes "reset_recovered_tx cs rs w g now d = Inr (d', u)" and "wf_inv d"
  shows "wf_evolves d d'"
  using assms(1)
proof (cases rule: reset_cases)
  case 1
  then show ?thesis using cancel_evolves [OF assms(2), of "fence_relays w now d"] by simp
next
  case (2 r)
  from 2(4) show ?thesis
  proof (rule wf_evolves_update [OF assms(2)])
    fix x assume x: "x \<in> set (w_workflows d)" "adopted w g x"
    then have "x = r" using same_workflow [OF assms(2) x(1) 2(1)] 2(2) by (simp add: adopted_def)
    then show "wf_move x (reset_row rs now x)"
      using wf_step.retry [OF 2(3)] by (simp add: wf_move_def reset_row_def resume_ok_def)
  qed
qed

lemma published_evolves:
  assumes "published i (sw_UserID r) p now d d'" and "workflow_by_id (cq_WorkflowID p) d = Some r"
    and "sw_State r = ''publishing''" and "wf_inv d"
  shows "wf_evolves d d'"
proof -
  have r: "r \<in> set (w_workflows d)" "sw_ID r = cq_WorkflowID p"
    using sql_find_Some [OF assms(2) [unfolded workflow_by_id_def]] by simp_all
  have "w_workflows d' = sql_update (\<lambda>w. sw_ID w = cq_WorkflowID p) (succeed_workflow now) (w_workflows d)"
    using assms(1) by (simp add: published_def)
  then show ?thesis
  proof (rule wf_evolves_update [OF assms(4)])
    fix x assume x: "x \<in> set (w_workflows d)" "sw_ID x = cq_WorkflowID p"
    then have "x = r" using same_workflow [OF assms(4) x(1) r(1)] r(2) by simp
    moreover have "resume_ok x" using x(1) assms(4) by (simp add: wf_inv_def list_all_iff)
    ultimately show "wf_move x (succeed_workflow now x)"
      using assms(3) wf_step.succeed by (simp add: wf_move_def succeed_workflow_def resume_ok_def)
  qed
qed

text \<open>All operations: workflows move along the life cycle, or a new one is added.\<close>

lemma effect_evolves:
  assumes "snapshot_effect d d'" and "wf_inv d"
  shows "wf_evolves d d' \<or> (\<exists>p g epoch now. created p d d' g epoch now)"
  using assms(1)
proof cases
  case (create j p now r)
  then show ?thesis using create_tx_created [OF create] by blast
next
  case (bookkeeping f P)
  have "wf_evolves d d'"
    by (rule wf_evolves_update [OF assms(2), of _ P f])
      (use bookkeeping assms(2) in \<open>auto simp: keeps_phase_def wf_move_def resume_ok_def wf_inv_def list_all_iff\<close>)
  then show ?thesis by blast
next
  case (complete i p now v)
  then show ?thesis
    using published_evolves [of i _ p now d d'] wf_evolves_same [OF assms(2), of d'] assms(2)
    by (auto elim!: complete_tx_cases)
qed (use assms(2) in \<open>auto simp: wf_evolves_same cancel_evolves dest: schedule_evolves resume_evolves rotate_evolves start_evolves
    progress_evolves fail_evolves prepare_evolves reset_evolves\<close>)

section \<open>Operations that publish nothing\<close>

definition open_workflow :: "string \<Rightarrow> wdb \<Rightarrow> bool" where
  "open_workflow i d \<longleftrightarrow> (\<exists>w \<in> set (w_workflows d). sw_ID w = i \<and> workflow_open (sw_State w))"

text \<open>
  Apart from creation and publication an operation keeps the manifests and the replicas. It
  leaves open workflows open, or closes one and revokes its capability, or replaces the
  capability of an open one.
\<close>

definition published_same :: "wdb \<Rightarrow> wdb \<Rightarrow> bool" where
  "published_same d d' \<longleftrightarrow> w_manifests d' = w_manifests d \<and> w_copies d' = w_copies d"

inductive minor :: "wdb \<Rightarrow> wdb \<Rightarrow> bool" where
  keeps: "published_same d d' \<Longrightarrow> w_workflows d' = sql_update P f (w_workflows d) \<Longrightarrow>
    \<forall>x \<in> set (w_workflows d). P x \<longrightarrow> sw_ID (f x) = sw_ID x \<and> (sw_State (f x) = sw_State x \<or> workflow_open (sw_State (f x))) \<Longrightarrow>
    w_caps d' = w_caps d \<or> w_caps d' = w_caps (revoke_caps w d) \<Longrightarrow> minor d d'"
| closes: "published_same d d' \<Longrightarrow> w_workflows d' = sql_update P f (w_workflows d) \<Longrightarrow>
    \<forall>x \<in> set (w_workflows d). P x \<longrightarrow> sw_ID x = w \<and> sw_ID (f x) = w \<and> sw_State (f x) \<in> {''failed'', ''cancelled''} \<Longrightarrow>
    w_caps d' = w_caps (revoke_caps w d) \<Longrightarrow> minor d d'"
| rotates: "published_same d d' \<Longrightarrow> w_workflows d' = w_workflows d \<Longrightarrow> open_workflow w d \<Longrightarrow>
    w_caps d' = w_caps (revoke_caps w d) @ [c] \<Longrightarrow> tc_WorkflowID c = w \<Longrightarrow> minor d d'"

lemma minor_same: "published_same d d' \<Longrightarrow> w_workflows d' = w_workflows d \<Longrightarrow> w_caps d' = w_caps d \<Longrightarrow> minor d d'"
  by (rule minor.keeps [where P = "\<lambda>_. False" and f = id]) (simp_all add: sql_update_def)

lemma schedule_minor:
  assumes "schedule_retry_tx w code summary now delay d = Inr (d', n)"
  shows "minor d d'"
proof -
  obtain P f where f: "w_workflows d' = sql_update P f (w_workflows d)" "\<And>x. sw_ID (f x) = sw_ID x" "\<And>x. sw_State (f x) = ''retry_wait''"
    and c: "w_caps d' = w_caps d \<or> w_caps d' = w_caps (revoke_caps w d)" and "published_same d d'"
    using assms unfolding schedule_retry_tx_def Let_def published_same_def by (auto split: option.splits if_splits)
  then show ?thesis by (intro minor.keeps [where P = P and f = f and w = w]) simp_all
qed

lemma resume_minor:
  assumes "resume_retry_tx w now d = Inr (d', u)" and "wf_inv d"
  shows "minor d d'"
proof -
  let ?P = "\<lambda>x :: snapshot_workflow_row. sw_ID x = w \<and> sw_State x = ''retry_wait'' \<and> sw_ResumeState x \<noteq> None \<and> col_le (sw_NextAttemptAt x) now"
  let ?f = "\<lambda>x :: snapshot_workflow_row. x\<lparr>sw_State := the (sw_ResumeState x), sw_ResumeState := None,
    sw_NextAttemptAt := None, sw_ErrorCode := None, sw_ErrorSummary := None, sw_UpdatedAt := now\<rparr>"
  have w: "w_workflows d' = sql_update ?P ?f (w_workflows d)" and c: "w_caps d' = w_caps d" and m: "published_same d d'"
    using assms(1) unfolding resume_retry_tx_def Let_def published_same_def by (auto split: option.splits if_splits)
  have "workflow_open (the (sw_ResumeState x))" if "x \<in> set (w_workflows d)" "?P x" for x
  proof -
    have "resume_ok x" using that(1) assms(2) by (simp add: wf_inv_def list_all_iff)
    then show ?thesis using that(2) by (auto simp: resume_ok_def)
  qed
  then show ?thesis using m w c by (intro minor.keeps [where P = ?P and f = ?f]) simp_all
qed

lemma rotate_minor:
  assumes "rotate_capability_tx w c h e now d = Inr (d', u)"
  shows "minor d d'"
proof -
  obtain r m where r: "sql_find (\<lambda>x. sw_ID x = w \<and> workflow_open (sw_State x) \<and> generation_active (sw_ControllerGeneration x) d) (w_workflows d) = Some r"
    using assms unfolding rotate_capability_tx_def by (auto split: option.splits)
  have "open_workflow w d" using sql_find_Some [OF r] unfolding open_workflow_def by blast
  moreover obtain cap where "w_caps d' = w_caps (revoke_caps w d) @ [cap]" "tc_WorkflowID cap = w" "w_workflows d' = w_workflows d"
    "published_same d d'"
    using assms unfolding rotate_capability_tx_def Let_def published_same_def by (auto split: option.splits if_splits)
  ultimately show ?thesis by (intro minor.rotates [where w = w and c = cap])
qed

lemma start_minor:
  assumes "set_state_tx w ''scheduled'' st now d = Inr (d', u)" and "st \<in> {''quiescing'', ''transferring''}"
  shows "minor d d'"
proof -
  let ?P = "\<lambda>x. sw_ID x = w \<and> sw_State x = ''scheduled'' \<and> generation_active (sw_ControllerGeneration x) d"
  have "w_workflows d' = sql_update ?P (\<lambda>x. x\<lparr>sw_State := st, sw_UpdatedAt := now\<rparr>) (w_workflows d)" "w_caps d' = w_caps d" "published_same d d'"
    using assms(1) unfolding set_state_tx_def Let_def published_same_def by (auto split: if_splits)
  then show ?thesis using assms(2) by (intro minor.keeps [where P = ?P and f = "\<lambda>x. x\<lparr>sw_State := st, sw_UpdatedAt := now\<rparr>"]) auto
qed

lemma progress_minor:
  assumes "progress_tx w i n st now d = Inr (d', u)"
  shows "minor d d'"
  using assms
proof (cases rule: progress_cases)
  case (2 r)
  then show ?thesis by (intro minor.keeps [where P = "\<lambda>x. sw_ID x = w" and f = "\<lambda>x. x\<lparr>sw_State := st, sw_UpdatedAt := now\<rparr>"]) (simp_all add: published_same_def)
qed (simp add: minor_same published_same_def)

lemma cancel_minor: "w_workflows d0 = w_workflows d \<Longrightarrow> w_caps d0 = w_caps d \<Longrightarrow> published_same d d0 \<Longrightarrow>
    minor d (cancelSnapshotWorkflowTx w reason now d0)"
  by (rule minor.closes [where w = w and P = "\<lambda>x. sw_ID x = w \<and> workflow_open (sw_State x)" and
        f = "\<lambda>x. x\<lparr>sw_State := ''cancelled'', sw_ErrorCode := Some ''user_returned'', sw_ErrorSummary := reason,
          sw_CleanupState := ''pending'', sw_LeaseOwner := None, sw_LeaseUntil := None, sw_UpdatedAt := now, sw_FinishedAt := Some now\<rparr>"])
    (simp_all add: cancelSnapshotWorkflowTx_def published_same_def)

lemma fail_minor: "fail_tx w code note now d = Inr (d', u) \<Longrightarrow> minor d d'"
  by (rule minor.closes [where w = w and P = "\<lambda>x. sw_ID x = w \<and> workflow_open (sw_State x)" and f = "fail_row code note now"])
    (simp_all add: fail_effect published_same_def, simp add: fail_row_def)

lemma prepare_minor: "prepare_recovered_tx w g now d = Inr (d', u) \<Longrightarrow> minor d d'"
  by (rule minor.keeps [where P = "recovering w g d" and f = "recover_row now"])
    (simp_all add: prepare_effect published_same_def recover_row_def)

lemma reset_minor:
  assumes "reset_recovered_tx cs rs w g now d = Inr (d', u)"
  shows "minor d d'"
  using assms
proof (cases rule: reset_cases)
  case 1
  then show ?thesis using cancel_minor [of "fence_relays w now d" d] by (simp add: published_same_def)
next
  case (2 r)
  then show ?thesis
    by (intro minor.keeps [where P = "adopted w g" and f = "reset_row rs now" and w = w])
      (simp_all add: published_same_def reset_row_def)
qed

lemma effect_cases:
  assumes "snapshot_effect d d'" and "wf_inv d"
  obtains "minor d d'"
  | p g epoch now where "created p d d' g epoch now"
  | i p now r where "workflow_by_id (cq_WorkflowID p) d = Some r" "sw_State r = ''publishing''" "published i (sw_UserID r) p now d d'"
  using assms(1)
proof cases
  case (create j p now r)
  then show ?thesis using create_tx_created [OF create] that(2) by blast
next
  case (bookkeeping f P)
  have "minor d d'"
    by (rule minor.keeps [where P = P and f = f])
      (use bookkeeping in \<open>simp_all add: published_same_def keeps_phase_def\<close>)
  then show ?thesis by (rule that(1))
next
  case (complete i p now v)
  from complete show ?thesis
    using that(1,3) minor_same [of d d] by (cases rule: complete_tx_cases) (auto simp: published_same_def)
next
  case (steps Q g)
  then show ?thesis using that(1) minor_same [of d d'] by (simp add: published_same_def)
next
  case same
  then show ?thesis using that(1) minor_same [of d d'] by (simp add: published_same_def)
next
  case (cancel w reason now)
  then show ?thesis using that(1) cancel_minor [of d d] by (simp add: published_same_def)
qed (use assms(2) that(1) in \<open>auto dest: schedule_minor resume_minor rotate_minor start_minor progress_minor fail_minor
    prepare_minor reset_minor\<close>)

section \<open>Capabilities\<close>

definition prepared :: "transfer_capability_row \<Rightarrow> bool" where
  "prepared c \<longleftrightarrow> tc_State c = ''prepared''"

definition cap_inv :: "wdb \<Rightarrow> bool" where
  "cap_inv d \<longleftrightarrow> unique_where prepared tc_WorkflowID (w_caps d) \<and>
     (\<forall>c \<in> set (w_caps d). prepared c \<longrightarrow> open_workflow (tc_WorkflowID c) d)"

lemma open_workflow_update:
  assumes "open_workflow i d" and "w_workflows d' = sql_update P f (w_workflows d)"
    and "\<forall>x \<in> set (w_workflows d). P x \<longrightarrow> sw_ID x = i \<longrightarrow> sw_ID (f x) = i \<and> (workflow_open (sw_State x) \<longrightarrow> workflow_open (sw_State (f x)))"
  shows "open_workflow i d'"
proof -
  obtain x where x: "x \<in> set (w_workflows d)" "sw_ID x = i" "workflow_open (sw_State x)"
    using assms(1) unfolding open_workflow_def by blast
  then have "(if P x then f x else x) \<in> set (w_workflows d')" unfolding assms(2) set_sql_update by blast
  moreover have "sw_ID (if P x then f x else x) = i" "workflow_open (sw_State (if P x then f x else x))"
    using x assms(3) by simp_all
  ultimately show ?thesis unfolding open_workflow_def by blast
qed

lemma revoked_caps:
  "c \<in> set (w_caps (revoke_caps w d)) \<Longrightarrow> prepared c \<Longrightarrow> c \<in> set (w_caps d) \<and> tc_WorkflowID c \<noteq> w"
  by (auto simp: in_sql_update cap_prepared_def prepared_def)

lemma revoked_unique: "cap_inv d \<Longrightarrow> unique_where prepared tc_WorkflowID (w_caps (revoke_caps w d))"
  by (simp add: cap_inv_def) (rule unique_where_update, auto simp: prepared_def)

lemma minor_cap_inv:
  assumes "minor d d'" and "cap_inv d"
  shows "cap_inv d'"
  using assms(1)
proof cases
  case (keeps P f w)
  have "open_workflow i d'" if "open_workflow i d" for i
    using that keeps(2) by (rule open_workflow_update) (use keeps(3) in auto)
  then show ?thesis
    using keeps(4) assms(2) revoked_unique [OF assms(2), of w] revoked_caps [of _ w d] unfolding cap_inv_def by metis
next
  case (closes P f w)
  have "open_workflow i d'" if "open_workflow i d" "i \<noteq> w" for i
    using that(1) closes(2) by (rule open_workflow_update) (use closes(3) that(2) in auto)
  then show ?thesis
    using closes(4) assms(2) revoked_unique [OF assms(2), of w] revoked_caps [of _ w d] unfolding cap_inv_def by metis
next
  case (rotates w c)
  have o: "open_workflow i d'" if "open_workflow i d" for i using that rotates(2) by (simp add: open_workflow_def)
  have u: "unique_where prepared tc_WorkflowID (w_caps d')"
    unfolding rotates(4)
    by (rule unique_where_insert [OF revoked_unique [OF assms(2)]]) (use revoked_caps rotates(5) in blast)
  have "open_workflow (tc_WorkflowID x) d'" if x: "x \<in> set (w_caps d')" "prepared x" for x
  proof (cases "x = c")
    case True
    then show ?thesis using o rotates(3,5) by simp
  next
    case False
    then have "x \<in> set (w_caps (revoke_caps w d))" using x(1) rotates(4) by simp
    then have "x \<in> set (w_caps d)" using revoked_caps x(2) by blast
    then show ?thesis using o assms(2) x(2) unfolding cap_inv_def by blast
  qed
  then show ?thesis using u unfolding cap_inv_def by blast
qed

lemma created_cap_inv:
  assumes "created p d d' g epoch now" and "cap_inv d"
  shows "cap_inv d'"
proof -
  have c: "w_caps d' = w_caps d @ [new_cap p g now]" and w: "w_workflows d' = w_workflows d @ [new_workflow p g epoch now]"
    and f: "\<forall>x \<in> set (w_caps d). \<not> cap_prepared (sq_WorkflowID p) x"
    using assms(1) by (simp_all add: created_def)
  have o: "open_workflow i d'" if "open_workflow i d" for i using that by (auto simp: open_workflow_def w)
  have n: "open_workflow (sq_WorkflowID p) d'" by (simp add: open_workflow_def w new_workflow_def)
  have "unique_where prepared tc_WorkflowID (w_caps d')"
    unfolding c by (rule unique_where_insert) (use assms(2) f in \<open>auto simp: cap_inv_def cap_prepared_def prepared_def new_cap_def\<close>)
  moreover have "tc_WorkflowID (new_cap p g now) = sq_WorkflowID p" by (simp add: new_cap_def)
  ultimately show ?thesis using o n assms(2) c by (auto simp: cap_inv_def)
qed

lemma published_cap_inv:
  assumes "published i u p now d d'" and "cap_inv d"
  shows "cap_inv d'"
proof -
  have c: "w_caps d' = sql_update (cap_of_hash p) (\<lambda>c. c\<lparr>tc_State := ''consumed'', tc_ConsumedAt := Some now\<rparr>) (w_caps d)"
    and w: "w_workflows d' = sql_update (\<lambda>w. sw_ID w = cq_WorkflowID p) (succeed_workflow now) (w_workflows d)"
    and one: "sql_count (cap_of_hash p) (w_caps d) = 1"
    using assms(1) by (simp_all add: published_def)
  have left: "x \<in> set (w_caps d) \<and> \<not> cap_of_hash p x" if "x \<in> set (w_caps d')" "prepared x" for x
    using that unfolding c by (auto simp: in_sql_update prepared_def)
  have "0 < sql_count (cap_of_hash p) (w_caps d)" using one by simp
  then obtain used where used: "used \<in> set (w_caps d)" "cap_of_hash p used" unfolding sql_count_pos by blast
  have other: "tc_WorkflowID x \<noteq> cq_WorkflowID p" if x: "x \<in> set (w_caps d')" "prepared x" for x
  proof
    assume "tc_WorkflowID x = cq_WorkflowID p"
    moreover have "prepared used" "tc_WorkflowID used = cq_WorkflowID p" using used(2) by (simp_all add: cap_of_hash_def prepared_def)
    ultimately have "x = used"
      using unique_where_unique [of prepared tc_WorkflowID "w_caps d" x used] assms(2) left [OF x] used(1) x(2) unfolding cap_inv_def by simp
    then show False using left [OF x] used(2) by simp
  qed
  have o: "open_workflow i d'" if "open_workflow i d" "i \<noteq> cq_WorkflowID p" for i
    using that(1) w by (rule open_workflow_update) (use that(2) in auto)
  have "unique_where prepared tc_WorkflowID (w_caps d')"
    unfolding c by (rule unique_where_update) (use assms(2) in \<open>auto simp: cap_inv_def prepared_def\<close>)
  then show ?thesis using o other left assms(2) unfolding cap_inv_def by blast
qed

section \<open>Manifests and replicas\<close>

definition refers_ok :: "manifest_row list \<Rightarrow> copy_row \<Rightarrow> bool" where
  "refers_ok ms c \<longleftrightarrow> (case cp_SnapshotID c of None \<Rightarrow> True | Some i \<Rightarrow>
     list_ex (\<lambda>m. sm_ID m = i \<and> sm_State m \<noteq> ''building'' \<and> (cp_State c = ''ready'' \<longrightarrow> sm_State m = ''immutable'')) ms)"

definition ready_archive :: "copy_row \<Rightarrow> bool" where
  "ready_archive c \<longleftrightarrow> cp_Kind c = ''archive'' \<and> cp_State c = ''ready''"

definition place :: "copy_row \<Rightarrow> int \<times> int" where
  "place c = (cp_UserID c, cp_NodeID c)"

definition succeeded_sealed :: "wdb \<Rightarrow> bool" where
  "succeeded_sealed d \<longleftrightarrow> (\<forall>w \<in> set (w_workflows d). \<forall>m \<in> set (w_manifests d).
     sw_State w = ''succeeded'' \<and> sm_WorkflowID m = sw_ID w \<longrightarrow> sm_State m \<noteq> ''building'')"

definition copy_inv :: "wdb \<Rightarrow> bool" where
  "copy_inv d \<longleftrightarrow> keyed sm_ID (w_manifests d) \<and> keyed sm_WorkflowID (w_manifests d) \<and> keyed place (w_copies d) \<and>
     unique_where (\<lambda>c. cp_SnapshotID c \<noteq> None) cp_SnapshotID (w_copies d) \<and>
     unique_where ready_archive cp_UserID (w_copies d) \<and> list_all (refers_ok (w_manifests d)) (w_copies d) \<and> succeeded_sealed d"

text \<open>A sealed manifest keeps its content and is at most marked as deleted.\<close>

definition manifest_move :: "manifest_row \<Rightarrow> manifest_row \<Rightarrow> bool" where
  "manifest_move m m' \<longleftrightarrow> sm_ID m' = sm_ID m \<and> sm_WorkflowID m' = sm_WorkflowID m \<and> sm_UserID m' = sm_UserID m \<and>
     (if sm_State m = ''building'' then sm_State m' \<in> {''building'', ''immutable'', ''deleted''}
      else m' = m \<or> m' = m\<lparr>sm_State := ''deleted''\<rparr>)"

lemma refers_okE:
  assumes "refers_ok ms c" and "cp_SnapshotID c = Some i"
  obtains m where "m \<in> set ms" "sm_ID m = i" "sm_State m \<noteq> ''building''" "cp_State c = ''ready'' \<Longrightarrow> sm_State m = ''immutable''"
  using assms by (auto simp: refers_ok_def list_ex_iff)

lemma refers_okI:
  "cp_SnapshotID c = Some i \<Longrightarrow> m \<in> set ms \<Longrightarrow> sm_ID m = i \<Longrightarrow> sm_State m \<noteq> ''building'' \<Longrightarrow>
   (cp_State c = ''ready'' \<Longrightarrow> sm_State m = ''immutable'') \<Longrightarrow> refers_ok ms c"
  by (auto simp: refers_ok_def list_ex_iff)

lemma unique_whereI:
  "distinct t \<Longrightarrow> (\<And>r q. r \<in> set t \<Longrightarrow> q \<in> set t \<Longrightarrow> P r \<Longrightarrow> P q \<Longrightarrow> k r = k q \<Longrightarrow> r = q) \<Longrightarrow> unique_where P k t"
  by (auto simp: unique_where_def keyed_def distinct_map inj_on_def)

lemma keyed_distinct: "keyed k t \<Longrightarrow> distinct t"
  by (auto simp: keyed_def distinct_map)

text \<open>Operations other than publication.\<close>

lemma minor_sealed:
  assumes "minor d d'" and "succeeded_sealed d"
  shows "succeeded_sealed d'"
proof -
  have m: "w_manifests d' = w_manifests d" using assms(1) by (rule minor.cases) (simp_all add: published_same_def)
  have "\<exists>x \<in> set (w_workflows d). sw_ID x = sw_ID w \<and> sw_State x = ''succeeded''"
    if w: "w \<in> set (w_workflows d')" "sw_State w = ''succeeded''" for w
    using assms(1)
  proof cases
    case (keeps P f i)
    from w(1) obtain x where x: "x \<in> set (w_workflows d)" "w = (if P x then f x else x)"
      unfolding keeps(2) set_sql_update by blast
    then have "sw_ID x = sw_ID w \<and> sw_State x = ''succeeded''"
      using keeps(3) w(2) by (cases "P x") (force simp: workflow_open_def terminal_states_def)+
    then show ?thesis using x(1) by blast
  next
    case (closes P f i)
    from w(1) obtain x where x: "x \<in> set (w_workflows d)" "w = (if P x then f x else x)"
      unfolding closes(2) set_sql_update by blast
    then have "sw_ID x = sw_ID w \<and> sw_State x = ''succeeded''"
      using closes(3) w(2) by (cases "P x") force+
    then show ?thesis using x(1) by blast
  next
    case (rotates i c)
    then show ?thesis using w by auto
  qed
  then show ?thesis using assms(2) m unfolding succeeded_sealed_def by metis
qed

lemma minor_same_published: "minor d d' \<Longrightarrow> w_manifests d' = w_manifests d \<and> w_copies d' = w_copies d"
  by (erule minor.cases) (simp_all add: published_same_def)

lemma minor_copy_inv: "minor d d' \<Longrightarrow> copy_inv d \<Longrightarrow> copy_inv d'"
  using minor_sealed [of d d'] minor_same_published [of d d'] by (simp add: copy_inv_def)

lemma created_copy_inv:
  assumes "created p d d' g epoch now" and "copy_inv d"
  shows "copy_inv d'"
proof -
  have m: "w_manifests d' = w_manifests d @ [new_manifest p epoch]" "w_copies d' = w_copies d"
    and w: "w_workflows d' = w_workflows d @ [new_workflow p g epoch now]"
    and f: "\<forall>x \<in> set (w_manifests d). sm_ID x \<noteq> sq_SnapshotID p \<and> sm_WorkflowID x \<noteq> sq_WorkflowID p"
    and fw: "\<forall>x \<in> set (w_workflows d). sw_ID x \<noteq> sq_WorkflowID p"
    using assms(1) by (simp_all add: created_def)
  have "refers_ok (w_manifests d') c" if "refers_ok (w_manifests d) c" for c
    using that by (auto simp: refers_ok_def m split: option.splits)
  then have "list_all (refers_ok (w_manifests d')) (w_copies d')" using assms(2) m(2) by (auto simp: copy_inv_def list_all_iff)
  moreover have "succeeded_sealed d'"
    using assms(2) fw unfolding succeeded_sealed_def copy_inv_def m w by (auto simp: new_workflow_def new_manifest_def)
  moreover have "keyed sm_ID (w_manifests d')" "keyed sm_WorkflowID (w_manifests d')"
    using assms(2) f m(1) by (auto simp: copy_inv_def keyed_append new_manifest_def)
  ultimately show ?thesis using assms(2) m(2) by (simp add: copy_inv_def)
qed

text \<open>Publication.\<close>

lemma staled_rows:
  assumes "c \<in> set (archives_staled u p now t)"
  obtains b where "b \<in> set t" "place b = place c" "cp_SnapshotID c = cp_SnapshotID b" "cp_Kind c = cp_Kind b"
    "cp_State c = ''ready'' \<Longrightarrow> cp_State b = ''ready'' \<and> \<not> (cq_ReplicaKind p = ''archive'' \<and> stale_archive u (cq_TargetNodeID p) b)"
proof (cases "cq_ReplicaKind p = ''archive''")
  case True
  then have "c \<in> set (sql_update (stale_archive u (cq_TargetNodeID p)) (\<lambda>c. c\<lparr>cp_State := ''stale'', cp_UpdatedAt := now\<rparr>) t)"
    using assms by (simp add: archives_staled_def stale_copies_def)
  then show ?thesis
  proof (unfold in_sql_update, elim disjE bexE conjE)
    assume "c \<in> set t" "\<not> stale_archive u (cq_TargetNodeID p) c"
    then show ?thesis by (intro that [of c]) simp_all
  next
    fix q assume "q \<in> set t" "c = q\<lparr>cp_State := ''stale'', cp_UpdatedAt := now\<rparr>"
    then show ?thesis by (intro that [of q]) (simp_all add: place_def)
  qed
next
  case False
  then show ?thesis using assms by (intro that [of c]) (simp_all add: archives_staled_def)
qed

lemma staled_places: "map place (archives_staled u p now t) = map place t"
  by (simp add: archives_staled_def stale_copies_def) (simp add: map_sql_update place_def)

lemma put_rows:
  assumes "c \<in> set (put_copy i u p now t)"
  obtains "c \<in> set t" "\<not> copy_at u (cq_TargetNodeID p) c"
  | "place c = (u, cq_TargetNodeID p)" "cp_SnapshotID c = Some (cq_SnapshotID p)" "cp_Kind c = cq_ReplicaKind p" "cp_State c = ''ready''"
proof (cases "sql_exists (copy_at u (cq_TargetNodeID p)) t")
  case True
  then have "c \<in> set (sql_update (copy_at u (cq_TargetNodeID p)) (published_copy p now) t)"
    using assms by (simp add: put_copy_def)
  then show ?thesis
  proof (unfold in_sql_update, elim disjE bexE conjE)
    fix q assume "q \<in> set t" "copy_at u (cq_TargetNodeID p) q" "c = published_copy p now q"
    then show ?thesis by (intro that(2)) (simp_all add: published_copy_def place_def copy_at_def)
  qed (rule that(1))
next
  case False
  then have "c \<in> set t \<and> \<not> copy_at u (cq_TargetNodeID p) c \<or> c = new_copy i u p now"
    using assms by (auto simp: put_copy_def sql_exists_iff)
  then show ?thesis using that by (auto simp: new_copy_def published_copy_def place_def)
qed

lemma put_places:
  assumes "keyed place t"
  shows "keyed place (put_copy i u p now t)"
proof (cases "sql_exists (copy_at u (cq_TargetNodeID p)) t")
  case True
  then show ?thesis using assms by (simp add: put_copy_def keyed_update place_def published_copy_def)
next
  case False
  then show ?thesis using assms
    by (auto simp: put_copy_def keyed_append sql_exists_iff copy_at_def place_def new_copy_def published_copy_def)
qed

lemma in_drop_manifest: "m \<in> set t \<Longrightarrow> old \<noteq> Some (sm_ID m) \<or> sm_ID m = cq_SnapshotID p \<Longrightarrow> m \<in> set (drop_manifest old p t)"
  by (auto simp: drop_manifest_def in_sql_update)

text \<open>The manifest that is sealed is in use by no replica, and the one that is dropped by no other.\<close>

lemma published_manifests:
  assumes "published i u p now d d'" and "copy_inv d"
  obtains m where "m \<in> set (w_manifests d)" "building p m" "seal_manifest p m \<in> set (w_manifests d')"
proof -
  have "0 < sql_count (building p) (w_manifests d)" using assms(1) by (simp add: published_def)
  then obtain m where m: "m \<in> set (w_manifests d)" "building p m" unfolding sql_count_pos by blast
  then have "seal_manifest p m \<in> set (sql_update (building p) (seal_manifest p) (w_manifests d))" unfolding in_sql_update by blast
  moreover have "sm_ID (seal_manifest p m) = cq_SnapshotID p" using m(2) by (simp add: seal_manifest_def building_def)
  ultimately have "seal_manifest p m \<in> set (w_manifests d')"
    using assms(1) in_drop_manifest unfolding published_def by metis
  then show ?thesis using m that by blast
qed

lemma manifest_survives:
  assumes "published i u p now d d'" and "m \<in> set (w_manifests d)" and "sm_State m \<noteq> ''building''"
    and "replaced_snapshot u p d \<noteq> Some (sm_ID m)"
  shows "m \<in> set (w_manifests d')"
proof -
  have "\<not> building p m" using assms(3) by (simp add: building_def)
  then have "m \<in> set (sql_update (building p) (seal_manifest p) (w_manifests d))" using assms(2) unfolding in_sql_update by blast
  then show ?thesis using assms(1,4) in_drop_manifest unfolding published_def by metis
qed

lemma published_refers:
  assumes "published i u p now d d'" and "copy_inv d" and "c \<in> set (w_copies d')"
  shows "refers_ok (w_manifests d') c"
proof -
  have c: "c \<in> set (put_copy i u p now (archives_staled u p now (w_copies d)))" using assms(1,3) by (simp add: published_def)
  from c show ?thesis
  proof (cases rule: put_rows)
    case 1
    obtain b where b: "b \<in> set (w_copies d)" "place b = place c" "cp_SnapshotID c = cp_SnapshotID b"
      "cp_State c = ''ready'' \<Longrightarrow> cp_State b = ''ready''"
      using staled_rows [OF 1(1)] by metis
    show ?thesis
    proof (cases "cp_SnapshotID c")
      case None
      then show ?thesis by (simp add: refers_ok_def)
    next
      case (Some s)
      have "refers_ok (w_manifests d) b" using assms(2) b(1) by (simp add: copy_inv_def list_all_iff)
      then obtain m where m: "m \<in> set (w_manifests d)" "sm_ID m = s" "sm_State m \<noteq> ''building''"
        "cp_State b = ''ready'' \<Longrightarrow> sm_State m = ''immutable''"
        using Some b(3) by (metis refers_okE)
      have bs: "cp_SnapshotID b = Some s" using b(3) Some by simp
      have "replaced_snapshot u p d \<noteq> Some s"
      proof
        assume "replaced_snapshot u p d = Some s"
        then obtain o' where f: "sql_find (copy_at u (cq_TargetNodeID p)) (w_copies d) = Some o'" and o: "cp_SnapshotID o' = Some s"
          unfolding replaced_snapshot_def by (auto simp: bind_eq_Some_conv)
        have "o' \<in> set (w_copies d)" "copy_at u (cq_TargetNodeID p) o'" using sql_find_Some [OF f] by simp_all
        moreover from this have "o' = b"
          using unique_where_unique [of "\<lambda>c. cp_SnapshotID c \<noteq> None" cp_SnapshotID "w_copies d" o' b] assms(2) b(1) o bs
          by (simp add: copy_inv_def)
        ultimately show False using 1(2) b(2) by (simp add: copy_at_def place_def)
      qed
      then have "m \<in> set (w_manifests d')" using manifest_survives [OF assms(1) m(1,3)] m(2) by simp
      then show ?thesis using Some m b(4) by (intro refers_okI [of c s m]) simp_all
    qed
  next
    case 2
    obtain m where "m \<in> set (w_manifests d)" "building p m" "seal_manifest p m \<in> set (w_manifests d')"
      using published_manifests [OF assms(1,2)] .
    then show ?thesis using 2
      by (intro refers_okI [of c "cq_SnapshotID p" "seal_manifest p m"]) (simp_all add: seal_manifest_def building_def)
  qed
qed

text \<open>No replica other than the published one has the new snapshot.\<close>

lemma published_snapshot_new:
  assumes "published i u p now d d'" and "copy_inv d" and "b \<in> set (w_copies d)"
  shows "cp_SnapshotID b \<noteq> Some (cq_SnapshotID p)"
proof
  assume s: "cp_SnapshotID b = Some (cq_SnapshotID p)"
  have "refers_ok (w_manifests d) b" using assms(2,3) by (simp add: copy_inv_def list_all_iff)
  then obtain m where m: "m \<in> set (w_manifests d)" "sm_ID m = cq_SnapshotID p" "sm_State m \<noteq> ''building''"
    using s by (metis refers_okE)
  obtain n where n: "n \<in> set (w_manifests d)" "building p n" using published_manifests [OF assms(1,2)] .
  have "keyed sm_ID (w_manifests d)" using assms(2) by (simp add: copy_inv_def)
  from keyed_unique [OF this m(1) n(1)] have "m = n" using m(2) n(2) by (simp add: building_def)
  then show False using m(3) n(2) by (simp add: building_def)
qed

text \<open>Where the replicas come from: an old row that is not superseded, or the published one.\<close>

lemma published_rows:
  assumes "published i u p now d d'" and "z \<in> set (w_copies d')"
  obtains b where "b \<in> set (w_copies d)" "place b = place z" "cp_SnapshotID b = cp_SnapshotID z" "cp_Kind b = cp_Kind z"
      "cp_State z = ''ready'' \<Longrightarrow> cp_State b = ''ready'' \<and> \<not> (cq_ReplicaKind p = ''archive'' \<and> stale_archive u (cq_TargetNodeID p) b)"
  | "place z = (u, cq_TargetNodeID p)" "cp_SnapshotID z = Some (cq_SnapshotID p)" "cp_Kind z = cq_ReplicaKind p"
proof -
  have "z \<in> set (put_copy i u p now (archives_staled u p now (w_copies d)))" using assms by (simp add: published_def)
  then show ?thesis
  proof (cases rule: put_rows)
    case 1
    show ?thesis by (rule staled_rows [OF 1(1)]) (rule that(1), simp_all)
  next
    case 2
    then show ?thesis by (intro that(2))
  qed
qed

lemma published_places:
  assumes "published i u p now d d'" and "copy_inv d"
  shows "keyed place (w_copies d')"
proof -
  have "keyed place (archives_staled u p now (w_copies d))"
    using assms(2) staled_places [of u p now "w_copies d"] by (simp add: keyed_def copy_inv_def)
  then show ?thesis using assms(1) put_places by (simp add: published_def)
qed

lemma published_snapshots_unique:
  assumes "published i u p now d d'" and "copy_inv d"
  shows "unique_where (\<lambda>c. cp_SnapshotID c \<noteq> None) cp_SnapshotID (w_copies d')"
proof (rule unique_whereI [OF keyed_distinct [OF published_places [OF assms]]])
  fix x y assume xy: "x \<in> set (w_copies d')" "y \<in> set (w_copies d')" "cp_SnapshotID x \<noteq> None" "cp_SnapshotID x = cp_SnapshotID y"
  have old: "unique_where (\<lambda>c. cp_SnapshotID c \<noteq> None) cp_SnapshotID (w_copies d)" using assms(2) by (simp add: copy_inv_def)
  have "place x = place y"
  proof (rule published_rows [OF assms(1) xy(1)]; rule published_rows [OF assms(1) xy(2)])
    fix b e assume "b \<in> set (w_copies d)" "place b = place x" "cp_SnapshotID b = cp_SnapshotID x"
      "e \<in> set (w_copies d)" "place e = place y" "cp_SnapshotID e = cp_SnapshotID y"
    moreover from this have "b = e" using unique_where_unique [OF old, of b e] xy(3,4) by simp
    ultimately show ?thesis by simp
  qed (use published_snapshot_new [OF assms] xy(4) in auto)
  then show "x = y" using keyed_unique [OF published_places [OF assms] xy(1,2)] by simp
qed

lemma published_archives_unique:
  assumes "published i u p now d d'" and "copy_inv d"
  shows "unique_where ready_archive cp_UserID (w_copies d')"
proof (rule unique_whereI [OF keyed_distinct [OF published_places [OF assms]]])
  fix x y assume xy: "x \<in> set (w_copies d')" "y \<in> set (w_copies d')" "ready_archive x" "ready_archive y" "cp_UserID x = cp_UserID y"
  have old: "unique_where ready_archive cp_UserID (w_copies d)" using assms(2) by (simp add: copy_inv_def)
  have r: "cp_State x = ''ready''" "cp_State y = ''ready''" "cp_Kind x = ''archive''" "cp_Kind y = ''archive''"
    using xy(3,4) by (simp_all add: ready_archive_def)
  have mixed: "place b = place z"
    if "cp_Kind b = ''archive''" "place b = place w" "cp_UserID w = cp_UserID z" "place z = (u, cq_TargetNodeID p)"
      "cp_Kind z = cq_ReplicaKind p" "cp_Kind z = ''archive''"
      "cp_State b = ''ready'' \<and> \<not> (cq_ReplicaKind p = ''archive'' \<and> stale_archive u (cq_TargetNodeID p) b)" for b w z
    using that by (auto simp: stale_archive_def place_def)
  have "place x = place y"
  proof (rule published_rows [OF assms(1) xy(1)]; rule published_rows [OF assms(1) xy(2)])
    fix b e assume b: "b \<in> set (w_copies d)" "place b = place x" "cp_Kind b = cp_Kind x" "e \<in> set (w_copies d)" "place e = place y"
      "cp_Kind e = cp_Kind y"
      "cp_State x = ''ready'' \<Longrightarrow> cp_State b = ''ready'' \<and> \<not> (cq_ReplicaKind p = ''archive'' \<and> stale_archive u (cq_TargetNodeID p) b)"
      "cp_State y = ''ready'' \<Longrightarrow> cp_State e = ''ready'' \<and> \<not> (cq_ReplicaKind p = ''archive'' \<and> stale_archive u (cq_TargetNodeID p) e)"
    then have "b = e"
      using unique_where_unique [OF old, of b e] xy(5) r by (simp add: ready_archive_def place_def)
    then show ?thesis using b by simp
  next
    fix b assume "place b = place x" "cp_Kind b = cp_Kind x" "place y = (u, cq_TargetNodeID p)" "cp_Kind y = cq_ReplicaKind p"
      "cp_State x = ''ready'' \<Longrightarrow> cp_State b = ''ready'' \<and> \<not> (cq_ReplicaKind p = ''archive'' \<and> stale_archive u (cq_TargetNodeID p) b)"
    then show ?thesis using mixed [of b x y] r xy(5) by simp
  next
    fix e assume "place e = place y" "cp_Kind e = cp_Kind y" "place x = (u, cq_TargetNodeID p)" "cp_Kind x = cq_ReplicaKind p"
      "cp_State y = ''ready'' \<Longrightarrow> cp_State e = ''ready'' \<and> \<not> (cq_ReplicaKind p = ''archive'' \<and> stale_archive u (cq_TargetNodeID p) e)"
    then show ?thesis using mixed [of e y x] r xy(5) by simp
  qed simp
  then show "x = y" using keyed_unique [OF published_places [OF assms] xy(1,2)] by simp
qed

lemma published_sealed:
  assumes "published i u p now d d'" and "copy_inv d"
  shows "succeeded_sealed d'"
  unfolding succeeded_sealed_def
proof (intro ballI impI)
  fix w m' assume w: "w \<in> set (w_workflows d')" and m': "m' \<in> set (w_manifests d')"
    and h: "sw_State w = ''succeeded'' \<and> sm_WorkflowID m' = sw_ID w"
  have "m' \<in> set (drop_manifest (replaced_snapshot u p d) p (sql_update (building p) (seal_manifest p) (w_manifests d)))"
    using assms(1) m' by (simp add: published_def)
  then consider m where "m \<in> set (w_manifests d)" "m' = m" "\<not> building p m" | "sm_State m' \<noteq> ''building''"
    unfolding drop_manifest_def by (auto simp: in_sql_update seal_manifest_def)
  then show "sm_State m' \<noteq> ''building''"
  proof cases
    case (1 m)
    show ?thesis
    proof (cases "sw_ID w = cq_WorkflowID p")
      case True
      obtain n where n: "n \<in> set (w_manifests d)" "building p n" using published_manifests [OF assms] .
      have "keyed sm_WorkflowID (w_manifests d)" using assms(2) by (simp add: copy_inv_def)
      from keyed_unique [OF this 1(1) n(1)] have "m = n" using True h 1(2) n(2) by (simp add: building_def)
      then show ?thesis using 1(3) n(2) by simp
    next
      case False
      have "w \<in> set (sql_update (\<lambda>w. sw_ID w = cq_WorkflowID p) (succeed_workflow now) (w_workflows d))"
        using w assms(1) by (simp add: published_def)
      then have "w \<in> set (w_workflows d)" using False by (auto simp: in_sql_update succeed_workflow_def)
      then show ?thesis using assms(2) 1 h by (auto simp: copy_inv_def succeeded_sealed_def)
    qed
  qed
qed

lemma published_copy_inv:
  assumes "published i u p now d d'" and "copy_inv d"
  shows "copy_inv d'"
proof -
  have m: "w_manifests d' = drop_manifest (replaced_snapshot u p d) p (sql_update (building p) (seal_manifest p) (w_manifests d))"
    using assms(1) by (simp add: published_def)
  have "map k (w_manifests d') = map k (w_manifests d)" if "\<And>m. k (seal_manifest p m) = k m" "\<And>m s. k (m\<lparr>sm_State := s\<rparr>) = k m" for k :: "manifest_row \<Rightarrow> string"
    unfolding m drop_manifest_def using that by (simp add: map_sql_update)
  from this [of sm_ID] this [of sm_WorkflowID]
  have "keyed sm_ID (w_manifests d')" "keyed sm_WorkflowID (w_manifests d')"
    using assms(2) by (simp_all add: keyed_def copy_inv_def seal_manifest_def)
  moreover have "list_all (refers_ok (w_manifests d')) (w_copies d')"
    using published_refers [OF assms] by (simp add: list_all_iff)
  ultimately show ?thesis
    using published_places [OF assms] published_snapshots_unique [OF assms] published_archives_unique [OF assms] published_sealed [OF assms]
    by (simp add: copy_inv_def)
qed

section \<open>Everything together\<close>

definition snapshot_inv :: "wdb \<Rightarrow> bool" where
  "snapshot_inv d \<longleftrightarrow> wf_inv d \<and> cap_inv d \<and> copy_inv d"

lemma effect_inv:
  assumes "snapshot_effect d d'" and "snapshot_inv d"
  shows "snapshot_inv d'"
proof -
  have d: "wf_inv d" "cap_inv d" "copy_inv d" using assms(2) by (simp_all add: snapshot_inv_def)
  from effect_evolves [OF assms(1) d(1)] have w: "wf_inv d'"
  proof
    assume "wf_evolves d d'"
    then show ?thesis by (rule wf_inv_evolves [OF d(1)])
  next
    assume "\<exists>p g epoch now. created p d d' g epoch now"
    then show ?thesis using wf_inv_created [OF d(1)] by blast
  qed
  from assms(1) d(1) have "cap_inv d' \<and> copy_inv d'"
  proof (cases rule: effect_cases)
    case 1
    then show ?thesis using minor_cap_inv [OF 1] minor_copy_inv [OF 1] d by simp
  next
    case (2 p g epoch now)
    then show ?thesis using created_cap_inv [OF 2] created_copy_inv [OF 2] d by simp
  next
    case (3 i p now r)
    then show ?thesis using published_cap_inv [OF 3(3)] published_copy_inv [OF 3(3)] d by simp
  qed
  then show ?thesis using w by (simp add: snapshot_inv_def)
qed

text \<open>The relay operations touch none of these tables.\<close>

definition relays_only :: "wdb \<Rightarrow> wdb \<Rightarrow> bool" where
  "relays_only d d' \<longleftrightarrow> w_workflows d' = w_workflows d \<and> w_caps d' = w_caps d \<and> w_manifests d' = w_manifests d \<and> w_copies d' = w_copies d"

lemma relays_only_inv: "relays_only d d' \<Longrightarrow> snapshot_inv d \<Longrightarrow> snapshot_inv d'"
  by (simp add: relays_only_def snapshot_inv_def wf_inv_def cap_inv_def copy_inv_def open_workflow_def succeeded_sealed_def)

lemma relays_only_update: "relays_only d d" "relays_only d (update_relays P f d)" "relays_only d (d\<lparr>w_relays := rs\<rparr>)"
  by (simp_all add: relays_only_def update_relays_def)

lemma relays_only_claim: "relays_only d (case claim_relay P f d of Some (d', r) \<Rightarrow> d' | None \<Rightarrow> d)"
  by (simp add: claim_relay_def relays_only_update split: option.split)

lemma fst_claim: "fst (case claim_relay P f d of Some (d', r) \<Rightarrow> (d', g r) | None \<Rightarrow> (d, e)) =
    (case claim_relay P f d of Some (d', r) \<Rightarrow> d' | None \<Rightarrow> d)"
  by (simp split: option.split prod.split)

lemma relays_only_upload: "relays_only d (fst (claim_upload claimable clock i h n c a now ttl d))"
  by (simp add: claim_upload_def Let_def fst_claim relays_only_claim relays_only_update)

lemma relays_only_insert: "relays_only d (fst (insert_relay p now sel d))"
  by (simp add: insert_relay_def Let_def relays_only_update split: option.split prod.split)

lemma relay_step_only: "relays_only d (relay_step e d)"
proof (cases e)
  case (FinishDownload clock i h now)
  show ?thesis unfolding FinishDownload relay_step.simps CompleteRelayDownload_def Let_def
    by (simp add: relays_only_update split: option.split)
next
  case (ExpireRelays clock flt skip now limit)
  show ?thesis unfolding ExpireRelays relay_step.simps ExpireRelayTransfers_def Let_def
    by (rule fst_run_tx) (auto simp: relays_only_update)
qed (simp_all add: CreateRelayTransfer_def CreateConflictRelayTransfer_def ClaimRelayUpload_def ClaimRelayMultipartUpload_def
    CompleteRelayUpload_def ReleaseRelayUpload_def ClaimRelayDownload_def ContinueRelayDownload_def ReleaseRelayDownload_def
    ClampRelayDownloadLease_def RenewRelayDownload_def Let_def relays_only_upload relays_only_insert fst_claim relays_only_claim
    relays_only_update)

interpretation snapshots: transitions wstep snapshot_inv
proof
  fix d e assume "snapshot_inv d"
  then show "snapshot_inv (wstep e d)"
    by (cases e) (simp_all add: relays_only_inv [OF relay_step_only] effect_inv [OF snapshot_step_effect])
qed

text \<open>What a run makes of a workflow and of a manifest.\<close>

definition workflow_runs :: "wdb \<Rightarrow> wdb \<Rightarrow> bool" where
  "workflow_runs d d' \<longleftrightarrow> (\<forall>w \<in> set (w_workflows d). \<exists>w' \<in> set (w_workflows d'). sw_ID w' = sw_ID w \<and> sw_Type w' = sw_Type w \<and>
     sw_UserID w' = sw_UserID w \<and> wf_path (sw_State w) (sw_State w'))"

definition manifests_run :: "wdb \<Rightarrow> wdb \<Rightarrow> bool" where
  "manifests_run d d' \<longleftrightarrow> (\<forall>m \<in> set (w_manifests d). \<exists>m' \<in> set (w_manifests d'). manifest_move m m')"

lemma manifest_move_refl: "manifest_move m m"
  by (simp add: manifest_move_def)

lemma wf_path_trans: "wf_path a b \<Longrightarrow> wf_path b c \<Longrightarrow> wf_path a c"
  unfolding wf_path_def by (rule rtranclp_trans)

lemma workflow_runs_trans:
  assumes "workflow_runs a b" and "workflow_runs b c"
  shows "workflow_runs a c"
  unfolding workflow_runs_def
proof
  fix w assume "w \<in> set (w_workflows a)"
  then obtain v where v: "v \<in> set (w_workflows b)" "sw_ID v = sw_ID w" "sw_Type v = sw_Type w" "sw_UserID v = sw_UserID w"
    "wf_path (sw_State w) (sw_State v)" using assms(1) unfolding workflow_runs_def by blast
  then obtain u where u: "u \<in> set (w_workflows c)" "sw_ID u = sw_ID v" "sw_Type u = sw_Type v" "sw_UserID u = sw_UserID v"
    "wf_path (sw_State v) (sw_State u)" using assms(2) unfolding workflow_runs_def by blast
  then show "\<exists>w' \<in> set (w_workflows c). sw_ID w' = sw_ID w \<and> sw_Type w' = sw_Type w \<and> sw_UserID w' = sw_UserID w \<and>
      wf_path (sw_State w) (sw_State w')"
    using v wf_path_trans by (intro bexI [of _ u]) auto
qed

lemma manifest_move_trans:
  assumes "manifest_move a b" and "manifest_move b c"
  shows "manifest_move a c"
proof (cases "sm_State a = ''building''")
  case True
  then have "sm_State b \<in> {''building'', ''immutable'', ''deleted''}" using assms(1) by (simp add: manifest_move_def)
  then have "sm_State c \<in> {''building'', ''immutable'', ''deleted''}"
    using assms(2) by (cases "sm_State b = ''building''") (auto simp: manifest_move_def)
  then show ?thesis using True assms by (simp add: manifest_move_def)
next
  case False
  then have b: "b = a \<or> b = a\<lparr>sm_State := ''deleted''\<rparr>" using assms(1) by (simp add: manifest_move_def)
  then have "sm_State b \<noteq> ''building''" using False by auto
  then have "c = b \<or> c = b\<lparr>sm_State := ''deleted''\<rparr>" using assms(2) by (simp add: manifest_move_def)
  then have "c = a \<or> c = a\<lparr>sm_State := ''deleted''\<rparr>" using b by (elim disjE) simp_all
  then show ?thesis using False by (elim disjE) (simp_all add: manifest_move_def)
qed

lemma manifests_run_trans: "manifests_run a b \<Longrightarrow> manifests_run b c \<Longrightarrow> manifests_run a c"
  unfolding manifests_run_def by (blast intro: manifest_move_trans)

lemma step_workflow_runs:
  assumes "snapshot_inv d"
  shows "workflow_runs d (wstep e d)"
proof (cases e)
  case (Relay r)
  then show ?thesis using relay_step_only [of d r] by (auto simp: workflow_runs_def relays_only_def wf_path_def)
next
  case (Snapshot s)
  have "wf_inv d" using assms by (simp add: snapshot_inv_def)
  from effect_evolves [OF snapshot_step_effect this, of s] show ?thesis
  proof
    assume "wf_evolves d (snapshot_step s d)"
    then have m: "list_all2 wf_move (w_workflows d) (w_workflows (snapshot_step s d))" by (simp add: wf_evolves_def)
    show ?thesis
      unfolding workflow_runs_def
    proof
      fix w assume "w \<in> set (w_workflows d)"
      then obtain w' where "w' \<in> set (w_workflows (snapshot_step s d))" "wf_move w w'" using moved_to [OF m] by blast
      then show "\<exists>w' \<in> set (w_workflows (wstep e d)). sw_ID w' = sw_ID w \<and> sw_Type w' = sw_Type w \<and> sw_UserID w' = sw_UserID w \<and> wf_path (sw_State w) (sw_State w')"
        unfolding Snapshot by (intro bexI [of _ w']) (auto simp: wf_move_def wf_path_def)
    qed
  next
    assume "\<exists>p g epoch now. created p d (snapshot_step s d) g epoch now"
    then show ?thesis unfolding Snapshot by (auto simp: created_def workflow_runs_def wf_path_def)
  qed
qed

lemma published_manifests_run:
  assumes "published i u p now d d'" and "copy_inv d"
  shows "manifests_run d d'"
  unfolding manifests_run_def
proof
  fix m assume m: "m \<in> set (w_manifests d)"
  define m1 where "m1 = (if building p m then seal_manifest p m else m)"
  define m2 where "m2 = (if replaced_snapshot u p d = Some (sm_ID m1) \<and> sm_ID m1 \<noteq> cq_SnapshotID p then m1\<lparr>sm_State := ''deleted''\<rparr> else m1)"
  have "m1 \<in> set (sql_update (building p) (seal_manifest p) (w_manifests d))" using m by (auto simp: m1_def set_sql_update)
  then have "m2 \<in> set (w_manifests d')"
    using assms(1) by (auto simp: published_def drop_manifest_def m2_def set_sql_update)
  moreover have "manifest_move m m1"
    by (simp add: m1_def manifest_move_def seal_manifest_def building_def)
  moreover have "manifest_move m1 m2" by (simp add: m2_def manifest_move_def)
  ultimately show "\<exists>m' \<in> set (w_manifests d'). manifest_move m m'" using manifest_move_trans by blast
qed

lemma step_manifests_run:
  assumes "snapshot_inv d"
  shows "manifests_run d (wstep e d)"
proof (cases e)
  case (Relay r)
  then show ?thesis using relay_step_only [of d r] manifest_move_refl by (auto simp: manifests_run_def relays_only_def)
next
  case (Snapshot s)
  have d: "wf_inv d" "copy_inv d" using assms by (simp_all add: snapshot_inv_def)
  from snapshot_step_effect [of d s] d(1) have "manifests_run d (snapshot_step s d)"
  proof (cases rule: effect_cases)
    case 1
    then show ?thesis using minor_same_published [OF 1] manifest_move_refl by (auto simp: manifests_run_def)
  next
    case (2 p g epoch now)
    then have "set (w_manifests d) \<subseteq> set (w_manifests (snapshot_step s d))" by (auto simp: created_def)
    then show ?thesis using manifest_move_refl unfolding manifests_run_def by blast
  next
    case (3 i p now r)
    then show ?thesis using published_manifests_run [OF 3(3) d(2)] by simp
  qed
  then show ?thesis by (simp add: Snapshot)
qed

lemma run_workflow_runs: "snapshot_inv d \<Longrightarrow> workflow_runs d (snapshots.run evs d)"
  by (rule snapshots.run_related [of workflow_runs, OF _ workflow_runs_trans step_workflow_runs])
    (auto simp: workflow_runs_def wf_path_def)

lemma run_manifests_run: "snapshot_inv d \<Longrightarrow> manifests_run d (snapshots.run evs d)"
  by (rule snapshots.run_related [of manifests_run, OF _ manifests_run_trans step_manifests_run])
    (auto simp: manifests_run_def intro: manifest_move_refl)


text \<open>The first workflow of the example, published; and a second one that replaces its replica.\<close>

definition demo_first :: "wevent list" where
  "demo_first = map Snapshot (demo_reports @ [PublishSnapshot 1 TxOk ''rep'' demo_complete])"

definition demo_second :: "wevent list" where
  "demo_second = map Snapshot ([CreateWorkflow 1 TxOk 0 ((demo_create ''direct'')\<lparr>sq_WorkflowID := ''w2'', sq_OperationID := ''o2'',
       sq_SnapshotID := ''m2'', sq_CapabilityID := ''c2'', sq_CapabilityHash := replicate 32 (CHR ''d'')\<rparr>),
     StartQuiescing 1 TxOk ''w2'' 12, ReportProgress TxOk ''w2'' ''m2'' 2 ''drained'' 13,
     ReportProgress TxOk ''w2'' ''m2'' 2 ''snapshotting'' 14, ReportProgress TxOk ''w2'' ''m2'' 2 ''transferring'' 15,
     ReportProgress TxOk ''w2'' ''m2'' 3 ''verifying'' 16, ReportProgress TxOk ''w2'' ''m2'' 3 ''publishing'' 17,
     PublishSnapshot 1 TxOk ''rep2'' (demo_complete\<lparr>cq_WorkflowID := ''w2'', cq_SnapshotID := ''m2'',
       cq_CapabilityHash := replicate 32 (CHR ''d''), cq_Now := 18\<rparr>)])"

definition demo_created :: wdb where
  "demo_created = wstep (Snapshot (CreateWorkflow 1 TxOk 0 (demo_create ''direct''))) demo_db"

lemma snapshot_inv_code [code]:
  "snapshot_inv d \<longleftrightarrow> keyed sw_ID (w_workflows d) \<and> list_all resume_ok (w_workflows d) \<and> unique_where moves_data sw_UserID (w_workflows d) \<and>
     unique_where prepared tc_WorkflowID (w_caps d) \<and>
     list_all (\<lambda>c. prepared c \<longrightarrow> list_ex (\<lambda>w. sw_ID w = tc_WorkflowID c \<and> workflow_open (sw_State w)) (w_workflows d)) (w_caps d) \<and> copy_inv d"
  by (auto simp: snapshot_inv_def wf_inv_def cap_inv_def list_all_iff list_ex_iff open_workflow_def)

lemma demo_created_inv: "snapshot_inv demo_created"
  by code_simp


text \<open>
  C36. A published replica stays what was sealed. In every sequence of operations, a replica that
  is ready and has a snapshot refers to a manifest that is immutable, a user has at most one ready
  archive, two replicas never share a snapshot, and a workflow that succeeded has no manifest that
  is still being built. The digests and sizes of a sealed manifest never change; the most that
  happens to it is that it is marked as deleted.
\<close>

theorem published_replicas_intact:
  assumes "snapshot_inv d" and "d' = snapshots.run evs d"
  shows "(\<forall>c \<in> set (w_copies d'). \<forall>i. cp_State c = ''ready'' \<and> cp_SnapshotID c = Some i \<longrightarrow>
        (\<exists>m \<in> set (w_manifests d'). sm_ID m = i \<and> sm_State m = ''immutable'')) \<and>
    unique_where ready_archive cp_UserID (w_copies d') \<and>
    unique_where (\<lambda>c. cp_SnapshotID c \<noteq> None) cp_SnapshotID (w_copies d') \<and> succeeded_sealed d' \<and>
    (\<forall>m \<in> set (w_manifests d). sm_State m \<noteq> ''building'' \<longrightarrow>
        m \<in> set (w_manifests d') \<or> m\<lparr>sm_State := ''deleted''\<rparr> \<in> set (w_manifests d'))"
proof -
  have i: "snapshot_inv d'" unfolding assms(2) by (rule snapshots.run_inv [OF assms(1)])
  have "\<exists>m \<in> set (w_manifests d'). sm_ID m = i \<and> sm_State m = ''immutable''"
    if "c \<in> set (w_copies d')" "cp_State c = ''ready''" "cp_SnapshotID c = Some i" for c i
    using i that refers_okE [of "w_manifests d'" c i] by (auto simp: snapshot_inv_def copy_inv_def list_all_iff)
  moreover have "m \<in> set (w_manifests d') \<or> m\<lparr>sm_State := ''deleted''\<rparr> \<in> set (w_manifests d')"
    if "m \<in> set (w_manifests d)" "sm_State m \<noteq> ''building''" for m
    using run_manifests_run [OF assms(1), of evs] that unfolding assms(2) manifests_run_def manifest_move_def by metis
  ultimately show ?thesis using i by (simp add: snapshot_inv_def copy_inv_def)
qed

theorem published_replicas_intact_witness:
  "\<exists>d m. d = fold wstep demo_first demo_created \<and> w_manifests d = [m] \<and> sm_State m = ''immutable'' \<and> sm_TotalBytes m = 500 \<and>
     m\<lparr>sm_State := ''deleted''\<rparr> \<in> set (w_manifests (snapshots.run demo_second d)) \<and>
     map cp_SnapshotID (w_copies d) = [Some ''m''] \<and> map cp_SnapshotID (w_copies (snapshots.run demo_second d)) = [Some ''m2'']"
proof -
  define d where "d = fold wstep demo_first demo_created"
  define m where "m = hd (w_manifests d)"
  have inv: "snapshot_inv d" unfolding d_def by code_simp
  have m: "w_manifests d = [m]" "sm_State m = ''immutable''" "sm_TotalBytes m = 500" unfolding m_def d_def by code_simp+
  have c: "map cp_SnapshotID (w_copies d) = [Some ''m'']" unfolding d_def by code_simp
  have e: "map cp_SnapshotID (w_copies (snapshots.run demo_second d)) = [Some ''m2'']" unfolding d_def snapshots.run_def by code_simp
  have n: "\<not> list_ex (\<lambda>x. x = m) (w_manifests (snapshots.run demo_second d))" unfolding d_def m_def snapshots.run_def by code_simp
  have "m \<in> set (w_manifests (snapshots.run demo_second d)) \<or> m\<lparr>sm_State := ''deleted''\<rparr> \<in> set (w_manifests (snapshots.run demo_second d))"
    using published_replicas_intact [OF inv refl, of demo_second] m(1,2) by simp
  then show ?thesis using m c e n d_def by (auto simp: list_ex_iff)
qed

end
