(* ===== verification/Snapshot_Publication.thy ===== *)
theory Snapshot_Publication
  imports Snapshot_Safety
begin

text \<open>
  What a successful \<open>CompleteSnapshotWorkflow\<close> leaves in the database, and that repeating it
  gives the same answer.
\<close>

definition succeeded_job :: "string \<Rightarrow> int \<Rightarrow> backup_job_row \<Rightarrow> bool" where
  "succeeded_job w v j \<longleftrightarrow> bj_WorkflowID j = Some w \<and> bj_Status j = ''done'' \<and> bj_DataVersion j = Some v"

lemma finish_tx_rows:
  assumes "finish_tx l v p now d = Inr (d', v')"
  shows "v' = v" and "w_users d' = w_users d" and "w_epochs d' = w_epochs d"
    and "sql_count (\<lambda>j. bj_WorkflowID j = Some (cq_WorkflowID p)) (w_jobs d) = 1"
    and "w_jobs d' = sql_update (\<lambda>j. bj_WorkflowID j = Some (cq_WorkflowID p))
      (\<lambda>j. j\<lparr>bj_Status := ''done'', bj_DataVersion := Some v, bj_Bytes := Some (cq_TotalBytes p),
         bj_FileCount := Some (cq_FileCount p), bj_Error := None, bj_FinishedAt := Some now\<rparr>) (w_jobs d)"
    and "w_replicas d' = sql_update (\<lambda>r. up_UserID r = l \<and> up_NodeID r = cq_TargetNodeID p)
      (\<lambda>r. r\<lparr>up_State := ''ready'', up_DataVersion := v, up_Checksum := Some (hex_encode (cq_ManifestSHA256 p)),
         up_SizeBytes := Some (cq_TotalBytes p), up_LastSyncAt := Some now\<rparr>) (w_replicas d)"
    and "sql_count (\<lambda>r. up_UserID r = l \<and> up_NodeID r = cq_TargetNodeID p) (w_replicas d) = 1"
  using assms unfolding finish_tx_def Let_def by (auto simp: set_workflows_def set_steps_def split: if_splits)

lemma publish_tx_finish:
  assumes "publish_tx i u l p now d = Inr (d', v)"
  obtains d5 where "finish_tx l (next_data_version l d) p now d5 = Inr (d', v)" "w_users d5 = w_users d" "w_jobs d5 = w_jobs d"
    "map up_UserID (w_replicas d5) = map up_UserID (w_replicas d)"
proof -
  define d0 where "d0 = replace_cleanups u (cq_TargetNodeID p) now (d\<lparr>w_manifests := sql_update (building p) (seal_manifest p) (w_manifests d)\<rparr>)"
  define h where "h = map_option us_Username (sql_find (\<lambda>u. us_ID u = l) (w_legacy_users d))"
  define d3 where "d3 = (if cq_ReplicaKind p = ''archive'' then supersede_archives u l h (cq_TargetNodeID p) now d0 else d0)"
  define d4 where "d4 = publish_copy i u p now d3"
  define d5 where "d5 = d4\<lparr>w_manifests := drop_manifest (replaced_snapshot u p d) p (w_manifests d4)\<rparr>"
  have "next_data_version l (d\<lparr>w_manifests := ms\<rparr>) = next_data_version l d" for ms by (simp add: next_data_version_def)
  then have f: "finish_tx l (next_data_version l d) p now d5 = Inr (d', v)"
    using assms unfolding publish_tx_def Let_def d5_def d4_def d3_def d0_def h_def replaced_snapshot_def
    by (simp split: if_splits)
  have "w_users d5 = w_users d" "w_jobs d5 = w_jobs d" "map up_UserID (w_replicas d5) = map up_UserID (w_replicas d)"
    by (simp_all add: d5_def d4_def d3_def d0_def publish_copy_def Let_def supersede_archives_def replace_cleanups_def map_sql_update)
  then show ?thesis using that f by blast
qed

lemma foldl_max_ge: "\<forall>x \<in> set (v # vs). x \<le> foldl max v vs" for v :: int
proof (induction vs arbitrary: v)
  case (Cons a vs)
  have "max v a \<le> foldl max (max v a) vs" "\<forall>x \<in> set vs. x \<le> foldl max (max v a) vs" using Cons [of "max v a"] by simp_all
  then show ?case by simp
qed simp

lemma next_data_version_greater:
  assumes "r \<in> set (w_replicas d)" and "up_UserID r = l"
  shows "up_DataVersion r < next_data_version l d"
proof -
  have "up_DataVersion r \<in> set (map up_DataVersion (filter (\<lambda>r. up_UserID r = l) (w_replicas d)))" using assms by auto
  then show ?thesis unfolding next_data_version_def
    by (cases "map up_DataVersion (filter (\<lambda>r. up_UserID r = l) (w_replicas d))") (use foldl_max_ge in force)+
qed

text \<open>
  A publication that commits, opened up. The workflow was being published, and the user has a
  legacy account.
\<close>

lemma complete_publishes:
  assumes "CompleteSnapshotWorkflow clock flt i p d = (d', Inr v)"
    and "workflow_by_id (cq_WorkflowID p) d = Some w" and "sw_State w \<noteq> ''succeeded''"
  obtains now l where "now = at_time clock (cq_Now p)" "legacy_of (sw_UserID w) d = Some l" "sw_State w = ''publishing''"
    "publish_tx i (sw_UserID w) l p now d = Inr (d', v)"
proof -
  define now where "now = at_time clock (cq_Now p)"
  have ok: "complete_params_ok p" using assms(1) by (cases "complete_params_ok p") (simp_all add: CompleteSnapshotWorkflow_def)
  then have "run_tx flt (complete_tx i p now) d = (d', Inr v)"
    using assms(1) by (simp add: CompleteSnapshotWorkflow_def now_def)
  from run_tx_ok [OF this] have "complete_tx i p now d = Inr (d', v)" .
  then obtain l where "legacy_of (sw_UserID w) d = Some l" "sw_State w = ''publishing''" "publish_tx i (sw_UserID w) l p now d = Inr (d', v)"
    using assms(2,3) unfolding complete_tx_def legacy_of_def by (auto split: option.splits if_splits)
  then show ?thesis using that now_def by blast
qed

text \<open>The rows that a publication leaves.\<close>

lemma published_workflow:
  assumes "published i u p now d d'" and "workflow_by_id (cq_WorkflowID p) d = Some w"
  shows "workflow_by_id (cq_WorkflowID p) d' = Some (succeed_workflow now w)"
proof -
  have "sw_ID w = cq_WorkflowID p" using sql_find_Some [OF assms(2) [unfolded workflow_by_id_def]] by simp
  then show ?thesis
    using assms unfolding workflow_by_id_def published_def
    by (simp add: sql_find_update [where Q = "\<lambda>w. sw_ID w = cq_WorkflowID p"] succeed_workflow_def)
qed

lemma published_steps: "published i u p now d d' \<Longrightarrow> s \<in> set (w_steps d') \<Longrightarrow> st_WorkflowID s = cq_WorkflowID p \<Longrightarrow> st_State s = ''succeeded''"
  by (auto simp: published_def in_sql_update finish_step_def)

lemma published_ready_copy:
  assumes "published i u p now d d'"
  shows "\<exists>c \<in> set (w_copies d'). place c = (u, cq_TargetNodeID p) \<and> cp_State c = ''ready'' \<and> cp_SnapshotID c = Some (cq_SnapshotID p)"
proof -
  define t where "t = archives_staled u p now (w_copies d)"
  have c: "w_copies d' = put_copy i u p now t" using assms by (simp add: published_def t_def)
  show ?thesis
  proof (cases "sql_exists (copy_at u (cq_TargetNodeID p)) t")
    case True
    then obtain q where q: "q \<in> set t" "copy_at u (cq_TargetNodeID p) q" unfolding sql_exists_iff by blast
    then have "published_copy p now q \<in> set (w_copies d')" unfolding c using True by (auto simp: put_copy_def in_sql_update)
    then show ?thesis using q(2) by (intro bexI) (auto simp: published_copy_def place_def copy_at_def)
  next
    case False
    then have "new_copy i u p now \<in> set (w_copies d')" unfolding c by (simp add: put_copy_def)
    then show ?thesis by (intro bexI) (auto simp: new_copy_def published_copy_def place_def)
  qed
qed

lemma published_cap:
  assumes "published i u p now d d'"
  shows "\<exists>c \<in> set (w_caps d'). tc_WorkflowID c = cq_WorkflowID p \<and> tc_TokenHash c = cq_CapabilityHash p \<and> tc_State c = ''consumed''"
proof -
  have "0 < sql_count (cap_of_hash p) (w_caps d)" using assms by (simp add: published_def)
  then obtain c where c: "c \<in> set (w_caps d)" "cap_of_hash p c" unfolding sql_count_pos by blast
  then have "c\<lparr>tc_State := ''consumed'', tc_ConsumedAt := Some now\<rparr> \<in> set (w_caps d')"
    using assms unfolding published_def by (auto simp: in_sql_update)
  then show ?thesis using c(2) by (intro bexI) (auto simp: cap_of_hash_def)
qed

lemma finished_job:
  assumes "finish_tx l v p now d = Inr (d', v')"
  obtains j where "sql_find (\<lambda>j. bj_WorkflowID j = Some (cq_WorkflowID p)) (w_jobs d') = Some j" "succeeded_job (cq_WorkflowID p) v j"
proof -
  let ?J = "\<lambda>j. bj_WorkflowID j = Some (cq_WorkflowID p)"
  have "0 < sql_count ?J (w_jobs d)" using finish_tx_rows(4) [OF assms] by simp
  then obtain j0 where j0: "sql_find ?J (w_jobs d) = Some j0"
    unfolding sql_count_pos using sql_find_None [of ?J "w_jobs d"] by (cases "sql_find ?J (w_jobs d)") auto
  then have "bj_WorkflowID j0 = Some (cq_WorkflowID p)" using sql_find_Some [OF j0] by simp
  then show ?thesis
    using that j0 unfolding finish_tx_rows(5) [OF assms] by (simp add: sql_find_update [where Q = ?J] succeeded_job_def)
qed

lemma repeat_publication:
  assumes "complete_params_ok p" and "workflow_by_id (cq_WorkflowID p) d = Some w" and "sw_State w = ''succeeded''"
    and "legacy_of (sw_UserID w) d = Some l"
    and "sql_find (\<lambda>j. bj_WorkflowID j = Some (cq_WorkflowID p)) (w_jobs d) = Some j" and "bj_DataVersion j = Some v"
  shows "CompleteSnapshotWorkflow clock TxOk i p d = (d, Inr v)"
  using assms by (auto simp: CompleteSnapshotWorkflow_def run_tx_def complete_tx_def legacy_of_def bind_eq_Some_conv)

text \<open>
  C37. A publication takes effect completely and once. When \<open>CompleteSnapshotWorkflow\<close> reports
  success for a workflow that had not succeeded, the workflow was being published; afterwards it
  has succeeded with all its steps, the manifest of the snapshot has the reported digests, file
  count and size and is immutable, the target has a ready replica of exactly this snapshot, the
  capability it used is consumed, and the backup job is done with a data version above every
  version the user's replicas had. Calling it again returns the same version and changes nothing.
\<close>

theorem publication_takes_effect:
  assumes "CompleteSnapshotWorkflow clock flt i p d = (d', Inr v)" and "snapshot_inv d"
    and "workflow_by_id (cq_WorkflowID p) d = Some w" and "sw_State w \<noteq> ''succeeded''"
  shows "sw_State w = ''publishing'' \<and>
    (\<exists>w'. workflow_by_id (cq_WorkflowID p) d' = Some w' \<and> sw_State w' = ''succeeded'') \<and>
    (\<forall>s \<in> set (w_steps d'). st_WorkflowID s = cq_WorkflowID p \<longrightarrow> st_State s = ''succeeded'') \<and>
    (\<exists>m \<in> set (w_manifests d). building p m \<and> seal_manifest p m \<in> set (w_manifests d')) \<and>
    (\<exists>c \<in> set (w_copies d'). place c = (sw_UserID w, cq_TargetNodeID p) \<and> cp_State c = ''ready'' \<and>
       cp_SnapshotID c = Some (cq_SnapshotID p)) \<and>
    (\<exists>c \<in> set (w_caps d'). tc_WorkflowID c = cq_WorkflowID p \<and> tc_TokenHash c = cq_CapabilityHash p \<and> tc_State c = ''consumed'') \<and>
    (\<exists>j \<in> set (w_jobs d'). succeeded_job (cq_WorkflowID p) v j) \<and>
    (\<forall>r \<in> set (w_replicas d). legacy_of (sw_UserID w) d = Some (up_UserID r) \<longrightarrow> up_DataVersion r < v) \<and>
    CompleteSnapshotWorkflow clock2 TxOk i2 p d' = (d', Inr v)"
proof -
  obtain now l where l: "legacy_of (sw_UserID w) d = Some l" "sw_State w = ''publishing''"
    and pub: "publish_tx i (sw_UserID w) l p now d = Inr (d', v)"
    using complete_publishes [OF assms(1,3,4)] .
  obtain d5 where f: "finish_tx l (next_data_version l d) p now d5 = Inr (d', v)" and d5: "w_users d5 = w_users d" "w_jobs d5 = w_jobs d"
    using publish_tx_finish [OF pub] .
  note eff = publish_tx_published [OF pub]
  have v: "v = next_data_version l d" using finish_tx_rows(1) [OF f] .
  have ok: "complete_params_ok p" using assms(1) by (cases "complete_params_ok p") (simp_all add: CompleteSnapshotWorkflow_def)
  have w': "workflow_by_id (cq_WorkflowID p) d' = Some (succeed_workflow now w)" by (rule published_workflow [OF eff assms(3)])
  obtain j where j: "sql_find (\<lambda>j. bj_WorkflowID j = Some (cq_WorkflowID p)) (w_jobs d') = Some j" "succeeded_job (cq_WorkflowID p) v j"
    using finished_job [OF f] v by blast
  have "legacy_of (sw_UserID (succeed_workflow now w)) d' = Some l"
    using l(1) d5 finish_tx_rows(2) [OF f] by (simp add: legacy_of_def succeed_workflow_def)
  then have again: "CompleteSnapshotWorkflow clock2 TxOk i2 p d' = (d', Inr v)"
    using repeat_publication [OF ok w'] j by (simp add: succeed_workflow_def succeeded_job_def)
  have copy: "copy_inv d" using assms(2) by (simp add: snapshot_inv_def)
  obtain m where "m \<in> set (w_manifests d)" "building p m" "seal_manifest p m \<in> set (w_manifests d')"
    using published_manifests [OF eff copy] .
  moreover have "up_DataVersion r < v" if "r \<in> set (w_replicas d)" "legacy_of (sw_UserID w) d = Some (up_UserID r)" for r
    using next_data_version_greater [OF that(1)] that(2) l(1) v by simp
  moreover have "j \<in> set (w_jobs d')" using sql_find_Some [OF j(1)] by simp
  ultimately show ?thesis
    using l(2) w' published_steps [OF eff] published_ready_copy [OF eff] published_cap [OF eff] j(2) again
    by (simp add: succeed_workflow_def) blast
qed

theorem publication_takes_effect_witness:
  "\<exists>d d'. d = fold wstep (map Snapshot demo_reports) demo_created \<and>
     CompleteSnapshotWorkflow 1 TxOk ''rep'' demo_complete d = (d', Inr 1) \<and>
     CompleteSnapshotWorkflow 20 TxOk ''other'' demo_complete d' = (d', Inr 1) \<and>
     map up_DataVersion (w_replicas d) = [0] \<and> map up_DataVersion (w_replicas d') = [1]"
proof -
  define d where "d = fold wstep (map Snapshot demo_reports) demo_created"
  define d' where "d' = fst (CompleteSnapshotWorkflow 1 TxOk ''rep'' demo_complete d)"
  define w where "w = hd (w_workflows d)"
  have inv: "snapshot_inv d" unfolding d_def by code_simp
  have "snd (CompleteSnapshotWorkflow 1 TxOk ''rep'' demo_complete d) = Inr 1" unfolding d_def by code_simp
  then have r: "CompleteSnapshotWorkflow 1 TxOk ''rep'' demo_complete d = (d', Inr 1)"
    unfolding d'_def by (cases "CompleteSnapshotWorkflow 1 TxOk ''rep'' demo_complete d") simp
  have w: "workflow_by_id (cq_WorkflowID demo_complete) d = Some w" "sw_State w \<noteq> ''succeeded''"
    unfolding w_def d_def by code_simp+
  have again: "CompleteSnapshotWorkflow 20 TxOk ''other'' demo_complete d' = (d', Inr 1)"
    using publication_takes_effect [OF r inv w, of 20 "''other''"] by (elim conjE)
  have v: "map up_DataVersion (w_replicas d) = [0]" unfolding d_def by code_simp
  have v': "map up_DataVersion (w_replicas d') = [1]" unfolding d'_def d_def by code_simp
  show ?thesis by (rule exI [of _ d], rule exI [of _ d'], intro conjI d_def r again v v')
qed

end
