(* ===== verification/Controller_Backup.thy ===== *)
theory Controller_Backup
  imports Store_Snapshots "HOL-Library.Multiset"
begin

text \<open>
  The controller's choices around snapshots: when a node may take part (\<open>controller/backup.go\<close>,
  \<open>controller/nodes.go\<close>), which node receives a copy (\<open>chooseStorageRepairTarget\<close>,
  \<open>orderedRetirementTargets\<close>, \<open>selectNodeRetirementSnapshotPath\<close>), and what happens to a
  workflow whose execution failed (\<open>retrySnapshotWorkflow\<close>, \<open>failSnapshotWorkflow\<close>,
  \<open>deferSnapshotForNodeReadiness\<close>), with the operations of \<open>store/backups.go\<close> that they use.
  Whether the relay is configured, the readings of the clock, the outcome of every statement and
  the lower-case function of the database are arguments. The lists of nodes come from
  \<open>ListNodes\<close> and hold no nil.
\<close>

section \<open>Nodes\<close>

definition ListNodes :: "string option \<Rightarrow> wdb \<Rightarrow> placement_row list result" where
  "ListNodes readErr d = (case readErr of Some e \<Rightarrow> Inl e | None \<Rightarrow> Inr (sort_key pn_ID (w_nodes d)))"

definition nodeReadyForManagedOperation :: "placement_row option \<Rightarrow> bool" where
  "nodeReadyForManagedOperation node = (case node of None \<Rightarrow> False | Some n \<Rightarrow>
     pn_Connectivity n = ''online'' \<and> pn_Operational n = ''active'' \<and> pn_Compatibility n = ''compatible'' \<and>
     pn_ControlMode n = ''managed'' \<and> pn_DesiredMode n = ''managed'')"

definition nodeAcceptsNewData :: "placement_row option \<Rightarrow> bool" where
  "nodeAcceptsNewData node = (case node of None \<Rightarrow> False | Some n \<Rightarrow>
     nodeReadyForManagedOperation node \<and> (pn_CapacityState n = ''open'' \<or> pn_CapacityState n = ''busy''))"

definition snapshotNodeReady :: "placement_row option \<Rightarrow> bool" where
  "snapshotNodeReady node = (case node of None \<Rightarrow> False | Some n \<Rightarrow>
     pn_Connectivity n = ''online'' \<and> pn_Operational n = ''active'' \<and> pn_Compatibility n = ''compatible'' \<and>
     pn_ControlMode n = ''managed'' \<and> pn_DesiredMode n = ''managed'')"

definition snapshotSourceReady :: "placement_row option \<Rightarrow> string \<Rightarrow> bool" where
  "snapshotSourceReady node trigger = (case node of None \<Rightarrow> False | Some n \<Rightarrow>
     if pn_Connectivity n \<noteq> ''online'' \<or> pn_Compatibility n \<noteq> ''compatible'' then False
     else if trigger = ''node_retirement'' \<or> trigger = ''node_retirement_storage''
     then pn_Role n = ''compute'' \<and> (pn_Operational n = ''draining'' \<or> pn_Operational n = ''retiring'') \<and>
       pn_ControlMode n = ''managed'' \<and> pn_DesiredMode n = ''managed''
     else if trigger = ''independent_reconciliation''
     then pn_Role n = ''compute'' \<and> pn_Operational n = ''active'' \<and>
       pn_ControlMode n = NodeModeIndependentDraining \<and> pn_DesiredMode n = NodeModeIndependentDraining
     else snapshotNodeReady node)"

definition nodeCanServeRetirementSnapshot :: "placement_row option \<Rightarrow> int \<Rightarrow> bool" where
  "nodeCanServeRetirementSnapshot node retirementNodeID = (case node of None \<Rightarrow> False | Some n \<Rightarrow>
     if pn_ID n \<noteq> retirementNodeID \<or> pn_Role n \<noteq> ''compute'' \<or> pn_Connectivity n \<noteq> ''online'' \<or>
        pn_Compatibility n \<noteq> ''compatible'' \<or> pn_ControlMode n \<noteq> ''managed'' \<or> pn_DesiredMode n \<noteq> ''managed''
     then False
     else pn_Operational n = ''draining'' \<or> pn_Operational n = ''retiring'')"

definition findNode :: "placement_row list \<Rightarrow> int \<Rightarrow> placement_row option" where
  "findNode nodes i = sql_find (\<lambda>n. pn_ID n = i) nodes"

definition nodeHasSnapshotDataPath :: "bool \<Rightarrow> placement_row option \<Rightarrow> bool" where
  "nodeHasSnapshotDataPath relayAvailable node =
     (case node of None \<Rightarrow> False | Some n \<Rightarrow> pn_TransferURL n \<noteq> [] \<or> relayAvailable)"

definition snapshotReplicaOrigin :: "string \<Rightarrow> string" where
  "snapshotReplicaOrigin trigger =
     (if trigger = ''storage_repair'' then ''automatic_repair''
      else if trigger = ''node_retirement'' \<or> trigger = ''node_retirement_storage'' then ''migration''
      else ''configured'')"

section \<open>Targets of a retirement\<close>

definition retirementTargetLess :: "placement_row \<Rightarrow> placement_row \<Rightarrow> bool" where
  "retirementTargetLess left right =
     (if pn_CapacityState left \<noteq> pn_CapacityState right then pn_CapacityState left = ''open''
      else pn_ID left < pn_ID right)"

text \<open>
  The two loops that order the targets: \<open>exchange_pass\<close> is the inner one, for a fixed \<open>left\<close>
  whose present element is the first argument; every element on its right that is less is
  exchanged with it.
\<close>

fun exchange_pass :: "placement_row \<Rightarrow> placement_row list \<Rightarrow> placement_row \<times> placement_row list" where
  "exchange_pass x [] = (x, [])"
| "exchange_pass x (y # ys) =
     (if retirementTargetLess y x
      then (let p = exchange_pass y ys in (fst p, x # snd p))
      else (let p = exchange_pass x ys in (fst p, y # snd p)))"

lemma exchange_pass_length [simp]: "length (snd (exchange_pass x xs)) = length xs"
  by (induction x xs rule: exchange_pass.induct) (simp_all add: Let_def)

function exchange_sort :: "placement_row list \<Rightarrow> placement_row list" where
  "exchange_sort [] = []"
| "exchange_sort (x # xs) = (let p = exchange_pass x xs in fst p # exchange_sort (snd p))"
  by pat_completeness auto
termination
  by (relation "measure length") simp_all

definition retirement_target :: "string \<Rightarrow> bool \<Rightarrow> int list \<Rightarrow> placement_row \<Rightarrow> bool" where
  "retirement_target role relayAvailable excluded n \<longleftrightarrow>
     pn_Role n = role \<and> (pn_TransferURL n \<noteq> [] \<or> relayAvailable) \<and> nodeAcceptsNewData (Some n) \<and>
     pn_ID n \<notin> set excluded \<and> (role = ''storage'' \<longrightarrow> pn_IsBackupTarget n)"

definition orderedRetirementTargets :: "placement_row list \<Rightarrow> string \<Rightarrow> bool \<Rightarrow> int list \<Rightarrow> placement_row list" where
  "orderedRetirementTargets nodes role relayAvailable excluded =
     exchange_sort (filter (retirement_target role relayAvailable excluded) nodes)"

definition ErrNodeRetirementConflict :: string where "ErrNodeRetirementConflict = ''node retirement operation conflict''"

definition RetirementTargetAvailable ::
    "(string \<Rightarrow> string) \<Rightarrow> string option \<Rightarrow> int \<Rightarrow> int \<Rightarrow> string \<Rightarrow> wdb \<Rightarrow> bool result" where
  "RetirementTargetAvailable lower readErr userID nodeID handle d =
     (if userID \<le> 0 \<or> nodeID \<le> 0 \<or> handle = [] then Inl ErrNodeRetirementConflict
      else case readErr of Some e \<Rightarrow> Inl e
      | None \<Rightarrow> Inr (\<not> sql_exists (\<lambda>a. am_NodeID a = nodeID \<and> am_UserID a = userID \<and> am_Status a \<in> {''disabled'', ''conflict''}) (w_accounts d) \<and>
          \<not> sql_exists (\<lambda>a. am_NodeID a = nodeID \<and> lower (am_LocalHandle a) = lower handle \<and> am_UserID a \<noteq> userID \<and>
               am_Status a \<in> {''pending'', ''active'', ''conflict''}) (w_accounts d)))"

record retirement_item =
  it_NodeID :: int
  it_ItemKind :: string
  it_UserID :: int
  it_Handle :: string
  it_HomeNodeID :: int

record snapshot_path =
  ph_Source :: "placement_row option"
  ph_Target :: "placement_row option"
  ph_DestinationKind :: string
  ph_Trigger :: string
  ph_FailureCode :: string

definition no_path :: "placement_row option \<Rightarrow> string \<Rightarrow> snapshot_path" where
  "no_path source code = \<lparr>ph_Source = source, ph_Target = None, ph_DestinationKind = [], ph_Trigger = [], ph_FailureCode = code\<rparr>"

text \<open>\<open>readErr\<close> is the outcome of the list of nodes, \<open>availErr\<close> that of the question about a candidate.\<close>

definition selectNodeRetirementSnapshotPath ::
    "bool \<Rightarrow> (string \<Rightarrow> string) \<Rightarrow> string option \<Rightarrow> (int \<Rightarrow> string option) \<Rightarrow> retirement_item \<Rightarrow> wdb \<Rightarrow> snapshot_path" where
  "selectNodeRetirementSnapshotPath relayAvailable lower readErr availErr item d =
     (case ListNodes readErr d of
        Inl _ \<Rightarrow> no_path None ''retirement_inventory_unavailable''
      | Inr nodes \<Rightarrow>
          if it_ItemKind item = ''authoritative_home'' then
            (let source = findNode nodes (it_NodeID item) in
             if \<not> nodeCanServeRetirementSnapshot source (it_NodeID item) then no_path None ''retirement_source_unavailable''
             else
               (case find (\<lambda>c. RetirementTargetAvailable lower (availErr (pn_ID c)) (it_UserID item) (pn_ID c) (it_Handle item) d = Inr True)
                       (orderedRetirementTargets nodes ''compute'' relayAvailable [it_NodeID item, 0]) of
                  Some c \<Rightarrow> \<lparr>ph_Source = source, ph_Target = Some c, ph_DestinationKind = ''hot_standby'',
                    ph_Trigger = ''node_retirement'', ph_FailureCode = []\<rparr>
                | None \<Rightarrow> no_path source ''retirement_target_unavailable''))
          else if it_ItemKind item = ''archive_replica'' then
            (let source = findNode nodes (it_HomeNodeID item) in
             if \<not> nodeReadyForManagedOperation source \<or> pn_Role (the source) \<noteq> ''compute''
             then no_path None ''retirement_home_unavailable''
             else
               (case orderedRetirementTargets nodes ''storage'' relayAvailable [it_NodeID item, it_HomeNodeID item] of
                  [] \<Rightarrow> no_path source ''retirement_target_unavailable''
                | t # _ \<Rightarrow> \<lparr>ph_Source = source, ph_Target = Some t, ph_DestinationKind = ''archive'',
                    ph_Trigger = ''node_retirement_storage'', ph_FailureCode = []\<rparr>))
          else no_path None ''retirement_item_kind_invalid'')"

section \<open>Targets of a backup\<close>

text \<open>The position of a node in the hint: a later entry of the same node overrides an earlier one.\<close>

definition hint_position :: "int list \<Rightarrow> int \<Rightarrow> nat" where
  "hint_position hint i = (case map_of (rev (zip hint [0..<length hint])) i of Some p \<Rightarrow> p | None \<Rightarrow> length hint)"

definition repair_candidate :: "int \<Rightarrow> bool \<Rightarrow> placement_row \<Rightarrow> bool" where
  "repair_candidate srcNodeID relayAvailable n \<longleftrightarrow>
     pn_ID n \<noteq> srcNodeID \<and> pn_Role n = ''storage'' \<and> pn_IsBackupTarget n \<and>
     (pn_TransferURL n \<noteq> [] \<or> relayAvailable) \<and> nodeAcceptsNewData (Some n)"

definition repair_better :: "int list \<Rightarrow> placement_row \<Rightarrow> nat \<Rightarrow> placement_row \<Rightarrow> bool" where
  "repair_better hint best bestPos n =
     (if pn_CapacityState best = ''busy'' \<and> pn_CapacityState n = ''open'' then True
      else if pn_CapacityState best = pn_CapacityState n
      then (let nodePos = hint_position hint (pn_ID n) in
            if nodePos \<noteq> bestPos then nodePos < bestPos else pn_ID n < pn_ID best)
      else False)"

fun repair_scan :: "int list \<Rightarrow> int \<Rightarrow> bool \<Rightarrow> (placement_row \<times> nat) option \<Rightarrow> placement_row list \<Rightarrow> (placement_row \<times> nat) option" where
  "repair_scan hint src relayAvailable acc [] = acc"
| "repair_scan hint src relayAvailable acc (n # ns) =
     (if \<not> repair_candidate src relayAvailable n then repair_scan hint src relayAvailable acc ns
      else
        (case acc of
           None \<Rightarrow> repair_scan hint src relayAvailable (Some (n, hint_position hint (pn_ID n))) ns
         | Some (best, bestPos) \<Rightarrow>
             if repair_better hint best bestPos n
             then repair_scan hint src relayAvailable (Some (n, hint_position hint (pn_ID n))) ns
             else repair_scan hint src relayAvailable acc ns))"

definition chooseStorageRepairTarget :: "placement_row list \<Rightarrow> int \<Rightarrow> int list \<Rightarrow> bool \<Rightarrow> placement_row option" where
  "chooseStorageRepairTarget nodes srcNodeID hint relayAvailable =
     map_option fst (repair_scan hint srcNodeID relayAvailable None nodes)"

text \<open>
  \<open>pickBackupTarget\<close>: first a node that already holds a ready replica of the user, archives before
  standbys, then the best default target. \<open>replicas\<close> is what \<open>ListReplicasByUser\<close> returned,
  \<open>nodeErr\<close> the outcome of \<open>GetNodeByID\<close>, \<open>nodes\<close> what \<open>ListNodes\<close> returned.
\<close>

definition replica_target :: "bool \<Rightarrow> (int \<Rightarrow> string option) \<Rightarrow> int \<Rightarrow> wdb \<Rightarrow> string \<Rightarrow> legacy_replica_row \<Rightarrow> (placement_row \<times> string) option" where
  "replica_target relayAvailable nodeErr srcNodeID d kind rep =
     (if up_Kind rep \<noteq> kind \<or> up_State rep \<noteq> ''ready'' \<or> up_NodeID rep = srcNodeID \<or> nodeErr (up_NodeID rep) \<noteq> None then None
      else
        (case node_at (up_NodeID rep) d of
           None \<Rightarrow> None
         | Some n \<Rightarrow>
             if nodeHasSnapshotDataPath relayAvailable (Some n) \<and> nodeAcceptsNewData (Some n) \<and>
                (kind = ''archive'' \<and> pn_Role n = ''storage'' \<or> kind = ''hot_standby'' \<and> pn_Role n = ''compute'')
             then Some (n, up_Kind rep) else None))"

fun first_some :: "('a \<Rightarrow> 'b option) \<Rightarrow> 'a list \<Rightarrow> 'b option" where
  "first_some f [] = None"
| "first_some f (x # xs) = (case f x of Some y \<Rightarrow> Some y | None \<Rightarrow> first_some f xs)"

fun default_scan :: "int list \<Rightarrow> int \<Rightarrow> bool \<Rightarrow> (placement_row \<times> string \<times> nat) option \<Rightarrow> placement_row list \<Rightarrow>
    (placement_row \<times> string \<times> nat) option" where
  "default_scan hint src relayAvailable acc [] = acc"
| "default_scan hint src relayAvailable acc (n # ns) =
     (if pn_ID n \<noteq> src \<and> pn_IsBackupTarget n \<and> nodeHasSnapshotDataPath relayAvailable (Some n) \<and> nodeAcceptsNewData (Some n) \<and>
         (case acc of None \<Rightarrow> True | Some (_, _, bestPos) \<Rightarrow> hint_position hint (pn_ID n) < bestPos)
      then default_scan hint src relayAvailable
             (Some (n, if pn_Role n = ''compute'' then ''hot_standby'' else ''archive'', hint_position hint (pn_ID n))) ns
      else default_scan hint src relayAvailable acc ns)"

definition pickBackupTarget ::
    "bool \<Rightarrow> int list \<Rightarrow> legacy_replica_row list \<Rightarrow> (int \<Rightarrow> string option) \<Rightarrow> placement_row list \<Rightarrow> int \<Rightarrow> wdb \<Rightarrow>
     (placement_row \<times> string) option" where
  "pickBackupTarget relayAvailable hint replicas nodeErr nodes srcNodeID d =
     (case first_some (\<lambda>kind. first_some (replica_target relayAvailable nodeErr srcNodeID d kind) replicas) [''archive'', ''hot_standby''] of
        Some r \<Rightarrow> Some r
      | None \<Rightarrow> map_option (\<lambda>(n, kind, _). (n, kind)) (default_scan hint srcNodeID relayAvailable None nodes))"

section \<open>Backup jobs\<close>

definition ErrInvalidBackupJob :: string where "ErrInvalidBackupJob = ''invalid backup job''"
definition ErrBackupJobTerminal :: string where "ErrBackupJobTerminal = ''backup job is already terminal''"

definition GetBackupJob :: "string option \<Rightarrow> int \<Rightarrow> wdb \<Rightarrow> backup_job_row option result" where
  "GetBackupJob readErr jobID d =
     (case readErr of Some e \<Rightarrow> Inl e | None \<Rightarrow> Inr (sql_find (\<lambda>j. bj_ID j = jobID) (w_jobs d)))"

definition job_terminal :: "string \<Rightarrow> bool" where
  "job_terminal status \<longleftrightarrow> status \<in> {''done'', ''failed'', ''aborted''}"

definition abort_tx :: "int \<Rightarrow> string \<Rightarrow> gotime \<Rightarrow> (wdb, unit) tx" where
  "abort_tx jobID reason now d =
     (case sql_find (\<lambda>j. bj_ID j = jobID) (w_jobs d) of
        None \<Rightarrow> Inl ErrInvalidBackupJob
      | Some j \<Rightarrow>
          (let workflowState = (case Option.bind (bj_WorkflowID j) (\<lambda>w. workflow_by_id w d) of None \<Rightarrow> [] | Some w \<Rightarrow> sw_State w) in
           if job_terminal (bj_Status j) \<or> workflowState \<in> {''succeeded'', ''cancelled'', ''failed''} then Inl ErrBackupJobTerminal
           else
             (let d1 = d\<lparr>w_jobs := sql_update (\<lambda>x. bj_ID x = jobID) (\<lambda>x. x\<lparr>bj_Status := ''aborted'', bj_Error := summary_text reason,
                    bj_FinishedAt := (case bj_FinishedAt x of None \<Rightarrow> Some now | Some t \<Rightarrow> Some t)\<rparr>) (w_jobs d)\<rparr> in
              Inr (case bj_WorkflowID j of
                     Some w \<Rightarrow> if w = [] then d1 else cancelSnapshotWorkflowTx w (summary_text reason) now d1
                   | None \<Rightarrow> d1, ()))))"

definition AbortBackupJobAndSnapshotWorkflow ::
    "gotime \<Rightarrow> tx_fault \<Rightarrow> int \<Rightarrow> string \<Rightarrow> gotime \<Rightarrow> wdb \<Rightarrow> wdb \<times> unit result" where
  "AbortBackupJobAndSnapshotWorkflow clock flt jobID reason now0 d =
     (if jobID \<le> 0 then (d, Inl ErrInvalidBackupJob) else run_tx flt (abort_tx jobID reason (at_time clock now0)) d)"

section \<open>Failed executions\<close>

text \<open>The reason of a cancellation, in UTF-8.\<close>

definition userReturned :: string where
  "userReturned = map char_of [231 :: nat, 148, 168, 230, 136, 183, 230, 129, 162, 229, 164, 141, 228, 189, 191, 231, 148, 168, 239, 188, 140, 229, 143, 150,
     230, 182, 136, 230, 156, 170, 229, 143, 145, 229, 184, 131, 229, 191, 171, 231, 133, 167]"

text \<open>What the surroundings decide during one call: the context, reads, transactions and the clock.\<close>

record retry_env =
  rv_CtxErr :: "string option"
  rv_ReadErr :: "string option"
  rv_CancelFault :: tx_fault
  rv_ScheduleFault :: tx_fault
  rv_FailReadErr :: "string option"
  rv_FailCancelFault :: tx_fault
  rv_FailFault :: tx_fault
  rv_FailNow :: gotime
  rv_Now :: gotime
  rv_RetryMax :: int

definition failSnapshotWorkflow :: "retry_env \<Rightarrow> int \<Rightarrow> string \<Rightarrow> string \<Rightarrow> string \<Rightarrow> wdb \<Rightarrow> wdb" where
  "failSnapshotWorkflow env jobID workflowID code summary d =
     (case GetBackupJob (rv_FailReadErr env) jobID d of
        Inr (Some j) \<Rightarrow>
          if bj_Status j = ''aborted''
          then fst (CancelSnapshotWorkflow (rv_FailNow env) (rv_FailCancelFault env) workflowID userReturned (rv_FailNow env) d)
          else fst (FailSnapshotWorkflow (rv_FailNow env) (rv_FailFault env) workflowID code summary (rv_FailNow env) d)
      | _ \<Rightarrow> fst (FailSnapshotWorkflow (rv_FailNow env) (rv_FailFault env) workflowID code summary (rv_FailNow env) d))"

fun double_delay :: "nat \<Rightarrow> duration \<Rightarrow> duration" where
  "double_delay 0 delay = delay"
| "double_delay (Suc n) delay = (if delay < 5 * minute then double_delay n (2 * delay) else delay)"

definition retrySnapshotWorkflow ::
    "retry_env \<Rightarrow> snapshot_execution \<Rightarrow> string \<Rightarrow> string \<Rightarrow> string option \<Rightarrow> wdb \<Rightarrow> wdb \<times> string" where
  "retrySnapshotWorkflow env execution code summary cause d =
     (let w = ex_Workflow execution; jobID = ex_LegacyBackupJobID execution in
      case rv_CtxErr env of
        Some e \<Rightarrow> (d, e)
      | None \<Rightarrow>
          (case GetBackupJob (rv_ReadErr env) jobID d of
             Inl e \<Rightarrow> (d, e)
           | Inr current \<Rightarrow>
               if (case current of Some j \<Rightarrow> bj_Status j = ''aborted'' | None \<Rightarrow> False)
               then (case CancelSnapshotWorkflow (rv_Now env) (rv_CancelFault env) (sw_ID w) userReturned (rv_Now env) d of
                       (d1, Inl e) \<Rightarrow> (d1, e)
                     | (d1, Inr _) \<Rightarrow> (d1, ''snapshot workflow aborted''))
               else
                 (let ordinaryAttempts = nat (max 0 (sw_Attempt w - sw_GenerationRecoveries w));
                      delay = double_delay ordinaryAttempts (5 * second) in
                  case ScheduleSnapshotRetry (rv_ScheduleFault env) (sw_ID w) code summary (rv_Now env) delay d of
                    (d1, Inl e) \<Rightarrow> (d1, e)
                  | (d1, Inr attempt) \<Rightarrow>
                      (let maxAttempts = (if rv_RetryMax env \<le> 0 then 3 else rv_RetryMax env);
                           d2 = (if maxAttempts \<le> attempt - sw_GenerationRecoveries w
                                 then failSnapshotWorkflow env jobID (sw_ID w) code summary d1 else d1) in
                       (d2, case cause of Some e \<Rightarrow> e | None \<Rightarrow> code)))))"

definition deferSnapshotForNodeReadiness ::
    "tx_fault \<Rightarrow> gotime \<Rightarrow> snapshot_execution option \<Rightarrow> string \<Rightarrow> string \<Rightarrow> wdb \<Rightarrow> wdb \<times> string" where
  "deferSnapshotForNodeReadiness flt now execution code summary d =
     (case execution of
        None \<Rightarrow> (d, ErrInvalidSnapshotWorkflow)
      | Some e \<Rightarrow>
          (case DeferSnapshotWorkflow now flt (sw_ID (ex_Workflow e)) code summary now (30 * second) d of
             (d1, Inl err) \<Rightarrow> (d1, err)
           | (d1, Inr _) \<Rightarrow> (d1, code)))"

end
