(* ===== verification/Backup_Safety.thy ===== *)
theory Backup_Safety
  imports Controller_Backup Snapshot_Events "HOL-Library.Product_Lexorder"
begin

text \<open>
  Properties of the controller's choices around snapshots: the order in which a retirement tries
  its targets, the best target of a repair, the source that a retirement selects and the source
  that the execution accepts, and what becomes of a workflow that fails again right after a retry.
\<close>

section \<open>Order of the targets\<close>

lemma double_delay_closed:
  "double_delay n (5 * second) = 5 * second * 2 ^ min n 6"
proof -
  have step: "double_delay n (5 * second * 2 ^ k) = 5 * second * 2 ^ min (k + n) 6" if "k \<le> 6" for n k
    using that
  proof (induction n arbitrary: k)
    case (Suc n)
    have "k \<in> {0, 1, 2, 3, 4, 5, 6}" using Suc.prems by auto
    then show ?case using Suc.IH [of "Suc k"] by (auto simp: second_def minute_def)
  qed simp
  show ?thesis using step [of 0 n] by simp
qed

lemma exchange_pass_mset: "add_mset (fst (exchange_pass x xs)) (mset (snd (exchange_pass x xs))) = add_mset x (mset xs)"
  by (induction x xs rule: exchange_pass.induct) (auto simp: Let_def add_mset_commute)

lemma exchange_sort_mset [simp]: "mset (exchange_sort xs) = mset xs"
  by (induction xs rule: exchange_sort.induct) (auto simp: Let_def exchange_pass_mset)

lemma exchange_sort_set: "set (exchange_sort xs) = set xs"
  by (metis exchange_sort_mset set_mset_mset)

text \<open>Nodes that accept new data are open or busy, and on those the comparison is the order of the keys.\<close>

definition target_le :: "placement_row \<Rightarrow> placement_row \<Rightarrow> bool" where
  "target_le x y \<longleftrightarrow> \<not> retirementTargetLess y x"

lemma target_le_trans:
  assumes "open_capacity x" "open_capacity y" "open_capacity z" "target_le x y" "target_le y z"
  shows "target_le x z"
  using assms by (auto simp: target_le_def retirementTargetLess_def open_capacity_def split: if_splits)

lemma less_target_le: "open_capacity x \<Longrightarrow> open_capacity y \<Longrightarrow> retirementTargetLess y x \<Longrightarrow> target_le y x"
  by (auto simp: target_le_def retirementTargetLess_def open_capacity_def split: if_splits)

lemma target_le_refl [simp]: "target_le x x"
  by (simp add: target_le_def retirementTargetLess_def)

lemma exchange_pass_fst_in: "fst (exchange_pass x xs) \<in> insert x (set xs)"
  using exchange_pass_mset [of x xs] by (metis insert_iff mset.simps(2) set_mset_add_mset_insert set_mset_mset)

lemma exchange_pass_least:
  assumes "\<forall>y \<in> insert x (set xs). open_capacity y"
  shows "\<forall>y \<in> insert x (set xs). target_le (fst (exchange_pass x xs)) y"
  using assms
proof (induction x xs rule: exchange_pass.induct)
  case (2 x y ys)
  show ?case
  proof (cases "retirementTargetLess y x")
    case True
    let ?m = "fst (exchange_pass y ys)"
    have IH: "\<forall>z \<in> insert y (set ys). target_le ?m z" using 2 True by simp
    have m: "open_capacity ?m" using exchange_pass_fst_in [of y ys] 2(3) by auto
    have "target_le y x" using less_target_le True 2(3) by simp
    then have "target_le ?m x" using target_le_trans [of ?m y x] IH m 2(3) by simp
    then show ?thesis using IH True by (simp add: Let_def)
  next
    case False
    let ?m = "fst (exchange_pass x ys)"
    have IH: "\<forall>z \<in> insert x (set ys). target_le ?m z" using 2 False by simp
    have m: "open_capacity ?m" using exchange_pass_fst_in [of x ys] 2(3) by auto
    have "target_le x y" using False by (simp add: target_le_def)
    then have "target_le ?m y" using target_le_trans [of ?m x y] IH m 2(3) by simp
    then show ?thesis using IH False by (simp add: Let_def)
  qed
qed simp

lemma exchange_pass_split: "set xs \<union> {x} = insert (fst (exchange_pass x xs)) (set (snd (exchange_pass x xs)))"
  using arg_cong [OF exchange_pass_mset [of x xs], of set_mset] by auto

lemma exchange_sort_sorted:
  "\<forall>y \<in> set xs. open_capacity y \<Longrightarrow> sorted_wrt target_le (exchange_sort xs)"
proof (induction xs rule: exchange_sort.induct)
  case (2 x xs)
  let ?p = "exchange_pass x xs"
  have sub: "set (snd ?p) \<subseteq> insert x (set xs)" using exchange_pass_split [of xs x] by auto
  have "sorted_wrt target_le (exchange_sort (snd ?p))" using 2 sub by auto
  moreover have "\<forall>y \<in> set (snd ?p). target_le (fst ?p) y" using exchange_pass_least [of x xs] 2(2) sub by auto
  ultimately show ?case by (simp add: Let_def exchange_sort_set)
qed simp

section \<open>Best target of a repair\<close>

text \<open>The reference: the first candidate with the least key, open before busy, then by hint, then by id.\<close>

definition repair_key :: "int list \<Rightarrow> placement_row \<Rightarrow> bool \<times> nat \<times> int" where
  "repair_key hint n = (pn_CapacityState n \<noteq> ''open'', hint_position hint (pn_ID n), pn_ID n)"

definition best_repair_target :: "placement_row list \<Rightarrow> int \<Rightarrow> int list \<Rightarrow> bool \<Rightarrow> placement_row option" where
  "best_repair_target nodes src hint relayAvailable =
     (case filter (repair_candidate src relayAvailable) nodes of [] \<Rightarrow> None | c # cs \<Rightarrow> Some (arg_min_list (repair_key hint) (c # cs)))"

lemma arg_min_list_swap:
  "arg_min_list f (x # y # zs) = (if f x \<le> f y then arg_min_list f (x # zs) else arg_min_list f (y # zs))"
  by (cases zs) (auto simp: Let_def)

lemma candidate_open: "repair_candidate src relayAvailable n \<Longrightarrow> open_capacity n"
  by (simp add: repair_candidate_def nodeAcceptsNewData_def open_capacity_def)

lemma repair_better_key:
  assumes "open_capacity b" "open_capacity n"
  shows "repair_better hint b (hint_position hint (pn_ID b)) n \<longleftrightarrow> \<not> repair_key hint b \<le> repair_key hint n"
  using assms by (auto simp: repair_better_def repair_key_def open_capacity_def Let_def)

lemma repair_scan_best:
  assumes "open_capacity b"
  shows "map_option fst (repair_scan hint src relayAvailable (Some (b, hint_position hint (pn_ID b))) ns) =
     Some (arg_min_list (repair_key hint) (b # filter (repair_candidate src relayAvailable) ns))"
  using assms
proof (induction ns arbitrary: b)
  case (Cons n ns)
  show ?case
  proof (cases "repair_candidate src relayAvailable n")
    case True
    note n = candidate_open [OF True]
    show ?thesis using True Cons.IH [OF n] Cons.IH [OF Cons.prems] repair_better_key [OF Cons.prems n, of hint]
      by (simp del: arg_min_list.simps add: arg_min_list_swap)
  qed (simp add: Cons)
qed simp

lemma repair_scan_start:
  "map_option fst (repair_scan hint src relayAvailable None ns) = best_repair_target ns src hint relayAvailable"
proof (induction ns)
  case (Cons n ns)
  then show ?case
    using repair_scan_best [OF candidate_open, of src relayAvailable n hint src relayAvailable ns]
    by (auto simp: best_repair_target_def simp del: arg_min_list.simps)
qed (simp add: best_repair_target_def)


section \<open>Target of an ordinary backup\<close>

lemma first_some_Some: "first_some f xs = Some y \<Longrightarrow> \<exists>x \<in> set xs. f x = Some y"
  by (induction xs) (auto split: option.splits)

definition usable_target :: "bool \<Rightarrow> int \<Rightarrow> placement_row \<Rightarrow> string \<Rightarrow> bool" where
  "usable_target relayAvailable src n kind \<longleftrightarrow> pn_ID n \<noteq> src \<and> nodeHasSnapshotDataPath relayAvailable (Some n) \<and> nodeAcceptsNewData (Some n) \<and>
     (kind = ''hot_standby'' \<longleftrightarrow> pn_Role n = ''compute'') \<and> kind \<in> {''archive'', ''hot_standby''}"

lemma replica_target_usable:
  "replica_target relayAvailable nodeErr src d kind rep = Some (n, k) \<Longrightarrow> usable_target relayAvailable src n k"
  using sql_find_Some [of "\<lambda>n. pn_ID n = up_NodeID rep" "w_nodes d"]
  by (auto simp: replica_target_def usable_target_def node_at_def split: if_splits option.splits)

lemma default_scan_usable:
  assumes "default_scan hint src relayAvailable acc ns = Some (n, k, p)"
    and "\<And>n k p. acc = Some (n, k, p) \<Longrightarrow> usable_target relayAvailable src n k"
  shows "usable_target relayAvailable src n k"
  using assms
proof (induction ns arbitrary: acc)
  case (Cons x xs)
  let ?kind = "if pn_Role x = ''compute'' then ''hot_standby'' else ''archive''"
  let ?new = "pn_ID x \<noteq> src \<and> pn_IsBackupTarget x \<and> nodeHasSnapshotDataPath relayAvailable (Some x) \<and> nodeAcceptsNewData (Some x) \<and>
    (case acc of None \<Rightarrow> True | Some (_, _, bestPos) \<Rightarrow> hint_position hint (pn_ID x) < bestPos)"
  show ?case
  proof (cases ?new)
    case True
    then have "usable_target relayAvailable src x ?kind" by (simp add: usable_target_def)
    then show ?thesis using Cons.prems(1) True
      by (intro Cons.IH [of "Some (x, ?kind, hint_position hint (pn_ID x))"]) simp_all
  next
    case False
    then have "default_scan hint src relayAvailable acc xs = Some (n, k, p)" using Cons.prems(1) by (simp only: default_scan.simps if_False)
    then show ?thesis using Cons.prems(2) by (rule Cons.IH)
  qed
qed simp

text \<open>A backup never goes to its source, and its kind fits the role of the node that receives it.\<close>

lemma pickBackupTarget_usable:
  assumes "pickBackupTarget relayAvailable hint replicas nodeErr nodes src d = Some (n, kind)"
  shows "usable_target relayAvailable src n kind"
proof (cases "first_some (\<lambda>kind. first_some (replica_target relayAvailable nodeErr src d kind) replicas) [''archive'', ''hot_standby'']")
  case None
  then show ?thesis using assms default_scan_usable [of hint src relayAvailable None nodes]
    by (auto simp: pickBackupTarget_def simp del: first_some.simps)
next
  case (Some r)
  then have "r = (n, kind)" using assms by (simp add: pickBackupTarget_def del: first_some.simps)
  then show ?thesis using first_some_Some [OF Some] first_some_Some replica_target_usable by metis
qed

section \<open>Sources of a retirement\<close>

lemma retirement_check_archive:
  assumes "retirement_check p g d = Inr ()" and "sq_DestinationKind p = ''archive''"
  shows "\<not> snapshotSourceReady (node_at (sq_SourceNodeID p) d) ''node_retirement_storage''"
proof -
  have "\<exists>s. node_at (sq_SourceNodeID p) d = Some s \<and> pn_Operational s = ''active''" using assms
    by (auto simp: retirement_check_def Let_def item_ready_def retirement_nodes_ok_def split: option.splits if_splits)
  then show ?thesis by (auto simp: snapshotSourceReady_def)
qed

lemma home_path_ready:
  assumes "selectNodeRetirementSnapshotPath relayAvailable lower readErr availErr item d = path"
    and "ph_Target path \<noteq> None" and "it_ItemKind item = ''authoritative_home''"
  shows "snapshotSourceReady (ph_Source path) (ph_Trigger path)"
proof (cases "ListNodes readErr d")
  case (Inr nodes)
  have ok: "nodeCanServeRetirementSnapshot (findNode nodes (it_NodeID item)) (it_NodeID item)"
    using assms Inr by (auto simp: selectNodeRetirementSnapshotPath_def no_path_def Let_def split: if_splits)
  have "ph_Source path = findNode nodes (it_NodeID item) \<and> ph_Trigger path = ''node_retirement''"
    using assms Inr ok by (auto simp: selectNodeRetirementSnapshotPath_def no_path_def Let_def split: option.splits)
  then show ?thesis using ok
    by (auto simp: nodeCanServeRetirementSnapshot_def snapshotSourceReady_def split: option.splits if_splits)
qed (use assms in \<open>auto simp: selectNodeRetirementSnapshotPath_def no_path_def\<close>)

lemma archive_path_not_ready:
  assumes "selectNodeRetirementSnapshotPath relayAvailable lower readErr availErr item d = path"
    and "ph_Target path \<noteq> None" and "it_ItemKind item \<noteq> ''authoritative_home''"
  shows "\<not> snapshotSourceReady (ph_Source path) (ph_Trigger path)"
proof (cases "ListNodes readErr d")
  case (Inr nodes)
  have k: "it_ItemKind item = ''archive_replica''"
    using assms Inr by (auto simp: selectNodeRetirementSnapshotPath_def no_path_def split: if_splits)
  have ok: "nodeReadyForManagedOperation (findNode nodes (it_HomeNodeID item))"
    using assms Inr k by (auto simp: selectNodeRetirementSnapshotPath_def no_path_def Let_def split: if_splits)
  have "ph_Source path = findNode nodes (it_HomeNodeID item) \<and> ph_Trigger path = ''node_retirement_storage''"
    using assms Inr k ok by (auto simp: selectNodeRetirementSnapshotPath_def no_path_def Let_def split: if_splits list.splits)
  then show ?thesis using ok
    by (auto simp: nodeReadyForManagedOperation_def snapshotSourceReady_def split: option.splits if_splits)
qed (use assms in \<open>auto simp: selectNodeRetirementSnapshotPath_def no_path_def\<close>)

text \<open>
  C39. A snapshot that moves an archive off a retiring storage node is never executed. Whenever
  \<open>selectNodeRetirementSnapshotPath\<close> finds a path, its source passes the readiness test of the
  execution exactly if the item is an authoritative home: for an archive replica the selection
  requires the home to be active, and so does \<open>CreateSnapshotWorkflow\<close>, while
  \<open>snapshotSourceReady\<close> requires a node that is draining or retiring for this trigger. The
  execution defers the workflow as \<open>source_not_ready\<close>, every time and as long as the home stays
  active.
\<close>

theorem retirement_archive_never_ready:
  assumes "selectNodeRetirementSnapshotPath relayAvailable lower readErr availErr item d = path"
    and "ph_Target path \<noteq> None"
  shows "(snapshotSourceReady (ph_Source path) (ph_Trigger path) \<longleftrightarrow> it_ItemKind item = ''authoritative_home'') \<and>
         (retirement_check p g d = Inr () \<and> sq_DestinationKind p = ''archive'' \<longrightarrow>
          \<not> snapshotSourceReady (node_at (sq_SourceNodeID p) d) ''node_retirement_storage'')"
  using home_path_ready [OF assms] archive_path_not_ready [OF assms] retirement_check_archive [of p g d] by blast

definition demo_retiring :: wdb where
  "demo_retiring = demo_db\<lparr>w_nodes := [demo_node 2 ''compute'', (demo_node 3 ''storage'')\<lparr>pn_Operational := ''retiring''\<rparr>, demo_node 4 ''storage''],
     w_retirements := [\<lparr>re_ID = ''r'', re_NodeID = 3, re_State = ''migrating'', re_ControllerGeneration = 1\<rparr>],
     w_retirement_items := [\<lparr>ri_ID = ''i'', ri_RetirementID = ''r'', ri_UserID = 1, ri_LegacyUserID = Some 1, ri_Kind = ''archive_replica'',
       ri_State = ''pending'', ri_TargetNodeID = None, ri_WorkflowID = None, ri_NextAttemptAt = None, ri_ErrorCode = None, ri_UpdatedAt = 1\<rparr>]\<rparr>"

definition demo_item :: retirement_item where
  "demo_item = \<lparr>it_NodeID = 3, it_ItemKind = ''archive_replica'', it_UserID = 1, it_Handle = ''ann'', it_HomeNodeID = 2\<rparr>"

definition demo_retirement :: create_params where
  "demo_retirement = (demo_create ''direct'')\<lparr>sq_TargetNodeID := 4, sq_RetirementItemID := ''i'', sq_RetirementTrigger := ''node_retirement_storage''\<rparr>"

theorem retirement_archive_never_ready_witness:
  "\<exists>path. selectNodeRetirementSnapshotPath False id None (\<lambda>_. None) demo_item demo_retiring = path \<and>
     ph_Target path = Some (demo_node 4 ''storage'') \<and> retirement_check demo_retirement 1 demo_retiring = Inr () \<and>
     \<not> snapshotSourceReady (ph_Source path) (ph_Trigger path) \<and>
     \<not> snapshotSourceReady (node_at 2 demo_retiring) ''node_retirement_storage''"
proof -
  define path where "path = selectNodeRetirementSnapshotPath False id None (\<lambda>_. None) demo_item demo_retiring"
  have t: "ph_Target path = Some (demo_node 4 ''storage'')" unfolding path_def by code_simp
  have r: "retirement_check demo_retirement 1 demo_retiring = Inr ()" by code_simp
  have k: "it_ItemKind demo_item \<noteq> ''authoritative_home''" "sq_DestinationKind demo_retirement = ''archive''"
    "sq_SourceNodeID demo_retirement = 2" by (simp_all add: demo_item_def demo_retirement_def demo_create_def)
  have t': "ph_Target path \<noteq> None" using t by simp
  show ?thesis
    using retirement_archive_never_ready [OF path_def [symmetric] t', of demo_retirement 1] t r k path_def by auto
qed

section \<open>A retry that fails early\<close>

lemma no_prepared_after_revoke: "sql_count (cap_prepared w) (w_caps (revoke_caps w d)) = 0"
  by (simp add: revoke_caps_def sql_count_def sql_update_def cap_prepared_def filter_empty_conv)

lemma found_workflow:
  assumes "workflow_by_id w d = Some row" and "keyed sw_ID (w_workflows d)" and "sql_find (\<lambda>x. sw_ID x = w \<and> Q x) (w_workflows d) = Some r"
  shows "r = row"
  using sql_find_Some [OF assms(1) [unfolded workflow_by_id_def]] sql_find_Some [OF assms(3)]
    keyed_unique [OF assms(2)] by metis

lemma schedule_snapshot:
  assumes "schedule_retry_tx w code summary now delay d = Inr (d1, n)"
    and "workflow_by_id w d = Some row" and "sw_Type row = ''snapshot''" and "keyed sw_ID (w_workflows d)"
  shows "w_caps d1 = w_caps (revoke_caps w d) \<and> n = sw_Attempt row + 1 \<and>
    w_workflows d1 = sql_update (\<lambda>x. sw_ID x = w \<and> sw_Type x = ''snapshot'')
      (\<lambda>x. x\<lparr>sw_ResumeState := Some ''quiescing'', sw_State := ''retry_wait'', sw_Attempt := sw_Attempt x + 1,
         sw_NextAttemptAt := Some (now + delay), sw_ErrorCode := Some code, sw_ErrorSummary := summary_text summary,
         sw_UpdatedAt := now, sw_LeaseOwner := None, sw_LeaseUntil := None\<rparr>) (w_workflows d)"
proof -
  let ?Q = "\<lambda>x. sw_ID x = w \<and> workflow_open (sw_State x) \<and> sw_State x \<noteq> ''retry_wait''"
  have "sql_find ?Q (w_workflows d) = Some row"
    using assms(1) found_workflow [OF assms(2,4), of "\<lambda>x. workflow_open (sw_State x) \<and> sw_State x \<noteq> ''retry_wait''"]
    unfolding schedule_retry_tx_def by (cases "sql_find ?Q (w_workflows d)") auto
  then show ?thesis using assms(1,3)
    unfolding schedule_retry_tx_def
    by (auto simp: retry_plan_def Let_def revoke_caps_def fence_relays_def update_relays_def set_steps_def set_workflows_def split: if_splits)
qed

lemma resume_snapshot:
  assumes "resume_retry_tx w now d = Inr (d', u)" and "workflow_by_id w d = Some row" and "keyed sw_ID (w_workflows d)"
  shows "w_caps d' = w_caps d \<and>
    w_workflows d' = sql_update (\<lambda>x. sw_ID x = w \<and> sw_State x = ''retry_wait'' \<and> sw_ResumeState x \<noteq> None \<and> col_le (sw_NextAttemptAt x) now)
      (\<lambda>x. x\<lparr>sw_State := the (sw_ResumeState x), sw_ResumeState := None, sw_NextAttemptAt := None, sw_ErrorCode := None,
         sw_ErrorSummary := None, sw_UpdatedAt := now\<rparr>) (w_workflows d) \<and>
    sw_State row = ''retry_wait'' \<and> sw_ResumeState row \<noteq> None \<and> col_le (sw_NextAttemptAt row) now"
proof -
  let ?R = "\<lambda>x. sw_State x = ''retry_wait'' \<and> sw_ResumeState x \<noteq> None \<and> col_le (sw_NextAttemptAt x) now"
  have r: "sql_find (\<lambda>x. sw_ID x = w \<and> ?R x) (w_workflows d) = Some row"
    using assms(1) found_workflow [OF assms(2,3), of ?R] unfolding resume_retry_tx_def Let_def
    by (cases "sql_find (\<lambda>x. sw_ID x = w \<and> ?R x) (w_workflows d)") auto
  then have "?R row" using sql_find_Some by fastforce
  moreover have "w_caps d' = w_caps d \<and>
    w_workflows d' = sql_update (\<lambda>x. sw_ID x = w \<and> ?R x)
      (\<lambda>x. x\<lparr>sw_State := the (sw_ResumeState x), sw_ResumeState := None, sw_NextAttemptAt := None, sw_ErrorCode := None,
         sw_ErrorSummary := None, sw_UpdatedAt := now\<rparr>) (w_workflows d)"
    using assms(1) r unfolding resume_retry_tx_def Let_def
    by (auto simp: fence_relays_def update_relays_def set_steps_def set_workflows_def split: option.splits if_splits)
  ultimately show ?thesis by simp
qed

text \<open>Scheduling needs a prepared capability; without one nothing is written.\<close>

lemma schedule_without_capability:
  assumes "workflow_by_id w d = Some row" and "sw_Type row = ''snapshot''" and "keyed sw_ID (w_workflows d)"
    and "in_i32 (sw_Attempt row + 1)" and "sql_count (cap_prepared w) (w_caps d) = 0"
  shows "schedule_retry_tx w code summary now delay d = Inl ErrSnapshotStateConflict"
proof (cases "sql_find (\<lambda>x. sw_ID x = w \<and> workflow_open (sw_State x) \<and> sw_State x \<noteq> ''retry_wait'') (w_workflows d)")
  case (Some r)
  then have "r = row" by (rule found_workflow [OF assms(1,3)])
  then show ?thesis using Some assms(2,4,5) unfolding schedule_retry_tx_def
    by (simp add: retry_plan_def Let_def set_workflows_def)
qed (simp add: schedule_retry_tx_def)

lemma resumed_workflow:
  assumes "ScheduleSnapshotRetry flt w code summary now delay d = (d1, Inr n)" and "ResumeSnapshotRetry flt' w now1 d1 = (d2, Inr ())"
    and "workflow_by_id w d = Some row" and "sw_Type row = ''snapshot''" and "keyed sw_ID (w_workflows d)"
  obtains r where "workflow_by_id w d2 = Some r" and "sw_Type r = ''snapshot''" and "sw_State r = ''quiescing''" and "sw_Attempt r = n"
    and "sw_NextAttemptAt r = None" and "keyed sw_ID (w_workflows d2)" and "sql_count (cap_prepared w) (w_caps d2) = 0"
    and "sw_ID r = w"
proof -
  define f where "f = (\<lambda>x :: snapshot_workflow_row. x\<lparr>sw_ResumeState := Some ''quiescing'', sw_State := ''retry_wait'', sw_Attempt := sw_Attempt x + 1,
         sw_NextAttemptAt := Some (now + delay), sw_ErrorCode := Some code, sw_ErrorSummary := summary_text summary,
         sw_UpdatedAt := now, sw_LeaseOwner := None, sw_LeaseUntil := None\<rparr>)"
  define g where "g = (\<lambda>x :: snapshot_workflow_row. x\<lparr>sw_State := the (sw_ResumeState x), sw_ResumeState := None, sw_NextAttemptAt := None,
         sw_ErrorCode := None, sw_ErrorSummary := None, sw_UpdatedAt := now1\<rparr>)"
  have s: "schedule_retry_tx w code summary now delay d = Inr (d1, n)"
    using assms(1) run_tx_ok unfolding ScheduleSnapshotRetry_def by (auto split: if_splits)
  note s1 = schedule_snapshot [OF s assms(3-5), folded f_def]
  have id: "sw_ID row = w" using sql_find_Some [OF assms(3) [unfolded workflow_by_id_def]] by simp
  have row1: "workflow_by_id w d1 = Some (f row)"
    using assms(3,4) id s1 unfolding workflow_by_id_def by (simp add: sql_find_update f_def)
  have k1: "keyed sw_ID (w_workflows d1)" using s1 assms(5) by (simp add: keyed_update f_def)
  have r: "resume_retry_tx w now1 d1 = Inr (d2, ())"
    using assms(2) run_tx_ok unfolding ResumeSnapshotRetry_def by (auto split: if_splits)
  note r1 = resume_snapshot [OF r row1 k1, folded g_def]
  have row2: "workflow_by_id w d2 = Some (g (f row))"
    using row1 r1 id unfolding workflow_by_id_def by (simp add: sql_find_update g_def f_def)
  show ?thesis
  proof
    show "workflow_by_id w d2 = Some (g (f row))" by (rule row2)
    show "keyed sw_ID (w_workflows d2)" using r1 k1 by (simp add: keyed_update g_def)
    show "sql_count (cap_prepared w) (w_caps d2) = 0" using r1 s1 no_prepared_after_revoke by simp
  qed (use s1 assms(4) id in \<open>simp_all add: g_def f_def\<close>)
qed

text \<open>
  C38. An attempt that fails early after a retry is never counted. After a first failure
  (\<open>ScheduleSnapshotRetry\<close>) and its resumption (\<open>ResumeSnapshotRetry\<close>) the workflow is quiescing
  again and its capability is revoked; a new one is made only later in the execution, by
  \<open>rotateSnapshotExecutionCapability\<close>. If the execution fails before that, because a node or its
  account is not available, \<open>retrySnapshotWorkflow\<close> is refused with a state conflict and writes
  nothing, however often it is tried: the attempt counter stays, so the limit of attempts is never
  reached, and no time of the next attempt is set, so the workflow stays resumable at once.
\<close>

theorem early_failure_not_counted:
  assumes "ScheduleSnapshotRetry flt w code summary now delay d = (d1, Inr n)"
    and "ResumeSnapshotRetry flt' w now1 d1 = (d2, Inr ())"
    and "workflow_by_id w d = Some row" and "sw_Type row = ''snapshot''" and "keyed sw_ID (w_workflows d)" and "in_i32 (n + 1)"
    and "GetSnapshotWorkflowExecution w d2 = Inr (Some execution)"
    and "GetBackupJob (rv_ReadErr env) (ex_LegacyBackupJobID execution) d2 = Inr (Some j)" and "bj_Status j \<noteq> ''aborted''"
    and "rv_CtxErr env = None" and "rv_ScheduleFault env = TxOk" and "w \<noteq> []" and "code' \<noteq> []"
  shows "retrySnapshotWorkflow env execution code' summary' cause d2 = (d2, ErrSnapshotStateConflict) \<and>
     ((\<lambda>x. fst (retrySnapshotWorkflow env execution code' summary' cause x)) ^^ k) d2 = d2 \<and>
     (\<exists>r. workflow_by_id w d2 = Some r \<and> sw_State r = ''quiescing'' \<and> sw_Attempt r = n \<and> sw_NextAttemptAt r = None)"
proof -
  obtain r where r: "workflow_by_id w d2 = Some r" "sw_Type r = ''snapshot''" "sw_State r = ''quiescing''" "sw_Attempt r = n"
      "sw_NextAttemptAt r = None" "keyed sw_ID (w_workflows d2)" "sql_count (cap_prepared w) (w_caps d2) = 0" "sw_ID r = w"
    by (rule resumed_workflow [OF assms(1-5)])
  have e: "ex_Workflow execution = r" using assms(7) r(1)
    by (auto simp: GetSnapshotWorkflowExecution_def split: if_splits option.splits)
  have pos: "\<not> double_delay m (5 * second) \<le> 0" for m unfolding double_delay_closed by (simp add: second_def)
  have s: "schedule_retry_tx w c s t x d2 = Inl ErrSnapshotStateConflict" for c s t x
    using schedule_without_capability [OF r(1,2,6)] r(4,7) assms(6) by simp
  have once: "retrySnapshotWorkflow env execution code' summary' cause d2 = (d2, ErrSnapshotStateConflict)"
    unfolding retrySnapshotWorkflow_def ScheduleSnapshotRetry_def Let_def
    using assms(8-13) by (simp add: e r(8) pos s run_tx_def)
  have "((\<lambda>x. fst (retrySnapshotWorkflow env execution code' summary' cause x)) ^^ k) d2 = d2"
    by (induction k) (simp_all add: once)
  then show ?thesis using once r(1,3,4,5) by blast
qed

definition demo_started :: wdb where
  "demo_started = fst (SetSnapshotWorkflowState 1 TxOk ''w'' ''scheduled'' ''quiescing'' 2
     (fst (CreateSnapshotWorkflow 1 TxOk 0 (demo_create ''direct'') demo_db)))"

definition demo_env :: retry_env where
  "demo_env = \<lparr>rv_CtxErr = None, rv_ReadErr = None, rv_CancelFault = TxOk, rv_ScheduleFault = TxOk, rv_FailReadErr = None,
     rv_FailCancelFault = TxOk, rv_FailFault = TxOk, rv_FailNow = 30, rv_Now = 30, rv_RetryMax = 3\<rparr>"

theorem early_failure_not_counted_witness:
  "\<exists>d1 d2 execution. ScheduleSnapshotRetry TxOk ''w'' ''snapshot_failed'' ''s'' 10 5 demo_started = (d1, Inr 1) \<and>
     ResumeSnapshotRetry TxOk ''w'' 20 d1 = (d2, Inr ()) \<and> GetSnapshotWorkflowExecution ''w'' d2 = Inr (Some execution) \<and>
     retrySnapshotWorkflow demo_env execution ''target_unavailable'' ''t'' None d2 = (d2, ErrSnapshotStateConflict)"
proof -
  define d1 where "d1 = fst (ScheduleSnapshotRetry TxOk ''w'' ''snapshot_failed'' ''s'' 10 5 demo_started)"
  define d2 where "d2 = fst (ResumeSnapshotRetry TxOk ''w'' 20 d1)"
  define execution where "execution = the (projr (GetSnapshotWorkflowExecution ''w'' d2))"
  define row where "row = the (workflow_by_id ''w'' demo_started)"
  define j where "j = the (projr (GetBackupJob None 7 d2))"
  have s: "ScheduleSnapshotRetry TxOk ''w'' ''snapshot_failed'' ''s'' 10 5 demo_started = (d1, Inr 1)"
    unfolding d1_def by code_simp
  have r: "ResumeSnapshotRetry TxOk ''w'' 20 d1 = (d2, Inr ())" unfolding d2_def d1_def by code_simp
  have row: "workflow_by_id ''w'' demo_started = Some row" "sw_Type row = ''snapshot''"
    unfolding row_def by code_simp+
  have k: "keyed sw_ID (w_workflows demo_started)" unfolding keyed_def by code_simp
  have e: "GetSnapshotWorkflowExecution ''w'' d2 = Inr (Some execution)" "ex_LegacyBackupJobID execution = 7"
    unfolding execution_def d2_def d1_def by code_simp+
  have j: "GetBackupJob (rv_ReadErr demo_env) (ex_LegacyBackupJobID execution) d2 = Inr (Some j)" "bj_Status j \<noteq> ''aborted''"
    unfolding e(2) unfolding j_def d2_def d1_def by code_simp+
  have v: "rv_CtxErr demo_env = None" "rv_ScheduleFault demo_env = TxOk" "in_i32 (1 + 1)"
    by (simp_all add: demo_env_def in_i32_def)
  show ?thesis
    using early_failure_not_counted [OF s r row k v(3) e(1) j v(1,2), of "''target_unavailable''" "''t''" None 1] s r e(1) by auto
qed

section \<open>Aborted jobs\<close>

text \<open>A committed abort leaves the workflow of the job finished and without a usable capability.\<close>

lemma abort_stops_workflow:
  assumes "abort_tx jobID reason now d = Inr (d', u)" and "sql_find (\<lambda>j. bj_ID j = jobID) (w_jobs d) = Some j"
    and "bj_WorkflowID j = Some w" and "w \<noteq> []"
  shows "sql_count (cap_prepared w) (w_caps d') = 0 \<and> (\<forall>x \<in> set (w_workflows d'). sw_ID x = w \<longrightarrow> \<not> workflow_open (sw_State x))"
proof -
  have "\<exists>d1. d' = cancelSnapshotWorkflowTx w (summary_text reason) now d1"
    using assms unfolding abort_tx_def by (simp add: Let_def split: if_splits) blast
  then obtain d1 where d': "d' = cancelSnapshotWorkflowTx w (summary_text reason) now d1" by blast
  define P where "P = (\<lambda>x :: snapshot_workflow_row. sw_ID x = w \<and> workflow_open (sw_State x))"
  define f where "f = (\<lambda>x :: snapshot_workflow_row. x\<lparr>sw_State := ''cancelled'', sw_ErrorCode := Some ''user_returned'',
    sw_ErrorSummary := summary_text reason, sw_CleanupState := ''pending'', sw_LeaseOwner := None, sw_LeaseUntil := None,
    sw_UpdatedAt := now, sw_FinishedAt := Some now\<rparr>)"
  have ws: "w_workflows d' = sql_update P f (w_workflows d1)"
    unfolding d' cancelSnapshotWorkflowTx_def P_def f_def by (simp add: revoke_caps_def set_steps_def set_workflows_def)
  have f: "\<not> workflow_open (sw_State (f x))" for x by (simp add: f_def workflow_open_def terminal_states_def)
  have "\<forall>x \<in> set (w_workflows d'). sw_ID x = w \<longrightarrow> \<not> workflow_open (sw_State x)"
  proof (intro ballI impI)
    fix x assume "x \<in> set (w_workflows d')" and x: "sw_ID x = w"
    then obtain y where y: "x = (if P y then f y else y)" unfolding ws set_sql_update by blast
    show "\<not> workflow_open (sw_State x)"
    proof (cases "P y")
      case False
      then have "x = y" by (simp add: y)
      then show ?thesis using x False by (simp add: P_def)
    qed (simp add: y f)
  qed
  moreover have "sql_count (cap_prepared w) (w_caps d') = 0"
    unfolding d' cancelSnapshotWorkflowTx_def by (rule no_prepared_after_revoke)
  ultimately show ?thesis by blast
qed

end
