(* ===== verification/Spec2Isabelle.thy ===== *)
theory Spec2Isabelle
  imports Ownership_Quorum Lease_Safety Command_Safety Rebuild_Safety Independent_Safety Login_Safety Relay_Safety Snapshot_Publication Backup_Safety
begin

text \<open>
  A verification development for stcontrol, a controller and its agents that place, back up
  and hand over the work of SillyTavern users between nodes. All paths below are under
  \<open>src/internal/\<close>.

  \<^bold>\<open>The program.\<close> One controller process (\<open>controller/\<close>) keeps every durable fact in PostgreSQL
  (\<open>store/\<close>). Each node runs an agent (\<open>agent/\<close>) beside the service that the users work with. An
  agent polls the controller with signed heartbeats (\<open>protocol/\<close>), leases commands from a queue,
  and keeps a small state file. At any time at most one node is the writer of a user: an activity
  lease says which, and a login ticket sends the user there. If the controller is lost for long
  enough, and the other nodes confirm it, a node becomes independent and serves its users alone;
  when the controller returns, what was written is reconciled before the node is managed again.
  A restart of the controller after a crash raises the controller generation, which cuts off
  everything issued before. Snapshots copy the data of a user to another node, directly or over
  an encrypted relay, and a finished one becomes a replica.

  \<^bold>\<open>Conventions.\<close> A Go call that returns an error is a \<open>result\<close>, \<open>Inl\<close> of the error text. Times are
  nanoseconds as integers, with zero for \<open>IsZero\<close>. Strings are byte lists. A table is a list of
  records; a transaction is a function from the database to an error or to a new database with a
  result, and \<open>run_tx\<close> runs it under each way in which the server can fail it: committed, refused by
  serialization, aborted, or committed with the answer lost. A \<open>bigint\<close> or \<open>integer\<close> that is incremented is
  checked against its width. What other processes decide (clock readings, random identifiers,
  answers of peers, failures of writes) is an argument. What is not under \<open>src/\<close> is a parameter:
  hash and MAC functions, Unicode tables, the URL parser, the archive engine's file operations.

  \<^bold>\<open>Theories and sources.\<close>

  \<^item> \<open>Go_Prelude\<close>, \<open>Go_Text\<close>: the language, string functions and the validators of identifiers,
    handles and digests. \<open>Interfaces\<close>: the contracts \<open>generation_fence\<close> and \<open>replay_guard\<close>.

  \<^item> \<open>Agent_State\<close> (\<open>agent/runtime_state.go\<close>): the state file with its atomic write, generations,
    credentials, the result cache. \<open>Agent_Transfers\<close> (\<open>agent/runtime_state.go\<close>, \<open>agent/snapshot.go\<close>,
    \<open>agent/controller_backup.go\<close>): one-use transfer capabilities and the receivers.

  \<^item> \<open>Protocol\<close> (\<open>protocol/protocol.go\<close>, \<open>agent/peer_witness.go\<close>, \<open>agent/adapter_proxy.go\<close>,
    \<open>store/nonces.go\<close>, \<open>controller/middleware.go\<close>): signatures and the stores of nonces, all three of
    which interpret \<open>replay_guard\<close>.

  \<^item> \<open>Agent_Ownership\<close>, \<open>Ownership_Quorum\<close> (\<open>agent/activity_ownership.go\<close>): claims, the register, the
    scan over the peers, takeovers. \<open>Agent_Mode\<close>, \<open>Mode_Safety\<close> (\<open>agent/control_mode.go\<close>,
    \<open>agent/activity_leases.go\<close>, \<open>agent/heartbeat.go\<close>, \<open>agent/peer_witness.go\<close>): the control mode as a state
    machine driven by heartbeats.

  \<^item> \<open>Sql\<close>, \<open>Store_Tables\<close>, \<open>Store_Contracts\<close>: statements, tables and the contracts \<open>transitions\<close> (events
    that keep an invariant) and \<open>one_use\<close> (a token that is redeemed once), interpreted on the event
    systems of leases, commands, rebuilds, relays and snapshots.

  \<^item> \<open>Store_Leases\<close>, \<open>Lease_Safety\<close> (\<open>store/leases.go\<close>, \<open>store/handoffs.go\<close>); \<open>Store_Epochs\<close>,
    \<open>Store_Sessions\<close>, \<open>Epoch_Safety\<close>, \<open>Rebuild_Safety\<close> (\<open>store/leadership.go\<close>, \<open>store/controller_rebuilds.go\<close>,
    \<open>store/agent_credentials.go\<close>, \<open>store/sessions.go\<close>, \<open>store/tickets.go\<close>); \<open>Store_Commands\<close>, \<open>Command_Safety\<close>
    (\<open>store/commands.go\<close>).

  \<^item> \<open>Store_Modes\<close>, \<open>Controller_Heartbeat\<close>, \<open>Reconcile_Safety\<close>, \<open>Independent_Safety\<close>
    (\<open>store/control_modes.go\<close>, \<open>store/independent_takeovers.go\<close>, \<open>store/independent_reconciliations.go\<close>,
    \<open>controller/agent.go\<close>): the controller's side of the modes, composed with the agent's.

  \<^item> \<open>Controller_Limits\<close>, \<open>Login_Safety\<close> (\<open>controller/ratelimit.go\<close>, \<open>controller/login_lockout.go\<close>,
    \<open>controller/auth.go\<close>, \<open>controller/admin_auth.go\<close>): limits in front of the logins.

  \<^item> \<open>Workflow_Tables\<close>, \<open>Store_Relay\<close> (\<open>store/relay.go\<close>), \<open>Store_Snapshots\<close> (\<open>store/snapshots.go\<close>),
    \<open>Snapshot_Events\<close> (every operation of both as an event), \<open>Relay_Safety\<close>, \<open>Snapshot_Safety\<close>,
    \<open>Snapshot_Publication\<close>.

  \<^item> \<open>Controller_Backup\<close>, \<open>Backup_Safety\<close> (\<open>controller/backup.go\<close>, \<open>controller/node_retirements.go\<close>,
    \<open>store/backups.go\<close>): readiness of nodes, choice of targets, retries.
\<close>

text \<open>
  \<^bold>\<open>What the theorems show.\<close>

  \<^item> The state file is whole after every crash, generations never go down in an agent, capabilities
    and tickets are used once, signed requests verify, bind their content and are not replayed.

  \<^item> Two majorities of peers never acknowledge different owners of one rank; the scan over their
    answers does not depend on its order; a node becomes independent only after sustained evidence
    and never leaves independence without draining; it is asked to be managed only when nothing is
    left to reconcile; users who wrote on two nodes are frozen.

  \<^item> The writer of a user changes only when the lease no longer blocks; a promotion leaves nothing
    of the old generation usable; a command is finished only by its last lessee and only commands
    that the agent accepts are leased; rebuild records claim only what holds.

  \<^item> Every relay operation is a move of an abstract protocol with the token the move needs;
    snapshot workflows follow their life cycle with one usable capability at a time; replicas refer
    to sealed manifests that no longer change; a publication takes effect as a whole and once.

  \<^item> The rate limiter and the lockout admit no more than stated; their loops end.

  \<^item> Theorems of kind error state what the code does wrong: a receiver that wedges its snapshot or
    corrupts a newer transfer, a claim that is acknowledged but not saved, a takeover that blocks
    every later report, a lockout that a differently spelled name evades, a retry that is never
    counted, and a retirement whose snapshot is never executed.

  \<^bold>\<open>Bounds.\<close> Loops are structural recursions or functions with a termination proof; no fuel is used
  except for the eight attempts of \<open>retry_tx\<close>, which is the limit in \<open>store/transaction_retry.go\<close>.
  The doubling of \<open>double_delay\<close> stops after six steps (\<open>double_delay_closed\<close>). Concrete databases
  named \<open>demo_...\<close> serve only to evaluate the theorems at an example.

  \<^bold>\<open>Simplifications.\<close> Times keep nanoseconds where a database column rounds to microseconds, and
  UUID columns keep the text they were given. A unique index is a check at the insert. A text is
  taken to be valid UTF-8 where it is cut at 512 bytes. The limiter's two mutexes are one step. A
  request body above the read limit of a login is left out. The theorems on leases speak about
  \<open>db\<close>, those on snapshots about \<open>wdb\<close>; a step of one database is not a step of the other.

  \<^bold>\<open>Not modelled.\<close> The archive engine and other file operations of the agents; HTTP routing and
  encoding; \<open>executeSnapshotWorkflow\<close>, which waits for commands on two nodes (the store operations
  and the retry that it calls are modelled); the relay's endpoints and spool files; restores,
  imports, conflict resolution, storage repair, protection and the clean-up and integrity tasks of
  replicas; node registration, capacity and compatibility; registration, OAuth, passkeys and the
  administration; disaster backups of the controller; \<open>ai/\<close>, \<open>crypto/\<close>, \<open>config/\<close>, \<open>cmd/\<close> and the web pages.
  They are input and output, calls to libraries, or components of their own that none of the
  theorems relies on.
\<close>

end
